(* ===== verification/Settla_Prelude.thy ===== *)
theory Settla_Prelude
  imports Complex_Main "HOL-Library.Word" "HOL-Library.AList"
begin

text \<open>
  Shared vocabulary of the development: the model's basic types, Go's \<^verbatim>\<open>int64\<close> arithmetic,
  the pieces of Go's standard library the code uses (\<^verbatim>\<open>strings.ToLower\<close>, \<^verbatim>\<open>strconv\<close>,
  \<^verbatim>\<open>hash/fnv\<close>, maps and channels), the third-party functions as one record of parameters with
  their documented laws, and the generic lemmas the components share.
\<close>

section \<open>Basic types\<close>

text \<open>
  A \<^verbatim>\<open>uuid.UUID\<close> is a 16-byte array, \<^verbatim>\<open>uuid.Nil\<close> is the word 0. A
  \<^verbatim>\<open>decimal.Decimal\<close> is taken as the exact rational number it denotes: its documented \<^verbatim>\<open>Add\<close>,
  \<^verbatim>\<open>Sub\<close>, \<^verbatim>\<open>Mul\<close>, \<^verbatim>\<open>Abs\<close> and comparisons are exact; every operation that rounds is a
  parameter (record \<^verbatim>\<open>lib\<close> below). A \<^verbatim>\<open>time.Time\<close> is an instant in nanoseconds.
\<close>

type_synonym uuid = "128 word"
type_synonym decimal = rat
type_synonym instant = int
type_synonym currency = string
type_synonym chain = string

abbreviation uuid_Nil :: uuid where
  "uuid_Nil \<equiv> 0"

abbreviation Second :: int where
  "Second \<equiv> 1000000000"

abbreviation Minute :: int where
  "Minute \<equiv> 60 * Second"

abbreviation Hour :: int where
  "Hour \<equiv> 60 * Minute"

named_theorems treasury_defs \<open>unfolding of the treasury operations with an idempotency reference\<close>
named_theorems refines_intros \<open>each operation of the treasury refines its specification\<close>
named_theorems durable_intros \<open>each operation of the treasury keeps memory and database in step\<close>
named_theorems moves_intros \<open>each handler of the engine commits at most one move of the state machine\<close>

section \<open>Signed 64-bit integers\<close>

text \<open>Go's \<^verbatim>\<open>int64\<close> addition and subtraction wrap around; the wrap is written out.\<close>

definition max_int64 :: int where
  "max_int64 = 2 ^ 63 - 1"

definition min_int64 :: int where
  "min_int64 = - (2 ^ 63)"

definition wrap64 :: "int \<Rightarrow> int" where
  "wrap64 x = (x + 2 ^ 63) mod 2 ^ 64 - 2 ^ 63"

definition in_int64 :: "int \<Rightarrow> bool" where
  "in_int64 x \<longleftrightarrow> min_int64 \<le> x \<and> x \<le> max_int64"

section \<open>Strings and numbers of the standard library\<close>

definition lower_char :: "char \<Rightarrow> char" where
  "lower_char c =
     (let n = (of_char c :: nat) in if 65 \<le> n \<and> n \<le> 90 then char_of (n + 32) else c)"

definition ToLower :: "string \<Rightarrow> string" where
  "ToLower s = map lower_char s"

fun HasPrefix :: "string \<Rightarrow> string \<Rightarrow> bool" where
  "HasPrefix s [] = True"
| "HasPrefix [] (p # ps) = False"
| "HasPrefix (c # s) (p # ps) = (c = p \<and> HasPrefix s ps)"

definition digit_char :: "nat \<Rightarrow> char" where
  "digit_char n = char_of (48 + n mod 10)"

fun show_nat :: "nat \<Rightarrow> string" where
  "show_nat n = (if n < 10 then [digit_char n] else show_nat (n div 10) @ [digit_char n])"

declare show_nat.simps [simp del]

text \<open>\<^verbatim>\<open>hash/fnv\<close>: FNV-1a on 32 bits, one byte at a time.\<close>

unbundle bit_operations_syntax

definition fnv32a_step :: "char \<Rightarrow> 32 word \<Rightarrow> 32 word" where
  "fnv32a_step c h = (h XOR of_char c) * 16777619"

definition fnv32a :: "string \<Rightarrow> 32 word" where
  "fnv32a s = fold fnv32a_step s 2166136261"

section \<open>Third-party functions\<close>

text \<open>
  The functions of packages outside the repository (\<^verbatim>\<open>shopspring/decimal\<close>, \<^verbatim>\<open>google/uuid\<close>)
  and the SHA-256 digest cut to 16 bytes are parameters: every definition that uses one takes
  the record \<open>L :: lib\<close>. What the code relies on is stated as the predicates below, each the
  documented behaviour of one function.
\<close>

record lib =
  dec_div :: "decimal \<Rightarrow> decimal \<Rightarrow> decimal"
  dec_round :: "decimal \<Rightarrow> nat \<Rightarrow> decimal"
  dec_truncate :: "decimal \<Rightarrow> nat \<Rightarrow> decimal"
  dec_int_part :: "decimal \<Rightarrow> int"
  dec_from_string :: "string \<Rightarrow> decimal option"
  uuid_string :: "uuid \<Rightarrow> string"
  uuid_sha1 :: "uuid \<Rightarrow> string \<Rightarrow> uuid"
  sha256_16 :: "string \<Rightarrow> uuid"

definition multiple_of :: "rat \<Rightarrow> rat \<Rightarrow> bool" where
  "multiple_of q x \<longleftrightarrow> (\<exists>k :: int. x = of_int k * q)"

definition nearest :: "rat \<Rightarrow> rat \<Rightarrow> rat \<Rightarrow> bool" where
  "nearest q x r \<longleftrightarrow> multiple_of q r \<and> 2 * \<bar>r - x\<bar> \<le> q"

text \<open>\<^verbatim>\<open>Div\<close> rounds the quotient to 16 digits; \<^verbatim>\<open>Round(n)\<close> rounds to \<open>n\<close> digits.\<close>

definition div_law :: "lib \<Rightarrow> bool" where
  "div_law L \<longleftrightarrow> (\<forall>x y. y \<noteq> 0 \<longrightarrow> nearest (1 / 10 ^ 16) (x / y) (dec_div L x y))"

definition round_law :: "lib \<Rightarrow> bool" where
  "round_law L \<longleftrightarrow> (\<forall>x n. nearest (1 / 10 ^ n) x (dec_round L x n))"

text \<open>\<^verbatim>\<open>Truncate(n)\<close> cuts the digits after the \<open>n\<close>-th, \<^verbatim>\<open>IntPart\<close> is the integer component.\<close>

definition trunc_rat :: "rat \<Rightarrow> int" where
  "trunc_rat x = (if 0 \<le> x then \<lfloor>x\<rfloor> else \<lceil>x\<rceil>)"

definition truncate_law :: "lib \<Rightarrow> bool" where
  "truncate_law L \<longleftrightarrow> (\<forall>x n. dec_truncate L x n = of_int (trunc_rat (x * 10 ^ n)) / 10 ^ n)"

definition int_part_law :: "lib \<Rightarrow> bool" where
  "int_part_law L \<longleftrightarrow> (\<forall>x. in_int64 (trunc_rat x) \<longrightarrow> dec_int_part L x = trunc_rat x)"

text \<open>The text form of a UUID identifies it and holds no colon.\<close>

definition uuid_string_law :: "lib \<Rightarrow> bool" where
  "uuid_string_law L \<longleftrightarrow> inj (uuid_string L) \<and> (\<forall>u. CHR '':'' \<notin> set (uuid_string L u))"

definition decimal_laws :: "lib \<Rightarrow> bool" where
  "decimal_laws L \<longleftrightarrow> div_law L \<and> round_law L \<and> truncate_law L \<and> int_part_law L"

text \<open>
  One concrete library that satisfies every law, for the witnesses: rounding half away from
  zero as the decimal package does, a unary text form of UUIDs and additive digests.
\<close>

definition ref_round :: "rat \<Rightarrow> nat \<Rightarrow> rat" where
  "ref_round x n =
     (if 0 \<le> x then of_int \<lfloor>x * 10 ^ n + 1 / 2\<rfloor> else of_int \<lceil>x * 10 ^ n - 1 / 2\<rceil>) / 10 ^ n"

definition ref_lib :: lib where
  "ref_lib = \<lparr>
     dec_div = (\<lambda>x y. ref_round (x / y) 16),
     dec_round = ref_round,
     dec_truncate = (\<lambda>x n. of_int (trunc_rat (x * 10 ^ n)) / 10 ^ n),
     dec_int_part = trunc_rat,
     dec_from_string = (\<lambda>s. if s = ''100'' then Some 100 else None),
     uuid_string = (\<lambda>u. replicate (unat u) (CHR ''x'')),
     uuid_sha1 = (\<lambda>u s. u + of_nat (length s)),
     sha256_16 = (\<lambda>s. of_nat (length s)) \<rparr>"

section \<open>Lemmas on integers and roundings\<close>

lemma wrap64_id [simp]: "in_int64 x \<Longrightarrow> wrap64 x = x"
  by (simp add: wrap64_def in_int64_def max_int64_def min_int64_def)

lemma in_int64_wrap64 [simp]: "in_int64 (wrap64 x)"
  by (simp add: wrap64_def in_int64_def max_int64_def min_int64_def)

lemma in_int64_nonneg: "0 \<le> x \<Longrightarrow> x \<le> max_int64 \<Longrightarrow> in_int64 x"
  by (simp add: in_int64_def max_int64_def min_int64_def)

lemma multiple_of_diff:
  assumes "multiple_of q x" and "multiple_of q y" and "x < y" and "0 < q"
  shows "x + q \<le> y"
proof -
  from assms(1,2) obtain i j :: int where x: "x = of_int i * q" and y: "y = of_int j * q"
    by (auto simp: multiple_of_def)
  with assms(3,4) have "(of_int i :: rat) < of_int j"
    by (simp add: mult_less_cancel_right)
  then have "of_int i + (1 :: rat) \<le> of_int j"
    by (simp add: of_int_le_iff [of "i + 1" j, where ?'a = rat, simplified])
  then have "(of_int i + 1) * q \<le> of_int j * q"
    using assms(4) by (simp add: mult_right_mono)
  then show ?thesis by (simp add: x y algebra_simps)
qed

lemma nearest_bounds:
  assumes "nearest q x r"
  shows "2 * (r - x) \<le> q" and "2 * (x - r) \<le> q"
  using assms abs_ge_self [of "r - x"] abs_ge_minus_self [of "r - x"]
  by (auto simp: nearest_def)

lemma abs_le_half: "2 * (a - b) \<le> (c :: rat) \<Longrightarrow> 2 * (b - a) \<le> c \<Longrightarrow> 2 * \<bar>a - b\<bar> \<le> c"
  by (cases "a \<le> b") auto

lemma nearest_mono:
  assumes "nearest q x r" and "nearest q y s" and "x < y" and "0 < q"
  shows "r \<le> s"
proof (rule ccontr)
  assume "\<not> r \<le> s"
  then have "s + q \<le> r"
    using assms by (intro multiple_of_diff) (auto simp: nearest_def)
  moreover have "2 * (r - x) \<le> q" and "2 * (y - s) \<le> q"
    using assms(1,2) nearest_bounds by blast+
  ultimately show False using assms(3) by (simp add: algebra_simps)
qed

lemma nearest_multiple:
  assumes "nearest q x r" and "multiple_of q x" and "0 < q"
  shows "r = x"
proof (rule ccontr)
  assume "r \<noteq> x"
  then consider "r < x" | "x < r" by linarith
  then show False
  proof cases
    case 1
    with assms have "r + q \<le> x" by (intro multiple_of_diff) (auto simp: nearest_def)
    with assms show False by (auto simp: nearest_def)
  next
    case 2
    with assms have "x + q \<le> r" by (intro multiple_of_diff) (auto simp: nearest_def)
    with assms show False by (auto simp: nearest_def)
  qed
qed

lemma nearest_le_multiple:
  assumes "nearest q x r" and "x \<le> y" and "multiple_of q y" and "0 < q"
  shows "r \<le> y"
proof (cases "x = y")
  case True
  with assms show ?thesis using nearest_multiple by blast
next
  case False
  moreover have "nearest q y y" using assms(3,4) by (simp add: nearest_def)
  ultimately show ?thesis using assms nearest_mono by (metis order_le_less)
qed

lemma nearest_ge_multiple:
  assumes "nearest q x r" and "y \<le> x" and "multiple_of q y" and "0 < q"
  shows "y \<le> r"
proof (cases "x = y")
  case True
  with assms show ?thesis using nearest_multiple by blast
next
  case False
  moreover have "nearest q y y" using assms(3,4) by (simp add: nearest_def)
  ultimately show ?thesis using assms nearest_mono by (metis order_le_less)
qed

lemma dec_round_nearest: "round_law L \<Longrightarrow> nearest (1 / 10 ^ n) x (dec_round L x n)"
  by (simp add: round_law_def)

lemma dec_round_le:
  "round_law L \<Longrightarrow> x \<le> y \<Longrightarrow> multiple_of (1 / 10 ^ n) y \<Longrightarrow> dec_round L x n \<le> y"
  by (rule nearest_le_multiple [OF dec_round_nearest]) simp_all

lemma dec_round_ge:
  "round_law L \<Longrightarrow> y \<le> x \<Longrightarrow> multiple_of (1 / 10 ^ n) y \<Longrightarrow> y \<le> dec_round L x n"
  by (rule nearest_ge_multiple [OF dec_round_nearest]) simp_all

lemma dec_div_exact:
  assumes "div_law L" and "y \<noteq> 0" and "multiple_of (1 / 10 ^ 16) (x / y)"
  shows "dec_div L x y = x / y"
proof (rule nearest_multiple)
  show "nearest (1 / 10 ^ 16) (x / y) (dec_div L x y)"
    using assms(1,2) by (simp add: div_law_def)
qed (use assms(3) in auto)

lemma dec_round_exact:
  "round_law L \<Longrightarrow> multiple_of (1 / 10 ^ n) x \<Longrightarrow> dec_round L x n = x"
  by (rule nearest_multiple) (auto simp: round_law_def)

lemma dec_round_mono: "round_law L \<Longrightarrow> x \<le> y \<Longrightarrow> dec_round L x n \<le> dec_round L y n"
  by (cases "x = y")
    (auto intro!: nearest_mono [where q = "1 / 10 ^ n" and x = x and y = y] simp: round_law_def)

lemma dec_div_mono:
  "div_law L \<Longrightarrow> x \<le> y \<Longrightarrow> 0 < z \<Longrightarrow> dec_div L x z \<le> dec_div L y z"
  by (cases "x = y")
    (auto intro!: nearest_mono [where q = "1 / 10 ^ 16" and x = "x / z" and y = "y / z"]
      simp: div_law_def divide_strict_right_mono)

lemma multiple_of_0 [simp]: "multiple_of q 0"
  unfolding multiple_of_def by (rule exI [of _ 0]) simp

lemma multiple_of_10:
  assumes "multiple_of (1 / 10 ^ n) x" and "n \<le> m"
  shows "multiple_of (1 / 10 ^ m) x"
proof -
  from assms(1) obtain k :: int where k: "x = of_int k * (1 / 10 ^ n)"
    by (auto simp: multiple_of_def)
  have "(10 :: rat) ^ m = 10 ^ n * 10 ^ (m - n)"
    using assms(2) by (simp flip: power_add)
  then have "x = of_int (k * 10 ^ (m - n)) * (1 / 10 ^ m)"
    by (simp add: k)
  then show ?thesis unfolding multiple_of_def by blast
qed

lemma ref_round_nearest: "nearest (1 / 10 ^ n) x (ref_round x n)"
proof -
  define p :: rat where "p = 10 ^ n"
  then have p: "0 < p" by simp
  define k :: int where "k = (if 0 \<le> x then \<lfloor>x * p + 1 / 2\<rfloor> else \<lceil>x * p - 1 / 2\<rceil>)"
  have r: "ref_round x n = of_int k * (1 / p)"
    by (simp add: ref_round_def k_def p_def)
  have "2 * \<bar>of_int k - x * p\<bar> \<le> 1"
  proof (cases "0 \<le> x")
    case True
    then have k: "k = \<lfloor>x * p + 1 / 2\<rfloor>" by (simp add: k_def)
    from floor_correct [of "x * p + 1 / 2"]
    have "of_int k \<le> x * p + 1 / 2" and "x * p + 1 / 2 < of_int k + 1"
      unfolding k by simp_all
    then show ?thesis by (intro abs_le_half) (simp_all add: algebra_simps)
  next
    case False
    then have k: "k = \<lceil>x * p - 1 / 2\<rceil>" by (simp add: k_def)
    from ceiling_correct [of "x * p - 1 / 2"]
    have "of_int k - 1 < x * p - 1 / 2" and "x * p - 1 / 2 \<le> of_int k"
      unfolding k by simp_all
    then show ?thesis by (intro abs_le_half) (simp_all add: algebra_simps)
  qed
  then have "2 * \<bar>of_int k - x * p\<bar> * (1 / p) \<le> 1 / p"
    using p by (simp add: divide_right_mono)
  moreover have "\<bar>of_int k * (1 / p) - x\<bar> = \<bar>of_int k - x * p\<bar> * (1 / p)"
  proof -
    have "of_int k * (1 / p) - x = (of_int k - x * p) * (1 / p)"
      using p by (simp add: field_simps)
    then show ?thesis using p by (simp add: abs_mult)
  qed
  ultimately show ?thesis
    unfolding nearest_def r multiple_of_def by (auto simp flip: p_def)
qed

lemma ref_lib_laws:
  "div_law ref_lib" "round_law ref_lib" "truncate_law ref_lib" "int_part_law ref_lib"
  using ref_round_nearest [of 16]
  by (simp_all add: div_law_def round_law_def truncate_law_def int_part_law_def ref_lib_def
      ref_round_nearest)

lemma ref_lib_decimal_laws: "decimal_laws ref_lib"
  by (simp add: decimal_laws_def ref_lib_laws)

lemma ref_lib_uuid_law: "uuid_string_law ref_lib"
  by (auto simp: uuid_string_law_def ref_lib_def inj_def unsigned_word_eqI)

lemma trunc_rat_of_int [simp]: "trunc_rat (of_int k) = k"
  by (simp add: trunc_rat_def)

lemma trunc_rat_nonneg: "0 \<le> x \<Longrightarrow> 0 \<le> trunc_rat x"
  by (simp add: trunc_rat_def)

lemma trunc_rat_le: "0 \<le> x \<Longrightarrow> of_int (trunc_rat x) \<le> x"
  by (simp add: trunc_rat_def)

section \<open>Lemmas on lists and association lists\<close>

lemma map_of_update [simp]: "map_of (AList.update k v al) = (map_of al)(k \<mapsto> v)"
  by (rule AList.update_conv')

lemma map_of_delete [simp]: "map_of (AList.delete k al) = (map_of al)(k := None)"
  by (rule AList.delete_conv')

lemma map_of_filter_snd:
  "distinct (map fst al) \<Longrightarrow>
   map_of (filter (\<lambda>(k, v). P v) al) k =
     (case map_of al k of None \<Rightarrow> None | Some v \<Rightarrow> if P v then Some v else None)"
proof (induction al)
  case (Cons kv al)
  then show ?case
    by (cases kv) (auto split: option.splits simp: map_of_eq_None_iff image_iff)
qed simp

lemma distinct_map_fst_filter:
  "distinct (map fst al) \<Longrightarrow> distinct (map fst (filter P al))"
  by (induction al) auto

lemma sum_list_map_filter_split:
  "(\<Sum>x\<leftarrow>xs. f x) = (\<Sum>x\<leftarrow>filter P xs. f x) + (\<Sum>x\<leftarrow>filter (\<lambda>x. \<not> P x) xs. (f x :: rat))"
  by (induction xs) auto

lemma sum_list_rat_nonneg: "(\<And>x. x \<in> set xs \<Longrightarrow> 0 \<le> f x) \<Longrightarrow> 0 \<le> (\<Sum>x\<leftarrow>xs. (f x :: rat))"
  by (induction xs) auto

end
