(* ===== verification/Domain_Errors.thy ===== *)
theory Domain_Errors
  imports Settla_Prelude
begin

text \<open>
  The error values of the program (\<^verbatim>\<open>src/domain/errors.go\<close>). A Go error is a value of the
  datatype \<open>error\<close>: a \<^verbatim>\<open>*DomainError\<close> with its code, the arguments of its message and the
  error it wraps; an error of \<^verbatim>\<open>fmt.Errorf\<close> with its message and what \<^verbatim>\<open>%w\<close> wraps; the sentinel
  \<^verbatim>\<open>core.ErrOptimisticLock\<close>; and a panic, which no caller of the modelled code recovers.
  \<^verbatim>\<open>errors.As\<close> and \<^verbatim>\<open>errors.Is\<close> walk the chain of wrapped errors.
\<close>

section \<open>Codes\<close>

datatype code =
    CodeQuoteExpired
  | CodeInsufficientFunds
  | CodeInvalidTransition
  | CodeProviderError
  | CodeChainError
  | CodeLedgerImbalance
  | CodePositionLocked
  | CodeCorridorDisabled
  | CodeAmountTooLow
  | CodeAmountTooHigh
  | CodeIdempotencyConflict
  | CodeOptimisticLock
  | CodeTenantSuspended
  | CodeTenantNotFound
  | CodeDailyLimitExceeded
  | CodeUnauthorized
  | CodeReservationFailed
  | CodeReservationLockTimeout
  | CodeReservationInsufficientFunds
  | CodeCurrencyMismatch
  | CodeAccountNotFound
  | CodeTransferNotFound
  | CodeProviderUnavailable
  | CodeNetworkError
  | CodeBlockchainReorg
  | CodeCompensationFailed
  | CodeRateLimitExceeded
  | CodeEmailAlreadyExists
  | CodeInvalidCredentials
  | CodeEmailNotVerified
  | CodeTokenExpired
  | CodeSlugConflict
  | CodeDepositNotFound
  | CodeDepositExpired
  | CodeCryptoDisabled
  | CodeChainNotSupported
  | CodeAddressPoolEmpty
  | CodeBankDepositsDisabled
  | CodeCurrencyNotSupported
  | CodeVirtualAccountPoolEmpty
  | CodeBankDepositNotFound
  | CodePaymentMismatch
  | CodePaymentLinkNotFound
  | CodePaymentLinkExpired
  | CodePaymentLinkExhausted
  | CodePaymentLinkDisabled
  | CodeShortCodeCollision

primrec code_string :: "code \<Rightarrow> string" where
  "code_string CodeQuoteExpired = ''QUOTE_EXPIRED''"
| "code_string CodeInsufficientFunds = ''INSUFFICIENT_FUNDS''"
| "code_string CodeInvalidTransition = ''INVALID_TRANSITION''"
| "code_string CodeProviderError = ''PROVIDER_ERROR''"
| "code_string CodeChainError = ''CHAIN_ERROR''"
| "code_string CodeLedgerImbalance = ''LEDGER_IMBALANCE''"
| "code_string CodePositionLocked = ''POSITION_LOCKED''"
| "code_string CodeCorridorDisabled = ''CORRIDOR_DISABLED''"
| "code_string CodeAmountTooLow = ''AMOUNT_TOO_LOW''"
| "code_string CodeAmountTooHigh = ''AMOUNT_TOO_HIGH''"
| "code_string CodeIdempotencyConflict = ''IDEMPOTENCY_CONFLICT''"
| "code_string CodeOptimisticLock = ''OPTIMISTIC_LOCK''"
| "code_string CodeTenantSuspended = ''TENANT_SUSPENDED''"
| "code_string CodeTenantNotFound = ''TENANT_NOT_FOUND''"
| "code_string CodeDailyLimitExceeded = ''DAILY_LIMIT_EXCEEDED''"
| "code_string CodeUnauthorized = ''UNAUTHORIZED''"
| "code_string CodeReservationFailed = ''RESERVATION_FAILED''"
| "code_string CodeReservationLockTimeout = ''RESERVATION_LOCK_TIMEOUT''"
| "code_string CodeReservationInsufficientFunds = ''RESERVATION_INSUFFICIENT_FUNDS''"
| "code_string CodeCurrencyMismatch = ''CURRENCY_MISMATCH''"
| "code_string CodeAccountNotFound = ''ACCOUNT_NOT_FOUND''"
| "code_string CodeTransferNotFound = ''TRANSFER_NOT_FOUND''"
| "code_string CodeProviderUnavailable = ''PROVIDER_UNAVAILABLE''"
| "code_string CodeNetworkError = ''NETWORK_ERROR''"
| "code_string CodeBlockchainReorg = ''BLOCKCHAIN_REORG''"
| "code_string CodeCompensationFailed = ''COMPENSATION_FAILED''"
| "code_string CodeRateLimitExceeded = ''RATE_LIMIT_EXCEEDED''"
| "code_string CodeEmailAlreadyExists = ''EMAIL_ALREADY_EXISTS''"
| "code_string CodeInvalidCredentials = ''INVALID_CREDENTIALS''"
| "code_string CodeEmailNotVerified = ''EMAIL_NOT_VERIFIED''"
| "code_string CodeTokenExpired = ''TOKEN_EXPIRED''"
| "code_string CodeSlugConflict = ''SLUG_CONFLICT''"
| "code_string CodeDepositNotFound = ''DEPOSIT_NOT_FOUND''"
| "code_string CodeDepositExpired = ''DEPOSIT_EXPIRED''"
| "code_string CodeCryptoDisabled = ''CRYPTO_DISABLED''"
| "code_string CodeChainNotSupported = ''CHAIN_NOT_SUPPORTED''"
| "code_string CodeAddressPoolEmpty = ''ADDRESS_POOL_EMPTY''"
| "code_string CodeBankDepositsDisabled = ''BANK_DEPOSITS_DISABLED''"
| "code_string CodeCurrencyNotSupported = ''CURRENCY_NOT_SUPPORTED''"
| "code_string CodeVirtualAccountPoolEmpty = ''VIRTUAL_ACCOUNT_POOL_EMPTY''"
| "code_string CodeBankDepositNotFound = ''BANK_DEPOSIT_NOT_FOUND''"
| "code_string CodePaymentMismatch = ''PAYMENT_MISMATCH''"
| "code_string CodePaymentLinkNotFound = ''PAYMENT_LINK_NOT_FOUND''"
| "code_string CodePaymentLinkExpired = ''PAYMENT_LINK_EXPIRED''"
| "code_string CodePaymentLinkExhausted = ''PAYMENT_LINK_EXHAUSTED''"
| "code_string CodePaymentLinkDisabled = ''PAYMENT_LINK_DISABLED''"
| "code_string CodeShortCodeCollision = ''SHORT_CODE_COLLISION''"

section \<open>Errors\<close>

datatype error =
    DomainError (error_code: code) "string list" "error option"
  | Errorf string "error option"
  | SentinelOptimisticLock
  | Panic string

type_synonym 'a result = "error + 'a"

fun Code :: "error \<Rightarrow> code option" where
  "Code (DomainError c args e) = Some c"
| "Code (Errorf m e) = None"
| "Code SentinelOptimisticLock = None"
| "Code (Panic m) = None"

fun Unwrap :: "error \<Rightarrow> error option" where
  "Unwrap (DomainError c args e) = e"
| "Unwrap (Errorf m e) = e"
| "Unwrap SentinelOptimisticLock = None"
| "Unwrap (Panic m) = None"

text \<open>\<^verbatim>\<open>errors.As(err, &domErr)\<close>: the first domain error of the chain.\<close>

fun errors_As :: "error \<Rightarrow> error option" where
  "errors_As (DomainError c args e) = Some (DomainError c args e)"
| "errors_As (Errorf m (Some e)) = errors_As e"
| "errors_As (Errorf m None) = None"
| "errors_As SentinelOptimisticLock = None"
| "errors_As (Panic m) = None"

text \<open>\<^verbatim>\<open>errors.Is(err, core.ErrOptimisticLock)\<close>.\<close>

fun errors_Is_lock :: "error \<Rightarrow> bool" where
  "errors_Is_lock SentinelOptimisticLock = True"
| "errors_Is_lock (DomainError c args (Some e)) = errors_Is_lock e"
| "errors_Is_lock (DomainError c args None) = False"
| "errors_Is_lock (Errorf m (Some e)) = errors_Is_lock e"
| "errors_Is_lock (Errorf m None) = False"
| "errors_Is_lock (Panic m) = False"

fun is_panic :: "error \<Rightarrow> bool" where
  "is_panic (Panic m) = True"
| "is_panic _ = False"

definition code_retriable :: "code \<Rightarrow> bool" where
  "code_retriable c \<longleftrightarrow>
     c \<in> {CodeProviderError, CodeProviderUnavailable, CodeNetworkError,
          CodeReservationLockTimeout, CodeOptimisticLock, CodeRateLimitExceeded}"

definition IsRetriable :: "error \<Rightarrow> bool" where
  "IsRetriable e = (case Code e of Some c \<Rightarrow> code_retriable c | None \<Rightarrow> False)"

section \<open>Constructors\<close>

definition ErrQuoteExpired :: "string \<Rightarrow> error" where
  "ErrQuoteExpired quoteID = DomainError CodeQuoteExpired [quoteID] None"

definition ErrInsufficientFunds :: "string \<Rightarrow> string \<Rightarrow> error" where
  "ErrInsufficientFunds currency location = DomainError CodeInsufficientFunds [currency, location] None"

definition ErrInvalidTransition :: "string \<Rightarrow> string \<Rightarrow> error" where
  "ErrInvalidTransition src dst = DomainError CodeInvalidTransition [src, dst] None"

definition ErrLedgerImbalance :: "string \<Rightarrow> error" where
  "ErrLedgerImbalance details = DomainError CodeLedgerImbalance [details] None"

definition ErrAmountTooLow :: "string \<Rightarrow> string \<Rightarrow> error" where
  "ErrAmountTooLow amount minimum = DomainError CodeAmountTooLow [amount, minimum] None"

definition ErrAmountTooHigh :: "string \<Rightarrow> string \<Rightarrow> error" where
  "ErrAmountTooHigh amount maximum = DomainError CodeAmountTooHigh [amount, maximum] None"

definition ErrOptimisticLock :: "string \<Rightarrow> string \<Rightarrow> error" where
  "ErrOptimisticLock entityType ident = DomainError CodeOptimisticLock [entityType, ident] None"

definition ErrTenantSuspended :: "string \<Rightarrow> error" where
  "ErrTenantSuspended tenantID = DomainError CodeTenantSuspended [tenantID] None"

definition ErrDailyLimitExceeded :: "string \<Rightarrow> error" where
  "ErrDailyLimitExceeded tenantID = DomainError CodeDailyLimitExceeded [tenantID] None"

definition ErrReservationFailed :: "string \<Rightarrow> error" where
  "ErrReservationFailed reason = DomainError CodeReservationFailed [reason] None"

definition ErrCurrencyMismatch :: "string \<Rightarrow> string \<Rightarrow> string \<Rightarrow> error" where
  "ErrCurrencyMismatch operation expected actual = DomainError CodeCurrencyMismatch [operation, expected, actual] None"

definition ErrAccountNotFound :: "string \<Rightarrow> error" where
  "ErrAccountNotFound code = DomainError CodeAccountNotFound [code] None"

definition ErrProviderUnavailable :: "string \<Rightarrow> error" where
  "ErrProviderUnavailable providerID = DomainError CodeProviderUnavailable [providerID] None"

definition ErrCryptoDisabled :: "string \<Rightarrow> error" where
  "ErrCryptoDisabled tenantID = DomainError CodeCryptoDisabled [tenantID] None"

definition ErrChainNotSupported :: "string \<Rightarrow> string \<Rightarrow> error" where
  "ErrChainNotSupported chain tenantID = DomainError CodeChainNotSupported [chain, tenantID] None"

definition ErrAddressPoolEmpty :: "string \<Rightarrow> string \<Rightarrow> error" where
  "ErrAddressPoolEmpty chain tenantID = DomainError CodeAddressPoolEmpty [chain, tenantID] None"

definition IsShortCodeCollision :: "error \<Rightarrow> bool" where
  "IsShortCodeCollision err =
     (case errors_As err of
        Some e \<Rightarrow> Code e = Some CodeShortCodeCollision
      | None \<Rightarrow> False)"

lemmas Err_defs =
  ErrQuoteExpired_def
  ErrInsufficientFunds_def
  ErrInvalidTransition_def
  ErrLedgerImbalance_def
  ErrAmountTooLow_def
  ErrAmountTooHigh_def
  ErrOptimisticLock_def
  ErrTenantSuspended_def
  ErrDailyLimitExceeded_def
  ErrReservationFailed_def
  ErrCurrencyMismatch_def
  ErrAccountNotFound_def
  ErrProviderUnavailable_def
  ErrCryptoDisabled_def
  ErrChainNotSupported_def
  ErrAddressPoolEmpty_def

section \<open>Lemmas\<close>

lemma errors_As_Some: "errors_As e = Some d \<Longrightarrow> \<exists>c args w. d = DomainError c args w"
  by (induction e rule: errors_As.induct) auto

end
