(* ===== verification/Idempotency.thy ===== *)
theory Idempotency
  imports Domain_Errors
begin

text \<open>
  The sharded idempotency map of the treasury manager (\<^verbatim>\<open>src/treasury/manager.go\<close>): 16 maps from
  keys to claim times, selected by the FNV-1a hash of the key. The contract the treasury relies
  on is the locale \<open>dedup_store\<close>, interpreted on the sharded map.
\<close>

section \<open>The contract\<close>

locale dedup_store =
  fixes acquire :: "instant \<Rightarrow> 'k \<Rightarrow> 's \<Rightarrow> 's \<times> bool"
    and rollback :: "'k \<Rightarrow> 's \<Rightarrow> 's"
    and claim :: "'s \<Rightarrow> 'k \<Rightarrow> instant option"
    and wf :: "'s \<Rightarrow> bool"
    and window :: int
  assumes acquire_iff: "wf s \<Longrightarrow> snd (acquire now k s) \<longleftrightarrow> claim s k \<noteq> None"
    and acquire_wf: "wf s \<Longrightarrow> wf (fst (acquire now k s))"
    and acquire_new: "wf s \<Longrightarrow> claim s k = None \<Longrightarrow> claim (fst (acquire now k s)) k = Some now"
    and acquire_keep: "wf s \<Longrightarrow> claim s k' = Some t \<Longrightarrow> now - window \<le> t \<Longrightarrow>
      claim (fst (acquire now k s)) k' = Some t"
    and acquire_other: "wf s \<Longrightarrow> k' \<noteq> k \<Longrightarrow> claim s k' = None \<Longrightarrow>
      claim (fst (acquire now k s)) k' = None"
    and rollback_wf: "wf s \<Longrightarrow> wf (rollback k s)"
    and rollback_self: "wf s \<Longrightarrow> claim (rollback k s) k = None"
    and rollback_other: "wf s \<Longrightarrow> k' \<noteq> k \<Longrightarrow> claim (rollback k s) k' = claim s k'"

text \<open>Deliveries guarded by the store: \<open>True\<close> marks those that execute.\<close>

fun deliver ::
  "(instant \<Rightarrow> 'k \<Rightarrow> 's \<Rightarrow> 's \<times> bool) \<Rightarrow> (instant \<times> 'k) list \<Rightarrow> 's \<Rightarrow> bool list" where
  "deliver acquire [] s = []"
| "deliver acquire ((now, k) # ds) s =
     (case acquire now k s of (s', claimed) \<Rightarrow> (\<not> claimed) # deliver acquire ds s')"

abbreviation executions :: "'k \<Rightarrow> (instant \<times> 'k) list \<Rightarrow> bool list \<Rightarrow> nat" where
  "executions k ds es \<equiv> length (filter (\<lambda>((_, k'), e). k' = k \<and> e) (zip ds es))"

context dedup_store
begin

lemma claimed_never_executes:
  assumes "wf s" and "claim s k = Some t" and "\<forall>(now, k') \<in> set ds. now - window \<le> t"
  shows "executions k ds (deliver acquire ds s) = 0"
  using assms
proof (induction ds arbitrary: s)
  case (Cons d ds)
  obtain now k' where d: "d = (now, k')" by force
  obtain s' c where a: "acquire now k' s = (s', c)" by force
  have "claim s' k = Some t" "wf s'"
    using acquire_keep [OF Cons.prems(1,2), of now k'] acquire_wf [OF Cons.prems(1), of now k']
      Cons.prems(3) by (auto simp: a d)
  moreover have "k' = k \<Longrightarrow> c"
    using acquire_iff [OF Cons.prems(1), of now k'] Cons.prems(2) a by auto
  ultimately show ?case using Cons by (auto simp: a d)
qed simp

lemma executes_once:
  assumes "wf s" and "claim s k = None" and "k \<in> snd ` set ds"
    and "\<forall>(now, k') \<in> set ds. start \<le> now \<and> now \<le> start + window"
  shows "executions k ds (deliver acquire ds s) = 1"
  using assms
proof (induction ds arbitrary: s)
  case (Cons d ds)
  obtain now k' where d: "d = (now, k')" by force
  obtain s' c where a: "acquire now k' s = (s', c)" by force
  have wf: "wf s'" using acquire_wf [OF Cons.prems(1), of now k'] by (simp add: a)
  show ?case
  proof (cases "k' = k")
    case True
    then have "claim s' k = Some now" "\<not> c"
      using acquire_new [OF Cons.prems(1), of k now] acquire_iff [OF Cons.prems(1), of now k]
        Cons.prems(2) a by auto
    moreover have "\<forall>(now', k') \<in> set ds. now' - window \<le> now"
      using Cons.prems(4) by (fastforce simp: d)
    ultimately show ?thesis
      using claimed_never_executes [OF wf, of k now ds] a by (simp add: d True)
  next
    case False
    then have "claim s' k = None"
      using acquire_other [OF Cons.prems(1), of k k' now] Cons.prems(2) by (simp add: a)
    with Cons.IH [OF wf] Cons.prems False show ?thesis by (simp add: a d)
  qed
qed simp

end

section \<open>The sharded map\<close>

type_synonym shard = "(string \<times> instant) list"

definition idempotencyKey :: "lib \<Rightarrow> uuid \<Rightarrow> string \<Rightarrow> string" where
  "idempotencyKey L reference op = uuid_string L reference @ '':'' @ op"

definition idempotencyShardFor :: "string \<Rightarrow> nat" where
  "idempotencyShardFor key = unat (fnv32a key mod 16)"

definition maxIdempotencyMapSize :: nat where
  "maxIdempotencyMapSize = 500000"

definition forcedCleanupMaxAge :: int where
  "forcedCleanupMaxAge = 2 * Minute"

definition drop_before :: "instant \<Rightarrow> shard \<Rightarrow> shard" where
  "drop_before cutoff items = filter (\<lambda>(k, t). \<not> t < cutoff) items"

definition tryAcquireKey :: "instant \<Rightarrow> string \<Rightarrow> shard list \<Rightarrow> shard list \<times> bool" where
  "tryAcquireKey now key shards =
     (let idx = idempotencyShardFor key; items = shards ! idx in
      if map_of items key \<noteq> None then (shards, True)
      else let items' = (if length items \<ge> maxIdempotencyMapSize div 16
                         then drop_before (now - forcedCleanupMaxAge) items else items) in
           (shards[idx := AList.update key now items'], False))"

definition rollbackKey :: "string \<Rightarrow> shard list \<Rightarrow> shard list" where
  "rollbackKey key shards =
     (let idx = idempotencyShardFor key in shards[idx := AList.delete key (shards ! idx)])"

definition cleanup_shard :: "instant \<Rightarrow> int \<Rightarrow> shard \<Rightarrow> shard" where
  "cleanup_shard now maxAge items =
     (let items' = drop_before (now - maxAge) items in
      if length items' > maxIdempotencyMapSize div 16
      then drop_before (now - forcedCleanupMaxAge) items' else items')"

definition cleanupShards :: "instant \<Rightarrow> int \<Rightarrow> shard list \<Rightarrow> shard list" where
  "cleanupShards now maxAge shards = map (cleanup_shard now maxAge) shards"

section \<open>Interpretation\<close>

definition claim_time :: "shard list \<Rightarrow> string \<Rightarrow> instant option" where
  "claim_time shards key = map_of (shards ! idempotencyShardFor key) key"

definition shards_wf :: "shard list \<Rightarrow> bool" where
  "shards_wf shards \<longleftrightarrow> length shards = 16 \<and> list_all (\<lambda>items. distinct (map fst items)) shards"

lemma idempotencyShardFor_less [simp]: "idempotencyShardFor key < 16"
proof -
  have "fnv32a key mod 16 < 16" by (rule word_mod_less_divisor) simp
  then show ?thesis unfolding idempotencyShardFor_def by (simp add: word_less_nat_alt)
qed

lemma shards_wf_nth:
  "shards_wf s \<Longrightarrow> length s = 16" "shards_wf s \<Longrightarrow> i < 16 \<Longrightarrow> distinct (map fst (s ! i))"
  by (auto simp: shards_wf_def list_all_length)

lemma shards_wf_update:
  "shards_wf s \<Longrightarrow> distinct (map fst items) \<Longrightarrow> shards_wf (s[i := items])"
  by (auto simp: shards_wf_def list_all_iff dest: set_update_subset_insert [THEN subsetD])

lemma map_of_drop_before:
  "distinct (map fst items) \<Longrightarrow> map_of (drop_before cutoff items) k =
     (case map_of items k of None \<Rightarrow> None | Some t \<Rightarrow> if t < cutoff then None else Some t)"
  unfolding drop_before_def by (subst map_of_filter_snd) (auto split: option.split)

lemma drop_before_distinct [simp]:
  "distinct (map fst items) \<Longrightarrow> distinct (map fst (drop_before cutoff items))"
  unfolding drop_before_def by (rule distinct_map_fst_filter)

lemma claim_time_update:
  "shards_wf s \<Longrightarrow> claim_time (s[idempotencyShardFor key := items]) k =
     (if idempotencyShardFor k = idempotencyShardFor key then map_of items k else claim_time s k)"
  using shards_wf_nth(1) [of s] by (auto simp: claim_time_def)

interpretation shards: dedup_store tryAcquireKey rollbackKey claim_time shards_wf forcedCleanupMaxAge
proof unfold_locales
  fix s :: "shard list" and now t :: instant and k k' :: string
  assume wf: "shards_wf s"
  let ?i = "idempotencyShardFor k"
  have d: "distinct (map fst (s ! ?i))" and [simp]: "length s = 16"
    using wf by (simp_all add: shards_wf_nth)
  show "snd (tryAcquireKey now k s) \<longleftrightarrow> claim_time s k \<noteq> None"
    by (simp add: tryAcquireKey_def Let_def claim_time_def)
  show "shards_wf (fst (tryAcquireKey now k s))"
    using wf d by (simp add: tryAcquireKey_def Let_def shards_wf_update AList.distinct_update)
  show "claim_time (fst (tryAcquireKey now k s)) k = Some now" if "claim_time s k = None"
    using wf that by (simp add: tryAcquireKey_def Let_def claim_time_def nth_list_update)
  show "claim_time (fst (tryAcquireKey now k s)) k' = Some t"
    if "claim_time s k' = Some t" "now - forcedCleanupMaxAge \<le> t"
    using wf d that
    by (auto simp: tryAcquireKey_def Let_def claim_time_def nth_list_update map_of_drop_before)
  show "claim_time (fst (tryAcquireKey now k s)) k' = None" if "k' \<noteq> k" "claim_time s k' = None"
    using wf d that
    by (auto simp: tryAcquireKey_def Let_def claim_time_def nth_list_update map_of_drop_before)
  show "shards_wf (rollbackKey k s)"
    using wf d by (simp add: rollbackKey_def Let_def shards_wf_update AList.distinct_delete)
  show "claim_time (rollbackKey k s) k = None"
    using wf by (simp add: rollbackKey_def Let_def claim_time_update)
  show "claim_time (rollbackKey k s) k' = claim_time s k'" if "k' \<noteq> k"
    using wf that by (simp add: rollbackKey_def Let_def claim_time_def nth_list_update)
qed

section \<open>Lemmas\<close>

lemma cleanup_shard_distinct:
  "distinct (map fst items) \<Longrightarrow> distinct (map fst (cleanup_shard now maxAge items))"
  by (simp add: cleanup_shard_def Let_def)

lemma cleanupShards_wf: "shards_wf s \<Longrightarrow> shards_wf (cleanupShards now maxAge s)"
  by (auto simp: shards_wf_def cleanupShards_def list_all_iff cleanup_shard_distinct)

lemma cleanupShards_keep:
  assumes "shards_wf s" and "claim_time s k = Some t" and "now - forcedCleanupMaxAge \<le> t"
    and "forcedCleanupMaxAge \<le> maxAge"
  shows "claim_time (cleanupShards now maxAge s) k = Some t"
  using assms(2-4) shards_wf_nth(1) [OF assms(1)] shards_wf_nth(2) [OF assms(1), of "idempotencyShardFor k"]
  by (simp add: claim_time_def cleanupShards_def cleanup_shard_def Let_def map_of_drop_before
      del: map_of_eq_Some_iff)

lemma idempotencyKey_inj:
  assumes "uuid_string_law L" and "CHR '':'' \<notin> set op" and "CHR '':'' \<notin> set op'"
  shows "idempotencyKey L r op = idempotencyKey L r' op' \<longleftrightarrow> r = r' \<and> op = op'"
proof
  assume "idempotencyKey L r op = idempotencyKey L r' op'"
  then have eq: "uuid_string L r @ CHR '':'' # op = uuid_string L r' @ CHR '':'' # op'"
    by (simp add: idempotencyKey_def)
  have "CHR '':'' \<notin> set (uuid_string L r)" "CHR '':'' \<notin> set (uuid_string L r')"
    using assms(1) by (simp_all add: uuid_string_law_def)
  with eq have "uuid_string L r = uuid_string L r' \<and> op = op'"
    using append_Cons_eq_iff [of "CHR '':''" "uuid_string L r" op "uuid_string L r'" op'] assms(2) by auto
  then show "r = r' \<and> op = op'" using assms(1) by (auto simp: uuid_string_law_def dest: injD)
qed auto

section \<open>Properties\<close>

text \<open>
  C27: The idempotency map executes every key exactly once: among any deliveries, of any keys and
  in any order, that fall into one two-minute window, exactly the first delivery of a key that was
  not claimed before is let through, however full the shards are.
\<close>

theorem idempotency_exactly_once:
  assumes "shards_wf s" and "claim_time s key = None" and "key \<in> snd ` set ds"
    and "\<forall>(now, k) \<in> set ds. start \<le> now \<and> now \<le> start + forcedCleanupMaxAge"
  shows "executions key ds (deliver tryAcquireKey ds s) = 1"
  using assms by (rule shards.executes_once)

theorem idempotency_exactly_once_witness:
  "executions ''a'' [(1, ''a''), (2, ''b''), (3, ''a'')]
     (deliver tryAcquireKey [(1, ''a''), (2, ''b''), (3, ''a'')] (replicate 16 [])) = 1"
  by (rule idempotency_exactly_once [where start = 0])
    (simp_all add: shards_wf_def list_all_iff claim_time_def forcedCleanupMaxAge_def)

end
