(* ===== verification/Money_Domain.thy ===== *)
theory Money_Domain
  imports Domain_Errors
begin

text \<open>
  Currencies, money amounts and the slippage policy (\<^verbatim>\<open>src/domain/money.go\<close>,
  \<^verbatim>\<open>src/domain/slippage.go\<close>).
\<close>

section \<open>Currencies and money\<close>

definition CurrencyNGN :: currency where "CurrencyNGN = ''NGN''"
definition CurrencyUSD :: currency where "CurrencyUSD = ''USD''"
definition CurrencyGBP :: currency where "CurrencyGBP = ''GBP''"
definition CurrencyEUR :: currency where "CurrencyEUR = ''EUR''"
definition CurrencyGHS :: currency where "CurrencyGHS = ''GHS''"
definition CurrencyKES :: currency where "CurrencyKES = ''KES''"
definition CurrencyUSDT :: currency where "CurrencyUSDT = ''USDT''"
definition CurrencyUSDC :: currency where "CurrencyUSDC = ''USDC''"

lemmas currency_defs =
  CurrencyNGN_def CurrencyUSD_def CurrencyGBP_def CurrencyEUR_def
  CurrencyGHS_def CurrencyKES_def CurrencyUSDT_def CurrencyUSDC_def

definition SupportedCurrencies :: "currency list" where
  "SupportedCurrencies =
     [CurrencyNGN, CurrencyUSD, CurrencyGBP, CurrencyEUR,
      CurrencyGHS, CurrencyKES, CurrencyUSDT, CurrencyUSDC]"

definition StablecoinCurrencies :: "currency list" where
  "StablecoinCurrencies = [CurrencyUSDT, CurrencyUSDC]"

definition IsStablecoin :: "currency \<Rightarrow> bool" where
  "IsStablecoin c \<longleftrightarrow> c \<in> set StablecoinCurrencies"

definition ValidateCurrency :: "currency \<Rightarrow> unit result" where
  "ValidateCurrency c =
     (if c \<notin> set SupportedCurrencies
      then Inl (Errorf ''settla-domain: unsupported currency'' None)
      else Inr ())"

record Money =
  m_amount :: decimal
  m_currency :: currency

definition IsSameCurrencyAs :: "Money \<Rightarrow> Money \<Rightarrow> bool" where
  "IsSameCurrencyAs m other \<longleftrightarrow> m_currency m = m_currency other"

definition NewMoney :: "lib \<Rightarrow> string \<Rightarrow> currency \<Rightarrow> Money result" where
  "NewMoney L amount cur =
     (case ValidateCurrency cur of
        Inl err \<Rightarrow> Inl err
      | Inr _ \<Rightarrow>
         (case dec_from_string L amount of
            None \<Rightarrow> Inl (Errorf ''settla-domain: invalid amount'' None)
          | Some d \<Rightarrow> Inr \<lparr>m_amount = d, m_currency = cur\<rparr>))"

definition NewPositiveMoney :: "lib \<Rightarrow> string \<Rightarrow> currency \<Rightarrow> Money result" where
  "NewPositiveMoney L amount cur =
     (case NewMoney L amount cur of
        Inl err \<Rightarrow> Inl err
      | Inr m \<Rightarrow>
         if \<not> 0 < m_amount m
         then Inl (Errorf ''settla-domain: amount must be positive'' None)
         else Inr m)"

definition Money_Add :: "Money \<Rightarrow> Money \<Rightarrow> Money result" where
  "Money_Add m other =
     (if \<not> IsSameCurrencyAs m other
      then Inl (Errorf ''settla-domain: cannot add''
                 (Some (ErrCurrencyMismatch ''add'' (m_currency m) (m_currency other))))
      else Inr \<lparr>m_amount = m_amount m + m_amount other, m_currency = m_currency m\<rparr>)"

definition Money_Sub :: "Money \<Rightarrow> Money \<Rightarrow> Money result" where
  "Money_Sub m other =
     (if \<not> IsSameCurrencyAs m other
      then Inl (Errorf ''settla-domain: cannot subtract''
                 (Some (ErrCurrencyMismatch ''subtract'' (m_currency m) (m_currency other))))
      else Inr \<lparr>m_amount = m_amount m - m_amount other, m_currency = m_currency m\<rparr>)"

definition Money_Mul :: "Money \<Rightarrow> decimal \<Rightarrow> Money" where
  "Money_Mul m factor = \<lparr>m_amount = m_amount m * factor, m_currency = m_currency m\<rparr>"

section \<open>Slippage\<close>

record SlippagePolicy =
  MaxSlippage :: decimal

definition SlippagePolicy_Check :: "lib \<Rightarrow> SlippagePolicy \<Rightarrow> decimal \<Rightarrow> decimal \<Rightarrow> unit result" where
  "SlippagePolicy_Check L p quotedRate liveRate =
     (if \<not> 0 < quotedRate then Inr ()
      else let slippage = dec_div L \<bar>liveRate - quotedRate\<bar> quotedRate in
           if MaxSlippage p < slippage
           then Inl (Errorf ''settla-domain: FX rate moved, exceeds slippage limit'' None)
           else Inr ())"

section \<open>Properties\<close>

lemma ValidateCurrency_ok [simp]:
  "ValidateCurrency c = Inr u \<longleftrightarrow> c \<in> set SupportedCurrencies"
  by (simp add: ValidateCurrency_def)

lemma Money_Add_Sub:
  "Money_Add a b = Inr c \<Longrightarrow> Money_Sub c b = Inr a"
  by (auto simp: Money_Add_def Money_Sub_def IsSameCurrencyAs_def split: if_splits)

lemma NewPositiveMoney_ok:
  "NewPositiveMoney L s c = Inr m \<Longrightarrow>
     0 < m_amount m \<and> m_currency m = c \<and> c \<in> set SupportedCurrencies"
  by (auto simp: NewPositiveMoney_def NewMoney_def ValidateCurrency_def
      split: sum.splits option.splits if_splits)

text \<open>
  The slippage guard is right up to the 16 digits of the division. An accepted live rate
  is within the policy (plus half a unit of the last digit) of the quoted rate, and when the
  limit has at most 16 digits every rate within the limit is accepted.
\<close>

theorem slippage_check_exact:
  assumes "div_law L" and "0 < quoted"
  shows "(SlippagePolicy_Check L p quoted live = Inr () \<longrightarrow>
           \<bar>live - quoted\<bar> \<le> (MaxSlippage p + 1 / (2 * 10 ^ 16)) * quoted) \<and>
         (multiple_of (1 / 10 ^ 16) (MaxSlippage p) \<longrightarrow>
           \<bar>live - quoted\<bar> \<le> MaxSlippage p * quoted \<longrightarrow>
           SlippagePolicy_Check L p quoted live = Inr ())"
proof -
  let ?x = "\<bar>live - quoted\<bar> / quoted" and ?d = "dec_div L \<bar>live - quoted\<bar> quoted"
  have near: "nearest (1 / 10 ^ 16) ?x ?d"
    using assms by (simp add: div_law_def)
  have iff: "SlippagePolicy_Check L p quoted live = Inr () \<longleftrightarrow> ?d \<le> MaxSlippage p"
    using assms(2) by (auto simp: SlippagePolicy_Check_def Let_def)
  have "?x \<le> MaxSlippage p + 1 / (2 * 10 ^ 16)" if "?d \<le> MaxSlippage p"
    using that nearest_bounds(2) [OF near] by (simp add: field_simps)
  moreover have "?d \<le> MaxSlippage p"
    if "multiple_of (1 / 10 ^ 16) (MaxSlippage p)" and "?x \<le> MaxSlippage p"
    using nearest_le_multiple [OF near that(2,1)] by simp
  ultimately show ?thesis
    unfolding iff using assms(2) by (simp add: pos_divide_le_eq)
qed

end
