(* ===== verification/Treasury.thy ===== *)
theory Treasury
  imports Idempotency Money_Domain
begin

text \<open>
  The in-memory treasury manager (\<^verbatim>\<open>src/treasury/manager.go\<close>, \<^verbatim>\<open>src/treasury/position_state.go\<close>,
  \<^verbatim>\<open>src/treasury/store.go\<close>, \<^verbatim>\<open>src/domain/position.go\<close>). Every operation is one function on the
  manager's state; the counters are \<^verbatim>\<open>int64\<close> values with wrap-around written out. The database
  behind the manager is part of the state, and the record \<open>op_env\<close> says for one call which of its
  writes succeed, what time it is and which fresh identifiers it draws. A compare-and-swap loop
  runs alone here and so succeeds at its first iteration; interleavings are the subject of the
  theory \<^verbatim>\<open>Treasury_Concurrent\<close>.
\<close>

section \<open>Data\<close>

record Position =
  pn_ID :: uuid
  pn_TenantID :: uuid
  pn_Currency :: currency
  pn_Location :: string
  pn_Balance :: decimal
  pn_Locked :: decimal
  pn_MinBalance :: decimal
  pn_TargetBalance :: decimal
  pn_UpdatedAt :: instant

definition Position_Available :: "Position \<Rightarrow> decimal" where
  "Position_Available p =
     (let avail = pn_Balance p - pn_Locked p in if avail < 0 then 0 else avail)"

definition IsAboveMinimum :: "Position \<Rightarrow> bool" where
  "IsAboveMinimum p \<longleftrightarrow> pn_Balance p \<ge> pn_MinBalance p"

definition CanLock :: "Position \<Rightarrow> decimal \<Rightarrow> bool" where
  "CanLock p amount \<longleftrightarrow> Position_Available p \<ge> amount"

type_synonym positionKey = "uuid \<times> string \<times> string"

record PositionState =
  ps_ID :: uuid
  ps_TenantID :: uuid
  ps_Currency :: currency
  ps_Location :: string
  ps_MinBalance :: decimal
  ps_TargetBalance :: decimal
  ps_balance :: int
  ps_locked :: int
  ps_reserved :: int
  ps_dirty :: bool

datatype ReserveOpType = OpReserve | OpRelease | OpCommit | OpConsume | OpCredit | OpDebit | OpOther string

record ReserveOp =
  ro_ID :: uuid
  ro_TenantID :: uuid
  ro_Currency :: currency
  ro_Location :: string
  ro_Amount :: decimal
  ro_Reference :: uuid
  ro_OpType :: ReserveOpType
  ro_CreatedAt :: instant

datatype PositionEventType =
  PosEventCredit | PosEventDebit | PosEventReserve | PosEventRelease | PosEventCommit | PosEventConsume

primrec event_type_string :: "PositionEventType \<Rightarrow> string" where
  "event_type_string PosEventCredit = ''CREDIT''"
| "event_type_string PosEventDebit = ''DEBIT''"
| "event_type_string PosEventReserve = ''RESERVE''"
| "event_type_string PosEventRelease = ''RELEASE''"
| "event_type_string PosEventCommit = ''COMMIT''"
| "event_type_string PosEventConsume = ''CONSUME''"

record PositionEvent =
  pe_ID :: uuid
  pe_PositionID :: uuid
  pe_TenantID :: uuid
  pe_EventType :: PositionEventType
  pe_Amount :: decimal
  pe_BalanceAfter :: decimal
  pe_LockedAfter :: decimal
  pe_ReferenceID :: uuid
  pe_ReferenceType :: string
  pe_IdempotencyKey :: string
  pe_RecordedAt :: instant

record treasury_db =
  db_positions :: "Position list"
  db_ops :: "ReserveOp list"
  db_history :: "(uuid \<times> uuid \<times> decimal \<times> decimal \<times> string) list"
  db_events :: "PositionEvent list"

record treasury_config =
  tc_syncThresholds :: "(currency \<times> decimal) list"
  tc_syncThresholdDefault :: decimal
  tc_opStore :: bool
  tc_batchStore :: bool
  tc_eventStore :: bool
  tc_publisher :: bool

record Manager =
  mg_positions :: "(positionKey \<times> PositionState) list"
  mg_tenantIndex :: "(uuid \<times> positionKey list) list"
  mg_dirtySet :: "positionKey list"
  mg_shards :: "shard list"
  mg_pendingOps :: "ReserveOp list"
  mg_pendingEvents :: "PositionEvent list"
  mg_replaying :: bool
  mg_flushFailures :: int
  mg_failedPositionIDs :: "string list"
  mg_alerts :: "uuid list"
  mg_db :: treasury_db

text \<open>
  The environment of one call: the clock, fresh identifiers, whether the write-ahead insert, the
  synchronous position update and the publisher succeed, and whether the flush loop drains a full
  \<^verbatim>\<open>pendingOps\<close> channel within the one-second wait.
\<close>

record op_env =
  ev_now :: instant
  ev_op_id :: uuid
  ev_event_id :: uuid
  ev_wal_ok :: bool
  ev_drained :: bool
  ev_flush_ok :: bool

section \<open>Fixed-point conversions\<close>

definition microScale :: int where
  "microScale = 1000000"

definition maxMicroValue :: int where
  "maxMicroValue = 9000000000000000000"

definition out_of_range :: "decimal \<Rightarrow> bool" where
  "out_of_range scaled \<longleftrightarrow> scaled > of_int maxMicroValue \<or> scaled < - of_int maxMicroValue"

definition toMicro :: "lib \<Rightarrow> decimal \<Rightarrow> int result" where
  "toMicro L d =
     (let scaled = d * of_int microScale in
      if out_of_range scaled
      then Inl (Panic ''settla-treasury: amount overflows int64 micro-units'')
      else Inr (dec_int_part L scaled))"

definition validateMicroRange :: "decimal \<Rightarrow> unit result" where
  "validateMicroRange amount =
     (if out_of_range (amount * of_int microScale)
      then Inl (Errorf ''settla-treasury: amount exceeds maximum position size'' None)
      else Inr ())"

definition fromMicro :: "lib \<Rightarrow> int \<Rightarrow> decimal" where
  "fromMicro L v = dec_div L (of_int v) (of_int microScale)"

section \<open>Positions in memory\<close>

definition available_micro :: "PositionState \<Rightarrow> int" where
  "available_micro ps = wrap64 (wrap64 (ps_balance ps - ps_locked ps) - ps_reserved ps)"

definition PositionState_Available :: "lib \<Rightarrow> PositionState \<Rightarrow> decimal" where
  "PositionState_Available L ps = fromMicro L (available_micro ps)"

definition snapshot :: "lib \<Rightarrow> instant \<Rightarrow> PositionState \<Rightarrow> Position" where
  "snapshot L now ps = \<lparr>
     pn_ID = ps_ID ps, pn_TenantID = ps_TenantID ps, pn_Currency = ps_Currency ps,
     pn_Location = ps_Location ps, pn_Balance = fromMicro L (ps_balance ps),
     pn_Locked = fromMicro L (wrap64 (ps_locked ps + ps_reserved ps)),
     pn_MinBalance = ps_MinBalance ps, pn_TargetBalance = ps_TargetBalance ps, pn_UpdatedAt = now\<rparr>"

abbreviation position :: "Manager \<Rightarrow> positionKey \<Rightarrow> PositionState option" where
  "position m key \<equiv> map_of (mg_positions m) key"

definition upd_position :: "positionKey \<Rightarrow> (PositionState \<Rightarrow> PositionState) \<Rightarrow> Manager \<Rightarrow> Manager" where
  "upd_position key f m = m\<lparr>mg_positions := AList.map_entry key f (mg_positions m)\<rparr>"

definition add_balance :: "positionKey \<Rightarrow> int \<Rightarrow> Manager \<Rightarrow> Manager" where
  "add_balance key d = upd_position key (\<lambda>ps. ps\<lparr>ps_balance := wrap64 (ps_balance ps + d)\<rparr>)"

definition add_locked :: "positionKey \<Rightarrow> int \<Rightarrow> Manager \<Rightarrow> Manager" where
  "add_locked key d = upd_position key (\<lambda>ps. ps\<lparr>ps_locked := wrap64 (ps_locked ps + d)\<rparr>)"

definition add_reserved :: "positionKey \<Rightarrow> int \<Rightarrow> Manager \<Rightarrow> Manager" where
  "add_reserved key d = upd_position key (\<lambda>ps. ps\<lparr>ps_reserved := wrap64 (ps_reserved ps + d)\<rparr>)"

definition markDirty :: "positionKey \<Rightarrow> Manager \<Rightarrow> Manager" where
  "markDirty key m =
     upd_position key (\<lambda>ps. ps\<lparr>ps_dirty := True\<rparr>) (m\<lparr>mg_dirtySet := List.insert key (mg_dirtySet m)\<rparr>)"

definition getPosition ::
  "Manager \<Rightarrow> uuid \<Rightarrow> currency \<Rightarrow> string \<Rightarrow> PositionState result" where
  "getPosition m tenantID currency location =
     (case position m (tenantID, currency, location) of
        None \<Rightarrow> Inl (ErrInsufficientFunds currency location)
      | Some ps \<Rightarrow> Inr ps)"

section \<open>Idempotency, write-ahead log, flush of one position, audit events\<close>

definition tryAcquireIdempotency :: "lib \<Rightarrow> instant \<Rightarrow> uuid \<Rightarrow> string \<Rightarrow> Manager \<Rightarrow> Manager \<times> bool" where
  "tryAcquireIdempotency L now reference op m =
     (case tryAcquireKey now (idempotencyKey L reference op) (mg_shards m) of
        (shards, claimed) \<Rightarrow> (m\<lparr>mg_shards := shards\<rparr>, claimed))"

definition rollbackIdempotency :: "lib \<Rightarrow> uuid \<Rightarrow> string \<Rightarrow> Manager \<Rightarrow> Manager" where
  "rollbackIdempotency L reference op m =
     m\<lparr>mg_shards := rollbackKey (idempotencyKey L reference op) (mg_shards m)\<rparr>"

definition cleanupIdempotencyMap :: "instant \<Rightarrow> int \<Rightarrow> Manager \<Rightarrow> Manager" where
  "cleanupIdempotencyMap now maxAge m = m\<lparr>mg_shards := cleanupShards now maxAge (mg_shards m)\<rparr>"

definition insert_op :: "ReserveOp \<Rightarrow> treasury_db \<Rightarrow> treasury_db" where
  "insert_op op db =
     (if ro_ID op \<in> set (map ro_ID (db_ops db)) then db else db\<lparr>db_ops := db_ops db @ [op]\<rparr>)"

definition logOp ::
  "treasury_config \<Rightarrow> op_env \<Rightarrow> uuid \<Rightarrow> currency \<Rightarrow> string \<Rightarrow> decimal \<Rightarrow> uuid \<Rightarrow> ReserveOpType \<Rightarrow>
   Manager \<Rightarrow> Manager \<times> unit result" where
  "logOp cfg ev tenantID currency location amount reference opType m =
     (if mg_replaying m then (m, Inr ())
      else let op = \<lparr>ro_ID = ev_op_id ev, ro_TenantID = tenantID, ro_Currency = currency,
                     ro_Location = location, ro_Amount = amount, ro_Reference = reference,
                     ro_OpType = opType, ro_CreatedAt = ev_now ev\<rparr> in
           if tc_opStore cfg \<and> \<not> ev_wal_ok ev
           then (m, Inl (Errorf ''settla-treasury: WAL write failed'' None))
           else let m1 = (if tc_opStore cfg then m\<lparr>mg_db := insert_op op (mg_db m)\<rparr> else m) in
                if length (mg_pendingOps m1) < 10000
                then (m1\<lparr>mg_pendingOps := mg_pendingOps m1 @ [op]\<rparr>, Inr ())
                else if ev_drained ev then (m1\<lparr>mg_pendingOps := [op]\<rparr>, Inr ())
                else (m1, Inl (Errorf ''settla-treasury: pending ops channel full'' None)))"

text \<open>
  \<^verbatim>\<open>UPDATE positions SET balance, locked, updated_at WHERE id\<close>. The rows are kept in the order of
  the paginated query, by tenant, currency and location, which no update changes.
\<close>

definition update_row :: "instant \<Rightarrow> uuid \<Rightarrow> decimal \<Rightarrow> decimal \<Rightarrow> treasury_db \<Rightarrow> treasury_db" where
  "update_row now ident balance locked db =
     db\<lparr>db_positions := map (\<lambda>p. if pn_ID p = ident
           then p\<lparr>pn_Balance := balance, pn_Locked := locked, pn_UpdatedAt := now\<rparr> else p)
         (db_positions db)\<rparr>"

definition syncFlushPosition :: "lib \<Rightarrow> op_env \<Rightarrow> positionKey \<Rightarrow> Manager \<Rightarrow> Manager \<times> unit result" where
  "syncFlushPosition L ev key m =
     (case position m key of
        None \<Rightarrow> (m, Inr ())
      | Some ps \<Rightarrow>
         if \<not> ev_flush_ok ev
         then (m, Inl (Errorf ''settla-treasury: sync flush failed for position'' None))
         else (upd_position key (\<lambda>ps. ps\<lparr>ps_dirty := False\<rparr>)
                 (m\<lparr>mg_dirtySet := removeAll key (mg_dirtySet m),
                    mg_db := update_row (ev_now ev) (ps_ID ps) (fromMicro L (ps_balance ps))
                               (fromMicro L (ps_locked ps)) (mg_db m)\<rparr>), Inr ()))"

definition syncThresholdFor :: "treasury_config \<Rightarrow> currency \<Rightarrow> decimal" where
  "syncThresholdFor cfg currency =
     (case map_of (tc_syncThresholds cfg) currency of
        Some threshold \<Rightarrow> threshold | None \<Rightarrow> tc_syncThresholdDefault cfg)"

definition DefaultSyncThresholds :: "(currency \<times> decimal) list" where
  "DefaultSyncThresholds =
     [(CurrencyUSD, 100000), (CurrencyUSDT, 100000), (CurrencyUSDC, 100000), (CurrencyGBP, 80000),
      (CurrencyEUR, 92000), (CurrencyNGN, 160000000), (CurrencyGHS, 1500000), (CurrencyKES, 13000000)]"

definition is_large :: "treasury_config \<Rightarrow> currency \<Rightarrow> decimal \<Rightarrow> bool" where
  "is_large cfg currency amount =
     (let threshold = syncThresholdFor cfg currency in threshold \<noteq> 0 \<and> amount \<ge> threshold)"

definition queueEvent ::
  "lib \<Rightarrow> op_env \<Rightarrow> positionKey \<Rightarrow> PositionEventType \<Rightarrow> decimal \<Rightarrow> uuid \<Rightarrow> string \<Rightarrow> Manager \<Rightarrow> Manager" where
  "queueEvent L ev key eventType amount reference refType m =
     (case position m key of
        None \<Rightarrow> m
      | Some ps \<Rightarrow>
         if length (mg_pendingEvents m) < 100000
         then m\<lparr>mg_pendingEvents := mg_pendingEvents m @ [\<lparr>
                pe_ID = ev_event_id ev, pe_PositionID = ps_ID ps, pe_TenantID = ps_TenantID ps,
                pe_EventType = eventType, pe_Amount = amount,
                pe_BalanceAfter = fromMicro L (ps_balance ps),
                pe_LockedAfter = fromMicro L (wrap64 (ps_locked ps + ps_reserved ps)),
                pe_ReferenceID = reference, pe_ReferenceType = refType,
                pe_IdempotencyKey = idempotencyKey L reference (event_type_string eventType),
                pe_RecordedAt = ev_now ev\<rparr>]\<rparr>
         else m)"

definition publishLiquidityAlert :: "treasury_config \<Rightarrow> PositionState \<Rightarrow> Manager \<Rightarrow> Manager" where
  "publishLiquidityAlert cfg ps m =
     (if tc_publisher cfg then m\<lparr>mg_alerts := mg_alerts m @ [ps_ID ps]\<rparr> else m)"

definition maxFlushFailuresBeforeReject :: int where
  "maxFlushFailuresBeforeReject = 3"

section \<open>Operations\<close>

definition Reserve ::
  "lib \<Rightarrow> treasury_config \<Rightarrow> op_env \<Rightarrow> uuid \<Rightarrow> currency \<Rightarrow> string \<Rightarrow> decimal \<Rightarrow> uuid \<Rightarrow>
   Manager \<Rightarrow> Manager \<times> unit result" where
  "Reserve L cfg ev tenantID currency location amount reference m =
     (if \<not> 0 < amount then (m, Inl (ErrReservationFailed ''amount must be positive''))
      else case validateMicroRange amount of Inl err \<Rightarrow> (m, Inl err) | Inr _ \<Rightarrow>
      if mg_flushFailures m \<ge> maxFlushFailuresBeforeReject
      then (m, Inl (Errorf ''settla-treasury: rejecting reserve: DB flush failing'' None))
      else case tryAcquireIdempotency L (ev_now ev) reference ''reserve'' m of
        (m1, True) \<Rightarrow> (m1, Inr ())
      | (m1, False) \<Rightarrow>
      case getPosition m1 tenantID currency location of
        Inl err \<Rightarrow> (rollbackIdempotency L reference ''reserve'' m1, Inl err)
      | Inr ps \<Rightarrow>
      case toMicro L amount of Inl panic \<Rightarrow> (m1, Inl panic) | Inr amountMicro \<Rightarrow>
      let key = (tenantID, currency, location) in
      if available_micro ps < amountMicro
      then (rollbackIdempotency L reference ''reserve'' m1, Inl (ErrInsufficientFunds currency location))
      else let m2 = markDirty key (add_reserved key amountMicro m1) in
      case logOp cfg ev tenantID currency location amount reference OpReserve m2 of
        (m3, Inl err) \<Rightarrow>
          (rollbackIdempotency L reference ''reserve'' (add_reserved key (- amountMicro) m3), Inl err)
      | (m3, Inr _) \<Rightarrow>
      case (if is_large cfg currency amount then syncFlushPosition L ev key m3 else (m3, Inr ())) of
        (m4, Inl err) \<Rightarrow>
          (rollbackIdempotency L reference ''reserve'' (add_reserved key (- amountMicro) m4),
           Inl (Errorf ''settla-treasury: rejecting large reserve: sync flush failed'' (Some err)))
      | (m4, Inr _) \<Rightarrow>
      (case position m4 key of
         None \<Rightarrow> (m4, Inr ())
       | Some ps' \<Rightarrow>
           if PositionState_Available L ps' < ps_MinBalance ps' \<and> ps_MinBalance ps' \<noteq> 0
           then (publishLiquidityAlert cfg ps' m4, Inr ()) else (m4, Inr ())))"

definition Release ::
  "lib \<Rightarrow> treasury_config \<Rightarrow> op_env \<Rightarrow> uuid \<Rightarrow> currency \<Rightarrow> string \<Rightarrow> decimal \<Rightarrow> uuid \<Rightarrow>
   Manager \<Rightarrow> Manager \<times> unit result" where
  "Release L cfg ev tenantID currency location amount reference m =
     (if \<not> 0 < amount then (m, Inl (ErrReservationFailed ''amount must be positive''))
      else case validateMicroRange amount of Inl err \<Rightarrow> (m, Inl err) | Inr _ \<Rightarrow>
      case tryAcquireIdempotency L (ev_now ev) reference ''release'' m of
        (m1, True) \<Rightarrow> (m1, Inr ())
      | (m1, False) \<Rightarrow>
      case getPosition m1 tenantID currency location of
        Inl err \<Rightarrow> (rollbackIdempotency L reference ''release'' m1, Inl err)
      | Inr ps \<Rightarrow>
      case toMicro L amount of Inl panic \<Rightarrow> (m1, Inl panic) | Inr amountMicro \<Rightarrow>
      let key = (tenantID, currency, location) in
      if ps_reserved ps < amountMicro
      then (rollbackIdempotency L reference ''release'' m1,
            Inl (ErrReservationFailed ''release amount exceeds reserved''))
      else let m2 = markDirty key (add_reserved key (- amountMicro) m1) in
      case logOp cfg ev tenantID currency location amount reference OpRelease m2 of
        (m3, Inl err) \<Rightarrow>
          (rollbackIdempotency L reference ''release'' (add_reserved key amountMicro m3), Inl err)
      | (m3, Inr _) \<Rightarrow> (m3, Inr ()))"

definition CommitReservation ::
  "lib \<Rightarrow> treasury_config \<Rightarrow> op_env \<Rightarrow> uuid \<Rightarrow> currency \<Rightarrow> string \<Rightarrow> decimal \<Rightarrow> uuid \<Rightarrow>
   Manager \<Rightarrow> Manager \<times> unit result" where
  "CommitReservation L cfg ev tenantID currency location amount reference m =
     (if \<not> 0 < amount then (m, Inl (ErrReservationFailed ''amount must be positive''))
      else case tryAcquireIdempotency L (ev_now ev) reference ''commit'' m of
        (m1, True) \<Rightarrow> (m1, Inr ())
      | (m1, False) \<Rightarrow>
      case getPosition m1 tenantID currency location of
        Inl err \<Rightarrow> (rollbackIdempotency L reference ''commit'' m1, Inl err)
      | Inr ps \<Rightarrow>
      case toMicro L amount of Inl panic \<Rightarrow> (m1, Inl panic) | Inr amountMicro \<Rightarrow>
      let key = (tenantID, currency, location) in
      if ps_reserved ps < amountMicro
      then (rollbackIdempotency L reference ''commit'' m1,
            Inl (Errorf ''settla-treasury: insufficient reserved amount'' None))
      else let m2 = markDirty key (add_locked key amountMicro (add_reserved key (- amountMicro) m1)) in
      case logOp cfg ev tenantID currency location amount reference OpCommit m2 of
        (m3, Inl err) \<Rightarrow>
          (rollbackIdempotency L reference ''commit''
             (add_locked key (- amountMicro) (add_reserved key amountMicro m3)), Inl err)
      | (m3, Inr _) \<Rightarrow> (m3, Inr ()))"

definition CreditBalance ::
  "lib \<Rightarrow> treasury_config \<Rightarrow> op_env \<Rightarrow> uuid \<Rightarrow> currency \<Rightarrow> string \<Rightarrow> decimal \<Rightarrow> uuid \<Rightarrow> string \<Rightarrow>
   Manager \<Rightarrow> Manager \<times> unit result" where
  "CreditBalance L cfg ev tenantID currency location amount reference refType m =
     (if \<not> 0 < amount then (m, Inl (Errorf ''settla-treasury: credit amount must be positive'' None))
      else case validateMicroRange amount of Inl err \<Rightarrow> (m, Inl err) | Inr _ \<Rightarrow>
      if mg_flushFailures m \<ge> maxFlushFailuresBeforeReject
      then (m, Inl (Errorf ''settla-treasury: rejecting credit: DB flush failing'' None))
      else case tryAcquireIdempotency L (ev_now ev) reference ''credit'' m of
        (m1, True) \<Rightarrow> (m1, Inr ())
      | (m1, False) \<Rightarrow>
      case getPosition m1 tenantID currency location of
        Inl err \<Rightarrow> (rollbackIdempotency L reference ''credit'' m1, Inl err)
      | Inr ps \<Rightarrow>
      case toMicro L amount of Inl panic \<Rightarrow> (m1, Inl panic) | Inr amountMicro \<Rightarrow>
      let key = (tenantID, currency, location);
          m2 = queueEvent L ev key PosEventCredit amount reference refType
                 (markDirty key (add_balance key amountMicro m1)) in
      case logOp cfg ev tenantID currency location amount reference OpCredit m2 of
        (m3, Inl err) \<Rightarrow>
          (rollbackIdempotency L reference ''credit'' (add_balance key (- amountMicro) m3), Inl err)
      | (m3, Inr _) \<Rightarrow>
      case (if is_large cfg currency amount then syncFlushPosition L ev key m3 else (m3, Inr ())) of
        (m4, Inl err) \<Rightarrow>
          (rollbackIdempotency L reference ''credit'' (add_balance key (- amountMicro) m4),
           Inl (Errorf ''settla-treasury: rejecting large credit: sync flush failed'' (Some err)))
      | (m4, Inr _) \<Rightarrow> (m4, Inr ()))"

definition DebitBalance ::
  "lib \<Rightarrow> treasury_config \<Rightarrow> op_env \<Rightarrow> uuid \<Rightarrow> currency \<Rightarrow> string \<Rightarrow> decimal \<Rightarrow> uuid \<Rightarrow> string \<Rightarrow>
   Manager \<Rightarrow> Manager \<times> unit result" where
  "DebitBalance L cfg ev tenantID currency location amount reference refType m =
     (if \<not> 0 < amount then (m, Inl (Errorf ''settla-treasury: debit amount must be positive'' None))
      else case validateMicroRange amount of Inl err \<Rightarrow> (m, Inl err) | Inr _ \<Rightarrow>
      if mg_flushFailures m \<ge> maxFlushFailuresBeforeReject
      then (m, Inl (Errorf ''settla-treasury: rejecting debit: DB flush failing'' None))
      else case tryAcquireIdempotency L (ev_now ev) reference ''debit'' m of
        (m1, True) \<Rightarrow> (m1, Inr ())
      | (m1, False) \<Rightarrow>
      case getPosition m1 tenantID currency location of
        Inl err \<Rightarrow> (rollbackIdempotency L reference ''debit'' m1, Inl err)
      | Inr ps \<Rightarrow>
      case toMicro L amount of Inl panic \<Rightarrow> (m1, Inl panic) | Inr amountMicro \<Rightarrow>
      let key = (tenantID, currency, location) in
      if available_micro ps < amountMicro
      then (rollbackIdempotency L reference ''debit'' m1, Inl (ErrInsufficientFunds currency location))
      else let m2 = queueEvent L ev key PosEventDebit amount reference refType
                      (markDirty key (add_balance key (- amountMicro) m1)) in
      case logOp cfg ev tenantID currency location amount reference OpDebit m2 of
        (m3, Inl err) \<Rightarrow>
          (rollbackIdempotency L reference ''debit'' (add_balance key amountMicro m3), Inl err)
      | (m3, Inr _) \<Rightarrow>
      (if is_large cfg currency amount then (fst (syncFlushPosition L ev key m3), Inr ())
       else (m3, Inr ())))"

definition ConsumeReservation ::
  "lib \<Rightarrow> treasury_config \<Rightarrow> op_env \<Rightarrow> uuid \<Rightarrow> currency \<Rightarrow> string \<Rightarrow> decimal \<Rightarrow> uuid \<Rightarrow>
   Manager \<Rightarrow> Manager \<times> unit result" where
  "ConsumeReservation L cfg ev tenantID currency location amount reference m =
     (if \<not> 0 < amount then (m, Inl (ErrReservationFailed ''consume amount must be positive''))
      else case validateMicroRange amount of Inl err \<Rightarrow> (m, Inl err) | Inr _ \<Rightarrow>
      case tryAcquireIdempotency L (ev_now ev) reference ''consume'' m of
        (m1, True) \<Rightarrow> (m1, Inr ())
      | (m1, False) \<Rightarrow>
      case getPosition m1 tenantID currency location of
        Inl err \<Rightarrow> (rollbackIdempotency L reference ''consume'' m1, Inl err)
      | Inr ps \<Rightarrow>
      case toMicro L amount of Inl panic \<Rightarrow> (m1, Inl panic) | Inr amountMicro \<Rightarrow>
      let key = (tenantID, currency, location) in
      if ps_reserved ps < amountMicro
      then (rollbackIdempotency L reference ''consume'' m1,
            Inl (Errorf ''settla-treasury: insufficient reserved amount for consume'' None))
      else if ps_balance ps < amountMicro
      then (rollbackIdempotency L reference ''consume'' m1,
            Inl (Errorf ''settla-treasury: insufficient balance for consume'' None))
      else let m2 = queueEvent L ev key PosEventConsume amount reference ''transfer''
                      (markDirty key (add_balance key (- amountMicro) (add_reserved key (- amountMicro) m1))) in
      case logOp cfg ev tenantID currency location amount reference OpConsume m2 of
        (m3, Inl err) \<Rightarrow>
          (rollbackIdempotency L reference ''consume''
             (add_balance key amountMicro (add_reserved key amountMicro m3)), Inl err)
      | (m3, Inr _) \<Rightarrow>
      (if is_large cfg currency amount then (fst (syncFlushPosition L ev key m3), Inr ())
       else (m3, Inr ())))"

definition UpdateBalance ::
  "lib \<Rightarrow> uuid \<Rightarrow> currency \<Rightarrow> string \<Rightarrow> decimal \<Rightarrow> Manager \<Rightarrow> Manager \<times> unit result" where
  "UpdateBalance L tenantID currency location newBalance m =
     (case validateMicroRange newBalance of Inl err \<Rightarrow> (m, Inl err) | Inr _ \<Rightarrow>
      case getPosition m tenantID currency location of Inl err \<Rightarrow> (m, Inl err) | Inr ps \<Rightarrow>
      case toMicro L newBalance of Inl panic \<Rightarrow> (m, Inl panic) | Inr newBalanceMicro \<Rightarrow>
      if newBalanceMicro < wrap64 (ps_locked ps + ps_reserved ps)
      then (m, Inl (Errorf ''settla-treasury: cannot set balance below committed amount'' None))
      else let key = (tenantID, currency, location) in
           (markDirty key (upd_position key (\<lambda>ps. ps\<lparr>ps_balance := newBalanceMicro\<rparr>) m), Inr ()))"

section \<open>Reads\<close>

definition GetPositions :: "lib \<Rightarrow> instant \<Rightarrow> uuid \<Rightarrow> Manager \<Rightarrow> Position list" where
  "GetPositions L now tenantID m =
     (case map_of (mg_tenantIndex m) tenantID of
        None \<Rightarrow> []
      | Some keys \<Rightarrow> map (\<lambda>key. snapshot L now (the (position m key))) keys)"

definition GetPosition ::
  "lib \<Rightarrow> instant \<Rightarrow> uuid \<Rightarrow> currency \<Rightarrow> string \<Rightarrow> Manager \<Rightarrow> Position result" where
  "GetPosition L now tenantID currency location m =
     (case getPosition m tenantID currency location of
        Inl err \<Rightarrow> Inl err | Inr ps \<Rightarrow> Inr (snapshot L now ps))"

record LiquidityReport =
  lr_TenantID :: uuid
  lr_Positions :: "Position list"
  lr_TotalAvailable :: "(currency \<times> decimal) list"
  lr_AlertPositions :: "Position list"
  lr_GeneratedAt :: instant

definition add_available :: "Position \<Rightarrow> (currency \<times> decimal) list \<Rightarrow> (currency \<times> decimal) list" where
  "add_available p totals =
     AList.update (pn_Currency p)
       ((case map_of totals (pn_Currency p) of None \<Rightarrow> 0 | Some d \<Rightarrow> d) + Position_Available p) totals"

definition GetLiquidityReport :: "lib \<Rightarrow> instant \<Rightarrow> uuid \<Rightarrow> Manager \<Rightarrow> LiquidityReport" where
  "GetLiquidityReport L now tenantID m =
     (let positions = GetPositions L now tenantID m in
      \<lparr>lr_TenantID = tenantID, lr_Positions = positions,
       lr_TotalAvailable = fold add_available positions [],
       lr_AlertPositions = filter (\<lambda>p. pn_MinBalance p \<noteq> 0 \<and> pn_Balance p < pn_MinBalance p) positions,
       lr_GeneratedAt = now\<rparr>)"

section \<open>Loading of one position\<close>

definition addPosition :: "lib \<Rightarrow> Position \<Rightarrow> Manager \<Rightarrow> Manager result" where
  "addPosition L pos m =
     (case toMicro L (pn_Balance pos) of Inl panic \<Rightarrow> Inl panic | Inr bal \<Rightarrow>
      case toMicro L (pn_Locked pos) of Inl panic \<Rightarrow> Inl panic | Inr lock \<Rightarrow>
      let key = (pn_TenantID pos, pn_Currency pos, pn_Location pos);
          ps = \<lparr>ps_ID = pn_ID pos, ps_TenantID = pn_TenantID pos, ps_Currency = pn_Currency pos,
                ps_Location = pn_Location pos, ps_MinBalance = pn_MinBalance pos,
                ps_TargetBalance = pn_TargetBalance pos, ps_balance = bal, ps_locked = lock,
                ps_reserved = 0, ps_dirty = False\<rparr>;
          keys = (case map_of (mg_tenantIndex m) (pn_TenantID pos) of None \<Rightarrow> [] | Some ks \<Rightarrow> ks) in
      Inr (m\<lparr>mg_positions := AList.update key ps (mg_positions m),
             mg_tenantIndex := AList.update (pn_TenantID pos) (keys @ [key]) (mg_tenantIndex m)\<rparr>))"

declare Reserve_def [treasury_defs] Release_def [treasury_defs] CommitReservation_def [treasury_defs]
  ConsumeReservation_def [treasury_defs] CreditBalance_def [treasury_defs] DebitBalance_def [treasury_defs]

end
