(* ===== verification/Event_System.thy ===== *)
theory Event_System
  imports Settla_Prelude
begin

text \<open>
  Two contracts used by several components: an event system with an invariant that every event
  keeps, and one whose invariant has a budget that every event may use up by its weight. Their
  client lemmas lift the one-step laws to arbitrary sequences of events.
\<close>

locale invariant_system =
  fixes step :: "'e \<Rightarrow> 's \<Rightarrow> 's" and inv :: "'s \<Rightarrow> bool"
  assumes step_inv: "inv s \<Longrightarrow> inv (step e s)"
begin

lemma run_inv: "inv s \<Longrightarrow> inv (fold step es s)"
  by (induction es arbitrary: s) (auto intro: step_inv)

end

locale budgeted_system =
  fixes step :: "'e \<Rightarrow> 's \<Rightarrow> 's" and inv :: "int \<Rightarrow> 's \<Rightarrow> bool"
    and weight :: "'e \<Rightarrow> int" and limit :: int
  assumes weight_nonneg: "0 \<le> weight e"
    and step_inv: "inv b s \<Longrightarrow> b + weight e \<le> limit \<Longrightarrow> inv (b + weight e) (step e s)"
begin

lemma weights_nonneg: "0 \<le> (\<Sum>e\<leftarrow>es. weight e)"
  by (induction es) (auto intro: add_nonneg_nonneg weight_nonneg)

lemma run_inv:
  "inv b s \<Longrightarrow> b + (\<Sum>e\<leftarrow>es. weight e) \<le> limit \<Longrightarrow>
     inv (b + (\<Sum>e\<leftarrow>es. weight e)) (fold step es s)"
proof (induction es arbitrary: s b)
  case (Cons e es)
  have "b + weight e \<le> limit" using Cons.prems(2) weights_nonneg [of es] by simp
  then have "inv (b + weight e) (step e s)" using Cons.prems(1) by (rule step_inv [rotated])
  from Cons.IH [OF this] Cons.prems(2) show ?case by (simp add: add.assoc)
qed simp

end

end
