(* ===== verification/Treasury_Invariant.thy ===== *)
theory Treasury_Invariant
  imports Treasury Event_System
begin

text \<open>
  What the treasury operations do to the counters. The abstract view of a manager is the map
  from position keys to (balance, locked, reserved); \<open>call_effect\<close> is the specification of each
  operation on one such triple, and \<open>treasury_exec_refines\<close> shows that every call of the manager,
  under every failure of its database, either leaves the view alone or applies that effect. The
  safety properties of the treasury follow from the specification.
\<close>

section \<open>Calls\<close>

datatype treasury_call =
    CallReserve uuid currency string decimal uuid
  | CallRelease uuid currency string decimal uuid
  | CallCommit uuid currency string decimal uuid
  | CallConsume uuid currency string decimal uuid
  | CallCredit uuid currency string decimal uuid string
  | CallDebit uuid currency string decimal uuid string
  | CallUpdate uuid currency string decimal

fun treasury_exec ::
  "lib \<Rightarrow> treasury_config \<Rightarrow> op_env \<times> treasury_call \<Rightarrow> Manager \<Rightarrow> Manager \<times> unit result" where
  "treasury_exec L cfg (ev, CallReserve t c l a r) m = Reserve L cfg ev t c l a r m"
| "treasury_exec L cfg (ev, CallRelease t c l a r) m = Release L cfg ev t c l a r m"
| "treasury_exec L cfg (ev, CallCommit t c l a r) m = CommitReservation L cfg ev t c l a r m"
| "treasury_exec L cfg (ev, CallConsume t c l a r) m = ConsumeReservation L cfg ev t c l a r m"
| "treasury_exec L cfg (ev, CallCredit t c l a r ty) m = CreditBalance L cfg ev t c l a r ty m"
| "treasury_exec L cfg (ev, CallDebit t c l a r ty) m = DebitBalance L cfg ev t c l a r ty m"
| "treasury_exec L cfg (ev, CallUpdate t c l a) m = UpdateBalance L t c l a m"

fun call_key :: "treasury_call \<Rightarrow> positionKey" where
  "call_key (CallReserve t c l a r) = (t, c, l)"
| "call_key (CallRelease t c l a r) = (t, c, l)"
| "call_key (CallCommit t c l a r) = (t, c, l)"
| "call_key (CallConsume t c l a r) = (t, c, l)"
| "call_key (CallCredit t c l a r ty) = (t, c, l)"
| "call_key (CallDebit t c l a r ty) = (t, c, l)"
| "call_key (CallUpdate t c l a) = (t, c, l)"

fun call_amount :: "treasury_call \<Rightarrow> decimal" where
  "call_amount (CallReserve t c l a r) = a"
| "call_amount (CallRelease t c l a r) = a"
| "call_amount (CallCommit t c l a r) = a"
| "call_amount (CallConsume t c l a r) = a"
| "call_amount (CallCredit t c l a r ty) = a"
| "call_amount (CallDebit t c l a r ty) = a"
| "call_amount (CallUpdate t c l a) = a"

section \<open>Specification\<close>

type_synonym triple = "int \<times> int \<times> int"

definition counters :: "Manager \<Rightarrow> positionKey \<Rightarrow> triple option" where
  "counters m key = map_option (\<lambda>ps. (ps_balance ps, ps_locked ps, ps_reserved ps)) (position m key)"

fun triple_available :: "triple \<Rightarrow> int" where
  "triple_available (b, l, r) = wrap64 (wrap64 (b - l) - r)"

fun call_effect :: "treasury_call \<Rightarrow> int \<Rightarrow> triple \<Rightarrow> triple option" where
  "call_effect (CallReserve _ _ _ _ _) amt (b, l, r) =
     (if triple_available (b, l, r) < amt then None else Some (b, l, wrap64 (r + amt)))"
| "call_effect (CallRelease _ _ _ _ _) amt (b, l, r) =
     (if r < amt then None else Some (b, l, wrap64 (r - amt)))"
| "call_effect (CallCommit _ _ _ _ _) amt (b, l, r) =
     (if r < amt then None else Some (b, wrap64 (l + amt), wrap64 (r - amt)))"
| "call_effect (CallConsume _ _ _ _ _) amt (b, l, r) =
     (if r < amt \<or> b < amt then None else Some (wrap64 (b - amt), l, wrap64 (r - amt)))"
| "call_effect (CallCredit _ _ _ _ _ _) amt (b, l, r) = Some (wrap64 (b + amt), l, r)"
| "call_effect (CallDebit _ _ _ _ _ _) amt (b, l, r) =
     (if triple_available (b, l, r) < amt then None else Some (wrap64 (b - amt), l, r))"
| "call_effect (CallUpdate _ _ _ _) amt (b, l, r) =
     (if amt < wrap64 (l + r) then None else Some (amt, l, r))"

text \<open>Only an absolute update accepts an amount that is not positive.\<close>

fun call_guard :: "treasury_call \<Rightarrow> bool" where
  "call_guard (CallUpdate _ _ _ _) \<longleftrightarrow> True"
| "call_guard c \<longleftrightarrow> 0 < call_amount c"

definition counters_int64 :: "Manager \<Rightarrow> bool" where
  "counters_int64 m \<longleftrightarrow> (\<forall>key b l r. counters m key = Some (b, l, r) \<longrightarrow>
     in_int64 b \<and> in_int64 l \<and> in_int64 r)"

section \<open>The primitive steps on the view\<close>

lemma map_of_map_entry:
  "map_of (AList.map_entry k f al) k' =
     (if k' = k then map_option f (map_of al k) else map_of al k')"
  by (induction al) auto

lemma position_upd [simp]:
  "position (upd_position key f m) k = (if k = key then map_option f (position m key) else position m k)"
  by (simp add: upd_position_def map_of_map_entry)

lemma upd_position_other [simp]:
  "mg_shards (upd_position key f m) = mg_shards m" "mg_db (upd_position key f m) = mg_db m"
  "mg_replaying (upd_position key f m) = mg_replaying m"
  "mg_pendingOps (upd_position key f m) = mg_pendingOps m"
  by (simp_all add: upd_position_def)

lemma counters_add_balance:
  "counters (add_balance key d m) =
     (counters m)(key := map_option (\<lambda>(b, l, r). (wrap64 (b + d), l, r)) (counters m key))"
  by (rule ext) (simp add: counters_def add_balance_def option.map_comp comp_def)

lemma counters_add_locked:
  "counters (add_locked key d m) =
     (counters m)(key := map_option (\<lambda>(b, l, r). (b, wrap64 (l + d), r)) (counters m key))"
  by (rule ext) (simp add: counters_def add_locked_def option.map_comp comp_def)

lemma counters_add_reserved:
  "counters (add_reserved key d m) =
     (counters m)(key := map_option (\<lambda>(b, l, r). (b, l, wrap64 (r + d))) (counters m key))"
  by (rule ext) (simp add: counters_def add_reserved_def option.map_comp comp_def)

lemma counters_markDirty: "counters (markDirty key m) = counters m"
  by (rule ext) (simp add: counters_def markDirty_def option.map_comp comp_def)

lemma counters_rollback: "counters (rollbackIdempotency L r op m) = counters m"
  by (rule ext) (simp add: counters_def rollbackIdempotency_def)

lemma counters_queueEvent: "counters (queueEvent L ev key ty a r rt m) = counters m"
  by (rule ext) (simp add: counters_def queueEvent_def split: option.splits)

lemma counters_alert: "counters (publishLiquidityAlert cfg ps m) = counters m"
  by (rule ext) (simp add: counters_def publishLiquidityAlert_def)

lemma counters_acquire:
  "tryAcquireIdempotency L n r op m = (m', c) \<Longrightarrow>
     counters m' = counters m \<and> mg_positions m' = mg_positions m"
  by (auto simp: counters_def tryAcquireIdempotency_def fun_eq_iff split: prod.splits)

lemma counters_logOp: "logOp cfg ev t c l a r ty m = (m', res) \<Longrightarrow> counters m' = counters m"
  by (rule ext) (auto simp: counters_def logOp_def Let_def split: if_splits)

lemma counters_syncFlush: "syncFlushPosition L ev key m = (m', res) \<Longrightarrow> counters m' = counters m"
  by (rule ext)
    (auto simp: counters_def syncFlushPosition_def option.map_comp comp_def split: option.splits if_splits)

lemma counters_fst_syncFlush: "counters (fst (syncFlushPosition L ev key m)) = counters m"
  by (rule counters_syncFlush [of L ev key m _ "snd (syncFlushPosition L ev key m)"]) simp

lemmas counters_steps = counters_fst_syncFlush
  counters_add_balance counters_add_locked counters_add_reserved counters_markDirty
  counters_rollback counters_queueEvent counters_alert

lemma wrap64_cancel:
  "in_int64 x \<Longrightarrow> wrap64 (wrap64 (x + a) - a) = x" "in_int64 x \<Longrightarrow> wrap64 (wrap64 (x - a) + a) = x"
  by (simp_all add: wrap64_def in_int64_def min_int64_def max_int64_def mod_simps)

lemma getPosition_counters:
  "getPosition m t c l = Inr ps \<longleftrightarrow> position m (t, c, l) = Some ps"
  by (simp add: getPosition_def split: option.splits)

lemma counters_Some: "position m key = Some ps \<Longrightarrow> counters m key = Some (ps_balance ps, ps_locked ps, ps_reserved ps)"
  by (simp add: counters_def)

section \<open>Refinement\<close>

text \<open>
  \<open>refines c m m' res\<close>: the view is unchanged, or the call succeeded with the specified effect on
  its own position.
\<close>

definition refines :: "lib \<Rightarrow> treasury_call \<Rightarrow> Manager \<Rightarrow> Manager \<Rightarrow> unit result \<Rightarrow> bool" where
  "refines L c m m' res \<longleftrightarrow>
     counters m' = counters m \<or>
     res = Inr () \<and> call_guard c \<and>
     (case (toMicro L (call_amount c), counters m (call_key c)) of
        (Inr amt, Some t) \<Rightarrow>
          (case call_effect c amt t of
             Some t' \<Rightarrow> counters m' = (counters m)(call_key c \<mapsto> t')
           | None \<Rightarrow> False)
      | _ \<Rightarrow> False)"

lemma counters_in_int64:
  assumes "counters_int64 m" and "counters m key = Some (b, l, r)"
  shows "in_int64 b" "in_int64 l" "in_int64 r"
  using assms unfolding counters_int64_def by blast+

lemmas op_simps =
  Let_def refines_def getPosition_counters counters_steps available_micro_def wrap64_cancel
  fun_upd_idem_iff

lemma Reserve_refines [refines_intros]:
  assumes "counters_int64 m" and "Reserve L cfg ev t c l a r m = (m', res)"
  shows "refines L (CallReserve t c l a r) m m' res"
  using assms(2) counters_in_int64 [OF assms(1), of "(t, c, l)"]
  by (auto simp: Reserve_def op_simps
      split: if_splits sum.splits prod.splits bool.splits option.splits
      dest!: counters_acquire counters_logOp counters_syncFlush counters_Some)

lemma Release_refines [refines_intros]:
  assumes "counters_int64 m" and "Release L cfg ev t c l a r m = (m', res)"
  shows "refines L (CallRelease t c l a r) m m' res"
  using assms(2) counters_in_int64 [OF assms(1), of "(t, c, l)"]
  by (auto simp: Release_def op_simps
      split: if_splits sum.splits prod.splits bool.splits option.splits
      dest!: counters_acquire counters_logOp counters_syncFlush counters_Some)

lemma CommitReservation_refines [refines_intros]:
  assumes "counters_int64 m" and "CommitReservation L cfg ev t c l a r m = (m', res)"
  shows "refines L (CallCommit t c l a r) m m' res"
  using assms(2) counters_in_int64 [OF assms(1), of "(t, c, l)"]
  by (auto simp: CommitReservation_def op_simps
      split: if_splits sum.splits prod.splits bool.splits option.splits
      dest!: counters_acquire counters_logOp counters_syncFlush counters_Some)

lemma ConsumeReservation_refines [refines_intros]:
  assumes "counters_int64 m" and "ConsumeReservation L cfg ev t c l a r m = (m', res)"
  shows "refines L (CallConsume t c l a r) m m' res"
  using assms(2) counters_in_int64 [OF assms(1), of "(t, c, l)"]
  by (auto simp: ConsumeReservation_def op_simps
      split: if_splits sum.splits prod.splits bool.splits option.splits
      dest!: counters_acquire counters_logOp counters_syncFlush counters_Some)

lemma CreditBalance_refines [refines_intros]:
  assumes "counters_int64 m" and "CreditBalance L cfg ev t c l a r ty m = (m', res)"
  shows "refines L (CallCredit t c l a r ty) m m' res"
  using assms(2) counters_in_int64 [OF assms(1), of "(t, c, l)"]
  by (auto simp: CreditBalance_def op_simps
      split: if_splits sum.splits prod.splits bool.splits option.splits
      dest!: counters_acquire counters_logOp counters_syncFlush counters_Some)

lemma DebitBalance_refines [refines_intros]:
  assumes "counters_int64 m" and "DebitBalance L cfg ev t c l a r ty m = (m', res)"
  shows "refines L (CallDebit t c l a r ty) m m' res"
  using assms(2) counters_in_int64 [OF assms(1), of "(t, c, l)"]
  by (auto simp: DebitBalance_def op_simps
      split: if_splits sum.splits prod.splits bool.splits option.splits
      dest!: counters_acquire counters_logOp counters_syncFlush counters_Some)

lemma UpdateBalance_refines [refines_intros]:
  assumes "UpdateBalance L t c l a m = (m', res)"
  shows "refines L (CallUpdate t c l a) m m' res"
proof -
  have "counters (upd_position (t, c, l) (\<lambda>ps. ps\<lparr>ps_balance := b\<rparr>) m) =
      (counters m)((t, c, l) := map_option (\<lambda>(_, l, r). (b, l, r)) (counters m (t, c, l)))" for b
    by (rule ext) (simp add: counters_def option.map_comp comp_def)
  then show ?thesis
    using assms
    by (auto simp: UpdateBalance_def op_simps split: if_splits sum.splits dest!: counters_Some)
qed

lemma treasury_exec_refines:
  assumes "counters_int64 m" and "treasury_exec L cfg (ev, c) m = (m', res)"
  shows "refines L c m m' res"
  using assms
  by (cases c) (simp_all add: refines_intros)

end
