(* ===== verification/Treasury_Safety.thy ===== *)
theory Treasury_Safety
  imports Treasury_Invariant
begin

text \<open>
  Safety of the treasury over arbitrary sequences of calls: solvency of every position, failed
  calls without effect, isolation of positions and tenants, exact effects and round trips of
  reservations, and the fixed-point conversions.
\<close>

section \<open>Solvency\<close>

text \<open>No position has promised more than it holds, and no counter is negative.\<close>

fun triple_ok :: "int \<Rightarrow> triple \<Rightarrow> bool" where
  "triple_ok bound (b, l, r) \<longleftrightarrow> 0 \<le> l \<and> 0 \<le> r \<and> l + r \<le> b \<and> b \<le> bound"

definition solvent :: "int \<Rightarrow> Manager \<Rightarrow> bool" where
  "solvent bound m \<longleftrightarrow> 0 \<le> bound \<and> bound \<le> max_int64 \<and> (\<forall>key t. counters m key = Some t \<longrightarrow> triple_ok bound t)"

lemma triple_ok_mono: "triple_ok b t \<Longrightarrow> b \<le> b' \<Longrightarrow> triple_ok b' t"
  by (cases t) simp

lemma triple_ok_available:
  "triple_ok bound (b, l, r) \<Longrightarrow> bound \<le> max_int64 \<Longrightarrow> triple_available (b, l, r) = b - l - r"
  by (simp add: in_int64_def min_int64_def max_int64_def)

lemma solvent_position:
  "solvent bound m \<Longrightarrow> position m key = Some ps \<Longrightarrow> triple_ok bound (ps_balance ps, ps_locked ps, ps_reserved ps)"
  unfolding solvent_def using counters_Some by blast

lemma solvent_int64: "solvent bound m \<Longrightarrow> counters_int64 m"
  by (fastforce simp: solvent_def counters_int64_def in_int64_def min_int64_def max_int64_def)

lemma toMicro_range:
  assumes "int_part_law L" and "toMicro L a = Inr amt"
  shows "amt = trunc_rat (a * of_int microScale)" and "\<bar>amt\<bar> \<le> maxMicroValue"
    and "0 \<le> a \<Longrightarrow> 0 \<le> amt"
proof -
  let ?x = "a * of_int microScale"
  have amt: "amt = dec_int_part L ?x" and le: "?x \<le> of_int maxMicroValue" and ge: "- of_int maxMicroValue \<le> ?x"
    using assms(2) by (auto simp: toMicro_def Let_def out_of_range_def split: if_splits)
  have "\<lfloor>?x\<rfloor> \<le> maxMicroValue" "- maxMicroValue \<le> \<lceil>?x\<rceil>" "\<lceil>?x\<rceil> \<le> maxMicroValue" "- maxMicroValue \<le> \<lfloor>?x\<rfloor>"
    using le ge by (auto simp: floor_le_iff ceiling_le_iff le_floor_iff le_ceiling_iff)
  then have b: "\<bar>trunc_rat ?x\<bar> \<le> maxMicroValue" by (auto simp: trunc_rat_def)
  then have "in_int64 (trunc_rat ?x)"
    by (auto simp: in_int64_def min_int64_def max_int64_def maxMicroValue_def)
  then show *: "amt = trunc_rat ?x" using assms(1) by (simp add: amt int_part_law_def)
  show "\<bar>amt\<bar> \<le> maxMicroValue" using b by (simp add: *)
  show "0 \<le> amt" if "0 \<le> a"
    using that by (simp add: * trunc_rat_nonneg microScale_def)
qed

lemma micro_back:
  assumes "div_law L" and "int_part_law L" and "\<bar>v\<bar> \<le> maxMicroValue"
  shows "toMicro L (fromMicro L v) = Inr v"
proof -
  have "dec_div L (of_int v) (of_int microScale) = of_int v / of_int microScale"
    by (rule dec_div_exact [OF assms(1)])
      (auto simp: multiple_of_def microScale_def intro!: exI [of _ "v * 10 ^ 10"])
  moreover have "in_int64 v"
    using assms(3) by (auto simp: in_int64_def min_int64_def max_int64_def maxMicroValue_def)
  ultimately show ?thesis
    using assms(2,3)
    by (auto simp: toMicro_def fromMicro_def Let_def out_of_range_def int_part_law_def microScale_def
        maxMicroValue_def)
qed

text \<open>Only credits and absolute updates can raise a balance: their weight is the amount.\<close>

fun call_weight :: "lib \<Rightarrow> op_env \<times> treasury_call \<Rightarrow> int" where
  "call_weight L (ev, CallCredit t c l a r ty) = (case toMicro L a of Inr amt \<Rightarrow> max 0 amt | Inl _ \<Rightarrow> 0)"
| "call_weight L (ev, CallUpdate t c l a) = (case toMicro L a of Inr amt \<Rightarrow> max 0 amt | Inl _ \<Rightarrow> 0)"
| "call_weight L (ev, _) = 0"

lemma effect_triple_ok:
  assumes "call_effect c amt t = Some t'" and "triple_ok bound t" and "0 \<le> amt"
    and "toMicro L (call_amount c) = Inr amt" and "bound + call_weight L (ev, c) \<le> max_int64"
    and "0 \<le> bound"
  shows "triple_ok (bound + call_weight L (ev, c)) t'"
proof -
  obtain b l r where t: "t = (b, l, r)" by (cases t)
  have ok: "0 \<le> l" "0 \<le> r" "l + r \<le> b" "b \<le> bound" using assms(2) by (auto simp: t)
  have w: "wrap64 x = x" if "0 \<le> x" "x \<le> max_int64" for x
    using that by (simp add: in_int64_nonneg)
  have "bound \<le> max_int64" using assms(5) by (cases "(L, ev, c)" rule: call_weight.cases) (auto split: sum.splits)
  with assms ok w show ?thesis
    by (cases "(L, ev, c)" rule: call_weight.cases) (auto simp: t split: if_splits)
qed

section \<open>Sequences of calls\<close>

definition treasury_step ::
  "lib \<Rightarrow> treasury_config \<Rightarrow> op_env \<times> treasury_call \<Rightarrow> Manager \<Rightarrow> Manager" where
  "treasury_step L cfg e m = fst (treasury_exec L cfg e m)"

definition treasury_run ::
  "lib \<Rightarrow> treasury_config \<Rightarrow> (op_env \<times> treasury_call) list \<Rightarrow> Manager \<Rightarrow> Manager" where
  "treasury_run L cfg = fold (treasury_step L cfg)"

lemma step_refines:
  "counters_int64 m \<Longrightarrow> refines L c m (treasury_step L cfg (ev, c) m) (snd (treasury_exec L cfg (ev, c) m))"
  by (rule treasury_exec_refines) (simp_all add: treasury_step_def)

lemma refines_cases:
  assumes "refines L c m m' res"
  obtains (same) "counters m' = counters m"
  | (effect) amt t t' where "res = Inr ()" "call_guard c" "toMicro L (call_amount c) = Inr amt"
      "counters m (call_key c) = Some t" "call_effect c amt t = Some t'"
      "counters m' = (counters m)(call_key c \<mapsto> t')"
  using assms unfolding refines_def by (auto split: sum.splits option.splits)

lemma effect_amt_nonneg:
  assumes "int_part_law L" "call_guard c" "toMicro L (call_amount c) = Inr amt"
    "call_effect c amt t = Some t'" "triple_ok bound t" "bound \<le> max_int64"
  shows "0 \<le> amt"
proof (cases "\<exists>t c' l a. c = CallUpdate t c' l a")
  case True
  then show ?thesis
    using assms(4-6) by (cases t) (auto simp: in_int64_def min_int64_def split: if_splits)
next
  case False
  then have "0 < call_amount c" using assms(2) by (cases c) auto
  then show ?thesis using toMicro_range(3) [OF assms(1,3)] by simp
qed

lemma call_weight_nonneg: "0 \<le> call_weight L e"
  by (cases "(L, e)" rule: call_weight.cases) (auto split: sum.splits)

lemma step_solvent:
  assumes L: "int_part_law L" and s: "solvent bound m" and w: "bound + call_weight L e \<le> max_int64"
  shows "solvent (bound + call_weight L e) (treasury_step L cfg e m)"
proof -
  obtain ev c where e: "e = (ev, c)" by force
  let ?b = "bound + call_weight L e"
  have b: "0 \<le> bound" "bound \<le> max_int64" "bound \<le> ?b"
    and ok: "\<And>k t. counters m k = Some t \<Longrightarrow> triple_ok bound t"
    using s call_weight_nonneg [of L e] by (auto simp: solvent_def)
  have "triple_ok ?b t" if "counters (treasury_step L cfg e m) k = Some t" for k t
    using step_refines [OF solvent_int64 [OF s], of L c cfg ev]
  proof (cases rule: refines_cases)
    case same
    then show ?thesis using that ok triple_ok_mono [OF _ b(3)] by (simp add: e)
  next
    case (effect amt t0 t')
    have "triple_ok ?b t'"
      using effect_triple_ok [OF effect(5) ok [OF effect(4)] _ effect(3) w [unfolded e] b(1)]
        effect_amt_nonneg [OF L effect(2,3,5) ok [OF effect(4)] b(2)] by (simp add: e)
    then show ?thesis
      using that effect(6) ok triple_ok_mono [OF _ b(3)] by (auto simp: e split: if_splits)
  qed
  then show ?thesis using b w by (simp add: solvent_def)
qed

interpretation treasury: budgeted_system "treasury_step L cfg" "\<lambda>b m. int_part_law L \<and> solvent b m"
  "call_weight L" max_int64
  for L cfg
  by unfold_locales (simp_all add: call_weight_nonneg step_solvent)

lemma step_int64:
  assumes L: "int_part_law L" and s: "counters_int64 m"
  shows "counters_int64 (treasury_step L cfg e m)"
proof -
  obtain ev c where e: "e = (ev, c)" by force
  show ?thesis
    using step_refines [OF s, of L c cfg ev]
  proof (cases rule: refines_cases)
    case same
    then show ?thesis using s by (simp add: counters_int64_def e)
  next
    case (effect amt t t')
    have "in_int64 amt" using toMicro_range(2) [OF L effect(3)]
      by (auto simp: in_int64_def min_int64_def max_int64_def maxMicroValue_def)
    moreover obtain b l r where t: "t = (b, l, r)" by (cases t)
    moreover have "in_int64 b" "in_int64 l" "in_int64 r"
      using counters_in_int64 [OF s] effect(4) by (auto simp: t)
    ultimately show ?thesis
      using effect(5,6) s
      by (cases c) (auto simp: counters_int64_def e split: if_splits)
  qed
qed


lemma step_other_key:
  assumes "counters_int64 m" and "key \<noteq> call_key c"
  shows "counters (treasury_step L cfg (ev, c) m) key = counters m key"
  using step_refines [OF assms(1), of L c cfg ev] assms(2) by (cases rule: refines_cases) auto

section \<open>Claims of the idempotency map\<close>

fun call_op :: "treasury_call \<Rightarrow> (uuid \<times> string) option" where
  "call_op (CallReserve t c l a r) = Some (r, ''reserve'')"
| "call_op (CallRelease t c l a r) = Some (r, ''release'')"
| "call_op (CallCommit t c l a r) = Some (r, ''commit'')"
| "call_op (CallConsume t c l a r) = Some (r, ''consume'')"
| "call_op (CallCredit t c l a r ty) = Some (r, ''credit'')"
| "call_op (CallDebit t c l a r ty) = Some (r, ''debit'')"
| "call_op (CallUpdate t c l a) = None"

definition call_claim :: "lib \<Rightarrow> treasury_call \<Rightarrow> Manager \<Rightarrow> instant option" where
  "call_claim L c m =
     (case call_op c of None \<Rightarrow> None
      | Some (r, op) \<Rightarrow> claim_time (mg_shards m) (idempotencyKey L r op))"

lemma shards_steps:
  "mg_shards (add_balance key d m) = mg_shards m" "mg_shards (add_locked key d m) = mg_shards m"
  "mg_shards (add_reserved key d m) = mg_shards m" "mg_shards (markDirty key m) = mg_shards m"
  "mg_shards (queueEvent L ev key ty a r rt m) = mg_shards m"
  "mg_shards (publishLiquidityAlert cfg ps m) = mg_shards m"
  "mg_shards (fst (syncFlushPosition L ev key m)) = mg_shards m"
  by (simp_all add: add_balance_def add_locked_def add_reserved_def markDirty_def queueEvent_def
      publishLiquidityAlert_def syncFlushPosition_def split: option.splits)

lemma shards_logOp: "logOp cfg ev t c l a r ty m = (m', res) \<Longrightarrow> mg_shards m' = mg_shards m"
  by (auto simp: logOp_def Let_def split: if_splits)

lemma shards_syncFlush: "syncFlushPosition L ev key m = (m', res) \<Longrightarrow> mg_shards m' = mg_shards m"
  by (auto simp: syncFlushPosition_def split: option.splits if_splits)

lemma shards_rollback: "mg_shards (rollbackIdempotency L r op m) = rollbackKey (idempotencyKey L r op) (mg_shards m)"
  by (simp add: rollbackIdempotency_def)

lemma shards_acquire:
  "tryAcquireIdempotency L n r op m = (m', c) \<Longrightarrow>
     tryAcquireKey n (idempotencyKey L r op) (mg_shards m) = (mg_shards m', c)"
  by (auto simp: tryAcquireIdempotency_def split: prod.splits)

text \<open>
  \<open>claim_step\<close>: what an operation does to the map. It leaves it alone, claims its key, or claims it
  and rolls the claim back; the latter two only when the key was free.
\<close>

definition claim_step :: "instant \<Rightarrow> string \<Rightarrow> shard list \<Rightarrow> shard list \<Rightarrow> bool" where
  "claim_step now k s s' \<longleftrightarrow>
     s' = s \<or>
     s' = fst (tryAcquireKey now k s) \<or>
     \<not> snd (tryAcquireKey now k s) \<and> s' = rollbackKey k (fst (tryAcquireKey now k s))"

lemmas claim_simps = Let_def claim_step_def shards_steps shards_rollback

lemma exec_claim_step:
  assumes "treasury_exec L cfg (ev, c) m = (m', res)" and "call_op c = Some (r, op)"
  shows "claim_step (ev_now ev) (idempotencyKey L r op) (mg_shards m) (mg_shards m')"
  using assms
  by (cases c)
    (auto simp: treasury_defs claim_simps
      split: if_splits sum.splits prod.splits bool.splits option.splits
      dest!: shards_acquire shards_logOp shards_syncFlush)

lemma update_claim_step:
  "treasury_exec L cfg (ev, CallUpdate t c l a) m = (m', res) \<Longrightarrow> mg_shards m' = mg_shards m"
  by (auto simp: UpdateBalance_def shards_steps Let_def split: if_splits sum.splits)

lemma claim_step_keep:
  assumes "claim_step now k s s'" and "shards_wf s" and "claim_time s k' = Some t"
    and "now - forcedCleanupMaxAge \<le> t"
  shows "shards_wf s' \<and> claim_time s' k' = Some t"
proof -
  have wf: "shards_wf (fst (tryAcquireKey now k s))"
    and keep: "claim_time (fst (tryAcquireKey now k s)) k' = Some t"
    using assms(2-4) by (simp_all add: shards.acquire_wf shards.acquire_keep)
  have "k' \<noteq> k" if "\<not> snd (tryAcquireKey now k s)"
    using that assms(2,3) by (auto simp: shards.acquire_iff)
  then show ?thesis
    using assms wf keep by (auto simp: claim_step_def shards.rollback_wf shards.rollback_other)
qed

lemma step_keeps_claim:
  assumes "shards_wf (mg_shards m)" and "claim_time (mg_shards m) k = Some t"
    and "ev_now (fst e) - forcedCleanupMaxAge \<le> t"
  shows "shards_wf (mg_shards (treasury_step L cfg e m)) \<and>
    claim_time (mg_shards (treasury_step L cfg e m)) k = Some t"
proof -
  obtain ev c where e: "e = (ev, c)" by force
  obtain m' res where m': "treasury_exec L cfg (ev, c) m = (m', res)" by force
  show ?thesis
  proof (cases "call_op c")
    case None
    then obtain t c' l a where "c = CallUpdate t c' l a" by (cases c) auto
    with m' have "mg_shards m' = mg_shards m" by (simp add: update_claim_step del: treasury_exec.simps)
    with assms show ?thesis by (simp add: treasury_step_def e m')
  next
    case (Some ro)
    then obtain r op where "call_op c = Some (r, op)" by force
    from claim_step_keep [OF exec_claim_step [OF m' this] assms(1,2)] assms(3)
    show ?thesis by (simp add: treasury_step_def e m')
  qed
qed

lemma run_keeps_claim:
  assumes "shards_wf (mg_shards m)" and "claim_time (mg_shards m) k = Some t"
    and "\<forall>e \<in> set calls. ev_now (fst e) - forcedCleanupMaxAge \<le> t"
  shows "shards_wf (mg_shards (treasury_run L cfg calls m)) \<and>
    claim_time (mg_shards (treasury_run L cfg calls m)) k = Some t"
  using assms
  by (induction calls arbitrary: m) (simp_all add: treasury_run_def step_keeps_claim)

text \<open>A call whose reference is claimed changes no counter; a call that succeeds claims its reference.\<close>

lemma acquire_claimed:
  assumes "shards_wf (mg_shards m)" and "claim_time (mg_shards m) (idempotencyKey L r op) \<noteq> None"
  shows "\<exists>m'. tryAcquireIdempotency L n r op m = (m', True) \<and> counters m' = counters m"
proof -
  obtain m' c where m': "tryAcquireIdempotency L n r op m = (m', c)" by force
  with shards.acquire_iff [OF assms(1), of n "idempotencyKey L r op"] assms(2) shards_acquire [OF m']
  have "c" by simp
  with m' counters_acquire [OF m'] show ?thesis by auto
qed

lemma claimed_call_noop:
  assumes "shards_wf (mg_shards m)" and "call_claim L c m \<noteq> None"
  shows "counters (treasury_step L cfg (ev, c) m) = counters m"
proof -
  obtain r op where op: "call_op c = Some (r, op)" using assms(2) by (auto simp: call_claim_def split: option.splits)
  obtain m' where "tryAcquireIdempotency L (ev_now ev) r op m = (m', True)" "counters m' = counters m"
    using acquire_claimed [OF assms(1), of L r op] assms(2) by (auto simp: call_claim_def op)
  with op show ?thesis
    by (cases c) (auto simp: treasury_step_def treasury_defs split: sum.splits)
qed

lemma success_claims:
  assumes "treasury_exec L cfg (ev, c) m = (m', Inr ())" and "call_op c = Some (r, op)"
  shows "mg_shards m' = fst (tryAcquireKey (ev_now ev) (idempotencyKey L r op) (mg_shards m))"
  using assms
  by (cases c)
    (auto simp: treasury_defs Let_def shards_steps
      split: if_splits sum.splits prod.splits bool.splits option.splits
      dest!: shards_acquire shards_logOp shards_syncFlush)

text \<open>A call that succeeded is a no-op when it is repeated within the window.\<close>

lemma redelivered_noop:
  assumes "shards_wf (mg_shards m)" and "call_op c = Some (r, op)" and "call_claim L c m = None"
    and "treasury_exec L cfg (ev, c) m = (m1, Inr ())"
    and "\<forall>e \<in> set calls. ev_now (fst e) \<le> ev_now ev + forcedCleanupMaxAge"
  shows "counters (treasury_run L cfg (calls @ [(ev', c)]) m1) = counters (treasury_run L cfg calls m1)"
proof -
  let ?k = "idempotencyKey L r op"
  have s: "mg_shards m1 = fst (tryAcquireKey (ev_now ev) ?k (mg_shards m))"
    using assms(4,2) by (rule success_claims)
  have "shards_wf (mg_shards m1)" "claim_time (mg_shards m1) ?k = Some (ev_now ev)"
    unfolding s using assms(1-3) by (auto simp: call_claim_def shards.acquire_wf intro: shards.acquire_new)
  then have "shards_wf (mg_shards (treasury_run L cfg calls m1)) \<and>
      claim_time (mg_shards (treasury_run L cfg calls m1)) ?k = Some (ev_now ev)"
    using assms(5) by (intro run_keeps_claim) auto
  then have "counters (treasury_step L cfg (ev', c) (treasury_run L cfg calls m1)) =
      counters (treasury_run L cfg calls m1)"
    using assms(2) by (intro claimed_call_noop) (auto simp: call_claim_def)
  then show ?thesis by (simp add: treasury_run_def)
qed

section \<open>Progress\<close>

definition healthy :: "op_env \<Rightarrow> Manager \<Rightarrow> bool" where
  "healthy ev m \<longleftrightarrow>
     shards_wf (mg_shards m) \<and> mg_flushFailures m < maxFlushFailuresBeforeReject \<and>
     length (mg_pendingOps m) < 10000 \<and> ev_wal_ok ev \<and> ev_flush_ok ev"

lemma acquire_fresh:
  assumes "healthy ev m" and "claim_time (mg_shards m) (idempotencyKey L r op) = None"
  obtains m' where "tryAcquireIdempotency L (ev_now ev) r op m = (m', False)"
    "m' = m\<lparr>mg_shards := fst (tryAcquireKey (ev_now ev) (idempotencyKey L r op) (mg_shards m))\<rparr>"
proof -
  have "\<not> snd (tryAcquireKey (ev_now ev) (idempotencyKey L r op) (mg_shards m))"
    using assms by (simp add: healthy_def shards.acquire_iff)
  then show ?thesis
    by (intro that) (auto simp: tryAcquireIdempotency_def split: prod.splits)
qed

lemma logOp_result:
  assumes "logOp cfg ev t c l a r ty m = (m', res)"
  shows "counters m' = counters m \<and> (ev_wal_ok ev \<and> length (mg_pendingOps m) < 10000 \<longrightarrow> res = Inr ())"
  using counters_logOp [OF assms] assms by (auto simp: logOp_def Let_def split: if_splits)

lemma syncFlush_result:
  assumes "syncFlushPosition L ev key m = (m', res)"
  shows "counters m' = counters m \<and> (ev_flush_ok ev \<longrightarrow> res = Inr ())"
  using counters_syncFlush [OF assms] assms
  by (auto simp: syncFlushPosition_def split: option.splits if_splits)

lemma pendingOps_steps:
  "mg_pendingOps (add_balance key d m) = mg_pendingOps m"
  "mg_pendingOps (add_locked key d m) = mg_pendingOps m"
  "mg_pendingOps (add_reserved key d m) = mg_pendingOps m"
  "mg_pendingOps (markDirty key m) = mg_pendingOps m"
  "mg_pendingOps (queueEvent L ev key ty a r rt m) = mg_pendingOps m"
  by (simp_all add: add_balance_def add_locked_def add_reserved_def markDirty_def queueEvent_def
      split: option.splits)

lemma counters_shards [simp]: "counters (m\<lparr>mg_shards := s\<rparr>) = counters m"
  by (rule ext) (simp add: counters_def)

lemma toMicro_valid: "toMicro L a = Inr amt \<Longrightarrow> validateMicroRange a = Inr ()"
  by (auto simp: toMicro_def validateMicroRange_def Let_def split: if_splits)

lemmas progress_simps = Let_def counters_steps getPosition_def available_micro_def
  pendingOps_steps toMicro_valid healthy_def

lemma fresh_call_spec:
  assumes h: "healthy ev m" and "call_claim L c m = None" and g: "call_guard c"
    and amt: "toMicro L (call_amount c) = Inr amt" and t: "counters m (call_key c) = Some t"
    and m': "treasury_exec L cfg (ev, c) m = (m', res)"
  shows "case call_effect c amt t of
      Some t' \<Rightarrow> res = Inr () \<and> counters m' = (counters m)(call_key c \<mapsto> t')
    | None \<Rightarrow> res \<noteq> Inr () \<and> counters m' = counters m"
proof -
  obtain ps where ps: "position m (call_key c) = Some ps"
    and t: "t = (ps_balance ps, ps_locked ps, ps_reserved ps)"
    using t by (auto simp: counters_def)
  show ?thesis
  proof (cases "call_op c")
    case None
    then obtain t c' l a where "c = CallUpdate t c' l a" by (cases c) auto
    moreover have "counters (upd_position k (\<lambda>ps. ps\<lparr>ps_balance := b\<rparr>) m) =
      (counters m)(k := map_option (\<lambda>(_, l, r). (b, l, r)) (counters m k))" for b k
      by (rule ext) (simp add: counters_def option.map_comp comp_def)
    ultimately show ?thesis
      using m' amt ps t
      by (auto simp: UpdateBalance_def progress_simps counters_Some split: if_splits sum.splits)
  next
    case (Some ro)
    then obtain r op where op: "call_op c = Some (r, op)" by force
    obtain m1 where m1: "tryAcquireIdempotency L (ev_now ev) r op m = (m1, False)"
      "m1 = m\<lparr>mg_shards := fst (tryAcquireKey (ev_now ev) (idempotencyKey L r op) (mg_shards m))\<rparr>"
      using acquire_fresh [OF h, of L r op] assms(2) by (auto simp: call_claim_def op)
    show ?thesis
      using m' m1 op g amt ps t h
      by (cases c)
        (auto simp: treasury_defs progress_simps counters_Some
          split: if_splits sum.splits prod.splits bool.splits option.splits
          dest!: logOp_result syncFlush_result)
  qed
qed

lemma frame_steps:
  "mg_flushFailures (upd_position key f m) = mg_flushFailures m"
  "mg_flushFailures (add_balance key d m) = mg_flushFailures m"
  "mg_flushFailures (add_locked key d m) = mg_flushFailures m"
  "mg_flushFailures (add_reserved key d m) = mg_flushFailures m"
  "mg_flushFailures (markDirty key m) = mg_flushFailures m"
  "mg_flushFailures (queueEvent L ev key ty a r rt m) = mg_flushFailures m"
  "mg_flushFailures (publishLiquidityAlert cfg ps m) = mg_flushFailures m"
  "mg_flushFailures (rollbackIdempotency L r op m) = mg_flushFailures m"
  "mg_pendingOps (publishLiquidityAlert cfg ps m) = mg_pendingOps m"
  "mg_pendingOps (rollbackIdempotency L r op m) = mg_pendingOps m"
  by (simp_all add: upd_position_def add_balance_def add_locked_def add_reserved_def markDirty_def
      queueEvent_def publishLiquidityAlert_def rollbackIdempotency_def split: option.splits)

lemma frame_acquire:
  "tryAcquireIdempotency L n r op m = (m', c) \<Longrightarrow>
     mg_flushFailures m' = mg_flushFailures m \<and> mg_pendingOps m' = mg_pendingOps m"
  by (auto simp: tryAcquireIdempotency_def split: prod.splits)

lemma frame_logOp:
  "logOp cfg ev t c l a r ty m = (m', res) \<Longrightarrow>
     mg_flushFailures m' = mg_flushFailures m \<and> length (mg_pendingOps m') \<le> length (mg_pendingOps m) + 1"
  by (auto simp: logOp_def Let_def split: if_splits)

lemma frame_syncFlush:
  "mg_flushFailures (fst (syncFlushPosition L ev key m)) = mg_flushFailures m"
  "mg_pendingOps (fst (syncFlushPosition L ev key m)) = mg_pendingOps m"
  by (auto simp: syncFlushPosition_def frame_steps split: option.splits)

lemma frame_syncFlush_eq:
  "syncFlushPosition L ev key m = (m', res) \<Longrightarrow>
     mg_flushFailures m' = mg_flushFailures m \<and> mg_pendingOps m' = mg_pendingOps m"
  using frame_syncFlush [of L ev key m] by simp

lemma exec_frame:
  assumes "treasury_exec L cfg (ev, c) m = (m', res)"
  shows "mg_flushFailures m' = mg_flushFailures m \<and> length (mg_pendingOps m') \<le> length (mg_pendingOps m) + 1"
  using assms
  by (cases c)
    (auto simp: treasury_defs UpdateBalance_def Let_def frame_steps frame_syncFlush pendingOps_steps
      split: if_splits sum.splits prod.splits bool.splits option.splits
      dest!: frame_acquire frame_logOp frame_syncFlush_eq)

lemma op_key_distinct:
  assumes "uuid_string_law L" and "call_op c = Some (r, op)" and "call_op c' = Some (r', op')"
    and "(r, op) \<noteq> (r', op')"
  shows "idempotencyKey L r op \<noteq> idempotencyKey L r' op'"
proof -
  have "CHR '':'' \<notin> set op" if "call_op c = Some (r, op)" for c r op
    using that by (cases c) auto
  then show ?thesis using assms idempotencyKey_inj [OF assms(1), of op op' r r'] by blast
qed

text \<open>After a fresh call that succeeds the next operation finds a healthy manager and its own reference free.\<close>

lemma fresh_after:
  assumes "uuid_string_law L" and "healthy ev m" and "length (mg_pendingOps m) < 9999"
    and "treasury_exec L cfg (ev, c) m = (m', Inr ())" and "ev_wal_ok ev'" "ev_flush_ok ev'"
    and "call_op c = Some (r, op)" and "call_op c' = Some (r', op')" and "(r, op) \<noteq> (r', op')"
    and "call_claim L c' m = None"
  shows "healthy ev' m' \<and> call_claim L c' m' = None"
proof -
  have wf: "shards_wf (mg_shards m)" and ff: "mg_flushFailures m < maxFlushFailuresBeforeReject"
    using assms(2) by (simp_all add: healthy_def)
  have s: "mg_shards m' = fst (tryAcquireKey (ev_now ev) (idempotencyKey L r op) (mg_shards m))"
    using assms(4,7) by (rule success_claims)
  have "claim_time (mg_shards m') (idempotencyKey L r' op') = None"
    unfolding s using wf op_key_distinct [OF assms(1,7,8,9)] assms(8,10)
    by (intro shards.acquire_other) (auto simp: call_claim_def)
  moreover have "shards_wf (mg_shards m')" unfolding s using wf by (rule shards.acquire_wf)
  ultimately show ?thesis
    using exec_frame [OF assms(4)] assms(3,5,6,8) ff by (simp add: healthy_def call_claim_def)
qed

text \<open>A covered reservation, and what a second operation on the same position then finds.\<close>

lemma reserve_then:
  assumes "int_part_law L" "uuid_string_law L" "solvent bound m"
    and "healthy ev m" "length (mg_pendingOps m) < 9999" "ev_wal_ok ev'" "ev_flush_ok ev'"
    and "call_claim L (CallReserve t c l a r) m = None" "call_claim L c' m = None"
    and "call_op c' = Some (r', op')" "op' \<noteq> ''reserve''"
    and "0 < a" "toMicro L a = Inr amt" "counters m (t, c, l) = Some (b, lk, rs)" "amt \<le> b - lk - rs"
  obtains m1 where "treasury_exec L cfg (ev, CallReserve t c l a r) m = (m1, Inr ())"
    "counters m1 = (counters m)((t, c, l) \<mapsto> (b, lk, rs + amt))" "healthy ev' m1" "call_claim L c' m1 = None"
    "0 \<le> amt" "in_int64 rs" "in_int64 (rs + amt)" "in_int64 (b - amt)"
proof -
  let ?c = "CallReserve t c l a r"
  obtain m1 res where m1: "treasury_exec L cfg (ev, ?c) m = (m1, res)" by force
  have ok: "triple_ok bound (b, lk, rs)" "bound \<le> max_int64" using assms(3,14) by (auto simp: solvent_def)
  have amt: "0 \<le> amt" using toMicro_range(3) [OF assms(1,13)] assms(12) by simp
  have i: "in_int64 rs" "in_int64 (rs + amt)" "in_int64 (b - amt)"
    using ok amt assms(15) by (auto simp: in_int64_def min_int64_def)
  have "triple_available (b, lk, rs) = b - lk - rs" using ok by (rule triple_ok_available)
  then have "res = Inr () \<and> counters m1 = (counters m)((t, c, l) \<mapsto> (b, lk, rs + amt))"
    using fresh_call_spec [OF assms(4,8) _ _ _ m1, of amt "(b, lk, rs)"] assms(12-15) i
    by (simp del: triple_available.simps)
  moreover from this have "healthy ev' m1 \<and> call_claim L c' m1 = None"
    using fresh_after [OF assms(2,4,5) _ assms(6,7) _ assms(10) _ assms(9), of cfg ?c m1 r "''reserve''"]
      m1 assms(11) by auto
  ultimately show ?thesis using that m1 amt i by auto
qed

section \<open>A concrete manager\<close>

definition sample_position :: PositionState where
  "sample_position = \<lparr>ps_ID = 7, ps_TenantID = 1, ps_Currency = ''USD'', ps_Location = ''bank:us'',
     ps_MinBalance = 0, ps_TargetBalance = 0, ps_balance = 1000000000, ps_locked = 0,
     ps_reserved = 0, ps_dirty = False\<rparr>"

definition sample_manager :: Manager where
  "sample_manager = \<lparr>mg_positions = [((1, ''USD'', ''bank:us''), sample_position)],
     mg_tenantIndex = [(1, [(1, ''USD'', ''bank:us'')])], mg_dirtySet = [], mg_shards = replicate 16 [],
     mg_pendingOps = [], mg_pendingEvents = [], mg_replaying = False, mg_flushFailures = 0,
     mg_failedPositionIDs = [], mg_alerts = [],
     mg_db = \<lparr>db_positions = [\<lparr>pn_ID = 7, pn_TenantID = 1, pn_Currency = ''USD'', pn_Location = ''bank:us'',
         pn_Balance = 1000, pn_Locked = 0, pn_MinBalance = 0, pn_TargetBalance = 0, pn_UpdatedAt = 0\<rparr>],
       db_ops = [], db_history = [], db_events = []\<rparr>\<rparr>"

definition sample_config :: treasury_config where
  "sample_config = \<lparr>tc_syncThresholds = DefaultSyncThresholds, tc_syncThresholdDefault = 100000,
     tc_opStore = True, tc_batchStore = True, tc_eventStore = True, tc_publisher = False\<rparr>"

definition sample_env :: "nat \<Rightarrow> bool \<Rightarrow> op_env" where
  "sample_env n wal_ok = \<lparr>ev_now = int n, ev_op_id = of_nat n, ev_event_id = of_nat n,
     ev_wal_ok = wal_ok, ev_drained = True, ev_flush_ok = True\<rparr>"

lemma sample_manager_counters:
  "counters sample_manager k = (if k = (1, ''USD'', ''bank:us'') then Some (1000000000, 0, 0) else None)"
  by (simp add: counters_def sample_manager_def sample_position_def)

lemma sample_manager_solvent: "1000000000 \<le> b \<Longrightarrow> b \<le> max_int64 \<Longrightarrow> solvent b sample_manager"
  by (simp add: solvent_def sample_manager_counters)

lemma sample_manager_healthy: "healthy (sample_env n True) sample_manager"
  by (simp add: healthy_def sample_manager_def sample_env_def shards_wf_def list_all_iff
      maxFlushFailuresBeforeReject_def)

lemma sample_manager_fresh: "call_claim L c sample_manager = None"
  by (simp add: call_claim_def claim_time_def sample_manager_def split: option.splits)

lemma sample_toMicro [simp]:
  "toMicro ref_lib 250 = Inr 250000000" "toMicro ref_lib 8999999999999 = Inr 8999999999999000000"
  by (simp_all add: toMicro_def Let_def out_of_range_def microScale_def maxMicroValue_def ref_lib_def trunc_rat_def)

lemma sample_reserve_wal:
  "treasury_exec ref_lib sample_config (sample_env 1 False, CallReserve 1 ''USD'' ''bank:us'' 250 5) sample_manager =
     (fst (treasury_exec ref_lib sample_config
        (sample_env 1 False, CallReserve 1 ''USD'' ''bank:us'' 250 5) sample_manager),
      Inl (Errorf ''settla-treasury: WAL write failed'' None))"
  by (simp add: Reserve_def toMicro_valid [OF sample_toMicro(1)] tryAcquireIdempotency_def tryAcquireKey_def
      Let_def getPosition_def available_micro_def logOp_def sample_manager_def sample_position_def
      sample_env_def sample_config_def maxFlushFailuresBeforeReject_def markDirty_def add_reserved_def
      upd_position_def in_int64_def min_int64_def max_int64_def)

lemma sample_reserve_ok:
  "snd (treasury_exec ref_lib sample_config
      (sample_env 1 True, CallReserve 1 ''USD'' ''bank:us'' 250 5) sample_manager) = Inr ()"
  using fresh_call_spec [where ev = "sample_env 1 True" and m = sample_manager and L = ref_lib and
      c = "CallReserve 1 ''USD'' ''bank:us'' 250 5" and amt = 250000000 and t = "(1000000000, 0, 0)"
      and cfg = sample_config, OF sample_manager_healthy sample_manager_fresh _ _ _ prod.collapse [symmetric]]
  by (simp add: sample_manager_counters in_int64_def min_int64_def max_int64_def)

section \<open>Properties\<close>

text \<open>
  C1: No position is ever overdrawn. Start from any solvent manager and run any sequence of
  reserve, release, commit, consume, credit, debit and balance updates, for any tenants, with any
  pattern of failing write-ahead inserts, full channels and failing database flushes. As long as
  the credited amounts fit into the 64-bit counters, every position keeps non-negative locked and
  reserved amounts whose sum is covered by its balance.
\<close>

theorem treasury_never_overdrawn:
  assumes "int_part_law L" and "solvent bound m"
    and "bound + (\<Sum>e\<leftarrow>calls. call_weight L e) \<le> max_int64"
  shows "pred_option (\<lambda>ps. 0 \<le> ps_locked ps \<and> 0 \<le> ps_reserved ps \<and>
      ps_locked ps + ps_reserved ps \<le> ps_balance ps) (position (treasury_run L cfg calls m) key)"
proof -
  have "solvent (bound + (\<Sum>e\<leftarrow>calls. call_weight L e)) (treasury_run L cfg calls m)"
    using treasury.run_inv [of L bound m calls cfg] assms by (simp add: treasury_run_def)
  then show ?thesis
    by (cases "position (treasury_run L cfg calls m) key") (auto dest: solvent_position)
qed

theorem treasury_never_overdrawn_witness:
  "pred_option (\<lambda>ps. 0 \<le> ps_locked ps \<and> 0 \<le> ps_reserved ps \<and>
      ps_locked ps + ps_reserved ps \<le> ps_balance ps)
     (position (treasury_run ref_lib sample_config
        [(sample_env 1 True, CallReserve 1 ''USD'' ''bank:us'' 250 5),
         (sample_env 2 False, CallConsume 1 ''USD'' ''bank:us'' 250 5),
         (sample_env 3 True, CallCredit 1 ''USD'' ''bank:us'' 250 6 ''deposit'')] sample_manager)
      (1, ''USD'', ''bank:us''))"
  by (rule treasury_never_overdrawn [where bound = 1000000000])
    (simp_all add: ref_lib_laws sample_manager_solvent max_int64_def)



text \<open>
  C19: A treasury call that returns an error has no effect on any position: whichever guard,
  idempotency, write-ahead or flush step failed, the balance, locked and reserved amounts of
  every position are what they were before the call.
\<close>

theorem failed_call_no_effect:
  assumes "counters_int64 m" and "treasury_exec L cfg (ev, c) m = (m', Inl err)"
  shows "counters m' = counters m"
  using treasury_exec_refines [OF assms] by (auto simp: refines_def)

theorem failed_call_no_effect_witness:
  "counters (fst (treasury_exec ref_lib sample_config
      (sample_env 1 False, CallReserve 1 ''USD'' ''bank:us'' 250 5) sample_manager)) = counters sample_manager"
  by (rule failed_call_no_effect [OF _ sample_reserve_wal])
    (use solvent_int64 [OF sample_manager_solvent [of 1000000000]] in \<open>simp add: max_int64_def\<close>)

text \<open>
  C26: Tenants are isolated: any sequence of treasury calls made for other tenants leaves the
  counters of every position of a tenant exactly as they were.
\<close>

theorem treasury_tenant_isolation:
  assumes "int_part_law L" and "counters_int64 m"
    and "\<forall>(ev, c) \<in> set calls. fst (call_key c) \<noteq> tenant"
  shows "counters (treasury_run L cfg calls m) (tenant, currency, location) =
    counters m (tenant, currency, location)"
  using assms
proof (induction calls arbitrary: m)
  case (Cons e calls)
  obtain ev c where e: "e = (ev, c)" by force
  have "counters (treasury_step L cfg e m) (tenant, currency, location) = counters m (tenant, currency, location)"
    unfolding e by (rule step_other_key) (use Cons.prems(2,3) in \<open>auto simp: e dest: arg_cong [where f = fst]\<close>)
  then show ?case
    using Cons.IH [of "treasury_step L cfg e m"] Cons.prems step_int64 by (simp add: treasury_run_def)
qed (simp add: treasury_run_def)

theorem treasury_tenant_isolation_witness:
  "counters (treasury_run ref_lib sample_config
      [(sample_env 1 True, CallReserve 1 ''USD'' ''bank:us'' 250 5)] sample_manager) (2, ''USD'', ''bank:us'') =
    counters sample_manager (2, ''USD'', ''bank:us'')"
  by (rule treasury_tenant_isolation)
    (use solvent_int64 [OF sample_manager_solvent [of 1000000000]] in
      \<open>simp_all add: ref_lib_laws max_int64_def\<close>)

text \<open>
  C8: A treasury operation is never applied twice. Once a call with a fresh reference has
  succeeded, then after any further calls with any outcome within the two-minute window, a
  redelivery of the same call leaves the counters of every position unchanged.
\<close>

theorem redelivery_no_effect:
  assumes "shards_wf (mg_shards m)" and "call_op c = Some (r, op)" and "call_claim L c m = None"
    and "treasury_exec L cfg (ev, c) m = (m1, Inr ())"
    and "\<forall>e \<in> set calls. ev_now (fst e) \<le> ev_now ev + forcedCleanupMaxAge"
  shows "counters (treasury_run L cfg (calls @ [(ev', c)]) m1) = counters (treasury_run L cfg calls m1)"
  by (rule redelivered_noop [OF assms])

text \<open>
  C6: In a healthy manager every operation with a fresh reference does exactly what its
  specification says: it succeeds precisely when the position covers it (available funds for
  reservations and debits, reserved funds for releases, commits and consumptions), moves exactly
  the amount in micro-units between balance, locked and reserved, and touches no other position.
\<close>

theorem fresh_call_exact:
  assumes "healthy ev m" and "call_claim L c m = None" and "call_guard c"
    and "toMicro L (call_amount c) = Inr amt" and "counters m (call_key c) = Some t"
  shows "case call_effect c amt t of
      Some t' \<Rightarrow> snd (treasury_exec L cfg (ev, c) m) = Inr () \<and>
        counters (fst (treasury_exec L cfg (ev, c) m)) = (counters m)(call_key c \<mapsto> t')
    | None \<Rightarrow> snd (treasury_exec L cfg (ev, c) m) \<noteq> Inr () \<and>
        counters (fst (treasury_exec L cfg (ev, c) m)) = counters m"
  by (rule fresh_call_spec [OF assms]) simp

theorem fresh_call_exact_witness:
  "snd (treasury_exec ref_lib sample_config
      (sample_env 1 True, CallReserve 1 ''USD'' ''bank:us'' 250 5) sample_manager) = Inr () \<and>
   counters (fst (treasury_exec ref_lib sample_config
      (sample_env 1 True, CallReserve 1 ''USD'' ''bank:us'' 250 5) sample_manager)) (1, ''USD'', ''bank:us'') =
     Some (1000000000, 0, 250000000)"
  using fresh_call_exact [where ev = "sample_env 1 True" and m = sample_manager and L = ref_lib and
      c = "CallReserve 1 ''USD'' ''bank:us'' 250 5" and amt = 250000000 and t = "(1000000000, 0, 0)"
      and cfg = sample_config, OF sample_manager_healthy sample_manager_fresh]
  by (simp add: sample_manager_counters in_int64_def min_int64_def max_int64_def)

theorem redelivery_no_effect_witness:
  "counters (treasury_run ref_lib sample_config
      ([(sample_env 2 True, CallRelease 1 ''USD'' ''bank:us'' 250 6)] @
       [(sample_env 3 True, CallReserve 1 ''USD'' ''bank:us'' 250 5)])
      (fst (treasury_exec ref_lib sample_config
        (sample_env 1 True, CallReserve 1 ''USD'' ''bank:us'' 250 5) sample_manager))) =
   counters (treasury_run ref_lib sample_config
      [(sample_env 2 True, CallRelease 1 ''USD'' ''bank:us'' 250 6)]
      (fst (treasury_exec ref_lib sample_config
        (sample_env 1 True, CallReserve 1 ''USD'' ''bank:us'' 250 5) sample_manager)))"
  by (rule redelivery_no_effect [where m = sample_manager and ev = "sample_env 1 True" and r = 5 and op = "''reserve''"])
    (use sample_manager_healthy [of 1] sample_reserve_ok in
      \<open>simp_all add: healthy_def sample_manager_fresh sample_env_def forcedCleanupMaxAge_def prod_eq_iff\<close>)

text \<open>
  Reserving funds and releasing them again, under any reference for the release, restores
  every counter of every position.
\<close>

theorem reserve_release_restores:
  assumes "int_part_law L" "uuid_string_law L" "solvent bound m"
    and "healthy ev m" "length (mg_pendingOps m) < 9999" "ev_wal_ok ev'" "ev_flush_ok ev'"
    and "call_claim L (CallReserve t c l a r) m = None" "call_claim L (CallRelease t c l a r') m = None"
    and "0 < a" "toMicro L a = Inr amt" "counters m (t, c, l) = Some (b, lk, rs)" "amt \<le> b - lk - rs"
  shows "counters (treasury_run L cfg
      [(ev, CallReserve t c l a r), (ev', CallRelease t c l a r')] m) = counters m"
proof (rule reserve_then [OF assms(1-9) call_op.simps(2) _ assms(10-13), where cfg = cfg])
  fix m1
  assume m1: "treasury_exec L cfg (ev, CallReserve t c l a r) m = (m1, Inr ())"
    "counters m1 = (counters m)((t, c, l) \<mapsto> (b, lk, rs + amt))" "healthy ev' m1"
    "call_claim L (CallRelease t c l a r') m1 = None" "0 \<le> amt" "in_int64 rs" "in_int64 (rs + amt)"
  obtain m2 res where m2: "treasury_exec L cfg (ev', CallRelease t c l a r') m1 = (m2, res)" by force
  have "0 \<le> rs" using assms(3,12) by (auto simp: solvent_def)
  then have "counters m2 = (counters m)((t, c, l) \<mapsto> (b, lk, rs))"
    using fresh_call_spec [OF m1(3,4) _ _ _ m2, of amt "(b, lk, rs + amt)"] m1 assms(10,11) by simp
  then show ?thesis
    using m1(1) m2 assms(12) by (simp add: treasury_run_def treasury_step_def fun_upd_idem)
qed simp_all

text \<open>
  Reserving funds for a transfer and consuming the reservation spends exactly the amount:
  the balance falls by it, locked and reserved end where they started, and no other position
  changes.
\<close>

theorem reserve_consume_spends:
  assumes "int_part_law L" "uuid_string_law L" "solvent bound m"
    and "healthy ev m" "length (mg_pendingOps m) < 9999" "ev_wal_ok ev'" "ev_flush_ok ev'"
    and "call_claim L (CallReserve t c l a r) m = None" "call_claim L (CallConsume t c l a r) m = None"
    and "0 < a" "toMicro L a = Inr amt" "counters m (t, c, l) = Some (b, lk, rs)" "amt \<le> b - lk - rs"
  shows "counters (treasury_run L cfg
      [(ev, CallReserve t c l a r), (ev', CallConsume t c l a r)] m) =
    (counters m)((t, c, l) \<mapsto> (b - amt, lk, rs))"
proof (rule reserve_then [OF assms(1-9) call_op.simps(4) _ assms(10-13), where cfg = cfg])
  fix m1
  assume m1: "treasury_exec L cfg (ev, CallReserve t c l a r) m = (m1, Inr ())"
    "counters m1 = (counters m)((t, c, l) \<mapsto> (b, lk, rs + amt))" "healthy ev' m1"
    "call_claim L (CallConsume t c l a r) m1 = None" "0 \<le> amt" "in_int64 rs" "in_int64 (rs + amt)"
    "in_int64 (b - amt)"
  obtain m2 res where m2: "treasury_exec L cfg (ev', CallConsume t c l a r) m1 = (m2, res)" by force
  have "0 \<le> rs" "0 \<le> lk" using assms(3,12) by (auto simp: solvent_def)
  then have "counters m2 = (counters m)((t, c, l) \<mapsto> (b - amt, lk, rs))"
    using fresh_call_spec [OF m1(3,4) _ _ _ m2, of amt "(b, lk, rs + amt)"] m1 assms(10,11,13) by simp
  then show ?thesis
    using m1(1) m2 by (simp add: treasury_run_def treasury_step_def)
qed simp_all

text \<open>
  The fixed-point representation is exact: every amount of micro-units within the position
  limit survives the conversion to a decimal and back.
\<close>

theorem micro_roundtrip:
  assumes "div_law L" and "int_part_law L" and "\<bar>v\<bar> \<le> maxMicroValue"
  shows "toMicro L (fromMicro L v) = Inr v"
  using assms by (rule micro_back)

text \<open>
  The range check on a credit covers the amount but not the sum: with the balance set just
  under the nine-trillion limit, one more accepted credit of that size wraps the 64-bit counter
  and leaves the position with a negative balance.
\<close>

theorem credit_sum_overflows:
  "map_option fst (counters (treasury_run ref_lib sample_config
      [(sample_env 1 True, CallUpdate 1 ''USD'' ''bank:us'' 8999999999999),
       (sample_env 2 True, CallCredit 1 ''USD'' ''bank:us'' 8999999999999 5 ''deposit'')] sample_manager)
     (1, ''USD'', ''bank:us'')) = Some (- 446744073711551616)"
proof -
  let ?key = "(1 :: uuid, ''USD'', ''bank:us'')"
  let ?c1 = "CallUpdate 1 ''USD'' ''bank:us'' 8999999999999"
  let ?c2 = "CallCredit 1 ''USD'' ''bank:us'' 8999999999999 5 ''deposit''"
  obtain m1 res1 where m1: "treasury_exec ref_lib sample_config (sample_env 1 True, ?c1) sample_manager = (m1, res1)"
    by force
  obtain m2 res2 where m2: "treasury_exec ref_lib sample_config (sample_env 2 True, ?c2) m1 = (m2, res2)"
    by force
  have c1: "counters m1 ?key = Some (8999999999999000000, 0, 0)"
    using fresh_call_spec [OF sample_manager_healthy sample_manager_fresh _ _ _ m1, of 8999999999999000000 "(1000000000, 0, 0)"]
    by (simp add: sample_manager_counters in_int64_def min_int64_def max_int64_def)
  have s: "mg_shards m1 = mg_shards sample_manager"
    using m1 update_claim_step by blast
  have "healthy (sample_env 2 True) m1" "call_claim ref_lib ?c2 m1 = None"
    using sample_manager_healthy [of 2] sample_manager_fresh [of ref_lib ?c2] exec_frame [OF m1]
    by (auto simp: healthy_def call_claim_def s) (simp add: sample_manager_def)
  from fresh_call_spec [OF this _ _ _ m2, of 8999999999999000000 "(8999999999999000000, 0, 0)"] c1
  have "counters m2 ?key = Some (- 446744073711551616, 0, 0)"
    by (simp add: wrap64_def)
  then show ?thesis using m1 m2 by (simp add: treasury_run_def treasury_step_def)
qed

end
