(* ===== verification/Treasury_Recovery.thy ===== *)
theory Treasury_Recovery
  imports Treasury_Safety
begin

text \<open>
  Durability of the treasury: the background flush (\<^verbatim>\<open>src/treasury/flush.go\<close>), the event writer
  (\<^verbatim>\<open>src/treasury/event_writer.go\<close>), the queries on the operations log
  (\<^verbatim>\<open>src/store/treasurydb\<close>) and recovery at start-up (\<^verbatim>\<open>src/treasury/loader.go\<close>). A crash keeps
  the database and nothing else; \<open>LoadPositions\<close> rebuilds the manager from it.
\<close>

section \<open>Queries\<close>

text \<open>\<^verbatim>\<open>ORDER BY tenant_id, currency, location LIMIT $1 OFFSET $2\<close>: the rows are kept in that order.\<close>

definition LoadPositionsPaginated :: "nat \<Rightarrow> nat \<Rightarrow> treasury_db \<Rightarrow> Position list" where
  "LoadPositionsPaginated limit offset db = take limit (drop offset (db_positions db))"

definition completes :: "ReserveOp \<Rightarrow> ReserveOp \<Rightarrow> bool" where
  "completes r c \<longleftrightarrow> ro_Reference c = ro_Reference r \<and>
     (ro_OpType c = OpCommit \<or> ro_OpType c = OpRelease \<or> ro_OpType c = OpConsume)"

definition GetUncommittedOps :: "treasury_db \<Rightarrow> ReserveOp list" where
  "GetUncommittedOps db =
     sort_key ro_CreatedAt
       (filter (\<lambda>r. ro_OpType r = OpReserve \<and> \<not> list_ex (completes r) (db_ops db)) (db_ops db))"

definition CleanupOldOps :: "instant \<Rightarrow> treasury_db \<Rightarrow> treasury_db" where
  "CleanupOldOps before db =
     db\<lparr>db_ops := filter (\<lambda>r. \<not> (ro_CreatedAt r < before \<and>
         (ro_OpType r = OpCommit \<or> ro_OpType r = OpRelease \<or> ro_OpType r = OpConsume \<or>
          list_ex (completes r) (db_ops db)))) (db_ops db)\<rparr>"

text \<open>\<^verbatim>\<open>ON CONFLICT (idempotency_key, recorded_at) DO NOTHING\<close>.\<close>

definition insert_event :: "PositionEvent \<Rightarrow> treasury_db \<Rightarrow> treasury_db" where
  "insert_event e db =
     (if list_ex (\<lambda>e'. pe_IdempotencyKey e' = pe_IdempotencyKey e \<and> pe_RecordedAt e' = pe_RecordedAt e)
         (db_events db)
      then db else db\<lparr>db_events := db_events db @ [e]\<rparr>)"

definition BatchWriteEvents :: "PositionEvent list \<Rightarrow> treasury_db \<Rightarrow> treasury_db" where
  "BatchWriteEvents events db = fold insert_event events db"

definition RecordHistory ::
  "uuid \<Rightarrow> uuid \<Rightarrow> decimal \<Rightarrow> decimal \<Rightarrow> string \<Rightarrow> treasury_db \<Rightarrow> treasury_db" where
  "RecordHistory positionID tenantID balance locked trigger db =
     db\<lparr>db_history := db_history db @ [(positionID, tenantID, balance, locked, trigger)]\<rparr>"

section \<open>Flush\<close>

text \<open>The environment of one flush: the clock, which row updates and history inserts succeed, and the cleanup.\<close>

record flush_env =
  fe_now :: instant
  fe_update_ok :: "uuid \<Rightarrow> bool"
  fe_history_ok :: "uuid \<Rightarrow> bool"
  fe_cleanup_ok :: bool

record PositionUpdate =
  pu_ID :: uuid
  pu_TenantID :: uuid
  pu_Balance :: decimal
  pu_Locked :: decimal

definition drainPendingOps :: "Manager \<Rightarrow> Manager" where
  "drainPendingOps m = m\<lparr>mg_pendingOps := []\<rparr>"

definition dirtyPositions :: "Manager \<Rightarrow> Manager \<times> positionKey list" where
  "dirtyPositions m = (m\<lparr>mg_dirtySet := []\<rparr>, mg_dirtySet m)"

text \<open>The adapter's batch update is a loop of single updates that stops at the first failure.\<close>

fun BatchUpdatePositions ::
  "flush_env \<Rightarrow> PositionUpdate list \<Rightarrow> treasury_db \<Rightarrow> treasury_db \<times> unit result" where
  "BatchUpdatePositions fe [] db = (db, Inr ())"
| "BatchUpdatePositions fe (u # us) db =
     (if fe_update_ok fe (pu_ID u)
      then BatchUpdatePositions fe us (update_row (fe_now fe) (pu_ID u) (pu_Balance u) (pu_Locked u) db)
      else (db, Inl (Errorf ''batch update positions'' None)))"

definition position_update :: "lib \<Rightarrow> PositionState \<Rightarrow> PositionUpdate" where
  "position_update L ps = \<lparr>pu_ID = ps_ID ps, pu_TenantID = ps_TenantID ps,
     pu_Balance = fromMicro L (ps_balance ps), pu_Locked = fromMicro L (ps_locked ps)\<rparr>"

definition clear_dirty :: "positionKey \<Rightarrow> Manager \<Rightarrow> Manager" where
  "clear_dirty key = upd_position key (\<lambda>ps. ps\<lparr>ps_dirty := False\<rparr>)"

definition record_flush :: "lib \<Rightarrow> flush_env \<Rightarrow> PositionUpdate \<Rightarrow> Manager \<Rightarrow> Manager" where
  "record_flush L fe u m =
     (if fe_history_ok fe (pu_ID u)
      then m\<lparr>mg_db := RecordHistory (pu_ID u) (pu_TenantID u) (pu_Balance u) (pu_Locked u) ''flush'' (mg_db m)\<rparr>
      else m)"

definition dirty_states :: "Manager \<Rightarrow> positionKey list \<Rightarrow> (positionKey \<times> PositionState) list" where
  "dirty_states m dirty = List.map_filter (\<lambda>key. map_option (Pair key) (position m key)) dirty"

definition flushBatch_positions ::
  "lib \<Rightarrow> flush_env \<Rightarrow> positionKey list \<Rightarrow> Manager \<Rightarrow> Manager \<times> nat \<times> bool \<times> string list" where
  "flushBatch_positions L fe dirty m =
     (let states = dirty_states m dirty; updates = map (position_update L \<circ> snd) states in
      case BatchUpdatePositions fe updates (mg_db m) of
        (db, Inl err) \<Rightarrow>
          (fold markDirty (map fst states) (m\<lparr>mg_db := db\<rparr>), 0, True,
           map (\<lambda>(_, ps). uuid_string L (ps_ID ps)) states)
      | (db, Inr _) \<Rightarrow>
          (fold (\<lambda>(key, ps) m. record_flush L fe (position_update L ps) (clear_dirty key m)) states
             (m\<lparr>mg_db := db\<rparr>), length states, False, []))"

fun flushIndividual ::
  "lib \<Rightarrow> flush_env \<Rightarrow> (positionKey \<times> PositionState) list \<Rightarrow> Manager \<Rightarrow> Manager \<times> nat \<times> bool \<times> string list" where
  "flushIndividual L fe [] m = (m, 0, False, [])"
| "flushIndividual L fe ((key, ps) # states) m =
     (let u = position_update L ps in
      if \<not> fe_update_ok fe (ps_ID ps)
      then case flushIndividual L fe states (markDirty key m) of
             (m', flushed, _, failed) \<Rightarrow> (m', flushed, True, uuid_string L (ps_ID ps) # failed)
      else case flushIndividual L fe states (clear_dirty key (record_flush L fe u
                  (m\<lparr>mg_db := update_row (fe_now fe) (pu_ID u) (pu_Balance u) (pu_Locked u) (mg_db m)\<rparr>))) of
             (m', flushed, hadError, failed) \<Rightarrow> (m', Suc flushed, hadError, failed))"

definition flushDirtyPositions ::
  "lib \<Rightarrow> treasury_config \<Rightarrow> flush_env \<Rightarrow> positionKey list \<Rightarrow> Manager \<Rightarrow> Manager \<times> nat \<times> bool \<times> string list" where
  "flushDirtyPositions L cfg fe dirty m =
     (if tc_batchStore cfg then flushBatch_positions L fe dirty m
      else flushIndividual L fe (dirty_states m dirty) m)"

definition flushOnce :: "lib \<Rightarrow> treasury_config \<Rightarrow> flush_env \<Rightarrow> Manager \<Rightarrow> Manager" where
  "flushOnce L cfg fe m =
     (case dirtyPositions (drainPendingOps m) of
        (m1, dirty) \<Rightarrow>
          if dirty = [] then m1
          else case flushDirtyPositions L cfg fe dirty m1 of
            (m2, flushed, hadError, failed) \<Rightarrow>
              if hadError
              then m2\<lparr>mg_failedPositionIDs := failed, mg_flushFailures := mg_flushFailures m2 + 1\<rparr>
              else m2\<lparr>mg_failedPositionIDs := [], mg_flushFailures := 0\<rparr>)"

definition cleanupOldReserveOps :: "treasury_config \<Rightarrow> flush_env \<Rightarrow> Manager \<Rightarrow> Manager" where
  "cleanupOldReserveOps cfg fe m =
     (if tc_opStore cfg \<and> fe_cleanup_ok fe
      then m\<lparr>mg_db := CleanupOldOps (fe_now fe - 1 * Hour) (mg_db m)\<rparr> else m)"

text \<open>One tick of the flush loop: the loop's counter and the manager.\<close>

definition flush_tick ::
  "lib \<Rightarrow> treasury_config \<Rightarrow> flush_env \<Rightarrow> nat \<times> Manager \<Rightarrow> nat \<times> Manager" where
  "flush_tick L cfg fe = (\<lambda>(tickCount, m).
     let m1 = flushOnce L cfg fe m; n = Suc tickCount;
         m2 = (if n mod 60 = 0 then cleanupIdempotencyMap (fe_now fe) (10 * Minute) m1 else m1);
         m3 = (if n mod 600 = 0 then cleanupOldReserveOps cfg fe m2 else m2) in
     (n, m3))"

section \<open>Event writer\<close>

definition drainEventChannel :: "Manager \<Rightarrow> Manager \<times> PositionEvent list" where
  "drainEventChannel m =
     (m\<lparr>mg_pendingEvents := drop 1000 (mg_pendingEvents m)\<rparr>, take 1000 (mg_pendingEvents m))"

definition drainAndWriteEvents :: "treasury_config \<Rightarrow> bool \<Rightarrow> Manager \<Rightarrow> Manager" where
  "drainAndWriteEvents cfg write_ok m =
     (case drainEventChannel m of
        (m1, batch) \<Rightarrow>
          if batch = [] \<or> \<not> tc_eventStore cfg then m1
          else if write_ok then m1\<lparr>mg_db := BatchWriteEvents batch (mg_db m1)\<rparr>
          else m1\<lparr>mg_pendingEvents := mg_pendingEvents m1 @
                    take (100000 - length (mg_pendingEvents m1)) batch\<rparr>)"

section \<open>Recovery\<close>

fun add_positions :: "lib \<Rightarrow> Position list \<Rightarrow> Manager \<Rightarrow> Manager \<times> unit result" where
  "add_positions L [] m = (m, Inr ())"
| "add_positions L (pos # ps) m =
     (case addPosition L pos m of Inl panic \<Rightarrow> (m, Inl panic) | Inr m' \<Rightarrow> add_positions L ps m')"

text \<open>The paging loop ends because a full page means that at least that many rows are left.\<close>

function load_pages ::
  "lib \<Rightarrow> treasury_db \<Rightarrow> (nat \<Rightarrow> bool) \<Rightarrow> nat \<Rightarrow> Manager \<Rightarrow> Manager \<times> unit result" where
  "load_pages L db page_ok offset m =
     (if \<not> page_ok offset
      then (m, Inl (Errorf ''settla-treasury: loading positions batch'' None))
      else let positions = LoadPositionsPaginated 1000 offset db in
           case add_positions L positions m of
             (m', Inl panic) \<Rightarrow> (m', Inl panic)
           | (m', Inr _) \<Rightarrow>
               if length positions < 1000 then (m', Inr ())
               else load_pages L db page_ok (offset + 1000) m')"
  by pat_completeness auto

termination load_pages
  by (relation "measure (\<lambda>(L, db, ok, offset, m). length (db_positions db) - offset)")
    (auto simp: LoadPositionsPaginated_def)

declare load_pages.simps [simp del]

definition replayOp ::
  "lib \<Rightarrow> treasury_config \<Rightarrow> op_env \<Rightarrow> ReserveOp \<Rightarrow> Manager \<Rightarrow> Manager \<times> unit result" where
  "replayOp L cfg ev op m =
     (let t = ro_TenantID op; c = ro_Currency op; l = ro_Location op; a = ro_Amount op; r = ro_Reference op in
      case ro_OpType op of
        OpReserve \<Rightarrow> Reserve L cfg ev t c l a r m
      | OpRelease \<Rightarrow> Release L cfg ev t c l a r m
      | OpCommit \<Rightarrow> CommitReservation L cfg ev t c l a r m
      | OpConsume \<Rightarrow> ConsumeReservation L cfg ev t c l a r m
      | OpCredit \<Rightarrow> CreditBalance L cfg ev t c l a r ''recovery'' m
      | OpDebit \<Rightarrow> DebitBalance L cfg ev t c l a r ''recovery'' m
      | OpOther _ \<Rightarrow> (m, Inl (Errorf ''settla-treasury: unknown op type'' None)))"

text \<open>An operation that fails to replay is logged and skipped; only a panic stops the loop.\<close>

fun replay_ops ::
  "lib \<Rightarrow> treasury_config \<Rightarrow> (ReserveOp \<Rightarrow> op_env) \<Rightarrow> ReserveOp list \<Rightarrow> Manager \<Rightarrow> Manager \<times> unit result" where
  "replay_ops L cfg env [] m = (m, Inr ())"
| "replay_ops L cfg env (op # ops) m =
     (case replayOp L cfg (env op) op m of
        (m', Inl err) \<Rightarrow> if is_panic err then (m', Inl err) else replay_ops L cfg env ops m'
      | (m', Inr _) \<Rightarrow> replay_ops L cfg env ops m')"

definition reset_manager :: "Manager \<Rightarrow> Manager" where
  "reset_manager m = m\<lparr>mg_positions := [], mg_tenantIndex := [], mg_dirtySet := [],
     mg_shards := map (\<lambda>_. []) (mg_shards m)\<rparr>"

definition LoadPositions ::
  "lib \<Rightarrow> treasury_config \<Rightarrow> (nat \<Rightarrow> bool) \<Rightarrow> bool \<Rightarrow> (ReserveOp \<Rightarrow> op_env) \<Rightarrow> Manager \<Rightarrow> Manager \<times> unit result" where
  "LoadPositions L cfg page_ok ops_ok env m =
     (case load_pages L (mg_db m) page_ok 0 (reset_manager m) of
        (m1, Inl err) \<Rightarrow> (m1, Inl err)
      | (m1, Inr _) \<Rightarrow>
          (case (if tc_opStore cfg \<and> ops_ok
                 then replay_ops L cfg env (GetUncommittedOps (mg_db m1)) (m1\<lparr>mg_replaying := True\<rparr>)
                 else (m1\<lparr>mg_replaying := True\<rparr>, Inr ())) of
             (m2, Inl panic) \<Rightarrow> (m2, Inl panic)
           | (m2, Inr _) \<Rightarrow> (m2\<lparr>mg_replaying := False\<rparr>, Inr ())))"

text \<open>A crash: a new process starts with empty channels and maps and the same database.\<close>

definition crash :: "Manager \<Rightarrow> Manager" where
  "crash m = \<lparr>mg_positions = [], mg_tenantIndex = [], mg_dirtySet = [], mg_shards = replicate 16 [],
     mg_pendingOps = [], mg_pendingEvents = [], mg_replaying = False, mg_flushFailures = 0,
     mg_failedPositionIDs = [], mg_alerts = [], mg_db = mg_db m\<rparr>"

definition restart :: "lib \<Rightarrow> treasury_config \<Rightarrow> (ReserveOp \<Rightarrow> op_env) \<Rightarrow> Manager \<Rightarrow> Manager \<times> unit result" where
  "restart L cfg env m = LoadPositions L cfg (\<lambda>_. True) True env (crash m)"

section \<open>Durability invariant\<close>

text \<open>
  The rows mirror the positions (same keys and identifiers), and the row of every position that
  is not in the dirty set holds its balance and locked amount.
\<close>

definition row_key :: "Position \<Rightarrow> positionKey" where
  "row_key p = (pn_TenantID p, pn_Currency p, pn_Location p)"

definition idents :: "Manager \<Rightarrow> positionKey \<Rightarrow> uuid option" where
  "idents m key = map_option ps_ID (position m key)"

definition mirrors :: "Manager \<Rightarrow> bool" where
  "mirrors m \<longleftrightarrow>
     idents m = map_of (map (\<lambda>p. (row_key p, pn_ID p)) (db_positions (mg_db m))) \<and>
     distinct (map row_key (db_positions (mg_db m))) \<and> distinct (map pn_ID (db_positions (mg_db m)))"

definition synced_row :: "lib \<Rightarrow> treasury_db \<Rightarrow> PositionState \<Rightarrow> bool" where
  "synced_row L db ps \<longleftrightarrow> (\<forall>p \<in> set (db_positions db). pn_ID p = ps_ID ps \<longrightarrow>
     pn_Balance p = fromMicro L (ps_balance ps) \<and> pn_Locked p = fromMicro L (ps_locked ps))"

definition durable :: "lib \<Rightarrow> Manager \<Rightarrow> bool" where
  "durable L m \<longleftrightarrow> mirrors m \<and>
     (\<forall>key ps. position m key = Some ps \<longrightarrow> key \<in> set (mg_dirtySet m) \<or> synced_row L (mg_db m) ps)"

text \<open>The same with some positions exempt, for the moment between a change and its mark.\<close>

definition durable_except :: "lib \<Rightarrow> positionKey set \<Rightarrow> Manager \<Rightarrow> bool" where
  "durable_except L S m \<longleftrightarrow> mirrors m \<and>
     (\<forall>key ps. position m key = Some ps \<longrightarrow>
        key \<in> S \<or> key \<in> set (mg_dirtySet m) \<or> synced_row L (mg_db m) ps)"

lemma durableD:
  "durable L m \<Longrightarrow> position m key = Some ps \<Longrightarrow> key \<in> set (mg_dirtySet m) \<or> synced_row L (mg_db m) ps"
  unfolding durable_def by blast

lemma durableI:
  "mirrors m \<Longrightarrow>
   (\<And>key ps. position m key = Some ps \<Longrightarrow> key \<notin> set (mg_dirtySet m) \<Longrightarrow> synced_row L (mg_db m) ps) \<Longrightarrow>
   durable L m"
  unfolding durable_def by blast

lemma exceptD:
  "durable_except L S m \<Longrightarrow> position m key = Some ps \<Longrightarrow>
     key \<in> S \<or> key \<in> set (mg_dirtySet m) \<or> synced_row L (mg_db m) ps"
  unfolding durable_except_def by blast

lemma idents_upd [simp]:
  "(\<And>ps. ps_ID (f ps) = ps_ID ps) \<Longrightarrow> idents (upd_position key f m) = idents m"
  by (rule ext) (simp add: idents_def option.map_comp comp_def)

lemma mirrors_cong:
  "idents m' = idents m \<Longrightarrow> db_positions (mg_db m') = db_positions (mg_db m) \<Longrightarrow> mirrors m' = mirrors m"
  by (simp add: mirrors_def)

lemma durable_frame [simp]:
  "durable L (m\<lparr>mg_shards := x1\<rparr>) = durable L m"
  "durable L (m\<lparr>mg_pendingEvents := x2\<rparr>) = durable L m"
  "durable L (m\<lparr>mg_alerts := x3\<rparr>) = durable L m"
  "durable L (m\<lparr>mg_pendingOps := x4\<rparr>) = durable L m"
  "durable L (m\<lparr>mg_failedPositionIDs := x5, mg_flushFailures := x6\<rparr>) = durable L m"
  "durable L (m\<lparr>mg_db := insert_op op (mg_db m)\<rparr>) = durable L m"
  "durable L (m\<lparr>mg_db := insert_op op (mg_db m), mg_pendingOps := x4\<rparr>) = durable L m"
  by (simp_all add: durable_def mirrors_def idents_def synced_row_def insert_op_def fun_eq_iff)

lemma mirrors_inj:
  assumes "mirrors m" "position m k = Some p" "position m k' = Some p'" "ps_ID p = ps_ID p'"
  shows "k = k'"
proof -
  let ?rows = "db_positions (mg_db m)"
  have "idents m k = Some (ps_ID p)" "idents m k' = Some (ps_ID p)" using assms by (simp_all add: idents_def)
  then obtain r r' where r: "r \<in> set ?rows" "row_key r = k" "pn_ID r = ps_ID p"
    and r': "r' \<in> set ?rows" "row_key r' = k'" "pn_ID r' = ps_ID p"
    using assms(1) by (auto simp: mirrors_def dest!: map_of_SomeD)
  moreover have "inj_on pn_ID (set ?rows)" using assms(1) by (simp add: mirrors_def distinct_map)
  ultimately have "r = r'" by (simp add: inj_on_def)
  with r r' show ?thesis by simp
qed

lemma upd_position_dirty [simp]: "mg_dirtySet (upd_position key f m) = mg_dirtySet m"
  by (simp add: upd_position_def)

lemma exceptI:
  "mirrors m \<Longrightarrow>
   (\<And>key ps. position m key = Some ps \<Longrightarrow> key \<notin> S \<Longrightarrow> key \<notin> set (mg_dirtySet m) \<Longrightarrow>
      synced_row L (mg_db m) ps) \<Longrightarrow>
   durable_except L S m"
  unfolding durable_except_def by blast

lemma except_weaken: "durable L m \<Longrightarrow> durable_except L S m"
  by (rule exceptI) (auto simp: durable_def dest: durableD)

lemma except_empty: "durable_except L {} m = durable L m"
  by (simp add: durable_except_def durable_def)

lemma except_upd:
  assumes "durable_except L S m" and "\<And>ps. ps_ID (f ps) = ps_ID ps"
    and "key \<in> S \<or> (\<forall>ps. ps_balance (f ps) = ps_balance ps \<and> ps_locked (f ps) = ps_locked ps)"
  shows "durable_except L S (upd_position key f m)"
proof (rule exceptI)
  show "mirrors (upd_position key f m)"
    using assms mirrors_cong [of "upd_position key f m" m] by (simp add: durable_except_def)
  fix k ps
  assume k: "position (upd_position key f m) k = Some ps" "k \<notin> S" "k \<notin> set (mg_dirtySet (upd_position key f m))"
  show "synced_row L (mg_db (upd_position key f m)) ps"
  proof (cases "k = key")
    case True
    then obtain ps0 where "position m key = Some ps0" "ps = f ps0" using k by auto
    then show ?thesis using assms(2,3) True k exceptD [OF assms(1), of key ps0] by (auto simp: synced_row_def)
  next
    case False
    then show ?thesis using k exceptD [OF assms(1), of k ps] by auto
  qed
qed

lemma except_insert_mark: "durable_except L (insert key S) m \<Longrightarrow> durable_except L S (markDirty key m)"
proof -
  let ?m = "m\<lparr>mg_dirtySet := List.insert key (mg_dirtySet m)\<rparr>"
  assume a: "durable_except L (insert key S) m"
  then have "mirrors ?m" by (simp add: durable_except_def mirrors_def idents_def fun_eq_iff)
  then have "durable_except L S ?m"
    by (rule exceptI) (auto dest: exceptD [OF a])
  then show ?thesis unfolding markDirty_def by (rule except_upd) simp_all
qed

lemma except_mark: "durable_except L {key} m \<Longrightarrow> durable L (markDirty key m)"
  using except_insert_mark [of L key "{}"] by (simp add: except_empty)

lemma except_fold_mark: "durable_except L (set keys) m \<Longrightarrow> durable L (fold markDirty keys m)"
  by (induction keys arbitrary: m) (simp_all add: except_empty except_insert_mark)

lemma except_steps:
  "durable_except L {key} m \<Longrightarrow> durable_except L {key} (add_reserved key d m)"
  "durable_except L {key} m \<Longrightarrow> durable_except L {key} (add_balance key d m)"
  "durable_except L {key} m \<Longrightarrow> durable_except L {key} (add_locked key d m)"
  "durable_except L {key} m \<Longrightarrow> durable_except L {key} (upd_position key (\<lambda>ps. ps\<lparr>ps_balance := b\<rparr>) m)"
  by (simp_all add: add_reserved_def add_balance_def add_locked_def except_upd)

lemma durable_upd:
  assumes "durable L m" and "\<And>ps. ps_ID (f ps) = ps_ID ps"
    and "key \<in> set (mg_dirtySet m) \<or> (\<forall>ps. ps_balance (f ps) = ps_balance ps \<and> ps_locked (f ps) = ps_locked ps)"
  shows "durable L (upd_position key f m)"
proof (cases "key \<in> set (mg_dirtySet m)")
  case True
  have "durable_except L {key} (upd_position key f m)"
    by (rule except_upd) (use assms except_weaken in auto)
  then show ?thesis
    unfolding durable_except_def using True
    by (intro durableI) auto
next
  case False
  then have "durable_except L {} (upd_position key f m)"
    by (intro except_upd) (use assms in \<open>auto simp: except_empty\<close>)
  then show ?thesis by (simp add: except_empty)
qed

lemma durable_steps:
  "durable L m \<Longrightarrow> durable L (add_reserved key d m)"
  "durable L m \<Longrightarrow> key \<in> set (mg_dirtySet m) \<Longrightarrow> durable L (add_balance key d m)"
  "durable L m \<Longrightarrow> key \<in> set (mg_dirtySet m) \<Longrightarrow> durable L (add_locked key d m)"
  "durable L (rollbackIdempotency L' r op m) = durable L m"
  "durable L (queueEvent L' ev key ty a r rt m) = durable L m"
  "durable L (publishLiquidityAlert cfg ps m) = durable L m"
  by (simp_all add: add_reserved_def add_balance_def add_locked_def rollbackIdempotency_def
      queueEvent_def publishLiquidityAlert_def durable_upd split: option.splits)

lemma dirty_steps:
  "set (mg_dirtySet (markDirty key m)) = insert key (set (mg_dirtySet m))"
  "mg_dirtySet (add_reserved key d m) = mg_dirtySet m"
  "mg_dirtySet (add_balance key d m) = mg_dirtySet m"
  "mg_dirtySet (add_locked key d m) = mg_dirtySet m"
  "mg_dirtySet (queueEvent L ev key ty a r rt m) = mg_dirtySet m"
  by (simp_all add: markDirty_def add_reserved_def add_balance_def add_locked_def queueEvent_def
      split: option.splits)

lemma durable_acquire:
  "tryAcquireIdempotency L' n r op m = (m', c) \<Longrightarrow> durable L m' = durable L m \<and> mg_dirtySet m' = mg_dirtySet m"
  by (auto simp: tryAcquireIdempotency_def split: prod.splits)

lemma durable_logOp:
  "logOp cfg ev t c l a r ty m = (m', res) \<Longrightarrow>
     durable L m' = durable L m \<and> mg_dirtySet m' = mg_dirtySet m"
  by (auto simp: logOp_def Let_def split: if_splits)

lemma synced_update_self:
  "synced_row L (update_row now (ps_ID ps) (fromMicro L (ps_balance ps)) (fromMicro L (ps_locked ps)) db) ps"
  by (auto simp: synced_row_def update_row_def)

lemma synced_update_other:
  "ps_ID ps \<noteq> ident \<Longrightarrow> synced_row L (update_row now ident b l db) ps = synced_row L db ps"
  by (auto simp: synced_row_def update_row_def)

lemma update_row_keys [simp]:
  "map (\<lambda>p. (row_key p, pn_ID p)) (db_positions (update_row now ident b l db)) =
     map (\<lambda>p. (row_key p, pn_ID p)) (db_positions db)"
  "map row_key (db_positions (update_row now ident b l db)) = map row_key (db_positions db)"
  "map pn_ID (db_positions (update_row now ident b l db)) = map pn_ID (db_positions db)"
  by (simp_all add: update_row_def row_key_def comp_def)

lemma mirrors_update_row:
  "mirrors m \<Longrightarrow> idents m' = idents m \<Longrightarrow> mg_db m' = update_row now ident b l (mg_db m) \<Longrightarrow> mirrors m'"
  by (simp add: mirrors_def)

lemma durable_syncFlush:
  assumes "syncFlushPosition L ev key m = (m', res)" and "durable L m"
  shows "durable L m' \<and> (res \<noteq> Inr () \<longrightarrow> m' = m)"
proof (cases "m' = m")
  case False
  then obtain ps where ps: "position m key = Some ps" and res: "res = Inr ()"
    and m': "m' = upd_position key (\<lambda>ps. ps\<lparr>ps_dirty := False\<rparr>)
                 (m\<lparr>mg_dirtySet := removeAll key (mg_dirtySet m),
                    mg_db := update_row (ev_now ev) (ps_ID ps) (fromMicro L (ps_balance ps))
                               (fromMicro L (ps_locked ps)) (mg_db m)\<rparr>)"
    using assms(1) by (auto simp: syncFlushPosition_def split: option.splits if_splits)
  let ?m = "m\<lparr>mg_dirtySet := removeAll key (mg_dirtySet m),
      mg_db := update_row (ev_now ev) (ps_ID ps) (fromMicro L (ps_balance ps)) (fromMicro L (ps_locked ps)) (mg_db m)\<rparr>"
  have "mirrors m" using assms(2) by (simp add: durable_def)
  then have "mirrors ?m" by (rule mirrors_update_row) (simp_all add: idents_def fun_eq_iff)
  moreover have "k \<in> set (mg_dirtySet ?m) \<or> synced_row L (mg_db ?m) q" if q: "position ?m k = Some q" for k q
  proof (cases "k = key")
    case True
    then show ?thesis using q ps by (simp add: synced_update_self)
  next
    case False
    then have "ps_ID q \<noteq> ps_ID ps" using mirrors_inj [OF \<open>mirrors m\<close>, of k q key ps] q ps by auto
    then show ?thesis using q durableD [OF assms(2), of k q] False by (auto simp: synced_update_other)
  qed
  ultimately have "durable L ?m" by (intro durableI) blast+
  then show ?thesis unfolding m' using res by (simp add: durable_upd)
qed (simp add: assms(2))

lemma durable_fst:
  "durable L (fst (tryAcquireIdempotency L' n r op m)) = durable L m"
  "durable L (fst (logOp cfg ev t c l a r ty m)) = durable L m"
  "durable L m \<Longrightarrow> durable L (fst (syncFlushPosition L ev key m))"
  "mg_dirtySet (fst (tryAcquireIdempotency L' n r op m)) = mg_dirtySet m"
  "mg_dirtySet (fst (logOp cfg ev t c l a r ty m)) = mg_dirtySet m"
  using durable_acquire [of L' n r op m, OF prod.collapse [symmetric]]
    durable_logOp [of cfg ev t c l a r ty m, OF prod.collapse [symmetric]]
    durable_syncFlush [of L ev key m, OF prod.collapse [symmetric]] by simp_all

lemma result_fst:
  "tryAcquireIdempotency L n r op m = (m', b) \<Longrightarrow> m' = fst (tryAcquireIdempotency L n r op m)"
  "logOp cfg ev t c l a r ty m = (m', res) \<Longrightarrow> m' = fst (logOp cfg ev t c l a r ty m)"
  "syncFlushPosition L ev key m = (m', Inr u) \<Longrightarrow> m' = fst (syncFlushPosition L ev key m)"
  "syncFlushPosition L ev key m = (m', Inl err) \<Longrightarrow> m' = m"
  by (auto simp: syncFlushPosition_def split: option.splits if_splits)

lemmas durable_rules = durable_steps dirty_steps except_weaken except_steps except_mark durable_fst

lemma Reserve_durable [durable_intros]:
  "durable L m \<Longrightarrow> Reserve L cfg ev t c l a r m = (m', res) \<Longrightarrow> durable L m'"
  by (simp add: Reserve_def validateMicroRange_def Let_def
      split: if_splits sum.splits prod.splits bool.splits option.splits)
    (auto simp: durable_rules dest!: result_fst)

lemma Release_durable [durable_intros]:
  "durable L m \<Longrightarrow> Release L cfg ev t c l a r m = (m', res) \<Longrightarrow> durable L m'"
  by (simp add: Release_def validateMicroRange_def Let_def
      split: if_splits sum.splits prod.splits bool.splits option.splits)
    (auto simp: durable_rules dest!: result_fst)

lemma CommitReservation_durable [durable_intros]:
  "durable L m \<Longrightarrow> CommitReservation L cfg ev t c l a r m = (m', res) \<Longrightarrow> durable L m'"
  by (simp add: CommitReservation_def validateMicroRange_def Let_def
      split: if_splits sum.splits prod.splits bool.splits option.splits)
    (auto simp: durable_rules dest!: result_fst)

lemma ConsumeReservation_durable [durable_intros]:
  "durable L m \<Longrightarrow> ConsumeReservation L cfg ev t c l a r m = (m', res) \<Longrightarrow> durable L m'"
  by (simp add: ConsumeReservation_def validateMicroRange_def Let_def
      split: if_splits sum.splits prod.splits bool.splits option.splits)
    (auto simp: durable_rules dest!: result_fst)

lemma CreditBalance_durable [durable_intros]:
  "durable L m \<Longrightarrow> CreditBalance L cfg ev t c l a r ty m = (m', res) \<Longrightarrow> durable L m'"
  by (simp add: CreditBalance_def validateMicroRange_def Let_def
      split: if_splits sum.splits prod.splits bool.splits option.splits)
    (auto simp: durable_rules dest!: result_fst)

lemma DebitBalance_durable [durable_intros]:
  "durable L m \<Longrightarrow> DebitBalance L cfg ev t c l a r ty m = (m', res) \<Longrightarrow> durable L m'"
  by (simp add: DebitBalance_def validateMicroRange_def Let_def
      split: if_splits sum.splits prod.splits bool.splits option.splits)
    (auto simp: durable_rules dest!: result_fst)

lemma UpdateBalance_durable [durable_intros]:
  "durable L m \<Longrightarrow> UpdateBalance L t c l a m = (m', res) \<Longrightarrow> durable L m'"
  unfolding UpdateBalance_def Let_def
  by (auto split: if_splits sum.splits) (simp_all add: durable_rules)

lemma exec_durable:
  assumes "durable L m" and "treasury_exec L cfg (ev, c) m = (m', res)"
  shows "durable L m'"
  using assms(2) by (cases c) (auto intro: durable_intros [OF assms(1)])

section \<open>Flushing\<close>

text \<open>A batch of updates: a prefix of it is written, and all of it when no error is reported.\<close>

lemma batch_mirrors:
  assumes "BatchUpdatePositions fe us db = (db', res)"
  shows "map (\<lambda>p. (row_key p, pn_ID p)) (db_positions db') = map (\<lambda>p. (row_key p, pn_ID p)) (db_positions db)"
  using assms
proof (induction fe us db rule: BatchUpdatePositions.induct)
  case (2 fe u us db)
  then show ?case by (auto split: if_splits)
qed simp

lemma batch_other:
  assumes "BatchUpdatePositions fe us db = (db', res)" and "ps_ID ps \<notin> pu_ID ` set us"
  shows "synced_row L db' ps = synced_row L db ps"
  using assms
  by (induction fe us db rule: BatchUpdatePositions.induct) (auto simp: synced_update_other split: if_splits)

lemma position_update_simps [simp]:
  "pu_ID (position_update L ps) = ps_ID ps" "pu_TenantID (position_update L ps) = ps_TenantID ps"
  "pu_Balance (position_update L ps) = fromMicro L (ps_balance ps)"
  "pu_Locked (position_update L ps) = fromMicro L (ps_locked ps)"
  by (simp_all add: position_update_def)

lemma update_ids: "pu_ID ` set (map (position_update L) states) = ps_ID ` set states"
  by (simp add: image_image)

lemma batch_all:
  assumes "BatchUpdatePositions fe (map (position_update L) states) db = (db', Inr ())"
    and "\<And>p q. p \<in> set states \<Longrightarrow> q \<in> set states \<Longrightarrow> ps_ID p = ps_ID q \<Longrightarrow> p = q" and "ps \<in> set states"
  shows "synced_row L db' ps"
  using assms
proof (induction states arbitrary: db)
  case (Cons s states)
  let ?db = "update_row (fe_now fe) (ps_ID s) (fromMicro L (ps_balance s)) (fromMicro L (ps_locked s)) db"
  have rest: "BatchUpdatePositions fe (map (position_update L) states) ?db = (db', Inr ())"
    using Cons.prems(1) by (auto split: if_splits)
  show ?case
  proof (cases "ps \<in> set states")
    case True
    show ?thesis by (rule Cons.IH [OF rest _ True]) (rule Cons.prems(2), simp_all)
  next
    case False
    then have s: "ps = s" using Cons.prems(3) by simp
    have "ps_ID s \<notin> pu_ID ` set (map (position_update L) states)"
    proof
      assume "ps_ID s \<in> pu_ID ` set (map (position_update L) states)"
      then obtain q where q: "q \<in> set states" "ps_ID s = ps_ID q" by auto
      then have "s = q" using Cons.prems(2) [of s q] by simp
      with q False s show False by simp
    qed
    from batch_other [OF rest this, of L] show ?thesis by (simp add: s synced_update_self)
  qed
qed simp

lemma dirty_states_iff: "(key, ps) \<in> set (dirty_states m dirty) \<longleftrightarrow> key \<in> set dirty \<and> position m key = Some ps"
  by (auto simp: dirty_states_def List.map_filter_def intro!: rev_image_eqI [of key])

lemma dirty_states_position:
  assumes "ps \<in> set (map snd (dirty_states m dirty))"
  shows "\<exists>key. key \<in> set dirty \<and> position m key = Some ps"
proof -
  obtain x where "x \<in> set (dirty_states m dirty)" "ps = snd x" using assms by auto
  then have "(fst x, ps) \<in> set (dirty_states m dirty)" by simp
  then show ?thesis unfolding dirty_states_iff by blast
qed

lemma mirrors_same_rows:
  assumes "mirrors m" and "idents m' = idents m"
    and "map (\<lambda>p. (row_key p, pn_ID p)) (db_positions (mg_db m')) = map (\<lambda>p. (row_key p, pn_ID p)) (db_positions (mg_db m))"
  shows "mirrors m'"
proof -
  have "map row_key (db_positions (mg_db m')) = map row_key (db_positions (mg_db m))"
    "map pn_ID (db_positions (mg_db m')) = map pn_ID (db_positions (mg_db m))"
    using arg_cong [OF assms(3), of "map fst"] arg_cong [OF assms(3), of "map snd"] by (simp_all add: comp_def)
  with assms show ?thesis by (simp add: mirrors_def)
qed

lemma synced_row_cong:
  "ps_ID p = ps_ID q \<Longrightarrow> ps_balance p = ps_balance q \<Longrightarrow> ps_locked p = ps_locked q \<Longrightarrow>
     synced_row L db p = synced_row L db q"
  by (simp add: synced_row_def)

lemma durable_clear: "durable_except L S m \<Longrightarrow> durable_except L S (clear_dirty key m)"
  unfolding clear_dirty_def by (rule except_upd) simp_all

lemma durable_record: "durable_except L S m \<Longrightarrow> durable_except L S (record_flush L fe u m)"
  by (simp add: durable_except_def record_flush_def mirrors_def idents_def synced_row_def RecordHistory_def fun_eq_iff)

lemma durable_fold_record:
  "durable L m \<Longrightarrow>
     durable L (fold (\<lambda>(key, ps) m. record_flush L fe (position_update L ps) (clear_dirty key m)) states m)"
  unfolding except_empty [symmetric]
  by (induction states arbitrary: m) (auto intro: durable_record durable_clear)

text \<open>The batch path, from a manager whose dirty set has just been drained.\<close>

lemma flushBatch_durable:
  assumes e: "durable_except L (set dirty) m" and "mg_dirtySet m = []"
    and f: "flushBatch_positions L fe dirty m = (m', n, hadError, failed)"
  shows "durable L m'"
proof -
  let ?states = "dirty_states m dirty"
  obtain db res where b: "BatchUpdatePositions fe (map (position_update L) (map snd ?states)) (mg_db m) = (db, res)"
    by force
  let ?m = "m\<lparr>mg_db := db\<rparr>"
  have mir: "mirrors m" using e by (simp add: durable_except_def)
  have "mirrors ?m"
    by (rule mirrors_same_rows [OF mir]) (simp_all add: idents_def fun_eq_iff batch_mirrors [OF b])
  have other: "synced_row L db ps" if "position m key = Some ps" "key \<notin> set dirty" for key ps
  proof -
    have "ps_ID ps \<notin> pu_ID ` set (map (position_update L) (map snd ?states))"
    proof
      assume "ps_ID ps \<in> pu_ID ` set (map (position_update L) (map snd ?states))"
      then obtain q where q: "q \<in> set (map snd ?states)" "ps_ID ps = ps_ID q"
        unfolding update_ids by (rule imageE)
      then obtain k where k: "k \<in> set dirty" "position m k = Some q" using dirty_states_position by blast
      have "key = k" using mir that(1) k(2) q(2) by (rule mirrors_inj)
      with k(1) that(2) show False by blast
    qed
    moreover have "synced_row L (mg_db m) ps" using exceptD [OF e that(1)] that(2) assms(2) by simp
    ultimately show ?thesis using batch_other [OF b] by simp
  qed
  show ?thesis
  proof (cases res)
    case (Inl err)
    have "durable_except L (set (map fst ?states)) ?m"
    proof (rule exceptI [OF \<open>mirrors ?m\<close>])
      fix k p
      assume k: "position ?m k = Some p" "k \<notin> set (map fst ?states)"
      have "(k, p) \<notin> set ?states" using k(2) by (rule contrapos_nn) (simp add: image_eqI [of _ _ "(k, p)"])
      with k(1) have "k \<notin> set dirty" by (simp add: dirty_states_iff)
      with k(1) show "synced_row L (mg_db ?m) p" by (simp add: other)
    qed
    then show ?thesis
      using f b Inl by (auto simp: flushBatch_positions_def Let_def comp_def intro: except_fold_mark)
  next
    case (Inr u)
    have "synced_row L db ps" if "position m key = Some ps" "key \<in> set dirty" for key ps
    proof (rule batch_all [where states = "map snd ?states"])
      show "BatchUpdatePositions fe (map (position_update L) (map snd ?states)) (mg_db m) = (db, Inr ())"
        using b Inr by simp
      show "ps \<in> set (map snd ?states)"
        using that dirty_states_iff [of key ps m dirty] by force
      fix p q
      assume pq: "p \<in> set (map snd ?states)" "q \<in> set (map snd ?states)" "ps_ID p = ps_ID q"
      obtain k where k: "position m k = Some p" using dirty_states_position [OF pq(1)] by blast
      obtain k' where k': "position m k' = Some q" using dirty_states_position [OF pq(2)] by blast
      from mirrors_inj [OF mir k k' pq(3)] k k' show "p = q" by simp
    qed
    with other have "synced_row L db ps" if "position m key = Some ps" for key ps
      using that by (cases "key \<in> set dirty") blast+
    then have "durable L ?m"
      using \<open>mirrors ?m\<close> by (intro durableI) simp_all
    then show ?thesis
      using f b Inr by (auto simp: flushBatch_positions_def Let_def comp_def intro: durable_fold_record)
  qed
qed

text \<open>The path of single updates: the positions still to be written are exempt.\<close>

lemma flushIndividual_durable:
  assumes "durable_except L (fst ` set states) m"
    and "\<And>key ps. (key, ps) \<in> set states \<Longrightarrow> \<exists>q. position m key = Some q \<and> ps_ID q = ps_ID ps \<and>
      ps_balance q = ps_balance ps \<and> ps_locked q = ps_locked ps"
    and "flushIndividual L fe states m = (m', n, hadError, failed)"
  shows "durable L m'"
  using assms
proof (induction states arbitrary: m m' n hadError failed)
  case (Cons s states)
  obtain key ps where s: "s = (key, ps)" by (rule prod.exhaust)
  obtain q where q: "position m key = Some q" "ps_ID q = ps_ID ps" "ps_balance q = ps_balance ps"
    "ps_locked q = ps_locked ps" using Cons.prems(2) [of key ps] by (auto simp: s)
  have e: "durable_except L (insert key (fst ` set states)) m" using Cons.prems(1) by (simp add: s)
  let ?db = "update_row (fe_now fe) (ps_ID ps) (fromMicro L (ps_balance ps)) (fromMicro L (ps_locked ps)) (mg_db m)"
  let ?m1 = "if fe_update_ok fe (ps_ID ps)
    then clear_dirty key (record_flush L fe (position_update L ps) (m\<lparr>mg_db := ?db\<rparr>)) else markDirty key m"
  obtain n1 h1 f1 where r: "flushIndividual L fe states ?m1 = (m', n1, h1, f1)"
    using Cons.prems(3) by (auto simp: s Let_def split: if_splits prod.splits)
  have "\<exists>q. position ?m1 k = Some q \<and> ps_ID q = ps_ID p \<and> ps_balance q = ps_balance p \<and> ps_locked q = ps_locked p"
    if "(k, p) \<in> set states" for k p
    using Cons.prems(2) [of k p] that by (auto simp: s clear_dirty_def record_flush_def markDirty_def)
  moreover have "durable_except L (fst ` set states) ?m1"
  proof (cases "fe_update_ok fe (ps_ID ps)")
    case True
    have mir: "mirrors m" using e by (simp add: durable_except_def)
    then have "mirrors (m\<lparr>mg_db := ?db\<rparr>)" by (rule mirrors_update_row) (simp_all add: idents_def fun_eq_iff)
    then have "durable_except L (fst ` set states) (m\<lparr>mg_db := ?db\<rparr>)"
    proof (rule exceptI)
      fix k p
      assume k: "position (m\<lparr>mg_db := ?db\<rparr>) k = Some p" "k \<notin> fst ` set states" "k \<notin> set (mg_dirtySet (m\<lparr>mg_db := ?db\<rparr>))"
      show "synced_row L (mg_db (m\<lparr>mg_db := ?db\<rparr>)) p"
      proof (cases "k = key")
        case True
        then have "p = q" using k q by simp
        then show ?thesis using q synced_row_cong [of q ps L ?db] by (simp add: synced_update_self)
      next
        case False
        then have "ps_ID p \<noteq> ps_ID ps" using mirrors_inj [OF mir, of k p key q] k q by auto
        then show ?thesis using exceptD [OF e, of k p] k False by (auto simp: synced_update_other)
      qed
    qed
    then show ?thesis using True by (simp add: durable_clear durable_record)
  next
    case False
    then show ?thesis using e by (simp add: except_insert_mark)
  qed
  ultimately show ?case using Cons.IH [OF _ _ r] by blast
qed (simp add: except_empty)

lemma flushOnce_durable:
  assumes "durable L m"
  shows "durable L (flushOnce L cfg fe m)"
proof -
  let ?m = "drainPendingOps m\<lparr>mg_dirtySet := []\<rparr>"
  have e: "durable_except L (set (mg_dirtySet m)) ?m"
    using assms durableD [OF assms]
    by (intro exceptI) (auto simp: durable_def mirrors_def idents_def drainPendingOps_def fun_eq_iff)
  obtain m' n h f where f: "flushDirtyPositions L cfg fe (mg_dirtySet m) ?m = (m', n, h, f)" by (metis prod_cases4)
  have "durable L m'"
  proof (cases "tc_batchStore cfg")
    case True
    then show ?thesis
      using f by (intro flushBatch_durable [OF e]) (simp_all add: flushDirtyPositions_def)
  next
    case False
    have "durable_except L (fst ` set (dirty_states ?m (mg_dirtySet m))) ?m"
    proof (rule exceptI)
      show "mirrors ?m" using e by (simp add: durable_except_def)
      fix k p
      assume k: "position ?m k = Some p" "k \<notin> fst ` set (dirty_states ?m (mg_dirtySet m))"
      have "(k, p) \<notin> set (dirty_states ?m (mg_dirtySet m))"
        using k(2) by (rule contrapos_nn) (rule image_eqI [of _ _ "(k, p)"], simp_all)
      with k(1) have "k \<notin> set (mg_dirtySet m)" by (simp add: dirty_states_iff)
      with exceptD [OF e k(1)] show "synced_row L (mg_db ?m) p" by simp
    qed
    then show ?thesis
      by (rule flushIndividual_durable)
        (use f False in \<open>auto simp: flushDirtyPositions_def dirty_states_iff\<close>)
  qed
  then show ?thesis
    using f e by (auto simp: flushOnce_def dirtyPositions_def drainPendingOps_def except_empty)
qed

lemma counters_fold_mark: "counters (fold markDirty keys m) = counters m"
  by (induction keys arbitrary: m) (simp_all add: counters_markDirty)

lemma counters_clear_record:
  "counters (clear_dirty key m) = counters m" "counters (record_flush L fe u m) = counters m"
  "counters (m\<lparr>mg_db := db\<rparr>) = counters m"
  by (rule ext, simp add: counters_def clear_dirty_def record_flush_def option.map_comp comp_def)+

lemma counters_fold_record:
  "counters (fold (\<lambda>(key, ps) m. record_flush L fe (position_update L ps) (clear_dirty key m)) states m) = counters m"
  by (induction states arbitrary: m) (auto simp: counters_clear_record)

lemma counters_flushIndividual:
  "flushIndividual L fe states m = (m', n, h, f) \<Longrightarrow> counters m' = counters m"
proof (induction states arbitrary: m m' n h f)
  case (Cons s states)
  obtain key ps where s: "s = (key, ps)" by (rule prod.exhaust)
  show ?case
    using Cons.prems
    by (auto simp: s Let_def counters_clear_record counters_markDirty split: if_splits prod.splits dest!: Cons.IH)
qed simp

lemma flushOnce_counters: "counters (flushOnce L cfg fe m) = counters m"
proof -
  have d: "counters (m\<lparr>mg_pendingOps := x, mg_dirtySet := y\<rparr>) = counters m" for x y
    by (rule ext) (simp add: counters_def)
  have e: "counters (m\<lparr>mg_failedPositionIDs := x, mg_flushFailures := y\<rparr>) = counters m" for m :: Manager and x y
    by (rule ext) (simp add: counters_def)
  show ?thesis
    by (auto simp: flushOnce_def dirtyPositions_def drainPendingOps_def flushDirtyPositions_def
        flushBatch_positions_def Let_def counters_fold_mark counters_fold_record counters_clear_record d e
        split: prod.splits sum.splits if_splits dest!: counters_flushIndividual)
qed

lemma batch_succeeds: "(\<And>i. fe_update_ok fe i) \<Longrightarrow> snd (BatchUpdatePositions fe us db) = Inr ()"
  by (induction fe us db rule: BatchUpdatePositions.induct) simp_all

lemma clean_steps:
  "mg_dirtySet (clear_dirty key m) = mg_dirtySet m" "mg_dirtySet (record_flush L fe u m) = mg_dirtySet m"
  by (simp_all add: clear_dirty_def record_flush_def)

lemma clean_fold_record:
  "mg_dirtySet (fold (\<lambda>(key, ps) m. record_flush L fe (position_update L ps) (clear_dirty key m)) states m) = mg_dirtySet m"
  by (induction states arbitrary: m) (auto simp: clean_steps)

lemma clean_flushIndividual:
  "(\<And>i. fe_update_ok fe i) \<Longrightarrow> flushIndividual L fe states m = (m', n, h, f) \<Longrightarrow> mg_dirtySet m' = mg_dirtySet m"
proof (induction states arbitrary: m m' n h f)
  case (Cons s states)
  obtain key ps where s: "s = (key, ps)" by (rule prod.exhaust)
  show ?case
    using Cons.prems(2)
    by (auto simp: s Cons.prems(1) Let_def clean_steps split: prod.splits dest!: Cons.IH [OF Cons.prems(1)])
qed simp

lemma flushOnce_clean:
  assumes ok: "\<And>i. fe_update_ok fe i"
  shows "mg_dirtySet (flushOnce L cfg fe m) = []"
proof -
  have "snd (BatchUpdatePositions fe us db) = Inr ()" for us db by (rule batch_succeeds) (rule ok)
  then have "BatchUpdatePositions fe us db = (db', Inl err) \<Longrightarrow> False" for us db db' err
    by (metis snd_conv sum.distinct(1))
  then show ?thesis
    by (auto simp: flushOnce_def dirtyPositions_def drainPendingOps_def flushDirtyPositions_def
        flushBatch_positions_def Let_def clean_fold_record
        split: prod.splits sum.splits if_splits dest!: clean_flushIndividual [OF ok])
qed

section \<open>The running system\<close>

text \<open>Calls, ticks of the flush loop and cycles of the event writer, in any order.\<close>

datatype treasury_event = TCall op_env treasury_call | TTick flush_env | TWrite bool

fun treasury_system ::
  "lib \<Rightarrow> treasury_config \<Rightarrow> treasury_event \<Rightarrow> nat \<times> Manager \<Rightarrow> nat \<times> Manager" where
  "treasury_system L cfg (TCall ev c) (n, m) = (n, treasury_step L cfg (ev, c) m)"
| "treasury_system L cfg (TTick fe) (n, m) = flush_tick L cfg fe (n, m)"
| "treasury_system L cfg (TWrite ok) (n, m) = (n, drainAndWriteEvents cfg ok m)"

lemma durable_db_frame [simp]:
  "durable L (m\<lparr>mg_db := CleanupOldOps b (mg_db m)\<rparr>) = durable L m"
  by (simp add: durable_def mirrors_def idents_def synced_row_def CleanupOldOps_def fun_eq_iff)

lemma durable_cleanup:
  "durable L (cleanupIdempotencyMap now age m) = durable L m"
  "durable L (cleanupOldReserveOps cfg fe m) = durable L m"
  by (simp_all add: cleanupIdempotencyMap_def cleanupOldReserveOps_def)

lemma BatchWriteEvents_positions [simp]: "db_positions (BatchWriteEvents es db) = db_positions db"
proof -
  have "db_positions (fold insert_event es db) = db_positions db"
    by (induction es arbitrary: db) (simp_all add: insert_event_def)
  then show ?thesis by (simp add: BatchWriteEvents_def)
qed

lemma drainAndWriteEvents_durable: "durable L m \<Longrightarrow> durable L (drainAndWriteEvents cfg ok m)"
  by (simp add: durable_def mirrors_def idents_def synced_row_def drainAndWriteEvents_def drainEventChannel_def
      fun_eq_iff)

lemma system_durable: "durable L (snd s) \<Longrightarrow> durable L (snd (treasury_system L cfg e s))"
proof -
  assume d: "durable L (snd s)"
  obtain n m where s: "s = (n, m)" by force
  show ?thesis
  proof (cases e)
    case (TCall ev c)
    then show ?thesis
      using d exec_durable [OF _ prod.collapse [symmetric], of L m cfg ev c] by (simp add: s treasury_step_def)
  next
    case (TTick fe)
    then show ?thesis
      using d flushOnce_durable [of L m cfg fe]
      by (simp add: s flush_tick_def Let_def durable_cleanup)
  next
    case (TWrite ok)
    then show ?thesis using d by (simp add: s drainAndWriteEvents_durable)
  qed
qed

interpretation treasury_durability: invariant_system "treasury_system L cfg" "\<lambda>s. durable L (snd s)"
  for L cfg
  by unfold_locales (rule system_durable)

end
