(* ===== verification/Treasury_Restart.thy ===== *)
theory Treasury_Restart
  imports Treasury_Recovery "HOL-Library.Multiset"
begin

text \<open>
  What a restart recovers: the positions that the flush made durable, the reservations replayed
  from the operations log, and what is lost or restored wrongly.
\<close>

section \<open>Recovery from the database\<close>

lemma add_positions_append:
  "add_positions L (xs @ ys) m =
     (case add_positions L xs m of (m', Inl e) \<Rightarrow> (m', Inl e) | (m', Inr _) \<Rightarrow> add_positions L ys m')"
  by (induction xs arbitrary: m) (simp_all split: sum.splits)

text \<open>Reading page by page adds the same positions as reading the whole table.\<close>

lemma load_pages_all:
  "load_pages L db (\<lambda>_. True) offset m = add_positions L (drop offset (db_positions db)) m"
proof (induction "length (db_positions db) - offset" arbitrary: offset m rule: less_induct)
  case less
  let ?rows = "db_positions db" and ?page = "take 1000 (drop offset (db_positions db))"
  have split: "drop offset ?rows = ?page @ drop (offset + 1000) ?rows"
    by (metis append_take_drop_id drop_drop add.commute)
  have unfold: "load_pages L db (\<lambda>_. True) offset m =
      (case add_positions L ?page m of (m', Inl e) \<Rightarrow> (m', Inl e)
       | (m', Inr _) \<Rightarrow> if length ?page < 1000 then (m', Inr ()) else load_pages L db (\<lambda>_. True) (offset + 1000) m')"
    by (subst load_pages.simps) (simp add: LoadPositionsPaginated_def Let_def cong: if_cong)
  show ?case
  proof (cases "length ?page < 1000")
    case True
    then have "drop (offset + 1000) ?rows = []" by simp
    then show ?thesis
      using True by (subst split) (auto simp: unfold add_positions_append split: prod.splits sum.splits)
  next
    case False
    then have "length ?rows - (offset + 1000) < length ?rows - offset" by simp
    from less [OF this] False show ?thesis
      by (subst split) (auto simp: unfold add_positions_append split: prod.splits sum.splits)
  qed
qed

lemma addPosition_ok:
  assumes "toMicro L (pn_Balance p) = Inr b" and "toMicro L (pn_Locked p) = Inr lk"
  obtains m' where "addPosition L p m = Inr m'" "counters m' = (counters m)(row_key p \<mapsto> (b, lk, 0))"
    "mg_db m' = mg_db m" "mg_shards m' = mg_shards m" "mg_flushFailures m' = mg_flushFailures m"
    "mg_pendingOps m' = mg_pendingOps m"
  using assms by (auto simp: addPosition_def Let_def row_key_def counters_def fun_eq_iff)

lemma add_positions_ok:
  assumes "distinct (map row_key rows)"
    and "\<And>p. p \<in> set rows \<Longrightarrow> toMicro L (pn_Balance p) = Inr (bal p) \<and> toMicro L (pn_Locked p) = Inr (lck p)"
  shows "\<exists>m'. add_positions L rows m = (m', Inr ()) \<and>
     counters m' = counters m ++ map_of (map (\<lambda>p. (row_key p, (bal p, lck p, 0))) rows) \<and>
     mg_db m' = mg_db m \<and> mg_shards m' = mg_shards m \<and> mg_flushFailures m' = mg_flushFailures m \<and>
     mg_pendingOps m' = mg_pendingOps m"
  using assms
proof (induction rows arbitrary: m)
  case (Cons p rows)
  obtain m1 where m1: "addPosition L p m = Inr m1" "counters m1 = (counters m)(row_key p \<mapsto> (bal p, lck p, 0))"
    "mg_db m1 = mg_db m" "mg_shards m1 = mg_shards m" "mg_flushFailures m1 = mg_flushFailures m"
    "mg_pendingOps m1 = mg_pendingOps m"
    using addPosition_ok [of L p "bal p" "lck p" m] Cons.prems(2) [of p] by auto
  have "row_key p \<notin> dom (map_of (map (\<lambda>p. (row_key p, (bal p, lck p, 0 :: int))) rows))"
    using Cons.prems(1) by (simp add: dom_map_of_conv_image_fst image_image)
  then have upd: "(counters m)(row_key p \<mapsto> (bal p, lck p, 0)) ++ map_of (map (\<lambda>p. (row_key p, (bal p, lck p, 0))) rows) =
      (counters m ++ map_of (map (\<lambda>p. (row_key p, (bal p, lck p, 0))) rows))(row_key p \<mapsto> (bal p, lck p, 0))"
    by (rule map_add_upd_left)
  obtain m' where m': "add_positions L rows m1 = (m', Inr ())"
    "counters m' = counters m1 ++ map_of (map (\<lambda>p. (row_key p, (bal p, lck p, 0))) rows)"
    "mg_db m' = mg_db m1" "mg_shards m' = mg_shards m1" "mg_flushFailures m' = mg_flushFailures m1"
    "mg_pendingOps m' = mg_pendingOps m1"
    using Cons.IH [of m1] Cons.prems by (auto simp del: fun_upd_apply)
  have "counters m' = counters m ++ map_of (map (\<lambda>p. (row_key p, (bal p, lck p, 0))) (p # rows))"
    using m'(2) m1(2) upd by (simp only: list.map map_of.simps fst_conv snd_conv map_add_upd)
  with m1 m' show ?case by (intro exI [of _ m']) (simp del: map_of.simps list.map)
qed simp

text \<open>The loaded counters: those of the rows, with nothing reserved.\<close>

lemma load_synced:
  assumes L: "div_law L" "int_part_law L" and d: "durable L m" "mg_dirtySet m = []"
    and s: "solvent bound m" "bound \<le> maxMicroValue"
  shows "\<exists>m'. load_pages L (mg_db m) (\<lambda>_. True) 0 (reset_manager (crash m)) = (m', Inr ()) \<and>
     counters m' = (\<lambda>key. map_option (\<lambda>(b, lk, r). (b, lk, 0)) (counters m key)) \<and>
     mg_db m' = mg_db m \<and> mg_shards m' = replicate 16 [] \<and> mg_flushFailures m' = 0 \<and> mg_pendingOps m' = []"
proof -
  let ?rows = "db_positions (mg_db m)"
  define state where "state p = the (position m (row_key p))" for p
  have mir: "mirrors m" using d(1) by (simp add: durable_def)
  have pos: "position m (row_key p) = Some (state p)" and ident: "ps_ID (state p) = pn_ID p" if p: "p \<in> set ?rows" for p
  proof -
    have "map_of (map (\<lambda>p. (row_key p, pn_ID p)) ?rows) (row_key p) = Some (pn_ID p)"
      using mir p by (intro map_of_is_SomeI) (auto simp: mirrors_def comp_def)
    then have "idents m (row_key p) = Some (pn_ID p)" using mir by (simp add: mirrors_def)
    then show "position m (row_key p) = Some (state p)" "ps_ID (state p) = pn_ID p"
      by (auto simp: idents_def state_def)
  qed
  have micro: "toMicro L (pn_Balance p) = Inr (ps_balance (state p)) \<and> toMicro L (pn_Locked p) = Inr (ps_locked (state p))"
    if p: "p \<in> set ?rows" for p
  proof -
    have "synced_row L (mg_db m) (state p)" using durableD [OF d(1) pos [OF p]] d(2) by simp
    then have "pn_Balance p = fromMicro L (ps_balance (state p))" "pn_Locked p = fromMicro L (ps_locked (state p))"
      using p ident [OF p] by (auto simp: synced_row_def)
    moreover have "\<bar>ps_balance (state p)\<bar> \<le> maxMicroValue" "\<bar>ps_locked (state p)\<bar> \<le> maxMicroValue"
      using solvent_position [OF s(1) pos [OF p]] s(2) by auto
    ultimately show ?thesis using micro_back [OF L] by simp
  qed
  have "distinct (map row_key ?rows)" using mir by (simp add: mirrors_def)
  from add_positions_ok [OF this, of L "ps_balance \<circ> state" "ps_locked \<circ> state" "reset_manager (crash m)"] micro
  obtain m' where m': "add_positions L ?rows (reset_manager (crash m)) = (m', Inr ())"
    "counters m' = counters (reset_manager (crash m)) ++
       map_of (map (\<lambda>p. (row_key p, (ps_balance (state p), ps_locked (state p), 0))) ?rows)"
    "mg_db m' = mg_db m" "mg_shards m' = replicate 16 []" "mg_flushFailures m' = 0" "mg_pendingOps m' = []"
    by (auto simp: reset_manager_def crash_def)
  have "counters m' key = map_option (\<lambda>(b, lk, r). (b, lk, 0)) (counters m key)" for key
  proof (cases "key \<in> row_key ` set ?rows")
    case True
    then obtain p where p: "p \<in> set ?rows" "key = row_key p" by blast
    then have "map_of (map (\<lambda>p. (row_key p, (ps_balance (state p), ps_locked (state p), 0 :: int))) ?rows) key =
        Some (ps_balance (state p), ps_locked (state p), 0)"
      using mir by (intro map_of_is_SomeI) (auto simp: mirrors_def comp_def)
    then show ?thesis using m'(2) pos [OF p(1)] p(2) by (simp add: counters_def)
  next
    case False
    then have "map_of (map (\<lambda>p. (row_key p, pn_ID p)) ?rows) key = None"
      by (auto simp: map_of_eq_None_iff image_image)
    then have "idents m key = None" using mir by (simp add: mirrors_def)
    moreover have "map_of (map (\<lambda>p. (row_key p, (ps_balance (state p), ps_locked (state p), 0 :: int))) ?rows) key = None"
      using False by (auto simp: map_of_eq_None_iff image_image)
    ultimately show ?thesis
      using m'(2) by (simp add: counters_def idents_def reset_manager_def crash_def map_add_def)
  qed
  with m' show ?thesis by (auto simp: load_pages_all)
qed

section \<open>Replay of reservations\<close>

abbreviation op_key :: "ReserveOp \<Rightarrow> positionKey" where
  "op_key op \<equiv> (ro_TenantID op, ro_Currency op, ro_Location op)"

abbreviation op_call :: "ReserveOp \<Rightarrow> treasury_call" where
  "op_call op \<equiv> CallReserve (ro_TenantID op) (ro_Currency op) (ro_Location op) (ro_Amount op) (ro_Reference op)"

definition op_micro :: "lib \<Rightarrow> ReserveOp \<Rightarrow> int" where
  "op_micro L op = (case toMicro L (ro_Amount op) of Inr amt \<Rightarrow> amt | Inl _ \<Rightarrow> 0)"

definition pending_micro :: "lib \<Rightarrow> ReserveOp list \<Rightarrow> positionKey \<Rightarrow> int" where
  "pending_micro L ops key = (\<Sum>op\<leftarrow>filter (\<lambda>op. op_key op = key) ops. op_micro L op)"

text \<open>The operations a log may hold for replay: accepted reservations on loaded positions.\<close>

definition replayable :: "lib \<Rightarrow> Manager \<Rightarrow> ReserveOp \<Rightarrow> bool" where
  "replayable L m op \<longleftrightarrow> ro_OpType op = OpReserve \<and> 0 < ro_Amount op \<and>
     \<not> out_of_range (ro_Amount op * of_int microScale) \<and> counters m (op_key op) \<noteq> None"

lemma replaying_logOp:
  "mg_replaying m \<Longrightarrow> logOp cfg ev t c l a r ty m = (m, Inr ())"
  by (simp add: logOp_def)

lemma replaying_steps:
  "mg_replaying (add_reserved key d m) = mg_replaying m" "mg_replaying (markDirty key m) = mg_replaying m"
  "mg_replaying (publishLiquidityAlert cfg ps m) = mg_replaying m"
  "mg_replaying (rollbackIdempotency L r op m) = mg_replaying m"
  by (simp_all add: add_reserved_def markDirty_def publishLiquidityAlert_def rollbackIdempotency_def)

lemma replaying_results:
  "tryAcquireIdempotency L n r op m = (m', b) \<Longrightarrow>
     mg_replaying m' = mg_replaying m \<and> mg_pendingOps m' = mg_pendingOps m"
  "syncFlushPosition L ev key m = (m', res) \<Longrightarrow>
     mg_replaying m' = mg_replaying m \<and> mg_pendingOps m' = mg_pendingOps m"
  by (auto simp: tryAcquireIdempotency_def syncFlushPosition_def split: prod.splits option.splits if_splits)

lemma Reserve_replaying:
  assumes "mg_replaying m" and "Reserve L cfg ev t c l a r m = (m', res)"
  shows "mg_replaying m' \<and> mg_pendingOps m' = mg_pendingOps m"
  using assms
  by (simp add: Reserve_def validateMicroRange_def Let_def replaying_logOp replaying_steps
      split: if_splits sum.splits prod.splits bool.splits option.splits)
    (auto simp: replaying_logOp replaying_steps pendingOps_steps frame_steps dest!: replaying_results)

definition replay_ready :: "lib \<Rightarrow> int \<Rightarrow> ReserveOp list \<Rightarrow> Manager \<Rightarrow> bool" where
  "replay_ready L bound ops m \<longleftrightarrow>
     shards_wf (mg_shards m) \<and> mg_replaying m \<and> mg_flushFailures m < maxFlushFailuresBeforeReject \<and>
     mg_pendingOps m = [] \<and> solvent bound m \<and> distinct (map ro_Reference ops) \<and>
     (\<forall>op \<in> set ops. replayable L m op \<and> call_claim L (op_call op) m = None) \<and>
     (\<forall>key b lk r. counters m key = Some (b, lk, r) \<longrightarrow> r + pending_micro L ops key \<le> b - lk)"

lemma replayable_micro:
  assumes "int_part_law L" and "replayable L m op"
  shows "toMicro L (ro_Amount op) = Inr (op_micro L op)" and "0 \<le> op_micro L op"
proof -
  show *: "toMicro L (ro_Amount op) = Inr (op_micro L op)"
    using assms(2) by (simp add: replayable_def op_micro_def toMicro_def Let_def)
  show "0 \<le> op_micro L op"
    using toMicro_range(3) [OF assms(1) *] assms(2) by (simp add: replayable_def)
qed

lemma pending_micro_Cons:
  "pending_micro L (op # ops) key = (if op_key op = key then op_micro L op else 0) + pending_micro L ops key"
  by (simp add: pending_micro_def)

lemma pending_micro_nonneg:
  "(\<And>op. op \<in> set ops \<Longrightarrow> 0 \<le> op_micro L op) \<Longrightarrow> 0 \<le> pending_micro L ops key"
  by (induction ops) (auto simp: pending_micro_Cons, simp add: pending_micro_def)

lemma replay_step:
  assumes L: "int_part_law L" "uuid_string_law L" and env: "ev_wal_ok ev" "ev_flush_ok ev"
    and r: "replay_ready L bound (op # ops) m"
  obtains m' where "replayOp L cfg ev op m = (m', Inr ())" "replay_ready L bound ops m'"
    "counters m' = (\<lambda>key. map_option (\<lambda>(b, lk, r). (b, lk, r + (if op_key op = key then op_micro L op else 0)))
       (counters m key))"
proof -
  let ?key = "op_key op" and ?amt = "op_micro L op" and ?c = "op_call op"
  have op: "replayable L m op" "call_claim L ?c m = None" and s: "solvent bound m"
    and rest: "\<And>o'. o' \<in> set ops \<Longrightarrow> replayable L m o' \<and> call_claim L (op_call o') m = None \<and>
      ro_Reference o' \<noteq> ro_Reference op"
    using r by (auto simp: replay_ready_def image_iff)
  have amt: "toMicro L (ro_Amount op) = Inr ?amt" "0 \<le> ?amt" using replayable_micro [OF L(1) op(1)] by auto
  obtain b lk rs where t: "counters m ?key = Some (b, lk, rs)" using op(1) by (auto simp: replayable_def)
  have "0 \<le> pending_micro L ops ?key"
    by (rule pending_micro_nonneg) (use replayable_micro(2) [OF L(1)] rest in blast)
  moreover have cover: "r' + pending_micro L (op # ops) key \<le> b' - lk'"
    if "counters m key = Some (b', lk', r')" for key b' lk' r'
    using r that unfolding replay_ready_def by blast
  note cover [OF t]
  ultimately have fits: "?amt \<le> b - lk - rs" by (simp add: pending_micro_Cons)
  have ok: "triple_ok bound (b, lk, rs)" "bound \<le> max_int64" using s t by (auto simp: solvent_def)
  have h: "healthy ev m" using r env by (simp add: replay_ready_def healthy_def)
  obtain m' res where m': "treasury_exec L cfg (ev, ?c) m = (m', res)" by force
  have "in_int64 (rs + ?amt)" using ok amt(2) fits by (auto simp: in_int64_def min_int64_def)
  then have res: "res = Inr ()" and c': "counters m' = (counters m)(?key \<mapsto> (b, lk, rs + ?amt))"
    using fresh_call_spec [OF h op(2) _ _ _ m', of ?amt "(b, lk, rs)"] amt t fits op(1)
      triple_ok_available [OF ok] by (auto simp: replayable_def simp del: triple_available.simps)
  have sh: "mg_shards m' = fst (tryAcquireKey (ev_now ev) (idempotencyKey L (ro_Reference op) ''reserve'') (mg_shards m))"
    using success_claims [of L cfg ev ?c m m'] m' res by simp
  have wf: "shards_wf (mg_shards m)" using r by (simp add: replay_ready_def)
  have "call_claim L (op_call o') m' = None" if "o' \<in> set ops" for o'
    using rest [OF that] wf idempotencyKey_inj [OF L(2), of "''reserve''" "''reserve''" "ro_Reference o'" "ro_Reference op"]
    by (auto simp: call_claim_def sh intro: shards.acquire_other)
  moreover have "solvent bound m'"
    using step_solvent [OF L(1) s, of "(ev, ?c)" cfg] ok(2) m' by (simp add: treasury_step_def)
  moreover have "mg_replaying m' \<and> mg_pendingOps m' = []"
    using Reserve_replaying [of m L cfg ev _ _ _ _ _ m' res] m' r by (auto simp: replay_ready_def)
  moreover have "r' + pending_micro L ops key \<le> b' - lk'" if k: "counters m' key = Some (b', lk', r')" for key b' lk' r'
  proof (cases "key = ?key")
    case True
    then show ?thesis using k cover [OF t] by (simp add: c' pending_micro_Cons)
  next
    case False
    then show ?thesis using k cover [of key b' lk' r'] by (simp add: c' pending_micro_Cons)
  qed
  ultimately have "replay_ready L bound ops m'"
    using r rest exec_frame [OF m'] shards.acquire_wf [OF wf]
    unfolding replay_ready_def replayable_def by (simp add: sh c')
  moreover have "counters m' = (\<lambda>key. map_option (\<lambda>(b, lk, r). (b, lk, r + (if ?key = key then ?amt else 0))) (counters m key))"
  proof
    fix key
    show "counters m' key = map_option (\<lambda>(b, lk, r). (b, lk, r + (if ?key = key then ?amt else 0))) (counters m key)"
      by (cases "key = ?key"; cases "counters m key") (auto simp: c' t)
  qed
  moreover have "replayOp L cfg ev op m = (m', Inr ())"
    using m' res op(1) by (simp add: replayOp_def replayable_def)
  ultimately show ?thesis using that by blast
qed

lemma replay_exact:
  assumes L: "int_part_law L" "uuid_string_law L" and env: "\<And>op. ev_wal_ok (env op) \<and> ev_flush_ok (env op)"
    and "replay_ready L bound ops m"
  shows "\<exists>m'. replay_ops L cfg env ops m = (m', Inr ()) \<and>
    counters m' = (\<lambda>key. map_option (\<lambda>(b, lk, r). (b, lk, r + pending_micro L ops key)) (counters m key))"
  using assms(4)
proof (induction ops arbitrary: m)
  case Nil
  have "counters m = (\<lambda>key. map_option (\<lambda>(b, lk, r). (b, lk, r + pending_micro L [] key)) (counters m key))"
    by (rule ext) (simp add: pending_micro_def option.map_ident split_def)
  then show ?case by simp
next
  case (Cons op ops)
  obtain m1 where m1: "replayOp L cfg (env op) op m = (m1, Inr ())" "replay_ready L bound ops m1"
    "counters m1 = (\<lambda>key. map_option (\<lambda>(b, lk, r). (b, lk, r + (if op_key op = key then op_micro L op else 0)))
       (counters m key))"
    using replay_step [OF L _ _ Cons.prems] env by blast
  obtain m2 where m2: "replay_ops L cfg env ops m1 = (m2, Inr ())"
    "counters m2 = (\<lambda>key. map_option (\<lambda>(b, lk, r). (b, lk, r + pending_micro L ops key)) (counters m1 key))"
    using Cons.IH [OF m1(2)] by blast
  have "counters m2 = (\<lambda>key. map_option (\<lambda>(b, lk, r). (b, lk, r + pending_micro L (op # ops) key)) (counters m key))"
    by (rule ext) (simp add: m2(2) m1(3) pending_micro_Cons option.map_comp comp_def split_def add.assoc)
  with m1(1) m2(1) show ?case by simp
qed

section \<open>What the log keeps\<close>

text \<open>The record that the write-ahead log gets for a call.\<close>

fun call_op_type :: "treasury_call \<Rightarrow> ReserveOpType" where
  "call_op_type (CallReserve _ _ _ _ _) = OpReserve"
| "call_op_type (CallRelease _ _ _ _ _) = OpRelease"
| "call_op_type (CallCommit _ _ _ _ _) = OpCommit"
| "call_op_type (CallConsume _ _ _ _ _) = OpConsume"
| "call_op_type (CallCredit _ _ _ _ _ _) = OpCredit"
| "call_op_type (CallDebit _ _ _ _ _ _) = OpDebit"
| "call_op_type (CallUpdate _ _ _ _) = OpOther ''none''"

definition call_record :: "op_env \<Rightarrow> treasury_call \<Rightarrow> ReserveOp" where
  "call_record ev c = \<lparr>ro_ID = ev_op_id ev, ro_TenantID = fst (call_key c),
     ro_Currency = fst (snd (call_key c)), ro_Location = snd (snd (call_key c)),
     ro_Amount = call_amount c, ro_Reference = (case call_op c of Some (r, _) \<Rightarrow> r | None \<Rightarrow> 0),
     ro_OpType = call_op_type c, ro_CreatedAt = ev_now ev\<rparr>"

lemma db_steps:
  "mg_db (add_balance key d m) = mg_db m" "mg_db (add_locked key d m) = mg_db m"
  "mg_db (add_reserved key d m) = mg_db m" "mg_db (markDirty key m) = mg_db m"
  "mg_db (queueEvent L ev key ty a r rt m) = mg_db m" "mg_db (rollbackIdempotency L r op m) = mg_db m"
  "mg_db (publishLiquidityAlert cfg ps m) = mg_db m"
  by (simp_all add: add_balance_def add_locked_def add_reserved_def markDirty_def queueEvent_def
      rollbackIdempotency_def publishLiquidityAlert_def split: option.splits)

lemma db_results:
  "tryAcquireIdempotency L n r op m = (m', b) \<Longrightarrow> mg_db m' = mg_db m"
  "syncFlushPosition L ev key m = (m', Inl err) \<Longrightarrow> mg_db m' = mg_db m"
  by (auto simp: tryAcquireIdempotency_def syncFlushPosition_def split: prod.splits option.splits if_splits)

lemma db_logOp:
  assumes "logOp cfg ev t c l a r ty m = (m', res)"
  shows "mg_db m' = mg_db m \<or> mg_db m' = insert_op \<lparr>ro_ID = ev_op_id ev, ro_TenantID = t, ro_Currency = c,
    ro_Location = l, ro_Amount = a, ro_Reference = r, ro_OpType = ty, ro_CreatedAt = ev_now ev\<rparr> (mg_db m)"
  using assms by (auto simp: logOp_def Let_def split: if_splits)

text \<open>A credit below the threshold of the synchronous flush writes nothing but its record.\<close>

lemma credit_db:
  assumes "\<not> is_large cfg c a" and "CreditBalance L cfg ev t c l a r ty m = (m', res)"
  shows "mg_db m' = mg_db m \<or> mg_db m' = insert_op (call_record ev (CallCredit t c l a r ty)) (mg_db m)"
  using assms
  by (simp add: CreditBalance_def validateMicroRange_def Let_def split: if_splits sum.splits prod.splits bool.splits)
    (auto simp: db_steps call_record_def dest!: db_results db_logOp)

text \<open>A large reservation whose synchronous flush fails is rejected, and its record stays in the log.\<close>

lemma rejected_reserve_db:
  assumes "healthy (ev\<lparr>ev_flush_ok := True\<rparr>) m" and "\<not> ev_flush_ok ev" and "\<not> mg_replaying m" "tc_opStore cfg"
    and "claim_time (mg_shards m) (idempotencyKey L r ''reserve'') = None"
    and "is_large cfg c a" and "0 < a" "toMicro L a = Inr amt" "position m (t, c, l) = Some ps" "amt \<le> available_micro ps"
    and "Reserve L cfg ev t c l a r m = (m', res)"
  shows "mg_db m' = insert_op (call_record ev (CallReserve t c l a r)) (mg_db m) \<and> res \<noteq> Inr ()"
proof -
  let ?ev = "ev\<lparr>ev_flush_ok := True\<rparr>"
  obtain m1 where m1: "tryAcquireIdempotency L (ev_now ev) r ''reserve'' m = (m1, False)"
    "m1 = m\<lparr>mg_shards := fst (tryAcquireKey (ev_now ev) (idempotencyKey L r ''reserve'') (mg_shards m))\<rparr>"
    using acquire_fresh [OF assms(1,5)] by auto
  let ?m2 = "markDirty (t, c, l) (add_reserved (t, c, l) amt m1)"
  obtain m3 where m3: "logOp cfg ev t c l a r OpReserve ?m2 = (m3, Inr ())"
    "mg_db m3 = insert_op (call_record ev (CallReserve t c l a r)) (mg_db m)" "position m3 (t, c, l) \<noteq> None"
    using assms(1,3,4,9)
    by (auto simp: logOp_def Let_def healthy_def m1(2) db_steps pendingOps_steps replaying_steps call_record_def
        markDirty_def add_reserved_def)
  then have "syncFlushPosition L ev (t, c, l) m3 = (m3, Inl (Errorf ''settla-treasury: sync flush failed for position'' None))"
    using assms(2) by (auto simp: syncFlushPosition_def)
  with m1 m3 assms show ?thesis
    by (auto simp: Reserve_def toMicro_valid healthy_def getPosition_def Let_def db_steps)
qed

text \<open>Which records change the list of uncommitted reservations.\<close>

lemma uncommitted_other:
  assumes "ro_OpType op \<noteq> OpReserve" and "\<forall>r \<in> set (db_ops db). ro_OpType r = OpReserve \<longrightarrow> \<not> completes r op"
  shows "GetUncommittedOps (insert_op op db) = GetUncommittedOps db"
proof -
  have "filter (\<lambda>r. ro_OpType r = OpReserve \<and> \<not> list_ex (completes r) (db_ops db @ [op])) (db_ops db) =
      filter (\<lambda>r. ro_OpType r = OpReserve \<and> \<not> list_ex (completes r) (db_ops db)) (db_ops db)"
    using assms(2) by (intro filter_cong) auto
  then show ?thesis using assms(1) by (simp add: GetUncommittedOps_def insert_op_def)
qed

lemma pending_micro_sort:
  "pending_micro L (sort_key f ops) key = pending_micro L ops key"
proof -
  have "mset (map (op_micro L) (filter (\<lambda>op. op_key op = key) (sort_key f ops))) =
      mset (map (op_micro L) (filter (\<lambda>op. op_key op = key) ops))"
    by (simp add: mset_filter)
  from arg_cong [OF this, of sum_mset] show ?thesis
    by (simp only: pending_micro_def sum_mset_sum_list)
qed

lemma pending_after_reserve:
  assumes "ro_OpType op = OpReserve" and "ro_ID op \<notin> set (map ro_ID (db_ops db))"
    and "\<not> list_ex (completes op) (db_ops db)"
  shows "pending_micro L (GetUncommittedOps (insert_op op db)) key =
    pending_micro L (GetUncommittedOps db) key + (if op_key op = key then op_micro L op else 0)"
proof -
  have "\<not> completes r op" for r using assms(1) by (simp add: completes_def)
  then show ?thesis
    using assms unfolding GetUncommittedOps_def pending_micro_sort
    by (simp add: insert_op_def pending_micro_def)
qed


section \<open>Restart\<close>

lemma restart_replay_ready:
  assumes "solvent bound m"
    and m1: "counters m1 = (\<lambda>key. map_option (\<lambda>(b, lk, r). (b, lk, 0)) (counters m key))"
      "mg_shards m1 = replicate 16 []" "mg_flushFailures m1 = 0" "mg_pendingOps m1 = []"
    and ops: "distinct (map ro_Reference ops)" "\<forall>op \<in> set ops. replayable L m op"
    and cover: "\<forall>key b lk r. counters m key = Some (b, lk, r) \<longrightarrow> pending_micro L ops key \<le> b - lk"
  shows "replay_ready L bound ops (m1\<lparr>mg_replaying := True\<rparr>)"
proof -
  have c: "counters (m1\<lparr>mg_replaying := True\<rparr>) = counters m1" by (rule ext) (simp add: counters_def)
  have t: "\<exists>r. counters m key = Some (b, lk, r) \<and> r0 = 0" if "counters m1 key = Some (b, lk, r0)" for key b lk r0
    using that by (cases "counters m key") (auto simp: m1(1))
  have ok: "triple_ok bound t" if "counters m key = Some t" for key t
    using that assms(1) unfolding solvent_def by blast
  have "triple_ok bound t" if "counters m1 key = Some t" for key t
    using that ok [of key] by (cases "counters m key") (auto simp: m1(1))
  then have "solvent bound (m1\<lparr>mg_replaying := True\<rparr>)"
    using assms(1) unfolding solvent_def c by blast
  moreover have "r + pending_micro L ops key \<le> b - lk" if k: "counters m1 key = Some (b, lk, r)" for key b lk r
  proof -
    obtain r' where "counters m key = Some (b, lk, r')" "r = 0" using t [OF k] by blast
    with cover show ?thesis by (metis add_0)
  qed
  ultimately show ?thesis
    using ops m1(2-4)
    by (auto simp: replay_ready_def c replayable_def m1(1) shards_wf_def list_all_iff call_claim_def
        claim_time_def maxFlushFailuresBeforeReject_def)
qed

lemma restart_exact:
  assumes L: "div_law L" "int_part_law L" "uuid_string_law L"
    and m: "durable L m" "mg_dirtySet m = []" "solvent bound m" "bound \<le> maxMicroValue"
    and cfg: "tc_opStore cfg" and env: "\<forall>op. ev_wal_ok (env op) \<and> ev_flush_ok (env op)"
    and ops: "distinct (map ro_Reference (GetUncommittedOps (mg_db m)))"
      "\<forall>op \<in> set (GetUncommittedOps (mg_db m)). replayable L m op"
    and cover: "\<forall>key b lk r. counters m key = Some (b, lk, r) \<longrightarrow>
      pending_micro L (GetUncommittedOps (mg_db m)) key \<le> b - lk"
  shows "\<exists>m'. restart L cfg env m = (m', Inr ()) \<and>
    counters m' = (\<lambda>key. map_option (\<lambda>(b, lk, r). (b, lk, pending_micro L (GetUncommittedOps (mg_db m)) key))
      (counters m key))"
proof -
  let ?ops = "GetUncommittedOps (mg_db m)"
  obtain m1 where m1: "load_pages L (mg_db m) (\<lambda>_. True) 0 (reset_manager (crash m)) = (m1, Inr ())"
    "counters m1 = (\<lambda>key. map_option (\<lambda>(b, lk, r). (b, lk, 0)) (counters m key))" "mg_db m1 = mg_db m"
    "mg_shards m1 = replicate 16 []" "mg_flushFailures m1 = 0" "mg_pendingOps m1 = []"
    using load_synced [OF L(1,2) m] by blast
  let ?m1 = "m1\<lparr>mg_replaying := True\<rparr>"
  have "replay_ready L bound ?ops ?m1"
    using m(3) m1(2,4-6) ops cover by (rule restart_replay_ready)
  from replay_exact [OF L(2,3) _ this, of env cfg] env obtain m2 where
    m2: "replay_ops L cfg env ?ops ?m1 = (m2, Inr ())"
      "counters m2 = (\<lambda>key. map_option (\<lambda>(b, lk, r). (b, lk, r + pending_micro L ?ops key)) (counters ?m1 key))"
    by blast
  have c: "counters (m\<lparr>mg_replaying := b\<rparr>) = counters m" for m b by (rule ext) (simp add: counters_def)
  have "restart L cfg env m = (m2\<lparr>mg_replaying := False\<rparr>, Inr ())"
    using m1(1,3) m2(1) cfg by (simp add: restart_def LoadPositions_def crash_def)
  moreover have "counters m2 = (\<lambda>key. map_option (\<lambda>(b, lk, r). (b, lk, pending_micro L ?ops key)) (counters m key))"
    by (rule ext) (simp add: m2(2) c m1(2) option.map_comp comp_def split_def)
  ultimately show ?thesis by (simp add: c)
qed

text \<open>
  A restart sees only the database. When a process has stopped with changes that the rows do not
  hold yet, the restart brings back the state of the last flush, with the reservations of the log
  as it is now.
\<close>

lemma restart_stale:
  assumes L: "div_law L" "int_part_law L" "uuid_string_law L"
    and m: "durable L m" "mg_dirtySet m = []" "solvent bound m" "bound \<le> maxMicroValue"
    and cfg: "tc_opStore cfg" and env: "\<forall>op. ev_wal_ok (env op) \<and> ev_flush_ok (env op)"
    and rows: "db_positions (mg_db m') = db_positions (mg_db m)"
    and ops: "distinct (map ro_Reference (GetUncommittedOps (mg_db m')))"
      "\<forall>op \<in> set (GetUncommittedOps (mg_db m')). replayable L m op"
    and cover: "\<forall>key b lk r. counters m key = Some (b, lk, r) \<longrightarrow>
      pending_micro L (GetUncommittedOps (mg_db m')) key \<le> b - lk"
  shows "counters (fst (restart L cfg env m')) =
    (\<lambda>key. map_option (\<lambda>(b, lk, r). (b, lk, pending_micro L (GetUncommittedOps (mg_db m')) key)) (counters m key))"
proof -
  let ?m = "m\<lparr>mg_db := mg_db m'\<rparr>"
  have c: "counters ?m = counters m" by (rule ext) (simp add: counters_def)
  have "durable L ?m"
    using m(1) rows by (simp add: durable_def mirrors_def idents_def synced_row_def fun_eq_iff)
  moreover have "solvent bound ?m" using m(3) by (simp add: solvent_def c)
  ultimately have "counters (fst (restart L cfg env ?m)) =
    (\<lambda>key. map_option (\<lambda>(b, lk, r). (b, lk, pending_micro L (GetUncommittedOps (mg_db m')) key)) (counters m key))"
    using restart_exact [OF L, of ?m bound cfg env] m(2,4) cfg env ops cover
    by (auto simp: c replayable_def)
  moreover have "restart L cfg env ?m = restart L cfg env m'" by (simp add: restart_def crash_def)
  ultimately show ?thesis by simp
qed

section \<open>The sample manager\<close>

lemma sample_manager_durable: "durable ref_lib sample_manager"
proof -
  have "fromMicro ref_lib 1000000000 = 1000" "fromMicro ref_lib 0 = 0"
    unfolding fromMicro_def
    by (subst dec_div_exact [OF ref_lib_laws(1)];
        simp add: microScale_def multiple_of_def exI [of _ "10 ^ 19"] exI [of _ 0])+
  then show ?thesis
    by (auto simp: durable_def mirrors_def idents_def synced_row_def sample_manager_def sample_position_def
        row_key_def fun_eq_iff)
qed

lemma sample_manager_clean:
  "mg_dirtySet sample_manager = []" "db_ops (mg_db sample_manager) = []" "\<not> mg_replaying sample_manager"
  "GetUncommittedOps (mg_db sample_manager) = []"
  by (simp_all add: sample_manager_def GetUncommittedOps_def)

lemma sample_env_ok: "\<forall>op. ev_wal_ok (sample_env 9 True) \<and> ev_flush_ok (sample_env 9 True)"
  by (simp add: sample_env_def)

section \<open>Properties\<close>


text \<open>
  C10: Everything that a successful flush has written is durable: after any sequence of treasury
  calls, flush ticks and event writes with any failures, one flush whose row updates succeed
  leaves no position dirty and every row equal to the position in memory.
\<close>

theorem flush_makes_durable:
  assumes "durable L (snd s)" and "\<forall>i. fe_update_ok fe i"
  shows "mg_dirtySet (flushOnce L cfg fe (snd (fold (treasury_system L cfg) events s))) = [] \<and>
    pred_option (synced_row L (mg_db (flushOnce L cfg fe (snd (fold (treasury_system L cfg) events s)))))
      (position (flushOnce L cfg fe (snd (fold (treasury_system L cfg) events s))) key)"
proof -
  let ?m = "snd (fold (treasury_system L cfg) events s)"
  have "durable L (flushOnce L cfg fe ?m)"
    by (rule flushOnce_durable) (rule treasury_durability.run_inv [OF assms(1)])
  moreover have "mg_dirtySet (flushOnce L cfg fe ?m) = []" by (rule flushOnce_clean) (use assms(2) in simp)
  ultimately show ?thesis
    by (cases "position (flushOnce L cfg fe ?m) key") (auto dest: durableD)
qed

text \<open>
  C34: An acknowledged credit below the threshold of the synchronous flush does not survive a
  crash before the next flush. The credit is in the operations log, but the start-up query selects
  reservations only, so the restarted manager has the balance from before the credit.
\<close>

theorem crash_loses_credit:
  assumes "div_law L" "int_part_law L" "uuid_string_law L"
    and "durable L m" "mg_dirtySet m = []" "solvent bound m" "bound \<le> maxMicroValue"
    and "tc_opStore cfg" "\<forall>op. ev_wal_ok (env op) \<and> ev_flush_ok (env op)"
    and "GetUncommittedOps (mg_db m) = []"
    and "healthy ev m" "call_claim L (CallCredit t c l a r ty) m = None" "0 < a" "toMicro L a = Inr amt"
    and "\<not> is_large cfg c a" "counters m (t, c, l) = Some (b, lk, 0)"
  shows "snd (CreditBalance L cfg ev t c l a r ty m) = Inr () \<and>
    counters (fst (CreditBalance L cfg ev t c l a r ty m)) (t, c, l) = Some (wrap64 (b + amt), lk, 0) \<and>
    counters (fst (restart L cfg env (fst (CreditBalance L cfg ev t c l a r ty m)))) (t, c, l) = Some (b, lk, 0)"
proof -
  obtain m' res where m': "CreditBalance L cfg ev t c l a r ty m = (m', res)" by force
  have eff: "res = Inr ()" "counters m' (t, c, l) = Some (wrap64 (b + amt), lk, 0)"
    using fresh_call_spec [OF assms(11,12), of amt "(b, lk, 0)" cfg m' res] assms(13,14,16) m' by simp_all
  have un: "GetUncommittedOps (mg_db m') = []" and rows: "db_positions (mg_db m') = db_positions (mg_db m)"
    using credit_db [OF assms(15) m'] uncommitted_other [of "call_record ev (CallCredit t c l a r ty)" "mg_db m"]
      assms(10) by (auto simp: call_record_def completes_def insert_op_def)
  have "pending_micro L [] key \<le> b - lk" if "counters m key = Some (b, lk, r)" for key b lk r
    using that assms(6) unfolding solvent_def pending_micro_def by fastforce
  then have "counters (fst (restart L cfg env m')) =
      (\<lambda>key. map_option (\<lambda>(b, lk, r). (b, lk, pending_micro L [] key)) (counters m key))"
    using restart_stale [OF assms(1-9) rows] un by simp
  then show ?thesis using eff m' assms(16) by (simp add: pending_micro_def)
qed

text \<open>
  A large reservation that is rejected because its synchronous flush failed comes back after
  a restart: its record stays in the log, so the replay reserves the amount for a caller that was
  told the reservation had failed.
\<close>

theorem rejected_reserve_returns:
  assumes "div_law L" "int_part_law L" "uuid_string_law L"
    and "durable L m" "mg_dirtySet m = []" "solvent bound m" "bound \<le> maxMicroValue"
    and "tc_opStore cfg" "\<forall>op. ev_wal_ok (env op) \<and> ev_flush_ok (env op)" "\<not> mg_replaying m"
    and "db_ops (mg_db m) = []"
    and "healthy (ev\<lparr>ev_flush_ok := True\<rparr>) m" "\<not> ev_flush_ok ev" "call_claim L (CallReserve t c l a r) m = None"
    and "0 < a" "toMicro L a = Inr amt" "is_large cfg c a"
    and "counters m (t, c, l) = Some (b, lk, 0)" "amt \<le> b - lk"
  shows "snd (Reserve L cfg ev t c l a r m) \<noteq> Inr () \<and>
    counters (fst (Reserve L cfg ev t c l a r m)) (t, c, l) = Some (b, lk, 0) \<and>
    counters (fst (restart L cfg env (fst (Reserve L cfg ev t c l a r m)))) (t, c, l) = Some (b, lk, amt)"
proof -
  let ?op = "call_record ev (CallReserve t c l a r)"
  obtain m' res where m': "Reserve L cfg ev t c l a r m = (m', res)" by force
  obtain ps where ps: "position m (t, c, l) = Some ps" "ps_balance ps = b" "ps_locked ps = lk" "ps_reserved ps = 0"
    using assms(18) by (auto simp: counters_def)
  have ok: "triple_ok bound (b, lk, 0)" "bound \<le> max_int64" using assms(6,18) unfolding solvent_def by blast+
  then have "amt \<le> available_micro ps"
    using triple_ok_available [OF ok] assms(19) ps by (simp add: available_micro_def)
  then have db: "mg_db m' = insert_op ?op (mg_db m)" and res: "res \<noteq> Inr ()"
    using rejected_reserve_db [OF assms(12,13,10,8) _ assms(17,15,16) ps(1) _ m'] assms(14)
    by (auto simp: call_claim_def)
  have same: "counters m' = counters m"
    using Reserve_refines [OF solvent_int64 [OF assms(6)] m'] res by (auto simp: refines_def)
  have un: "GetUncommittedOps (mg_db m') = [?op]"
    using assms(11) by (simp add: db insert_op_def GetUncommittedOps_def completes_def call_record_def)
  have rows: "db_positions (mg_db m') = db_positions (mg_db m)" by (simp add: db insert_op_def)
  have mi: "op_micro L ?op = amt" "op_key ?op = (t, c, l)" using assms(16) by (simp_all add: op_micro_def call_record_def)
  have rep: "replayable L m ?op"
    using assms(15,16,18)
    by (auto simp: replayable_def call_record_def toMicro_def Let_def split: if_splits)
  have "pending_micro L [?op] key \<le> b' - lk'" if k: "counters m key = Some (b', lk', r')" for key b' lk' r'
  proof (cases "key = (t, c, l)")
    case True
    then show ?thesis using k assms(18,19) mi by (simp add: pending_micro_def)
  next
    case False
    have "triple_ok bound (b', lk', r')" using k assms(6) unfolding solvent_def by blast
    then show ?thesis using False mi by (auto simp: pending_micro_def)
  qed
  then have "counters (fst (restart L cfg env m')) =
      (\<lambda>key. map_option (\<lambda>(b, lk, r). (b, lk, pending_micro L [?op] key)) (counters m key))"
    using restart_stale [OF assms(1-9) rows] un rep by simp
  then show ?thesis using m' res same assms(18) mi by (simp add: pending_micro_def)
qed


theorem flush_makes_durable_witness:
  "mg_dirtySet (flushOnce ref_lib sample_config
      \<lparr>fe_now = 5, fe_update_ok = \<lambda>_. True, fe_history_ok = \<lambda>_. False, fe_cleanup_ok = True\<rparr>
      (snd (fold (treasury_system ref_lib sample_config)
        [TCall (sample_env 1 True) (CallReserve 1 ''USD'' ''bank:us'' 250 5),
         TTick \<lparr>fe_now = 3, fe_update_ok = \<lambda>_. False, fe_history_ok = \<lambda>_. False, fe_cleanup_ok = True\<rparr>]
        (0, sample_manager)))) = []"
  using flush_makes_durable [of ref_lib "(0, sample_manager)"
      "\<lparr>fe_now = 5, fe_update_ok = \<lambda>_. True, fe_history_ok = \<lambda>_. False, fe_cleanup_ok = True\<rparr>" sample_config
      "[TCall (sample_env 1 True) (CallReserve 1 ''USD'' ''bank:us'' 250 5),
         TTick \<lparr>fe_now = 3, fe_update_ok = \<lambda>_. False, fe_history_ok = \<lambda>_. False, fe_cleanup_ok = True\<rparr>]"]
  by (simp add: sample_manager_durable del: treasury_system.simps fold_simps)

theorem crash_loses_credit_witness:
  "counters (fst (restart ref_lib sample_config (\<lambda>_. sample_env 9 True)
      (fst (CreditBalance ref_lib sample_config (sample_env 1 True) 1 ''USD'' ''bank:us'' 250 5 ''deposit''
        sample_manager)))) (1, ''USD'', ''bank:us'') = Some (1000000000, 0, 0)"
  using crash_loses_credit [OF ref_lib_laws(1,4) ref_lib_uuid_law sample_manager_durable sample_manager_clean(1)
      sample_manager_solvent [of 1000000000] _ _ sample_env_ok sample_manager_clean(4) sample_manager_healthy [of 1]
      sample_manager_fresh _ sample_toMicro(1), of sample_config "''USD''" 1 "''bank:us''" 1000000000 0 5 "''deposit''"]
  by (simp add: sample_manager_counters max_int64_def maxMicroValue_def sample_config_def is_large_def Let_def
      syncThresholdFor_def DefaultSyncThresholds_def CurrencyUSD_def)

theorem rejected_reserve_returns_witness:
  "counters (fst (restart ref_lib (sample_config\<lparr>tc_syncThresholds := [(''USD'', 100)]\<rparr>) (\<lambda>_. sample_env 9 True)
      (fst (Reserve ref_lib (sample_config\<lparr>tc_syncThresholds := [(''USD'', 100)]\<rparr>)
        (sample_env 1 True\<lparr>ev_flush_ok := False\<rparr>) 1 ''USD'' ''bank:us'' 250 5 sample_manager))))
     (1, ''USD'', ''bank:us'') = Some (1000000000, 0, 250000000)"
  using rejected_reserve_returns [OF ref_lib_laws(1,4) ref_lib_uuid_law sample_manager_durable sample_manager_clean(1)
      sample_manager_solvent [of 1000000000] _ _ sample_env_ok sample_manager_clean(3,2) _ _
      sample_manager_fresh _ sample_toMicro(1), of "sample_config\<lparr>tc_syncThresholds := [(''USD'', 100)]\<rparr>"
      "sample_env 1 True\<lparr>ev_flush_ok := False\<rparr>" "''USD''" 1 "''bank:us''" 1000000000 0 5]
    sample_manager_healthy [of 1]
  by (simp add: sample_manager_counters max_int64_def maxMicroValue_def sample_config_def is_large_def Let_def
      syncThresholdFor_def healthy_def sample_env_def)

end
