(* ===== verification/Ledger_Domain.thy ===== *)
theory Ledger_Domain
  imports Domain_Errors
begin

text \<open>
  Ledger accounts, postings and the balance validation of journal entries
  (\<^verbatim>\<open>src/domain/account.go\<close>, \<^verbatim>\<open>src/domain/ledger.go\<close>).
\<close>

section \<open>Accounts\<close>

datatype AccountType =
  AccountTypeAsset | AccountTypeLiability | AccountTypeRevenue | AccountTypeExpense | AccountTypeOther string

datatype NormalBalance = NormalBalanceDebit | NormalBalanceCredit

fun NormalBalanceFor :: "AccountType \<Rightarrow> NormalBalance" where
  "NormalBalanceFor AccountTypeAsset = NormalBalanceDebit"
| "NormalBalanceFor AccountTypeExpense = NormalBalanceDebit"
| "NormalBalanceFor AccountTypeLiability = NormalBalanceCredit"
| "NormalBalanceFor AccountTypeRevenue = NormalBalanceCredit"
| "NormalBalanceFor (AccountTypeOther s) = NormalBalanceDebit"

definition TenantAccountCode :: "string \<Rightarrow> string \<Rightarrow> string" where
  "TenantAccountCode tenantSlug path = ''tenant:'' @ tenantSlug @ '':'' @ path"

definition IsSystemAccount :: "string \<Rightarrow> bool" where
  "IsSystemAccount code \<longleftrightarrow> \<not> HasPrefix code ''tenant:''"

text \<open>\<^verbatim>\<open>strings.Split(code, ":")\<close> and \<^verbatim>\<open>strings.TrimSpace\<close> on ASCII text.\<close>

fun split_colon :: "string \<Rightarrow> string list" where
  "split_colon [] = [[]]"
| "split_colon (c # cs) =
     (if c = CHR '':'' then [] # split_colon cs
      else case split_colon cs of [] \<Rightarrow> [[c]] | s # ss \<Rightarrow> (c # s) # ss)"

definition is_space :: "char \<Rightarrow> bool" where
  "is_space c = (let n = (of_char c :: nat) in n = 32 \<or> (9 \<le> n \<and> n \<le> 13))"

definition ParseAccountCode :: "string \<Rightarrow> string list result" where
  "ParseAccountCode code =
     (if list_all is_space code then Inl (Errorf ''settla-domain: empty account code'' None)
      else Inr (split_colon code))"

section \<open>Postings and journal entries\<close>

text \<open>\<^verbatim>\<open>EntryType\<close> is a string type: lines that carry neither constant are representable.\<close>

type_synonym EntryType = string

definition EntryTypeDebit :: EntryType where "EntryTypeDebit = ''DEBIT''"
definition EntryTypeCredit :: EntryType where "EntryTypeCredit = ''CREDIT''"

record Posting =
  p_AccountCode :: string
  p_EntryType :: EntryType
  p_Amount :: decimal
  p_Currency :: currency
  p_Description :: string

record EntryLine = Posting +
  l_ID :: uuid
  l_AccountID :: uuid

record JournalEntry =
  je_ID :: uuid
  je_TenantID :: "uuid option"
  je_IdempotencyKey :: string
  je_PostedAt :: instant
  je_EffectiveDate :: instant
  je_Description :: string
  je_ReferenceType :: string
  je_ReferenceID :: "uuid option"
  je_ReversedBy :: "uuid option"
  je_ReversalOf :: "uuid option"
  je_Lines :: "EntryLine list"
  je_Metadata :: "(string \<times> string) list"

text \<open>
  The first loop of \<^verbatim>\<open>ValidateEntries\<close>: amounts, line identifiers and account/type keys, with the
  two \<^verbatim>\<open>seen\<close> maps as lists. The second loop adds each line to the balance of its currency.
\<close>

definition aeKey :: "EntryLine \<Rightarrow> string" where
  "aeKey line = p_AccountCode line @ '':'' @ p_EntryType line"

fun check_lines :: "EntryLine list \<Rightarrow> uuid list \<Rightarrow> string list \<Rightarrow> unit result" where
  "check_lines [] seenIDs seenAccountEntry = Inr ()"
| "check_lines (line # lines) seenIDs seenAccountEntry =
     (if \<not> 0 < p_Amount line
      then Inl (ErrLedgerImbalance ''line amount must be positive'')
      else if l_ID line \<noteq> uuid_Nil \<and> l_ID line \<in> set seenIDs
      then Inl (ErrLedgerImbalance ''duplicate line ID'')
      else if aeKey line \<in> set seenAccountEntry
      then Inl (ErrLedgerImbalance ''duplicate account with entry type'')
      else check_lines lines
             (if l_ID line \<noteq> uuid_Nil then l_ID line # seenIDs else seenIDs)
             (aeKey line # seenAccountEntry))"

type_synonym balances = "(currency \<times> (decimal \<times> decimal)) list"

definition add_line :: "EntryLine \<Rightarrow> balances \<Rightarrow> balances" where
  "add_line line byCurrency =
     (let (debits, credits) =
            (case map_of byCurrency (p_Currency line) of None \<Rightarrow> (0, 0) | Some b \<Rightarrow> b) in
      AList.update (p_Currency line)
        (if p_EntryType line = EntryTypeDebit then (debits + p_Amount line, credits)
         else if p_EntryType line = EntryTypeCredit then (debits, credits + p_Amount line)
         else (debits, credits)) byCurrency)"

definition ValidateEntries :: "EntryLine list \<Rightarrow> unit result" where
  "ValidateEntries lines =
     (if length lines < 2 then Inl (ErrLedgerImbalance ''need at least 2 lines'')
      else case check_lines lines [] [] of
        Inl err \<Rightarrow> Inl err
      | Inr _ \<Rightarrow>
         if list_all (\<lambda>(currency, debits, credits). debits = credits) (fold add_line lines [])
         then Inr () else Inl (ErrLedgerImbalance ''debits != credits''))"

section \<open>Lemmas\<close>

lemma entry_types_distinct [simp]:
  "EntryTypeDebit \<noteq> EntryTypeCredit" "EntryTypeCredit \<noteq> EntryTypeDebit"
  by (simp_all add: EntryTypeDebit_def EntryTypeCredit_def)

definition line_debits :: "currency \<Rightarrow> EntryLine list \<Rightarrow> decimal" where
  "line_debits cur lines =
     (\<Sum>l\<leftarrow>filter (\<lambda>l. p_Currency l = cur \<and> p_EntryType l = EntryTypeDebit) lines. p_Amount l)"

definition line_credits :: "currency \<Rightarrow> EntryLine list \<Rightarrow> decimal" where
  "line_credits cur lines =
     (\<Sum>l\<leftarrow>filter (\<lambda>l. p_Currency l = cur \<and> p_EntryType l = EntryTypeCredit) lines. p_Amount l)"

lemma line_sums_Nil [simp]: "line_debits cur [] = 0" "line_credits cur [] = 0"
  by (simp_all add: line_debits_def line_credits_def)

lemma line_debits_Cons [simp]:
  "line_debits cur (l # ls) =
     (if p_Currency l = cur \<and> p_EntryType l = EntryTypeDebit then p_Amount l else 0) + line_debits cur ls"
  by (simp add: line_debits_def)

lemma line_credits_Cons [simp]:
  "line_credits cur (l # ls) =
     (if p_Currency l = cur \<and> p_EntryType l = EntryTypeCredit then p_Amount l else 0) + line_credits cur ls"
  by (simp add: line_credits_def)

abbreviation balance_at :: "balances \<Rightarrow> currency \<Rightarrow> decimal \<times> decimal" where
  "balance_at b cur \<equiv> (case map_of b cur of None \<Rightarrow> (0, 0) | Some p \<Rightarrow> p)"

lemma distinct_fst_update: "distinct (map fst al) \<Longrightarrow> distinct (map fst (AList.update k v al))"
  by (rule AList.distinct_update)

lemma add_line_distinct [simp]:
  "distinct (map fst b) \<Longrightarrow> distinct (map fst (add_line l b))"
  by (simp add: add_line_def Let_def distinct_fst_update split: prod.splits)

lemma fold_add_line_distinct:
  "distinct (map fst b) \<Longrightarrow> distinct (map fst (fold add_line ls b))"
  by (induction ls arbitrary: b) auto

lemma fold_add_line_balance:
  "balance_at (fold add_line ls b) cur =
     (fst (balance_at b cur) + line_debits cur ls, snd (balance_at b cur) + line_credits cur ls)"
proof (induction ls arbitrary: b)
  case (Cons l ls)
  show ?case
    by (simp add: Cons.IH) (simp add: add_line_def Let_def split: prod.splits option.splits)
qed simp

lemma balanced_iff:
  assumes "distinct (map fst b)"
  shows "list_all (\<lambda>(c, d, k). d = k) b \<longleftrightarrow>
     (\<forall>cur. fst (balance_at b cur) = snd (balance_at b cur))"
proof
  assume "list_all (\<lambda>(c, d, k). d = k) b"
  then show "\<forall>cur. fst (balance_at b cur) = snd (balance_at b cur)"
    by (fastforce simp: list_all_iff dest: map_of_SomeD split: option.split)
next
  assume all: "\<forall>cur. fst (balance_at b cur) = snd (balance_at b cur)"
  show "list_all (\<lambda>(c, d, k). d = k) b"
    unfolding list_all_iff
  proof (intro ballI)
    fix x assume x: "x \<in> set b"
    obtain c d k where [simp]: "x = (c, d, k)" by (cases x)
    have "map_of b c = Some (d, k)" using assms x by (simp add: map_of_is_SomeI)
    with all [rule_format, of c] show "case x of (c, d, k) \<Rightarrow> d = k" by simp
  qed
qed

abbreviation line_ids :: "EntryLine list \<Rightarrow> uuid list" where
  "line_ids lines \<equiv> filter (\<lambda>u. u \<noteq> uuid_Nil) (map l_ID lines)"

lemma check_lines_iff:
  "check_lines lines ids keys = Inr () \<longleftrightarrow>
     (\<forall>l \<in> set lines. 0 < p_Amount l) \<and>
     distinct (line_ids lines) \<and> set (line_ids lines) \<inter> set ids = {} \<and>
     distinct (map aeKey lines) \<and> set (map aeKey lines) \<inter> set keys = {}"
  by (induction lines arbitrary: ids keys) (auto simp: image_iff)

lemma check_lines_error:
  "check_lines lines ids keys = Inl e \<Longrightarrow> Code e = Some CodeLedgerImbalance"
  by (induction lines arbitrary: ids keys) (auto simp: ErrLedgerImbalance_def split: if_splits)

lemma balances_ok:
  "list_all (\<lambda>(c, d, k). d = k) (fold add_line lines []) \<longleftrightarrow>
      (\<forall>cur. line_debits cur lines = line_credits cur lines)"
  by (subst balanced_iff) (simp_all add: fold_add_line_distinct fold_add_line_balance)

lemma ValidateEntries_ok:
  "ValidateEntries lines = Inr () \<longleftrightarrow>
     \<not> length lines < 2 \<and> check_lines lines [] [] = Inr () \<and>
     (\<forall>cur. line_debits cur lines = line_credits cur lines)"
  by (auto simp: ValidateEntries_def balances_ok split: sum.splits)

lemma ValidateEntries_err:
  "ValidateEntries lines = Inl e \<Longrightarrow> Code e = Some CodeLedgerImbalance"
  by (auto simp: ValidateEntries_def ErrLedgerImbalance_def
      split: sum.splits if_splits dest: check_lines_error)

section \<open>Properties\<close>

text \<open>
  C21: \<^verbatim>\<open>ValidateEntries\<close> decides exactly the double-entry rule: it accepts a list of lines iff
  there are at least two, all amounts are positive, no line identifier and no account/type pair
  repeats, and debits equal credits in every currency; any rejection is a ledger-imbalance error.
\<close>

theorem ValidateEntries_spec:
  "(ValidateEntries lines = Inr () \<longleftrightarrow>
      2 \<le> length lines \<and> (\<forall>l \<in> set lines. 0 < p_Amount l) \<and>
      distinct (line_ids lines) \<and> distinct (map aeKey lines) \<and>
      (\<forall>cur. line_debits cur lines = line_credits cur lines)) \<and>
   (\<forall>e. ValidateEntries lines = Inl e \<longrightarrow> Code e = Some CodeLedgerImbalance)"
  using ValidateEntries_err by (auto simp: ValidateEntries_ok check_lines_iff)

definition sample_line :: "string \<Rightarrow> EntryType \<Rightarrow> decimal \<Rightarrow> EntryLine" where
  "sample_line code ty amount =
     \<lparr>p_AccountCode = code, p_EntryType = ty, p_Amount = amount, p_Currency = ''GBP'',
      p_Description = [], l_ID = 0, l_AccountID = 0\<rparr>"

theorem ValidateEntries_spec_witness:
  "ValidateEntries [sample_line ''a'' EntryTypeDebit 5, sample_line ''b'' EntryTypeCredit 5] = Inr ()"
proof -
  let ?ls = "[sample_line ''a'' EntryTypeDebit 5, sample_line ''b'' EntryTypeCredit 5]"
  have "2 \<le> length ?ls" "\<forall>l \<in> set ?ls. 0 < p_Amount l"
    "distinct (line_ids ?ls)" "distinct (map aeKey ?ls)"
    "\<forall>cur. line_debits cur ?ls = line_credits cur ?ls"
    by (simp_all add: sample_line_def aeKey_def)
  with ValidateEntries_spec [of ?ls] show ?thesis by blast
qed

end
