(* ===== verification/Ledger_Sync.thy ===== *)
theory Ledger_Sync
  imports Ledger_Domain "HOL-Library.Multiset"
begin

text \<open>
  The consumer that copies posted entries from TigerBeetle to the Postgres read model
  (\<^verbatim>\<open>src/ledger/sync.go\<close>). The channel is a list with a capacity; the goroutine of \<^verbatim>\<open>run\<close> is a step
  function on its three events; the outcome of the \<open>n\<close>-th \<^verbatim>\<open>SyncJournalEntry\<close> call is the argument
  \<open>pg_ok n\<close>.
\<close>

section \<open>Model\<close>

record sync_config =
  sc_batchSize :: nat
  sc_capacity :: nat

record sync_state =
  sc_queue :: "JournalEntry list"
  sc_batch :: "JournalEntry list"
  sc_synced :: "JournalEntry list"
  sc_calls :: nat
  sc_droppedTotal :: nat
  sc_syncFailedTotal :: nat
  sc_done :: bool

definition Enqueue :: "sync_config \<Rightarrow> JournalEntry \<Rightarrow> sync_state \<Rightarrow> sync_state" where
  "Enqueue cfg entry sc =
     (if length (sc_queue sc) < sc_capacity cfg
      then sc\<lparr>sc_queue := sc_queue sc @ [entry]\<rparr>
      else sc\<lparr>sc_droppedTotal := sc_droppedTotal sc + 1\<rparr>)"

text \<open>One pass over a list of entries: what is synced, what failed.\<close>

fun sync_pass ::
  "(nat \<Rightarrow> bool) \<Rightarrow> nat \<Rightarrow> JournalEntry list \<Rightarrow> JournalEntry list \<times> JournalEntry list" where
  "sync_pass pg_ok calls [] = ([], [])"
| "sync_pass pg_ok calls (e # es) =
     (case sync_pass pg_ok (calls + 1) es of
        (synced, failed) \<Rightarrow> if pg_ok calls then (e # synced, failed) else (synced, e # failed))"

fun retry_passes ::
  "(nat \<Rightarrow> bool) \<Rightarrow> nat \<Rightarrow> nat \<Rightarrow> JournalEntry list \<Rightarrow> JournalEntry list \<times> JournalEntry list \<times> nat" where
  "retry_passes pg_ok calls 0 failed = ([], failed, calls)"
| "retry_passes pg_ok calls (Suc retries) failed =
     (if failed = [] then ([], [], calls)
      else case sync_pass pg_ok calls failed of
        (synced, stillFailed) \<Rightarrow>
          (case retry_passes pg_ok (calls + length failed) retries stillFailed of
             (synced', failed', calls') \<Rightarrow> (synced @ synced', failed', calls')))"

definition requeue :: "sync_config \<Rightarrow> JournalEntry \<Rightarrow> sync_state \<Rightarrow> sync_state" where
  "requeue cfg entry sc =
     (if length (sc_queue sc) < sc_capacity cfg
      then sc\<lparr>sc_queue := sc_queue sc @ [entry]\<rparr>
      else sc\<lparr>sc_droppedTotal := sc_droppedTotal sc + 1\<rparr>)"

definition sync_flush ::
  "sync_config \<Rightarrow> (nat \<Rightarrow> bool) \<Rightarrow> JournalEntry list \<Rightarrow> sync_state \<Rightarrow> sync_state" where
  "sync_flush cfg pg_ok batch sc =
     (case sync_pass pg_ok (sc_calls sc) batch of
        (synced, failed) \<Rightarrow>
          (case retry_passes pg_ok (sc_calls sc + length batch) 2 failed of
             (synced', failed', calls') \<Rightarrow>
               fold (requeue cfg) failed'
                 (sc\<lparr>sc_synced := sc_synced sc @ synced @ synced', sc_calls := calls',
                     sc_syncFailedTotal := sc_syncFailedTotal sc + length failed'\<rparr>)))"

datatype sync_event = Arrive JournalEntry | Receive | Tick | Shutdown

text \<open>
  One iteration of the \<^verbatim>\<open>select\<close> loop of \<^verbatim>\<open>run\<close>; after \<^verbatim>\<open>done\<close> the goroutine has returned and only
  producers act.
\<close>

fun sync_step :: "sync_config \<Rightarrow> (nat \<Rightarrow> bool) \<Rightarrow> sync_event \<Rightarrow> sync_state \<Rightarrow> sync_state" where
  "sync_step cfg pg_ok (Arrive e) sc = Enqueue cfg e sc"
| "sync_step cfg pg_ok Receive sc =
     (if sc_done sc then sc
      else case sc_queue sc of
        [] \<Rightarrow> sc
      | entry # rest \<Rightarrow>
         (let batch = sc_batch sc @ [entry]; sc' = sc\<lparr>sc_queue := rest\<rparr> in
          if length batch \<ge> sc_batchSize cfg
          then (sync_flush cfg pg_ok batch sc')\<lparr>sc_batch := []\<rparr>
          else sc'\<lparr>sc_batch := batch\<rparr>))"
| "sync_step cfg pg_ok Tick sc =
     (if sc_done sc then sc
      else if sc_batch sc \<noteq> [] then (sync_flush cfg pg_ok (sc_batch sc) sc)\<lparr>sc_batch := []\<rparr> else sc)"
| "sync_step cfg pg_ok Shutdown sc =
     (if sc_done sc then sc
      else let batch = sc_batch sc @ sc_queue sc; sc' = sc\<lparr>sc_queue := []\<rparr> in
           (if batch \<noteq> [] then sync_flush cfg pg_ok batch sc' else sc')\<lparr>sc_batch := [], sc_done := True\<rparr>)"

definition sync_init :: sync_state where
  "sync_init = \<lparr>sc_queue = [], sc_batch = [], sc_synced = [], sc_calls = 0,
     sc_droppedTotal = 0, sc_syncFailedTotal = 0, sc_done = False\<rparr>"

definition arrivals :: "sync_event list \<Rightarrow> JournalEntry list" where
  "arrivals evs = List.map_filter (\<lambda>ev. case ev of Arrive e \<Rightarrow> Some e | _ \<Rightarrow> None) evs"

section \<open>Lemmas\<close>

abbreviation held :: "sync_state \<Rightarrow> JournalEntry multiset" where
  "held sc \<equiv> mset (sc_queue sc) + mset (sc_batch sc) + mset (sc_synced sc)"

text \<open>\<open>accounts m sc\<close>: every entry of \<open>m\<close> is held once or counted as dropped, and nothing else is held.\<close>

definition accounts :: "JournalEntry multiset \<Rightarrow> sync_state \<Rightarrow> bool" where
  "accounts m sc \<longleftrightarrow> (\<exists>lost. m = held sc + lost \<and> size lost = sc_droppedTotal sc)"

lemma sync_pass_mset:
  "sync_pass pg_ok calls es = (s, f) \<Longrightarrow> mset s + mset f = mset es"
  by (induction es arbitrary: calls s f) (auto split: prod.splits if_splits)

lemma retry_passes_mset:
  "retry_passes pg_ok calls n es = (s, f, c) \<Longrightarrow> mset s + mset f = mset es"
proof (induction n arbitrary: calls es s f c)
  case (Suc n)
  then show ?case
    by (auto split: prod.splits if_splits dest!: sync_pass_mset)
      (metis add.assoc)
qed simp

lemma requeue_accounts:
  assumes "accounts m sc"
  shows "accounts (add_mset e m) (requeue cfg e sc)"
proof -
  from assms obtain lost where m: "m = held sc + lost" "size lost = sc_droppedTotal sc"
    by (auto simp: accounts_def)
  show ?thesis
  proof (cases "length (sc_queue sc) < sc_capacity cfg")
    case True
    then show ?thesis using m by (auto simp: accounts_def requeue_def)
  next
    case False
    then show ?thesis using m
      unfolding accounts_def requeue_def by (intro exI [of _ "add_mset e lost"]) simp
  qed
qed

lemma requeue_batch: "requeue cfg e (sc\<lparr>sc_batch := b\<rparr>) = (requeue cfg e sc)\<lparr>sc_batch := b\<rparr>"
  by (simp add: requeue_def)

lemma fold_requeue_batch:
  "fold (requeue cfg) fs (sc\<lparr>sc_batch := b\<rparr>) = (fold (requeue cfg) fs sc)\<lparr>sc_batch := b\<rparr>"
  by (induction fs arbitrary: sc) (auto simp: requeue_batch)

lemma fold_requeue:
  "accounts (m + mset fs) (fold (requeue cfg) fs sc) \<and>
   sc_batch (fold (requeue cfg) fs sc) = sc_batch sc \<and>
   sc_synced (fold (requeue cfg) fs sc) = sc_synced sc"
  if "accounts m sc"
  using that
proof (induction fs arbitrary: m sc)
  case (Cons e fs)
  from Cons.IH [OF requeue_accounts [OF Cons.prems]] show ?case by (simp add: requeue_def)
qed simp

lemma sync_flush_accounts:
  assumes "accounts m (sc\<lparr>sc_batch := []\<rparr>)"
  shows "accounts (m + mset batch) ((sync_flush cfg pg_ok batch sc)\<lparr>sc_batch := []\<rparr>)"
proof -
  obtain s f where p: "sync_pass pg_ok (sc_calls sc) batch = (s, f)" by force
  obtain s' f' c where r: "retry_passes pg_ok (sc_calls sc + length batch) 2 f = (s', f', c)"
    by (meson prod_cases3)
  let ?sc = "sc\<lparr>sc_synced := sc_synced sc @ s @ s', sc_calls := c,
               sc_syncFailedTotal := sc_syncFailedTotal sc + length f', sc_batch := []\<rparr>"
  have m: "mset batch = mset s + mset s' + mset f'"
    using sync_pass_mset [OF p] retry_passes_mset [OF r] by (simp add: add.assoc)
  have "accounts (m + mset s + mset s') ?sc"
    using assms by (auto simp: accounts_def ac_simps)
  from fold_requeue [OF this, of f' cfg]
  have "accounts (m + mset batch) (fold (requeue cfg) f' ?sc)" by (simp add: m add.assoc)
  then show ?thesis by (simp add: sync_flush_def p r flip: fold_requeue_batch)
qed

lemma accounts_take:
  assumes "accounts m sc" and "mset (sc_queue sc) + mset (sc_batch sc) = mset rest + mset batch"
  obtains m' where "m = m' + mset batch" and "accounts m' (sc\<lparr>sc_queue := rest, sc_batch := []\<rparr>)"
proof -
  from assms(1) obtain lost where m: "m = held sc + lost" "size lost = sc_droppedTotal sc"
    by (auto simp: accounts_def)
  show thesis
  proof (rule that)
    show "m = (mset rest + mset (sc_synced sc) + lost) + mset batch"
      using m(1) assms(2) by (simp add: ac_simps)
    show "accounts (mset rest + mset (sc_synced sc) + lost) (sc\<lparr>sc_queue := rest, sc_batch := []\<rparr>)"
      using m(2) by (auto simp: accounts_def)
  qed
qed

lemma accounts_done [simp]: "accounts m (sc\<lparr>sc_done := b\<rparr>) = accounts m sc"
  by (simp add: accounts_def)

lemma flush_taken:
  assumes "accounts m sc" and "mset (sc_queue sc) + mset (sc_batch sc) = mset rest + mset batch"
  shows "accounts m ((sync_flush cfg pg_ok batch (sc\<lparr>sc_queue := rest\<rparr>))\<lparr>sc_batch := []\<rparr>)"
  using accounts_take [OF assms] sync_flush_accounts [of _ "sc\<lparr>sc_queue := rest\<rparr>" batch cfg pg_ok]
  by metis

lemma sync_step_accounts:
  assumes "accounts m sc"
  shows "accounts (m + mset (arrivals [ev])) (sync_step cfg pg_ok ev sc)"
proof (cases ev)
  case (Arrive e)
  have "Enqueue cfg e sc = requeue cfg e sc" by (simp add: Enqueue_def requeue_def)
  with requeue_accounts [OF assms] Arrive show ?thesis by (simp add: arrivals_def map_filter_def)
next
  case Receive
  have "accounts m (sc\<lparr>sc_queue := rest, sc_batch := sc_batch sc @ [e]\<rparr>)" if "sc_queue sc = e # rest" for e rest
    using assms that by (auto simp: accounts_def)
  then show ?thesis
    using assms Receive flush_taken [OF assms, of "tl (sc_queue sc)" "sc_batch sc @ [hd (sc_queue sc)]"]
    by (auto simp: arrivals_def map_filter_def Let_def split: list.splits)
next
  case Tick
  then show ?thesis using assms flush_taken [OF assms, of "sc_queue sc" "sc_batch sc"]
    by (simp add: arrivals_def map_filter_def)
next
  case Shutdown
  have "accounts m (sc\<lparr>sc_queue := [], sc_batch := [], sc_done := True\<rparr>)"
    if "sc_batch sc = []" "sc_queue sc = []"
    using assms that by (simp add: accounts_def)
  then show ?thesis using Shutdown assms flush_taken [OF assms, of "[]" "sc_batch sc @ sc_queue sc"]
    by (simp add: arrivals_def map_filter_def Let_def add.commute)
qed

lemma arrivals_append: "arrivals (evs @ evs') = arrivals evs @ arrivals evs'"
  by (simp add: arrivals_def map_filter_def)

lemma run_accounts:
  "accounts (mset (arrivals evs)) (fold (sync_step cfg pg_ok) evs sync_init)"
proof (induction evs rule: rev_induct)
  case Nil
  show ?case by (simp add: accounts_def sync_init_def arrivals_def map_filter_def)
next
  case (snoc ev evs)
  from sync_step_accounts [OF snoc, of ev cfg pg_ok] show ?case by (simp add: arrivals_append)
qed

section \<open>Properties\<close>

text \<open>
  C14: The consumer neither invents nor silently loses entries: after any interleaving of
  arrivals, receives, ticks and a shutdown, with any pattern of database failures, the posted
  entries are exactly those in the queue, in the current batch or synced, plus as many as the
  dropped counter says.
\<close>

theorem sync_conservation:
  "\<exists>lost. mset (arrivals evs) =
     held (fold (sync_step cfg pg_ok) evs sync_init) + lost \<and>
     size lost = sc_droppedTotal (fold (sync_step cfg pg_ok) evs sync_init)"
  using run_accounts by (simp add: accounts_def)

end
