(* ===== verification/Tenant_Domain.thy ===== *)
theory Tenant_Domain
  imports Money_Domain
begin

text \<open>
  Tenants and their fee schedules (\<^verbatim>\<open>src/domain/tenant.go\<close>, and the configuration records of
  \<^verbatim>\<open>src/domain/deposit.go\<close> and \<^verbatim>\<open>src/domain/bank_deposit.go\<close> that a tenant carries).
\<close>

section \<open>Data\<close>

datatype TenantStatus = TenantStatusActive | TenantStatusSuspended | TenantStatusOnboarding

datatype SettlementModel = SettlementModelPrefunded | SettlementModelNetSettlement

datatype KYBStatus = KYBStatusPending | KYBStatusInReview | KYBStatusVerified | KYBStatusRejected

record FeeSchedule =
  OnRampBPS :: int
  OffRampBPS :: int
  MinFeeUSD :: decimal
  MaxFeeUSD :: decimal
  CryptoCollectionBPS :: int
  CryptoCollectionMaxFeeUSD :: decimal
  BankCollectionBPS :: int
  BankCollectionMinFeeUSD :: decimal
  BankCollectionMaxFeeUSD :: decimal
  FeeScheduleVersion :: int
  FeeScheduleUpdatedAt :: instant

record TenantCryptoConfig =
  CryptoEnabled :: bool
  DefaultSettlementPref :: string
  cc_SupportedChains :: "chain list"
  MinConfirmationsTron :: int
  MinConfirmationsEth :: int
  MinConfirmationsBase :: int
  PaymentToleranceBPS :: int
  cc_DefaultSessionTTLSecs :: int

record TenantBankConfig =
  BankDepositsEnabled :: bool
  DefaultBankingPartner :: string
  BankSupportedCurrencies :: "currency list"
  DefaultMismatchPolicy :: string
  bc_DefaultSessionTTLSecs :: int

record TenantNotificationConfig =
  EmailEnabled :: bool
  NotificationEmails :: "string list"
  NotifyOnSuccess :: bool
  NotifyOnFailure :: bool
  NotifyOnDetection :: bool

record Tenant =
  tn_ID :: uuid
  tn_Name :: string
  tn_Slug :: string
  tn_Status :: TenantStatus
  tn_FeeSchedule :: FeeSchedule
  tn_SettlementModel :: SettlementModel
  tn_WebhookURL :: string
  tn_WebhookSecret :: string
  tn_DailyLimitUSD :: decimal
  tn_PerTransferLimit :: decimal
  tn_MaxPendingTransfers :: int
  tn_KYBStatus :: KYBStatus
  tn_KYBVerifiedAt :: "instant option"
  tn_Metadata :: "(string \<times> string) list"
  tn_CryptoConfig :: TenantCryptoConfig
  tn_BankConfig :: TenantBankConfig
  tn_NotificationConfig :: TenantNotificationConfig
  tn_CreatedAt :: instant
  tn_UpdatedAt :: instant

section \<open>Operations\<close>

definition bps_in_range :: "int \<Rightarrow> bool" where
  "bps_in_range val \<longleftrightarrow> \<not> (val < 0 \<or> val > 10000)"

definition FeeSchedule_Validate :: "FeeSchedule \<Rightarrow> unit result" where
  "FeeSchedule_Validate f =
     (if \<not> bps_in_range (OnRampBPS f)
      then Inl (Errorf ''settla-domain: OnRampBPS must be between 0 and 10000'' None)
      else if \<not> bps_in_range (OffRampBPS f)
      then Inl (Errorf ''settla-domain: OffRampBPS must be between 0 and 10000'' None)
      else if \<not> bps_in_range (CryptoCollectionBPS f)
      then Inl (Errorf ''settla-domain: CryptoCollectionBPS must be between 0 and 10000'' None)
      else if \<not> bps_in_range (BankCollectionBPS f)
      then Inl (Errorf ''settla-domain: BankCollectionBPS must be between 0 and 10000'' None)
      else if MinFeeUSD f \<noteq> 0 \<and> MaxFeeUSD f \<noteq> 0 \<and> MinFeeUSD f > MaxFeeUSD f
      then Inl (Errorf ''settla-domain: MinFeeUSD must not exceed MaxFeeUSD'' None)
      else if BankCollectionMinFeeUSD f \<noteq> 0 \<and> BankCollectionMaxFeeUSD f \<noteq> 0
              \<and> BankCollectionMinFeeUSD f > BankCollectionMaxFeeUSD f
      then Inl (Errorf ''settla-domain: BankCollectionMinFeeUSD must not exceed BankCollectionMaxFeeUSD'' None)
      else Inr ())"

definition bpsDivisor :: decimal where
  "bpsDivisor = 10000"

text \<open>The \<^verbatim>\<open>switch\<close> of \<^verbatim>\<open>CalculateFee\<close>: the basis points and the cap of a fee type.\<close>

definition fee_params :: "FeeSchedule \<Rightarrow> string \<Rightarrow> (int \<times> decimal) option" where
  "fee_params f feeType =
     (if feeType = ''onramp'' then Some (OnRampBPS f, MaxFeeUSD f)
      else if feeType = ''offramp'' then Some (OffRampBPS f, MaxFeeUSD f)
      else if feeType = ''crypto_collection''
      then Some (CryptoCollectionBPS f, CryptoCollectionMaxFeeUSD f)
      else if feeType = ''bank_collection''
      then Some (BankCollectionBPS f, BankCollectionMaxFeeUSD f)
      else None)"

definition fee_min :: "FeeSchedule \<Rightarrow> string \<Rightarrow> decimal" where
  "fee_min f feeType =
     (if feeType = ''bank_collection'' \<and> BankCollectionMinFeeUSD f \<noteq> 0
      then BankCollectionMinFeeUSD f else MinFeeUSD f)"

definition clamp_min :: "lib \<Rightarrow> decimal \<Rightarrow> decimal \<Rightarrow> decimal" where
  "clamp_min L minFee fee = (if minFee \<noteq> 0 \<and> fee < minFee then dec_round L minFee 8 else fee)"

definition clamp_max :: "lib \<Rightarrow> decimal \<Rightarrow> decimal \<Rightarrow> decimal" where
  "clamp_max L maxFee fee = (if maxFee \<noteq> 0 \<and> fee > maxFee then dec_round L maxFee 8 else fee)"

definition CalculateFee :: "lib \<Rightarrow> FeeSchedule \<Rightarrow> decimal \<Rightarrow> string \<Rightarrow> decimal result" where
  "CalculateFee L f amount feeType =
     (case fee_params f feeType of
        None \<Rightarrow> Inl (Errorf ''settla-domain: unknown fee type'' None)
      | Some (bps, maxFee) \<Rightarrow>
         if bps < 0 then Inl (Errorf ''settla-domain: basis points must be non-negative'' None)
         else let fee = dec_round L (dec_div L (amount * of_int bps) bpsDivisor) 8 in
              Inr (clamp_max L maxFee (clamp_min L (fee_min f feeType) fee)))"

definition Tenant_IsActive :: "Tenant \<Rightarrow> bool" where
  "Tenant_IsActive t \<longleftrightarrow> tn_Status t = TenantStatusActive \<and> tn_KYBStatus t = KYBStatusVerified"

definition ValidateMetadata :: "Tenant \<Rightarrow> unit result" where
  "ValidateMetadata t =
     (case map_of (tn_Metadata t) ''auto_refund_currency'' of
        None \<Rightarrow> Inr ()
      | Some v \<Rightarrow>
         if v = ''source'' \<or> v = ''stablecoin'' then Inr ()
         else (case ValidateCurrency v of
                 Inl err \<Rightarrow> Inl (Errorf ''settla-domain: invalid auto_refund_currency'' None)
               | Inr _ \<Rightarrow> Inr ()))"

definition Tenant_Validate :: "Tenant \<Rightarrow> unit result" where
  "Tenant_Validate t =
     (case FeeSchedule_Validate (tn_FeeSchedule t) of
        Inl err \<Rightarrow> Inl err
      | Inr _ \<Rightarrow> ValidateMetadata t)"

fun chain_loop :: "chain list \<Rightarrow> chain \<Rightarrow> bool" where
  "chain_loop [] chain = False"
| "chain_loop (c # cs) chain = (if c = chain then True else chain_loop cs chain)"

definition ChainSupported :: "Tenant \<Rightarrow> chain \<Rightarrow> bool" where
  "ChainSupported t chain = chain_loop (cc_SupportedChains (tn_CryptoConfig t)) chain"

section \<open>Lemmas\<close>

lemma chain_loop_iff: "chain_loop cs c \<longleftrightarrow> c \<in> set cs"
  by (induction cs) auto

lemma round8_multiple: "round_law L \<Longrightarrow> multiple_of (1 / 10 ^ 8) (dec_round L x 8)"
  unfolding round_law_def nearest_def by blast

lemma clamp_min_mono:
  assumes "round_law L" and "multiple_of (1 / 10 ^ 8) y" and "x \<le> y"
  shows "clamp_min L m x \<le> clamp_min L m y"
proof -
  have "dec_round L m 8 \<le> y" if "m \<le> y"
    using that assms(1,2) by (intro dec_round_le)
  with assms(3) show ?thesis by (auto simp: clamp_min_def)
qed

lemma clamp_min_multiple:
  "round_law L \<Longrightarrow> multiple_of (1 / 10 ^ 8) x \<Longrightarrow> multiple_of (1 / 10 ^ 8) (clamp_min L m x)"
  using round8_multiple [of L m] by (simp add: clamp_min_def)

lemma clamp_max_mono:
  assumes "round_law L" and "multiple_of (1 / 10 ^ 8) x" and "x \<le> y"
  shows "clamp_max L m x \<le> clamp_max L m y"
proof -
  have "x \<le> dec_round L m 8" if "x \<le> m"
    using that assms(1,2) by (intro dec_round_ge)
  with assms(3) show ?thesis by (auto simp: clamp_max_def)
qed

lemma CalculateFee_ok:
  "CalculateFee L f amount ft = Inr fee \<longleftrightarrow>
   (\<exists>bps maxFee. fee_params f ft = Some (bps, maxFee) \<and> 0 \<le> bps \<and>
      fee = clamp_max L maxFee (clamp_min L (fee_min f ft)
              (dec_round L (dec_div L (amount * of_int bps) bpsDivisor) 8)))"
  by (auto simp: CalculateFee_def Let_def split: option.splits)

section \<open>Properties\<close>

text \<open>
  Charging is monotone: under the decimal package's rounding laws a larger amount never
  pays a smaller fee of the same type, through the two roundings and both clamps.
\<close>

theorem CalculateFee_mono:
  assumes "div_law L" and "round_law L"
    and "CalculateFee L f a ft = Inr fee" and "CalculateFee L f b ft = Inr fee'" and "a \<le> b"
  shows "fee \<le> fee'"
proof -
  from assms(3,4) obtain bps maxFee where bps: "0 \<le> bps"
    and fee: "fee = clamp_max L maxFee (clamp_min L (fee_min f ft)
              (dec_round L (dec_div L (a * of_int bps) bpsDivisor) 8))"
    and fee': "fee' = clamp_max L maxFee (clamp_min L (fee_min f ft)
              (dec_round L (dec_div L (b * of_int bps) bpsDivisor) 8))"
    by (auto simp: CalculateFee_ok)
  have "a * of_int bps \<le> b * of_int bps"
    using assms(5) bps by (simp add: mult_right_mono)
  then have "dec_div L (a * of_int bps) bpsDivisor \<le> dec_div L (b * of_int bps) bpsDivisor"
    using assms(1) by (intro dec_div_mono) (simp_all add: bpsDivisor_def)
  then show ?thesis
    unfolding fee fee' using assms(2)
    by (intro clamp_max_mono clamp_min_mono clamp_min_multiple round8_multiple dec_round_mono)
qed

text \<open>
  C33: A schedule that passes \<^verbatim>\<open>Validate\<close> charges on-ramp and off-ramp fees between its minimum
  and its maximum when both are set and have at most 8 decimals, and never fails on them.
\<close>

theorem CalculateFee_ramp_bounds:
  assumes "round_law L" and "FeeSchedule_Validate f = Inr ()"
    and "ft = ''onramp'' \<or> ft = ''offramp''"
    and "MinFeeUSD f \<noteq> 0" and "MaxFeeUSD f \<noteq> 0"
    and "multiple_of (1 / 10 ^ 8) (MinFeeUSD f)" and "multiple_of (1 / 10 ^ 8) (MaxFeeUSD f)"
  shows "\<exists>fee. CalculateFee L f amount ft = Inr fee \<and> MinFeeUSD f \<le> fee \<and> fee \<le> MaxFeeUSD f"
proof -
  have le: "MinFeeUSD f \<le> MaxFeeUSD f" and "0 \<le> OnRampBPS f" and "0 \<le> OffRampBPS f"
    using assms(2,4,5)
    by (auto simp: FeeSchedule_Validate_def bps_in_range_def split: if_splits)
  moreover have "dec_round L (MinFeeUSD f) 8 = MinFeeUSD f" "dec_round L (MaxFeeUSD f) 8 = MaxFeeUSD f"
    using assms(1,6,7) by (auto intro: dec_round_exact)
  ultimately show ?thesis
    using assms(3-5)
    by (auto simp: CalculateFee_def fee_params_def fee_min_def clamp_min_def clamp_max_def Let_def)
qed

section \<open>Witnesses\<close>

definition sample_schedule :: FeeSchedule where
  "sample_schedule = \<lparr>
     OnRampBPS = 40, OffRampBPS = 35, MinFeeUSD = 1, MaxFeeUSD = 500,
     CryptoCollectionBPS = 30, CryptoCollectionMaxFeeUSD = 1 / 2,
     BankCollectionBPS = 20, BankCollectionMinFeeUSD = 0, BankCollectionMaxFeeUSD = 0,
     FeeScheduleVersion = 1, FeeScheduleUpdatedAt = 0 \<rparr>"

lemma multiple_of_8_int: "multiple_of (1 / 10 ^ 8) (of_int k)"
  unfolding multiple_of_def by (rule exI [of _ "k * 100000000"]) simp

theorem CalculateFee_ramp_bounds_witness:
  "\<exists>fee. CalculateFee ref_lib sample_schedule 100 ''offramp'' = Inr fee \<and> 1 \<le> fee \<and> fee \<le> 500"
  using CalculateFee_ramp_bounds [OF ref_lib_laws(2), of sample_schedule "''offramp''" 100]
    multiple_of_8_int [of 1] multiple_of_8_int [of 500]
  by (simp add: FeeSchedule_Validate_def bps_in_range_def sample_schedule_def)

text \<open>
  The minimum fee is not a lower bound for crypto collection: \<^verbatim>\<open>Validate\<close> never compares
  \<^verbatim>\<open>MinFeeUSD\<close> with \<^verbatim>\<open>CryptoCollectionMaxFeeUSD\<close>, the cap is applied last, and a valid
  schedule charges less than its \<^verbatim>\<open>MinFeeUSD\<close>.
\<close>

theorem crypto_fee_below_minimum:
  "FeeSchedule_Validate sample_schedule = Inr () \<and>
   CalculateFee ref_lib sample_schedule 1000 ''crypto_collection'' = Inr (1 / 2) \<and>
   1 / 2 < MinFeeUSD sample_schedule"
  by (simp add: FeeSchedule_Validate_def bps_in_range_def sample_schedule_def CalculateFee_def
      fee_params_def fee_min_def clamp_min_def clamp_max_def bpsDivisor_def ref_lib_def
      ref_round_def floor_eq_iff Let_def)

end
