(* ===== verification/State_Machine.thy ===== *)
theory State_Machine
  imports Settla_Prelude
begin

text \<open>
  The contract shared by the status machines of the program: a table of allowed successors
  and a rank that every allowed step raises. The lemmas bound every run and exclude
  repetitions; the components interpret the locale on their own transition tables.
\<close>

fun path :: "('s \<Rightarrow> 's list) \<Rightarrow> 's \<Rightarrow> 's list \<Rightarrow> bool" where
  "path allowed s [] = True"
| "path allowed s (t # ts) = (t \<in> set (allowed s) \<and> path allowed t ts)"

lemma path_append:
  "path allowed s (ts @ us) \<longleftrightarrow> path allowed s ts \<and> path allowed (last (s # ts)) us"
  by (induction ts arbitrary: s) auto

locale state_machine =
  fixes allowed :: "'s \<Rightarrow> 's list" and rank :: "'s \<Rightarrow> nat" and top_rank :: nat
  assumes rank_step: "t \<in> set (allowed s) \<Longrightarrow> rank s < rank t"
    and rank_bound: "rank s \<le> top_rank"
begin

lemma path_rank: "path allowed s ts \<Longrightarrow> rank s + length ts \<le> rank (last (s # ts))"
proof (induction ts arbitrary: s)
  case (Cons t ts)
  then have "rank s < rank t" and "rank t + length ts \<le> rank (last (t # ts))"
    using rank_step by auto
  then show ?case by simp
qed simp

lemma path_bounded: "path allowed s ts \<Longrightarrow> length ts \<le> top_rank - rank s"
  using path_rank [of s ts] rank_bound [of "last (s # ts)"] by linarith

lemma path_above: "path allowed s ts \<Longrightarrow> t \<in> set ts \<Longrightarrow> rank s < rank t"
proof (induction ts arbitrary: s)
  case (Cons u us)
  have "rank s < rank u" using Cons.prems rank_step by auto
  with Cons show ?case by fastforce
qed simp

lemma path_distinct: "path allowed s ts \<Longrightarrow> distinct (s # ts)"
proof (induction ts arbitrary: s)
  case (Cons t ts)
  have "s \<notin> set (t # ts)" using Cons.prems path_above by blast
  with Cons show ?case by auto
qed simp

lemma no_self_step: "s \<notin> set (allowed s)"
  using rank_step by blast

end

end
