(* ===== verification/Transfer_Domain.thy ===== *)
theory Transfer_Domain
  imports Tenant_Domain State_Machine
begin

text \<open>
  The transfer aggregate and its status machine (\<^verbatim>\<open>src/domain/transfer.go\<close>), the quote
  (\<^verbatim>\<open>src/domain/quote.go\<close>) and the position transaction machine
  (\<^verbatim>\<open>src/domain/position_transaction.go\<close>). \<^verbatim>\<open>time.Now\<close> and \<^verbatim>\<open>uuid.NewV7\<close> are arguments.
\<close>

section \<open>Status machine\<close>

datatype TransferStatus =
    TransferStatusCreated
  | TransferStatusFunded
  | TransferStatusOnRamping
  | TransferStatusSettling
  | TransferStatusOffRamping
  | TransferStatusCompleted
  | TransferStatusFailed
  | TransferStatusRefunding
  | TransferStatusRefunded

primrec status_string :: "TransferStatus \<Rightarrow> string" where
  "status_string TransferStatusCreated = ''CREATED''"
| "status_string TransferStatusFunded = ''FUNDED''"
| "status_string TransferStatusOnRamping = ''ON_RAMPING''"
| "status_string TransferStatusSettling = ''SETTLING''"
| "status_string TransferStatusOffRamping = ''OFF_RAMPING''"
| "status_string TransferStatusCompleted = ''COMPLETED''"
| "status_string TransferStatusFailed = ''FAILED''"
| "status_string TransferStatusRefunding = ''REFUNDING''"
| "status_string TransferStatusRefunded = ''REFUNDED''"

primrec ValidTransitions :: "TransferStatus \<Rightarrow> TransferStatus list" where
  "ValidTransitions TransferStatusCreated = [TransferStatusFunded, TransferStatusFailed]"
| "ValidTransitions TransferStatusFunded = [TransferStatusOnRamping, TransferStatusRefunding]"
| "ValidTransitions TransferStatusOnRamping =
     [TransferStatusSettling, TransferStatusRefunding, TransferStatusFailed]"
| "ValidTransitions TransferStatusSettling = [TransferStatusOffRamping, TransferStatusFailed]"
| "ValidTransitions TransferStatusOffRamping = [TransferStatusCompleted, TransferStatusFailed]"
| "ValidTransitions TransferStatusCompleted = []"
| "ValidTransitions TransferStatusFailed = [TransferStatusRefunding]"
| "ValidTransitions TransferStatusRefunding = [TransferStatusRefunded]"
| "ValidTransitions TransferStatusRefunded = []"

section \<open>The aggregate\<close>

record Sender =
  sn_ID :: uuid
  sn_Name :: string
  sn_Email :: string
  sn_Country :: string

record Recipient =
  rc_Name :: string
  rc_AccountNumber :: string
  rc_SortCode :: string
  rc_BankName :: string
  rc_Country :: string
  rc_IBAN :: string

record FeeBreakdown =
  OnRampFee :: decimal
  NetworkFee :: decimal
  OffRampFee :: decimal
  TotalFeeUSD :: decimal

record BlockchainTx =
  bt_Chain :: chain
  bt_Type :: string
  bt_TxHash :: string
  bt_ExplorerURL :: string
  bt_Status :: string

record Transfer =
  t_ID :: uuid
  t_TenantID :: uuid
  t_ExternalRef :: string
  t_IdempotencyKey :: string
  t_Status :: TransferStatus
  t_Version :: int
  t_SourceCurrency :: currency
  t_SourceAmount :: decimal
  t_DestCurrency :: currency
  t_DestAmount :: decimal
  t_StableCoin :: currency
  t_StableAmount :: decimal
  t_Chain :: chain
  t_FXRate :: decimal
  t_Fees :: FeeBreakdown
  t_FeeScheduleSnapshot :: "FeeSchedule option"
  t_OnRampProviderID :: string
  t_OffRampProviderID :: string
  t_Sender :: Sender
  t_Recipient :: Recipient
  t_QuoteID :: "uuid option"
  t_BlockchainTxs :: "BlockchainTx list"
  t_CreatedAt :: instant
  t_UpdatedAt :: instant
  t_FundedAt :: "instant option"
  t_CompletedAt :: "instant option"
  t_FailedAt :: "instant option"
  t_FailureReason :: string
  t_FailureCode :: string

record TransferEvent =
  te_ID :: uuid
  te_TransferID :: uuid
  te_TenantID :: uuid
  te_FromStatus :: TransferStatus
  te_ToStatus :: TransferStatus
  te_OccurredAt :: instant
  te_Metadata :: "(string \<times> string) list"
  te_ProviderRef :: string

definition FeeBreakdown_Validate :: "FeeBreakdown \<Rightarrow> unit result" where
  "FeeBreakdown_Validate f =
     (if OnRampFee f < 0
      then Inl (Errorf ''settla-domain: FeeBreakdown.OnRampFee must be non-negative'' None)
      else if NetworkFee f < 0
      then Inl (Errorf ''settla-domain: FeeBreakdown.NetworkFee must be non-negative'' None)
      else if OffRampFee f < 0
      then Inl (Errorf ''settla-domain: FeeBreakdown.OffRampFee must be non-negative'' None)
      else if TotalFeeUSD f \<noteq> OnRampFee f + NetworkFee f + OffRampFee f
      then Inl (Errorf ''settla-domain: FeeBreakdown.TotalFeeUSD does not equal sum of components'' None)
      else Inr ())"

definition ValidateWithSchedule :: "FeeBreakdown \<Rightarrow> FeeSchedule \<Rightarrow> unit result" where
  "ValidateWithSchedule f schedule =
     (case FeeBreakdown_Validate f of
        Inl err \<Rightarrow> Inl err
      | Inr _ \<Rightarrow>
         if MinFeeUSD schedule \<noteq> 0 \<and> TotalFeeUSD f < MinFeeUSD schedule
         then Inl (Errorf ''settla-domain: FeeBreakdown.TotalFeeUSD is below schedule minimum'' None)
         else if MaxFeeUSD schedule \<noteq> 0 \<and> TotalFeeUSD f > MaxFeeUSD schedule
         then Inl (Errorf ''settla-domain: FeeBreakdown.TotalFeeUSD exceeds schedule maximum'' None)
         else Inr ())"

fun target_loop :: "'s list \<Rightarrow> 's \<Rightarrow> bool" where
  "target_loop [] target = False"
| "target_loop (a # as) target = (if a = target then True else target_loop as target)"

definition CanTransitionTo :: "Transfer \<Rightarrow> TransferStatus \<Rightarrow> bool" where
  "CanTransitionTo t target = target_loop (ValidTransitions (t_Status t)) target"

definition TransitionTo ::
  "uuid \<Rightarrow> instant \<Rightarrow> Transfer \<Rightarrow> TransferStatus \<Rightarrow> (Transfer \<times> TransferEvent) result" where
  "TransitionTo fresh now t target =
     (if \<not> CanTransitionTo t target
      then Inl (ErrInvalidTransition (status_string (t_Status t)) (status_string target))
      else Inr
        (t\<lparr>t_Status := target, t_Version := wrap64 (t_Version t + 1), t_UpdatedAt := now\<rparr>,
         \<lparr>te_ID = fresh, te_TransferID = t_ID t, te_TenantID = t_TenantID t,
          te_FromStatus = t_Status t, te_ToStatus = target, te_OccurredAt = now,
          te_Metadata = [], te_ProviderRef = []\<rparr>))"

definition NewIdempotencyKey :: "string \<Rightarrow> string result" where
  "NewIdempotencyKey key =
     (if key = [] then Inl (Errorf ''settla-domain: idempotency key must not be empty'' None)
      else if length key > 256
      then Inl (Errorf ''settla-domain: idempotency key exceeds 256 characters'' None)
      else Inr key)"

definition Sender_Validate :: "Sender \<Rightarrow> unit result" where
  "Sender_Validate s =
     (if sn_Name s = [] then Inl (Errorf ''settla-domain: sender name is required'' None)
      else if sn_Email s \<noteq> [] \<and> CHR ''@'' \<notin> set (sn_Email s)
      then Inl (Errorf ''settla-domain: sender email is not a valid email address'' None)
      else Inr ())"

definition SupportedChains :: "chain list" where
  "SupportedChains = [''ethereum'', ''tron'', ''solana'', ''polygon'', ''base'', ''arbitrum'']"

definition IsEVM :: "chain \<Rightarrow> bool" where
  "IsEVM c \<longleftrightarrow> c = ''ethereum'' \<or> c = ''base'' \<or> c = ''polygon'' \<or> c = ''arbitrum''"

definition ValidateChain :: "chain \<Rightarrow> unit result" where
  "ValidateChain c =
     (if c \<notin> set SupportedChains
      then Inl (Errorf ''settla-domain: unsupported blockchain chain'' None) else Inr ())"

definition account_char :: "char \<Rightarrow> bool" where
  "account_char c =
     (let n = (of_char c :: nat) in
      (48 \<le> n \<and> n \<le> 57) \<or> (97 \<le> n \<and> n \<le> 122) \<or> (65 \<le> n \<and> n \<le> 90) \<or> n = 45)"

definition Recipient_Validate :: "Recipient \<Rightarrow> unit result" where
  "Recipient_Validate r =
     (if rc_Name r = [] then Inl (Errorf ''settla-domain: recipient name is required'' None)
      else if rc_Country r = []
      then Inl (Errorf ''settla-domain: recipient country is required'' None)
      else if length (rc_BankName r) > 128
      then Inl (Errorf ''settla-domain: recipient bank_name must be at most 128 characters'' None)
      else if rc_AccountNumber r \<noteq> [] then
        (if length (rc_AccountNumber r) < 4 \<or> length (rc_AccountNumber r) > 34
         then Inl (Errorf ''settla-domain: recipient account_number must be 4-34 characters'' None)
         else if \<not> list_all account_char (rc_AccountNumber r)
         then Inl (Errorf ''settla-domain: recipient account_number contains invalid character'' None)
         else if rc_BankName r = []
         then Inl (Errorf ''settla-domain: recipient bank_name is required when account_number is provided'' None)
         else Inr ())
      else Inr ())"

section \<open>Quotes\<close>

record ScoreBreakdown =
  sb_Cost :: decimal
  sb_Speed :: decimal
  sb_Liquidity :: decimal
  sb_Reliability :: decimal

record RouteAlternative =
  ra_OnRampProvider :: string
  ra_OffRampProvider :: string
  ra_Chain :: chain
  ra_StableCoin :: currency
  ra_Fee :: Money
  ra_Rate :: decimal
  ra_StableAmount :: decimal
  ra_Score :: decimal
  ra_ScoreBreakdown :: ScoreBreakdown

record RouteInfo =
  ri_Chain :: chain
  ri_StableCoin :: currency
  ri_EstimatedTimeMin :: int
  ri_OnRampProvider :: string
  ri_OffRampProvider :: string
  ri_ExplorerURL :: string
  ri_AlternativeRoutes :: "RouteAlternative list"

record Quote =
  q_ID :: uuid
  q_TenantID :: uuid
  q_SourceCurrency :: currency
  q_SourceAmount :: decimal
  q_DestCurrency :: currency
  q_DestAmount :: decimal
  q_StableAmount :: decimal
  q_FXRate :: decimal
  q_Fees :: FeeBreakdown
  q_Route :: RouteInfo
  q_ExpiresAt :: instant
  q_CreatedAt :: instant

definition Quote_IsExpired :: "instant \<Rightarrow> Quote \<Rightarrow> bool" where
  "Quote_IsExpired now q \<longleftrightarrow> now > q_ExpiresAt q"

definition Quote_Validate :: "Quote \<Rightarrow> unit result" where
  "Quote_Validate q =
     (if \<not> 0 < q_DestAmount q
      then Inl (Errorf ''settla-core: create transfer: quote dest amount must be positive'' None)
      else if \<not> 0 < q_StableAmount q
      then Inl (Errorf ''settla-core: create transfer: quote stable amount must be positive'' None)
      else if ri_OnRampProvider (q_Route q) = []
      then Inl (Errorf ''settla-core: create transfer: quote route on_ramp_provider is required'' None)
      else if ri_OffRampProvider (q_Route q) = []
      then Inl (Errorf ''settla-core: create transfer: quote route off_ramp_provider is required'' None)
      else if ri_Chain (q_Route q) = []
      then Inl (Errorf ''settla-core: create transfer: quote route chain is required'' None)
      else if ri_StableCoin (q_Route q) = []
      then Inl (Errorf ''settla-core: create transfer: quote route stablecoin is required'' None)
      else Inr ())"

section \<open>Position transactions\<close>

datatype PositionTxStatus =
    PositionTxStatusPending
  | PositionTxStatusProcessing
  | PositionTxStatusCompleted
  | PositionTxStatusFailed

primrec ptx_status_string :: "PositionTxStatus \<Rightarrow> string" where
  "ptx_status_string PositionTxStatusPending = ''PENDING''"
| "ptx_status_string PositionTxStatusProcessing = ''PROCESSING''"
| "ptx_status_string PositionTxStatusCompleted = ''COMPLETED''"
| "ptx_status_string PositionTxStatusFailed = ''FAILED''"

primrec ValidPositionTxTransitions :: "PositionTxStatus \<Rightarrow> PositionTxStatus list" where
  "ValidPositionTxTransitions PositionTxStatusPending =
     [PositionTxStatusProcessing, PositionTxStatusFailed]"
| "ValidPositionTxTransitions PositionTxStatusProcessing =
     [PositionTxStatusCompleted, PositionTxStatusFailed]"
| "ValidPositionTxTransitions PositionTxStatusCompleted = []"
| "ValidPositionTxTransitions PositionTxStatusFailed = []"

record PositionTransaction =
  ptx_ID :: uuid
  ptx_TenantID :: uuid
  ptx_Type :: string
  ptx_Currency :: currency
  ptx_Location :: string
  ptx_Amount :: decimal
  ptx_Status :: PositionTxStatus
  ptx_Method :: string
  ptx_Destination :: string
  ptx_Reference :: string
  ptx_FailureReason :: string
  ptx_Version :: int
  ptx_CreatedAt :: instant
  ptx_UpdatedAt :: instant

definition PositionTx_CanTransitionTo :: "PositionTransaction \<Rightarrow> PositionTxStatus \<Rightarrow> bool" where
  "PositionTx_CanTransitionTo tx target =
     target_loop (ValidPositionTxTransitions (ptx_Status tx)) target"

definition PositionTx_TransitionTo ::
  "instant \<Rightarrow> PositionTransaction \<Rightarrow> PositionTxStatus \<Rightarrow> PositionTransaction result" where
  "PositionTx_TransitionTo now tx target =
     (if \<not> PositionTx_CanTransitionTo tx target
      then Inl (ErrInvalidTransition (ptx_status_string (ptx_Status tx)) (ptx_status_string target))
      else Inr (tx\<lparr>ptx_Status := target, ptx_Version := wrap64 (ptx_Version tx + 1),
                   ptx_UpdatedAt := now\<rparr>))"

section \<open>The machines as interpretations\<close>

primrec status_rank :: "TransferStatus \<Rightarrow> nat" where
  "status_rank TransferStatusCreated = 0"
| "status_rank TransferStatusFunded = 1"
| "status_rank TransferStatusOnRamping = 2"
| "status_rank TransferStatusSettling = 3"
| "status_rank TransferStatusOffRamping = 4"
| "status_rank TransferStatusCompleted = 5"
| "status_rank TransferStatusFailed = 5"
| "status_rank TransferStatusRefunding = 6"
| "status_rank TransferStatusRefunded = 7"

primrec ptx_rank :: "PositionTxStatus \<Rightarrow> nat" where
  "ptx_rank PositionTxStatusPending = 0"
| "ptx_rank PositionTxStatusProcessing = 1"
| "ptx_rank PositionTxStatusCompleted = 2"
| "ptx_rank PositionTxStatusFailed = 2"

interpretation tsm: state_machine ValidTransitions status_rank 7
proof unfold_locales
  show "status_rank s < status_rank t" if "t \<in> set (ValidTransitions s)" for s t
    using that by (cases s) auto
  show "status_rank s \<le> 7" for s by (cases s) simp_all
qed

interpretation ptxm: state_machine ValidPositionTxTransitions ptx_rank 2
proof unfold_locales
  show "ptx_rank s < ptx_rank t" if "t \<in> set (ValidPositionTxTransitions s)" for s t
    using that by (cases s) auto
  show "ptx_rank s \<le> 2" for s by (cases s) simp_all
qed

text \<open>
  A life of a transfer: a chain of successful \<^verbatim>\<open>TransitionTo\<close> calls, with the statuses it
  enters in order.
\<close>

inductive lifecycle :: "Transfer \<Rightarrow> TransferStatus list \<Rightarrow> Transfer \<Rightarrow> bool" where
  lifecycle_start: "lifecycle t [] t"
| lifecycle_step: "lifecycle t ss u \<Longrightarrow> TransitionTo fresh now u s = Inr (v, ev) \<Longrightarrow>
     lifecycle t (ss @ [s]) v"

inductive_cases lifecycle_snocE: "lifecycle t (ss @ [s]) v"

section \<open>Lemmas\<close>

lemma target_loop_iff: "target_loop ss s \<longleftrightarrow> s \<in> set ss"
  by (induction ss) auto

lemma CanTransitionTo_iff: "CanTransitionTo t s \<longleftrightarrow> s \<in> set (ValidTransitions (t_Status t))"
  by (simp add: CanTransitionTo_def target_loop_iff)

lemma TransitionTo_ok:
  "TransitionTo fresh now t s = Inr (u, ev) \<longleftrightarrow>
     s \<in> set (ValidTransitions (t_Status t)) \<and>
     u = t\<lparr>t_Status := s, t_Version := wrap64 (t_Version t + 1), t_UpdatedAt := now\<rparr> \<and>
     ev = \<lparr>te_ID = fresh, te_TransferID = t_ID t, te_TenantID = t_TenantID t,
          te_FromStatus = t_Status t, te_ToStatus = s, te_OccurredAt = now,
          te_Metadata = [], te_ProviderRef = []\<rparr>"
  by (auto simp: TransitionTo_def CanTransitionTo_iff)

lemma wrap64_add1: "wrap64 (wrap64 (x + y) + 1) = wrap64 (x + y + 1)"
  by (simp add: wrap64_def algebra_simps mod_simps)

lemma lifecycle_path: "lifecycle t ss u \<Longrightarrow> path ValidTransitions (t_Status t) ss \<and>
    t_Status u = last (t_Status t # ss)"
  by (induction rule: lifecycle.induct) (auto simp: path_append TransitionTo_ok)

lemma lifecycle_frame:
  assumes "lifecycle t ss u" and "in_int64 (t_Version t)"
  shows "t_Version u = wrap64 (t_Version t + int (length ss)) \<and>
    (\<exists>v st now. u = t\<lparr>t_Status := st, t_Version := v, t_UpdatedAt := now\<rparr>)"
  using assms
proof (induction rule: lifecycle.induct)
  case (lifecycle_start t)
  have "\<exists>v st now. t = t\<lparr>t_Status := st, t_Version := v, t_UpdatedAt := now\<rparr>"
    by (rule exI [of _ "t_Version t"], rule exI [of _ "t_Status t"],
        rule exI [of _ "t_UpdatedAt t"]) simp
  with lifecycle_start show ?case by simp
next
  case (lifecycle_step t ss u fresh now s v ev)
  from lifecycle_step.IH [OF lifecycle_step.prems] obtain w st n where
    ver: "t_Version u = wrap64 (t_Version t + int (length ss))"
    and u: "u = t\<lparr>t_Status := st, t_Version := w, t_UpdatedAt := n\<rparr>"
    by blast
  have v: "v = u\<lparr>t_Status := s, t_Version := wrap64 (t_Version u + 1), t_UpdatedAt := now\<rparr>"
    using lifecycle_step.hyps(2) by (simp add: TransitionTo_ok)
  have "t_Version v = wrap64 (t_Version t + int (length (ss @ [s])))"
    unfolding v using wrap64_add1 [of "t_Version t" "int (length ss)"]
    by (simp add: ver add.assoc add.commute [of 1])
  moreover have "v = t\<lparr>t_Status := s, t_Version := wrap64 (t_Version u + 1), t_UpdatedAt := now\<rparr>"
    unfolding v by (simp add: u)
  ultimately show ?case by blast
qed

text \<open>Which number of steps leads from a new transfer to which status.\<close>

lemma created_path_steps:
  assumes "path ValidTransitions TransferStatusCreated ss"
  shows "last (TransferStatusCreated # ss) \<notin>
           {TransferStatusFailed, TransferStatusRefunding, TransferStatusRefunded} \<Longrightarrow>
         length ss = status_rank (last (TransferStatusCreated # ss))"
  using assms
proof (induction ss rule: rev_induct)
  case (snoc s ss)
  let ?m = "last (TransferStatusCreated # ss)"
  have step: "s \<in> set (ValidTransitions ?m)" and "path ValidTransitions TransferStatusCreated ss"
    using snoc.prems(2) by (simp_all add: path_append)
  moreover have "?m \<notin> {TransferStatusFailed, TransferStatusRefunding, TransferStatusRefunded}"
    using step snoc.prems(1) by (cases ?m) auto
  ultimately have "length ss = status_rank ?m" using snoc.IH by simp
  then show ?case using step snoc.prems(1) by (cases ?m) auto
qed simp

lemma completed_path:
  assumes p: "path ValidTransitions TransferStatusCreated ss"
    and l: "last (TransferStatusCreated # ss) = TransferStatusCompleted"
  shows "ss = [TransferStatusFunded, TransferStatusOnRamping, TransferStatusSettling,
               TransferStatusOffRamping, TransferStatusCompleted]"
proof -
  have "length ss = 5" using created_path_steps [OF p] l by simp
  then obtain a b c d e where ss: "ss = [a, b, c, d, e]"
    by (auto simp: length_Suc_conv numeral_eq_Suc)
  have "e = TransferStatusCompleted" using l ss by simp
  then have "d = TransferStatusOffRamping" using p ss by (cases d) auto
  then have "c = TransferStatusSettling" using p ss by (cases c) auto
  then have "b = TransferStatusOnRamping" using p ss by (cases b) auto
  then have "a = TransferStatusFunded" using p ss by (cases a) auto
  then show ?thesis using ss \<open>b = _\<close> \<open>c = _\<close> \<open>d = _\<close> \<open>e = _\<close> by simp
qed

lemma path_lifecycle: "path ValidTransitions (t_Status t) ss \<Longrightarrow> \<exists>u. lifecycle t ss u"
proof (induction ss rule: rev_induct)
  case Nil
  show ?case using lifecycle_start by blast
next
  case (snoc s ss)
  then have s: "s \<in> set (ValidTransitions (last (t_Status t # ss)))"
    and "path ValidTransitions (t_Status t) ss"
    by (simp_all add: path_append)
  with snoc.IH obtain u where u: "lifecycle t ss u" by blast
  then have "CanTransitionTo u s" using s lifecycle_path by (auto simp: CanTransitionTo_iff)
  then obtain v ev where "TransitionTo 0 0 u s = Inr (v, ev)" by (auto simp: TransitionTo_def)
  with u lifecycle_step show ?case by blast
qed

lemma finishing_path:
  obtains ss where "path ValidTransitions s ss"
    and "last (s # ss) \<in> {TransferStatusCompleted, TransferStatusRefunded}"
proof (cases s)
  case TransferStatusCreated
  then show ?thesis
    by (intro that [of "[TransferStatusFailed, TransferStatusRefunding, TransferStatusRefunded]"]) auto
next
  case TransferStatusFunded
  then show ?thesis
    by (intro that [of "[TransferStatusRefunding, TransferStatusRefunded]"]) auto
next
  case TransferStatusOnRamping
  then show ?thesis
    by (intro that [of "[TransferStatusRefunding, TransferStatusRefunded]"]) auto
next
  case TransferStatusSettling
  then show ?thesis
    by (intro that [of "[TransferStatusOffRamping, TransferStatusCompleted]"]) auto
next
  case TransferStatusOffRamping
  then show ?thesis by (intro that [of "[TransferStatusCompleted]"]) auto
next
  case TransferStatusFailed
  then show ?thesis
    by (intro that [of "[TransferStatusRefunding, TransferStatusRefunded]"]) auto
next
  case TransferStatusRefunding
  then show ?thesis by (intro that [of "[TransferStatusRefunded]"]) auto
qed (use that [of "[]"] in auto)

section \<open>Properties\<close>

text \<open>
  C31: No life of a transfer has more than seven transitions and none enters a status twice;
  the transitions raise the version by exactly one each and change nothing but the status, the
  version and the update time. So retries and replays cannot cycle a transfer.
\<close>

theorem transfer_life_bounded:
  assumes "lifecycle t ss u" and "in_int64 (t_Version t)"
  shows "length ss \<le> 7 \<and> distinct (t_Status t # ss) \<and>
     t_Version u = wrap64 (t_Version t + int (length ss)) \<and>
     (\<exists>v st now. u = t\<lparr>t_Status := st, t_Version := v, t_UpdatedAt := now\<rparr>)"
  using lifecycle_path [OF assms(1)] lifecycle_frame [OF assms]
    tsm.path_bounded [of "t_Status t" ss] tsm.path_distinct [of "t_Status t" ss]
  by simp

text \<open>
  C30: A new transfer is completed after exactly the five transitions of the happy path
  CREATED, FUNDED, ON_RAMPING, SETTLING, OFF_RAMPING, COMPLETED, with no failure and no refund
  on the way, and neither a completed nor a refunded transfer can move again.
\<close>

theorem transfer_completed_exact:
  assumes "lifecycle t ss u" and "t_Status t = TransferStatusCreated"
    and "t_Status u = TransferStatusCompleted"
  shows "ss = [TransferStatusFunded, TransferStatusOnRamping, TransferStatusSettling,
               TransferStatusOffRamping, TransferStatusCompleted] \<and>
         TransitionTo fresh now u s = Inl (ErrInvalidTransition ''COMPLETED'' (status_string s))"
  using completed_path [of ss] lifecycle_path [OF assms(1)] assms(2,3)
  by (simp add: TransitionTo_def CanTransitionTo_def)

text \<open>
  Every transfer can be brought to rest: from any status some sequence of allowed
  transitions ends in COMPLETED or REFUNDED, the only two statuses without successors.
\<close>

theorem transfer_can_finish:
  "\<exists>ss u. lifecycle t ss u \<and>
     t_Status u \<in> {TransferStatusCompleted, TransferStatusRefunded} \<and>
     (\<forall>s. \<not> CanTransitionTo u s)"
proof -
  obtain ss where "path ValidTransitions (t_Status t) ss"
    and "last (t_Status t # ss) \<in> {TransferStatusCompleted, TransferStatusRefunded}"
    by (rule finishing_path)
  moreover from path_lifecycle [OF this(1)] obtain u where "lifecycle t ss u" by blast
  ultimately show ?thesis
    using lifecycle_path [of t ss u]
    by (intro exI [of _ ss] exI [of _ u]) (auto simp: CanTransitionTo_iff)
qed

section \<open>Witnesses\<close>

definition sample_fees :: FeeBreakdown where
  "sample_fees = \<lparr>OnRampFee = 4, NetworkFee = 1, OffRampFee = 3, TotalFeeUSD = 8\<rparr>"

definition sample_transfer :: Transfer where
  "sample_transfer = \<lparr>
     t_ID = 7, t_TenantID = 1, t_ExternalRef = ''ref'', t_IdempotencyKey = ''key'',
     t_Status = TransferStatusCreated, t_Version = 1,
     t_SourceCurrency = ''GBP'', t_SourceAmount = 1000,
     t_DestCurrency = ''NGN'', t_DestAmount = 2000000,
     t_StableCoin = ''USDT'', t_StableAmount = 1250, t_Chain = ''tron'',
     t_FXRate = 2000, t_Fees = sample_fees, t_FeeScheduleSnapshot = None,
     t_OnRampProviderID = ''onramp-1'', t_OffRampProviderID = ''offramp-1'',
     t_Sender = \<lparr>sn_ID = 2, sn_Name = ''Ada'', sn_Email = [], sn_Country = ''GB''\<rparr>,
     t_Recipient = \<lparr>rc_Name = ''Bayo'', rc_AccountNumber = [], rc_SortCode = [],
        rc_BankName = [], rc_Country = ''NG'', rc_IBAN = []\<rparr>,
     t_QuoteID = None, t_BlockchainTxs = [], t_CreatedAt = 0, t_UpdatedAt = 0,
     t_FundedAt = None, t_CompletedAt = None, t_FailedAt = None,
     t_FailureReason = [], t_FailureCode = [] \<rparr>"

lemma sample_life:
  "\<exists>u. lifecycle sample_transfer
     [TransferStatusFunded, TransferStatusOnRamping, TransferStatusSettling,
      TransferStatusOffRamping, TransferStatusCompleted] u"
  by (rule path_lifecycle) (simp add: sample_transfer_def)

theorem transfer_life_bounded_witness:
  "\<exists>u. lifecycle sample_transfer
     [TransferStatusFunded, TransferStatusOnRamping, TransferStatusSettling,
      TransferStatusOffRamping, TransferStatusCompleted] u \<and> t_Version u = 6"
proof -
  have "in_int64 (t_Version sample_transfer)"
    by (simp add: sample_transfer_def in_int64_def min_int64_def max_int64_def)
  from sample_life transfer_life_bounded [OF _ this] show ?thesis
    by (auto simp: sample_transfer_def wrap64_def)
qed

theorem transfer_completed_exact_witness:
  "\<exists>u. t_Status u = TransferStatusCompleted \<and>
     TransitionTo 9 10 u TransferStatusFailed = Inl (ErrInvalidTransition ''COMPLETED'' ''FAILED'')"
proof -
  from sample_life obtain u where u: "lifecycle sample_transfer
     [TransferStatusFunded, TransferStatusOnRamping, TransferStatusSettling,
      TransferStatusOffRamping, TransferStatusCompleted] u" by blast
  then have "t_Status u = TransferStatusCompleted" using lifecycle_path by fastforce
  with transfer_completed_exact [OF u, of 9 10 TransferStatusFailed] show ?thesis
    by (auto simp: sample_transfer_def)
qed

end
