(* ===== verification/Outbox.thy ===== *)
theory Outbox
  imports Transfer_Domain Ledger_Domain
begin

text \<open>
  The transactional outbox of the domain (\<^verbatim>\<open>src/domain/outbox.go\<close>, \<^verbatim>\<open>src/domain/events.go\<close>,
  \<^verbatim>\<open>src/domain/deposit_outbox.go\<close>, \<^verbatim>\<open>src/domain/bank_deposit_outbox.go\<close>): event types, entries,
  their constructors and the payloads of the transfer intents. A payload is the value that
  \<^verbatim>\<open>json.Marshal\<close> encodes; \<open>'p\<close> is the type of the payloads of one engine and \<open>None\<close> is a nil
  byte slice. Identifiers and the clock are arguments.
\<close>

section \<open>Event types\<close>

abbreviation IntentTreasuryReserve :: string where "IntentTreasuryReserve \<equiv> ''treasury.reserve''"
abbreviation IntentTreasuryRelease :: string where "IntentTreasuryRelease \<equiv> ''treasury.release''"
abbreviation IntentProviderOnRamp :: string where "IntentProviderOnRamp \<equiv> ''provider.onramp.execute''"
abbreviation IntentProviderOffRamp :: string where "IntentProviderOffRamp \<equiv> ''provider.offramp.execute''"
abbreviation IntentProviderReverseOnRamp :: string where "IntentProviderReverseOnRamp \<equiv> ''provider.reverse_onramp''"
abbreviation IntentLedgerPost :: string where "IntentLedgerPost \<equiv> ''ledger.post''"
abbreviation IntentLedgerReverse :: string where "IntentLedgerReverse \<equiv> ''ledger.reverse''"
abbreviation IntentBlockchainSend :: string where "IntentBlockchainSend \<equiv> ''blockchain.send''"
abbreviation IntentWebhookDeliver :: string where "IntentWebhookDeliver \<equiv> ''webhook.deliver''"
abbreviation IntentPositionCredit :: string where "IntentPositionCredit \<equiv> ''position.credit''"
abbreviation IntentPositionDebit :: string where "IntentPositionDebit \<equiv> ''position.debit''"
abbreviation IntentTreasuryConsume :: string where "IntentTreasuryConsume \<equiv> ''treasury.consume''"

definition transfer_intents :: "string list" where
  "transfer_intents =
     [IntentTreasuryReserve, IntentTreasuryRelease, IntentProviderOnRamp,
      IntentProviderOffRamp, IntentProviderReverseOnRamp, IntentLedgerPost,
      IntentLedgerReverse, IntentBlockchainSend, IntentWebhookDeliver,
      IntentPositionCredit, IntentPositionDebit, IntentTreasuryConsume]"

abbreviation IntentEmailNotify :: string where "IntentEmailNotify \<equiv> ''email.notify''"

definition email_intents :: "string list" where
  "email_intents =
     [IntentEmailNotify]"

abbreviation EventTreasuryReserved :: string where "EventTreasuryReserved \<equiv> ''treasury.reserved''"
abbreviation EventTreasuryReleased :: string where "EventTreasuryReleased \<equiv> ''treasury.released''"
abbreviation EventTreasuryFailed :: string where "EventTreasuryFailed \<equiv> ''treasury.failed''"
abbreviation EventProviderOnRampDone :: string where "EventProviderOnRampDone \<equiv> ''provider.onramp.completed''"
abbreviation EventProviderOnRampFailed :: string where "EventProviderOnRampFailed \<equiv> ''provider.onramp.failed''"
abbreviation EventProviderOffRampDone :: string where "EventProviderOffRampDone \<equiv> ''provider.offramp.completed''"
abbreviation EventProviderOffRampFailed :: string where "EventProviderOffRampFailed \<equiv> ''provider.offramp.failed''"
abbreviation EventLedgerPosted :: string where "EventLedgerPosted \<equiv> ''ledger.posted''"
abbreviation EventLedgerReversed :: string where "EventLedgerReversed \<equiv> ''ledger.reversed''"
abbreviation EventBlockchainConfirmed :: string where "EventBlockchainConfirmed \<equiv> ''blockchain.confirmed''"
abbreviation EventBlockchainFailed :: string where "EventBlockchainFailed \<equiv> ''blockchain.failed''"
abbreviation EventPositionCredited :: string where "EventPositionCredited \<equiv> ''position.credited''"
abbreviation EventPositionDebited :: string where "EventPositionDebited \<equiv> ''position.debited''"
abbreviation EventTreasuryConsumed :: string where "EventTreasuryConsumed \<equiv> ''treasury.consumed''"

definition result_events :: "string list" where
  "result_events =
     [EventTreasuryReserved, EventTreasuryReleased, EventTreasuryFailed,
      EventProviderOnRampDone, EventProviderOnRampFailed, EventProviderOffRampDone,
      EventProviderOffRampFailed, EventLedgerPosted, EventLedgerReversed,
      EventBlockchainConfirmed, EventBlockchainFailed, EventPositionCredited,
      EventPositionDebited, EventTreasuryConsumed]"

abbreviation EventProviderOnRampWebhook :: string where "EventProviderOnRampWebhook \<equiv> ''provider.inbound.onramp.webhook''"
abbreviation EventProviderOffRampWebhook :: string where "EventProviderOffRampWebhook \<equiv> ''provider.inbound.offramp.webhook''"

definition inbound_webhook_events :: "string list" where
  "inbound_webhook_events =
     [EventProviderOnRampWebhook, EventProviderOffRampWebhook]"

abbreviation IntentMonitorAddress :: string where "IntentMonitorAddress \<equiv> ''deposit.monitor.address''"
abbreviation IntentCreditDeposit :: string where "IntentCreditDeposit \<equiv> ''deposit.credit''"
abbreviation IntentSettleDeposit :: string where "IntentSettleDeposit \<equiv> ''deposit.settle''"

definition deposit_intents :: "string list" where
  "deposit_intents =
     [IntentMonitorAddress, IntentCreditDeposit, IntentSettleDeposit]"

abbreviation EventDepositSessionCreated :: string where "EventDepositSessionCreated \<equiv> ''deposit.session.created''"
abbreviation EventDepositTxDetected :: string where "EventDepositTxDetected \<equiv> ''deposit.tx.detected''"
abbreviation EventDepositTxConfirmed :: string where "EventDepositTxConfirmed \<equiv> ''deposit.tx.confirmed''"
abbreviation EventDepositSessionCrediting :: string where "EventDepositSessionCrediting \<equiv> ''deposit.session.crediting''"
abbreviation EventDepositSessionCredited :: string where "EventDepositSessionCredited \<equiv> ''deposit.session.credited''"
abbreviation EventDepositSessionSettling :: string where "EventDepositSessionSettling \<equiv> ''deposit.session.settling''"
abbreviation EventDepositSessionSettled :: string where "EventDepositSessionSettled \<equiv> ''deposit.session.settled''"
abbreviation EventDepositSessionHeld :: string where "EventDepositSessionHeld \<equiv> ''deposit.session.held''"
abbreviation EventDepositSessionExpired :: string where "EventDepositSessionExpired \<equiv> ''deposit.session.expired''"
abbreviation EventDepositSessionFailed :: string where "EventDepositSessionFailed \<equiv> ''deposit.session.failed''"
abbreviation EventDepositSessionCancelled :: string where "EventDepositSessionCancelled \<equiv> ''deposit.session.cancelled''"
abbreviation EventDepositLatePayment :: string where "EventDepositLatePayment \<equiv> ''deposit.late_payment''"

definition deposit_events :: "string list" where
  "deposit_events =
     [EventDepositSessionCreated, EventDepositTxDetected, EventDepositTxConfirmed,
      EventDepositSessionCrediting, EventDepositSessionCredited,
      EventDepositSessionSettling, EventDepositSessionSettled, EventDepositSessionHeld,
      EventDepositSessionExpired, EventDepositSessionFailed, EventDepositSessionCancelled,
      EventDepositLatePayment]"

abbreviation IntentBankDepositCredit :: string where "IntentBankDepositCredit \<equiv> ''bank_deposit.credit''"
abbreviation IntentBankDepositSettle :: string where "IntentBankDepositSettle \<equiv> ''bank_deposit.settle''"
abbreviation IntentBankDepositRefund :: string where "IntentBankDepositRefund \<equiv> ''bank_deposit.refund''"
abbreviation IntentRecycleVirtualAccount :: string where "IntentRecycleVirtualAccount \<equiv> ''bank_deposit.recycle_account''"

definition bank_deposit_intents :: "string list" where
  "bank_deposit_intents =
     [IntentBankDepositCredit, IntentBankDepositSettle, IntentBankDepositRefund,
      IntentRecycleVirtualAccount]"

abbreviation EventBankDepositSessionCreated :: string where "EventBankDepositSessionCreated \<equiv> ''bank_deposit.session.created''"
abbreviation EventBankDepositPaymentReceived :: string where "EventBankDepositPaymentReceived \<equiv> ''bank_deposit.payment.received''"
abbreviation EventBankDepositSessionCrediting :: string where "EventBankDepositSessionCrediting \<equiv> ''bank_deposit.session.crediting''"
abbreviation EventBankDepositSessionCredited :: string where "EventBankDepositSessionCredited \<equiv> ''bank_deposit.session.credited''"
abbreviation EventBankDepositSessionSettling :: string where "EventBankDepositSessionSettling \<equiv> ''bank_deposit.session.settling''"
abbreviation EventBankDepositSessionSettled :: string where "EventBankDepositSessionSettled \<equiv> ''bank_deposit.session.settled''"
abbreviation EventBankDepositSessionHeld :: string where "EventBankDepositSessionHeld \<equiv> ''bank_deposit.session.held''"
abbreviation EventBankDepositSessionExpired :: string where "EventBankDepositSessionExpired \<equiv> ''bank_deposit.session.expired''"
abbreviation EventBankDepositSessionFailed :: string where "EventBankDepositSessionFailed \<equiv> ''bank_deposit.session.failed''"
abbreviation EventBankDepositSessionCancelled :: string where "EventBankDepositSessionCancelled \<equiv> ''bank_deposit.session.cancelled''"
abbreviation EventBankDepositUnderpaid :: string where "EventBankDepositUnderpaid \<equiv> ''bank_deposit.underpaid''"
abbreviation EventBankDepositOverpaid :: string where "EventBankDepositOverpaid \<equiv> ''bank_deposit.overpaid''"
abbreviation EventBankDepositLatePayment :: string where "EventBankDepositLatePayment \<equiv> ''bank_deposit.late_payment''"

definition bank_deposit_events :: "string list" where
  "bank_deposit_events =
     [EventBankDepositSessionCreated, EventBankDepositPaymentReceived,
      EventBankDepositSessionCrediting, EventBankDepositSessionCredited,
      EventBankDepositSessionSettling, EventBankDepositSessionSettled,
      EventBankDepositSessionHeld, EventBankDepositSessionExpired,
      EventBankDepositSessionFailed, EventBankDepositSessionCancelled,
      EventBankDepositUnderpaid, EventBankDepositOverpaid, EventBankDepositLatePayment]"

abbreviation EventTransferCreated :: string where "EventTransferCreated \<equiv> ''transfer.created''"
abbreviation EventTransferFunded :: string where "EventTransferFunded \<equiv> ''transfer.funded''"
abbreviation EventOnRampInitiated :: string where "EventOnRampInitiated \<equiv> ''onramp.initiated''"
abbreviation EventOnRampCompleted :: string where "EventOnRampCompleted \<equiv> ''onramp.completed''"
abbreviation EventSettlementStarted :: string where "EventSettlementStarted \<equiv> ''settlement.started''"
abbreviation EventSettlementCompleted :: string where "EventSettlementCompleted \<equiv> ''settlement.completed''"
abbreviation EventOffRampInitiated :: string where "EventOffRampInitiated \<equiv> ''offramp.initiated''"
abbreviation EventOffRampCompleted :: string where "EventOffRampCompleted \<equiv> ''offramp.completed''"
abbreviation EventTransferCompleted :: string where "EventTransferCompleted \<equiv> ''transfer.completed''"
abbreviation EventTransferFailed :: string where "EventTransferFailed \<equiv> ''transfer.failed''"
abbreviation EventRefundInitiated :: string where "EventRefundInitiated \<equiv> ''refund.initiated''"
abbreviation EventRefundCompleted :: string where "EventRefundCompleted \<equiv> ''refund.completed''"
abbreviation EventPositionUpdated :: string where "EventPositionUpdated \<equiv> ''position.updated''"
abbreviation EventLiquidityAlert :: string where "EventLiquidityAlert \<equiv> ''liquidity.alert''"

definition lifecycle_events :: "string list" where
  "lifecycle_events =
     [EventTransferCreated, EventTransferFunded, EventOnRampInitiated,
      EventOnRampCompleted, EventSettlementStarted, EventSettlementCompleted,
      EventOffRampInitiated, EventOffRampCompleted, EventTransferCompleted,
      EventTransferFailed, EventRefundInitiated, EventRefundCompleted,
      EventPositionUpdated, EventLiquidityAlert]"

text \<open>\<^verbatim>\<open>EventProviderRawWebhook\<close> is a constant of the package but not a known outbox type.\<close>

abbreviation EventProviderRawWebhook :: string where "EventProviderRawWebhook \<equiv> ''provider.inbound.raw''"

definition knownEventTypes :: "string list" where
  "knownEventTypes =
     transfer_intents @ email_intents @ result_events @ inbound_webhook_events @
     deposit_intents @ deposit_events @ bank_deposit_intents @ bank_deposit_events @
     lifecycle_events"

definition ValidateEventType :: "string \<Rightarrow> unit result" where
  "ValidateEventType eventType =
     (if eventType \<notin> set knownEventTypes
      then Inl (Errorf ''settla-domain: unknown outbox event type'' None) else Inr ())"

section \<open>Entries\<close>

record 'p OutboxEntry =
  ob_ID :: uuid
  ob_AggregateType :: string
  ob_AggregateID :: uuid
  ob_TenantID :: uuid
  ob_CorrelationID :: uuid
  ob_EventType :: string
  ob_Payload :: "'p option"
  ob_IsIntent :: bool
  ob_Published :: bool
  ob_PublishedAt :: "instant option"
  ob_RetryCount :: int
  ob_MaxRetries :: int
  ob_CreatedAt :: instant

text \<open>\<^verbatim>\<open>OutboxEntry{}\<close>; the zero time is year 1, before every instant of the model.\<close>

definition zero_time :: instant where
  "zero_time = - 62135596800 * Second"

definition zero_entry :: "'p OutboxEntry" where
  "zero_entry = \<lparr>ob_ID = uuid_Nil, ob_AggregateType = [], ob_AggregateID = uuid_Nil,
     ob_TenantID = uuid_Nil, ob_CorrelationID = uuid_Nil, ob_EventType = [], ob_Payload = None,
     ob_IsIntent = False, ob_Published = False, ob_PublishedAt = None, ob_RetryCount = 0,
     ob_MaxRetries = 0, ob_CreatedAt = zero_time\<rparr>"

definition NewOutboxEvent ::
  "uuid \<Rightarrow> instant \<Rightarrow> string \<Rightarrow> uuid \<Rightarrow> uuid \<Rightarrow> string \<Rightarrow> 'p option \<Rightarrow> 'p OutboxEntry result" where
  "NewOutboxEvent fresh now aggregateType aggregateID tenantID eventType payload =
     (case ValidateEventType eventType of
        Inl err \<Rightarrow> Inl err
      | Inr _ \<Rightarrow> Inr (zero_entry\<lparr>ob_ID := fresh, ob_AggregateType := aggregateType,
          ob_AggregateID := aggregateID, ob_TenantID := tenantID, ob_EventType := eventType,
          ob_Payload := payload, ob_IsIntent := False, ob_MaxRetries := 5, ob_CreatedAt := now\<rparr>))"

definition NewOutboxIntent ::
  "uuid \<Rightarrow> instant \<Rightarrow> string \<Rightarrow> uuid \<Rightarrow> uuid \<Rightarrow> string \<Rightarrow> 'p option \<Rightarrow> 'p OutboxEntry result" where
  "NewOutboxIntent fresh now aggregateType aggregateID tenantID eventType payload =
     (case ValidateEventType eventType of
        Inl err \<Rightarrow> Inl err
      | Inr _ \<Rightarrow> Inr (zero_entry\<lparr>ob_ID := fresh, ob_AggregateType := aggregateType,
          ob_AggregateID := aggregateID, ob_TenantID := tenantID, ob_EventType := eventType,
          ob_Payload := payload, ob_IsIntent := True, ob_MaxRetries := 5, ob_CreatedAt := now\<rparr>))"

definition MustNewOutboxEvent ::
  "uuid \<Rightarrow> instant \<Rightarrow> string \<Rightarrow> uuid \<Rightarrow> uuid \<Rightarrow> string \<Rightarrow> 'p option \<Rightarrow> 'p OutboxEntry" where
  "MustNewOutboxEvent fresh now aggregateType aggregateID tenantID eventType payload =
     (case NewOutboxEvent fresh now aggregateType aggregateID tenantID eventType payload of
        Inl err \<Rightarrow> zero_entry
      | Inr entry \<Rightarrow> entry)"

definition MustNewOutboxIntent ::
  "uuid \<Rightarrow> instant \<Rightarrow> string \<Rightarrow> uuid \<Rightarrow> uuid \<Rightarrow> string \<Rightarrow> 'p option \<Rightarrow> 'p OutboxEntry" where
  "MustNewOutboxIntent fresh now aggregateType aggregateID tenantID eventType payload =
     (case NewOutboxIntent fresh now aggregateType aggregateID tenantID eventType payload of
        Inl err \<Rightarrow> zero_entry
      | Inr entry \<Rightarrow> entry)"

definition WithCorrelationID :: "'p OutboxEntry \<Rightarrow> uuid \<Rightarrow> 'p OutboxEntry" where
  "WithCorrelationID e corr = e\<lparr>ob_CorrelationID := corr\<rparr>"

section \<open>Payloads\<close>

record TreasuryReservePayload =
  rp_TransferID :: uuid
  rp_TenantID :: uuid
  rp_Currency :: currency
  rp_Amount :: decimal
  rp_Location :: string

record TreasuryReleasePayload =
  lp_TransferID :: uuid
  lp_TenantID :: uuid
  lp_Currency :: currency
  lp_Amount :: decimal
  lp_Location :: string
  lp_Reason :: string

record TreasuryConsumePayload =
  cp_TransferID :: uuid
  cp_TenantID :: uuid
  cp_Currency :: currency
  cp_Amount :: decimal
  cp_Location :: string

record PositionCreditPayload =
  pc_TenantID :: uuid
  pc_Currency :: currency
  pc_Amount :: decimal
  pc_Location :: string
  pc_Reference :: uuid
  pc_RefType :: string

record PositionDebitPayload =
  pd_TenantID :: uuid
  pd_Currency :: currency
  pd_Amount :: decimal
  pd_Location :: string
  pd_Reference :: uuid
  pd_RefType :: string
  pd_Destination :: string

record OnRampFallback =
  of_ProviderID :: string
  of_OffRampProvider :: string
  of_Chain :: chain
  of_StableCoin :: currency
  of_Fee :: Money
  of_Rate :: decimal
  of_StableAmount :: decimal

record ProviderOnRampPayload =
  on_TransferID :: uuid
  on_TenantID :: uuid
  on_ProviderID :: string
  on_Amount :: decimal
  on_FromCurrency :: currency
  on_ToCurrency :: currency
  on_Reference :: string
  on_Alternatives :: "OnRampFallback list"
  on_QuotedRate :: decimal

record OffRampFallback =
  ff_ProviderID :: string
  ff_Fee :: Money
  ff_Rate :: decimal

record ProviderOffRampPayload =
  off_TransferID :: uuid
  off_TenantID :: uuid
  off_ProviderID :: string
  off_Amount :: decimal
  off_FromCurrency :: currency
  off_ToCurrency :: currency
  off_Recipient :: Recipient
  off_Reference :: string
  off_Alternatives :: "OffRampFallback list"
  off_QuotedRate :: decimal
  off_SourceTxHash :: string

record LedgerLineEntry =
  ll_AccountCode :: string
  ll_EntryType :: EntryType
  ll_Amount :: decimal
  ll_Currency :: currency
  ll_Description :: string

record LedgerPostPayload =
  gp_TransferID :: uuid
  gp_TenantID :: uuid
  gp_IdempotencyKey :: string
  gp_Description :: string
  gp_ReferenceType :: string
  gp_Lines :: "LedgerLineEntry list"

record BlockchainSendPayload =
  bs_TransferID :: uuid
  bs_TenantID :: uuid
  bs_Chain :: chain
  bs_From :: string
  bs_To :: string
  bs_Token :: string
  bs_Amount :: decimal
  bs_Memo :: string

record WebhookDeliverPayload =
  wd_TransferID :: uuid
  wd_SessionID :: uuid
  wd_TenantID :: uuid
  wd_EventType :: string
  wd_Data :: string

record EmailNotifyPayload =
  en_TenantID :: uuid
  en_SessionID :: uuid
  en_TransferID :: uuid
  en_EventType :: string
  en_Subject :: string
  en_Data :: string

record IntentResult =
  ir_Success :: bool
  ir_ProviderRef :: string
  ir_TxHash :: string
  ir_Error :: string
  ir_ErrorCode :: string
  ir_Metadata :: "(string \<times> string) list"

section \<open>Lemmas\<close>

lemmas known_type_defs =
  knownEventTypes_def transfer_intents_def email_intents_def result_events_def
  inbound_webhook_events_def deposit_intents_def deposit_events_def bank_deposit_intents_def
  bank_deposit_events_def lifecycle_events_def

lemma known_intents [simp]:
  "et \<in> set transfer_intents \<Longrightarrow> ValidateEventType et = Inr ()"
  by (simp add: ValidateEventType_def knownEventTypes_def)

lemma NewOutboxEvent_ok:
  "NewOutboxEvent fresh now ty agg tn et p = Inr e \<longleftrightarrow> et \<in> set knownEventTypes \<and>
     e = zero_entry\<lparr>ob_ID := fresh, ob_AggregateType := ty, ob_AggregateID := agg, ob_TenantID := tn,
          ob_EventType := et, ob_Payload := p, ob_IsIntent := False, ob_MaxRetries := 5,
          ob_CreatedAt := now\<rparr>"
  by (auto simp: NewOutboxEvent_def ValidateEventType_def)

lemma NewOutboxIntent_ok:
  "NewOutboxIntent fresh now ty agg tn et p = Inr e \<longleftrightarrow> et \<in> set knownEventTypes \<and>
     e = zero_entry\<lparr>ob_ID := fresh, ob_AggregateType := ty, ob_AggregateID := agg, ob_TenantID := tn,
          ob_EventType := et, ob_Payload := p, ob_IsIntent := True, ob_MaxRetries := 5,
          ob_CreatedAt := now\<rparr>"
  by (auto simp: NewOutboxIntent_def ValidateEventType_def)

end
