(* ===== verification/Outbox_Store.thy ===== *)
theory Outbox_Store
  imports Outbox
begin

text \<open>
  The outbox table of the transfer database (\<^verbatim>\<open>src/store/transferdb/outbox.sql.go\<close>,
  \<^verbatim>\<open>src/store/transferdb/outbox_store.go\<close>, \<^verbatim>\<open>src/store/transferdb/outbox_relay_adapter.go\<close>). The table is
  the list of its rows in order of insertion, its primary key is (id, created_at); a stored
  payload \<open>None\<close> is the empty JSON object. Rows with the same creation time are read in order of
  insertion.
\<close>

section \<open>The table and its queries\<close>

record 'p OutboxRow =
  or_ID :: uuid
  or_AggregateType :: string
  or_AggregateID :: uuid
  or_TenantID :: uuid
  or_EventType :: string
  or_Payload :: "'p option"
  or_IsIntent :: bool
  or_Published :: bool
  or_PublishedAt :: "instant option"
  or_RetryCount :: int
  or_MaxRetries :: int
  or_CreatedAt :: instant

type_synonym 'p outbox_table = "'p OutboxRow list"

abbreviation row_key :: "'p OutboxRow \<Rightarrow> uuid \<times> instant" where
  "row_key r \<equiv> (or_ID r, or_CreatedAt r)"

definition outboxEntriesToParams :: "instant \<Rightarrow> 'p OutboxEntry list \<Rightarrow> 'p OutboxRow list" where
  "outboxEntriesToParams now entries =
     map (\<lambda>e. \<lparr>or_ID = ob_ID e, or_AggregateType = ob_AggregateType e,
                or_AggregateID = ob_AggregateID e, or_TenantID = ob_TenantID e,
                or_EventType = ob_EventType e, or_Payload = ob_Payload e,
                or_IsIntent = ob_IsIntent e, or_Published = False, or_PublishedAt = None,
                or_RetryCount = 0, or_MaxRetries = sint (word_of_int (ob_MaxRetries e) :: 32 word),
                or_CreatedAt = (if ob_CreatedAt e = zero_time then now else ob_CreatedAt e)\<rparr>) entries"

definition InsertOutboxEntries :: "'p OutboxRow list \<Rightarrow> 'p outbox_table \<Rightarrow> 'p outbox_table result" where
  "InsertOutboxEntries params outbox =
     (if distinct (map row_key params) \<and> set (map row_key params) \<inter> set (map row_key outbox) = {}
      then Inr (outbox @ params)
      else Inl (Errorf ''duplicate key value violates unique constraint'' None))"

definition pending_row :: "'p OutboxRow \<Rightarrow> bool" where
  "pending_row r \<longleftrightarrow> \<not> or_Published r \<and> or_RetryCount r < or_MaxRetries r"

definition GetUnpublishedEntries :: "nat \<Rightarrow> 'p outbox_table \<Rightarrow> 'p OutboxRow list" where
  "GetUnpublishedEntries limit outbox = take limit (sort_key or_CreatedAt (filter pending_row outbox))"

definition GetOutboxEntriesByAggregate ::
  "string \<Rightarrow> uuid \<Rightarrow> nat \<Rightarrow> nat \<Rightarrow> 'p outbox_table \<Rightarrow> 'p OutboxRow list" where
  "GetOutboxEntriesByAggregate aggregateType aggregateID limit offset outbox =
     take limit (drop offset (sort_key (\<lambda>r. - or_CreatedAt r)
       (filter (\<lambda>r. or_AggregateType r = aggregateType \<and> or_AggregateID r = aggregateID) outbox)))"

definition MarkPublished :: "instant \<Rightarrow> uuid \<Rightarrow> instant \<Rightarrow> 'p outbox_table \<Rightarrow> 'p outbox_table" where
  "MarkPublished now ident createdAt outbox =
     map (\<lambda>r. if or_ID r = ident \<and> or_CreatedAt r = createdAt \<and> \<not> or_Published r
              then r\<lparr>or_Published := True, or_PublishedAt := Some now\<rparr> else r) outbox"

definition MarkFailed :: "uuid \<Rightarrow> instant \<Rightarrow> 'p outbox_table \<Rightarrow> 'p outbox_table" where
  "MarkFailed ident createdAt outbox =
     map (\<lambda>r. if or_ID r = ident \<and> or_CreatedAt r = createdAt
              then r\<lparr>or_RetryCount := or_RetryCount r + 1\<rparr> else r) outbox"

section \<open>Lemmas\<close>

lemma marks_keep_keys [simp]:
  "map row_key (MarkPublished now i c t) = map row_key t"
  "map row_key (MarkFailed i c t) = map row_key t"
  by (simp_all add: MarkPublished_def MarkFailed_def)

lemma MarkPublished_mem:
  "r \<in> set (MarkPublished now i c t) \<Longrightarrow> r \<in> set t \<or>
     (\<exists>r0 \<in> set t. or_ID r0 = i \<and> or_CreatedAt r0 = c \<and> r = r0\<lparr>or_Published := True, or_PublishedAt := Some now\<rparr>)"
  by (auto simp: MarkPublished_def)

lemma MarkFailed_mem:
  "r \<in> set (MarkFailed i c t) \<Longrightarrow> r \<in> set t \<or>
     (\<exists>r0 \<in> set t. or_ID r0 = i \<and> or_CreatedAt r0 = c \<and> r = r0\<lparr>or_RetryCount := or_RetryCount r0 + 1\<rparr>)"
  by (auto simp: MarkFailed_def)


lemma InsertOutboxEntries_ok:
  "InsertOutboxEntries ps t = Inr t' \<longleftrightarrow>
     distinct (map row_key ps) \<and> set (map row_key ps) \<inter> set (map row_key t) = {} \<and> t' = t @ ps"
  unfolding InsertOutboxEntries_def
  by (split if_split) (simp only: sum.inject Inl_Inr_False, blast)

lemma InsertOutboxEntries_distinct:
  assumes "InsertOutboxEntries ps t = Inr t'" and "distinct (map row_key t)"
  shows "distinct (map row_key t')"
proof -
  from assms(1) have "distinct (map row_key ps)" and "t' = t @ ps"
    and "set (map row_key t) \<inter> set (map row_key ps) = {}"
    unfolding InsertOutboxEntries_ok by blast+
  with assms(2) show ?thesis by (simp only: map_append distinct_append)
qed

lemma set_GetUnpublished: "set (GetUnpublishedEntries n t) \<subseteq> {r \<in> set t. pending_row r}"
  by (auto simp: GetUnpublishedEntries_def dest: in_set_takeD)

end
