(* ===== verification/Messaging.thy ===== *)
theory Messaging
  imports Outbox
begin

text \<open>
  Routing of outbox entries to NATS subjects and streams (\<^verbatim>\<open>src/node/messaging/subjects.go\<close>,
  \<^verbatim>\<open>src/node/messaging/streams.go\<close>, \<^verbatim>\<open>src/node/messaging/nats.go\<close>). The number of partitions is
  positive: its configured range is 1 to 256.
\<close>

section \<open>Subjects\<close>

text \<open>\<^verbatim>\<open>tenantID[:]\<close>: the 16 bytes of the identifier, most significant first.\<close>

definition uuid_bytes :: "uuid \<Rightarrow> string" where
  "uuid_bytes u = map (\<lambda>i. char_of (unat (drop_bit (8 * (15 - i)) u) mod 256)) [0..<16]"

definition TenantPartition :: "uuid \<Rightarrow> nat \<Rightarrow> nat" where
  "TenantPartition tenantID numPartitions =
     unat (fnv32a (uuid_bytes tenantID) mod (of_nat numPartitions :: 32 word))"

definition partitioned :: "string \<Rightarrow> nat \<Rightarrow> string \<Rightarrow> string" where
  "partitioned prefix part eventType =
     prefix @ ''.partition.'' @ show_nat part @ ''.'' @ eventType"

abbreviation SubjectPrefixTransfer :: string where "SubjectPrefixTransfer \<equiv> ''settla.transfer''"
abbreviation SubjectPrefixProvider :: string where "SubjectPrefixProvider \<equiv> ''settla.provider.command''"
abbreviation SubjectPrefixLedger :: string where "SubjectPrefixLedger \<equiv> ''settla.ledger''"
abbreviation SubjectPrefixTreasury :: string where "SubjectPrefixTreasury \<equiv> ''settla.treasury''"
abbreviation SubjectPrefixBlockchain :: string where "SubjectPrefixBlockchain \<equiv> ''settla.blockchain''"
abbreviation SubjectPrefixWebhook :: string where "SubjectPrefixWebhook \<equiv> ''settla.webhook''"
abbreviation SubjectPrefixProviderInbound :: string where
  "SubjectPrefixProviderInbound \<equiv> ''settla.provider.inbound''"
abbreviation SubjectPrefixDeposit :: string where "SubjectPrefixDeposit \<equiv> ''settla.deposit''"
abbreviation SubjectPrefixEmail :: string where "SubjectPrefixEmail \<equiv> ''settla.email''"
abbreviation SubjectPrefixBankDeposit :: string where "SubjectPrefixBankDeposit \<equiv> ''settla.bank_deposit''"

definition PartitionSubject :: "nat \<Rightarrow> string \<Rightarrow> string" where
  "PartitionSubject part eventType = partitioned SubjectPrefixTransfer part eventType"

definition PartitionFilter :: "nat \<Rightarrow> string" where
  "PartitionFilter part = partitioned SubjectPrefixTransfer part ''>''"

definition StreamPartitionFilter :: "string \<Rightarrow> nat \<Rightarrow> string" where
  "StreamPartitionFilter subjectPrefix part = partitioned subjectPrefix part ''>''"

definition TransferSubject :: "uuid \<Rightarrow> nat \<Rightarrow> string \<Rightarrow> string" where
  "TransferSubject tenantID numPartitions eventType =
     PartitionSubject (TenantPartition tenantID numPartitions) eventType"

definition ProviderSubject :: "uuid \<Rightarrow> nat \<Rightarrow> string \<Rightarrow> string" where
  "ProviderSubject tenantID numPartitions eventType =
     partitioned SubjectPrefixProvider (TenantPartition tenantID numPartitions) eventType"

definition LedgerSubject :: "uuid \<Rightarrow> nat \<Rightarrow> string \<Rightarrow> string" where
  "LedgerSubject tenantID numPartitions eventType =
     partitioned SubjectPrefixLedger (TenantPartition tenantID numPartitions) eventType"

definition TreasurySubject :: "uuid \<Rightarrow> nat \<Rightarrow> string \<Rightarrow> string" where
  "TreasurySubject tenantID numPartitions eventType =
     partitioned SubjectPrefixTreasury (TenantPartition tenantID numPartitions) eventType"

definition BlockchainSubject :: "uuid \<Rightarrow> nat \<Rightarrow> string \<Rightarrow> string" where
  "BlockchainSubject tenantID numPartitions eventType =
     partitioned SubjectPrefixBlockchain (TenantPartition tenantID numPartitions) eventType"

definition WebhookSubject :: "uuid \<Rightarrow> nat \<Rightarrow> string \<Rightarrow> string" where
  "WebhookSubject tenantID numPartitions eventType =
     partitioned SubjectPrefixWebhook (TenantPartition tenantID numPartitions) eventType"

definition ProviderWebhookSubject :: "uuid \<Rightarrow> nat \<Rightarrow> string \<Rightarrow> string" where
  "ProviderWebhookSubject tenantID numPartitions eventType =
     partitioned SubjectPrefixProviderInbound (TenantPartition tenantID numPartitions) eventType"

definition DepositSubject :: "uuid \<Rightarrow> nat \<Rightarrow> string \<Rightarrow> string" where
  "DepositSubject tenantID numPartitions eventType =
     partitioned SubjectPrefixDeposit (TenantPartition tenantID numPartitions) eventType"

definition EmailSubject :: "uuid \<Rightarrow> nat \<Rightarrow> string \<Rightarrow> string" where
  "EmailSubject tenantID numPartitions eventType =
     partitioned SubjectPrefixEmail (TenantPartition tenantID numPartitions) eventType"

definition BankDepositSubject :: "uuid \<Rightarrow> nat \<Rightarrow> string \<Rightarrow> string" where
  "BankDepositSubject tenantID numPartitions eventType =
     partitioned SubjectPrefixBankDeposit (TenantPartition tenantID numPartitions) eventType"

text \<open>\<^verbatim>\<open>strings.IndexByte(eventType, '.')\<close>: a dot in the first position is no separator.\<close>

definition messaging_eventPrefix :: "string \<Rightarrow> string" where
  "messaging_eventPrefix eventType =
     (let seg = takeWhile (\<lambda>c. c \<noteq> CHR ''.'') eventType in
      if seg \<noteq> [] \<and> length seg < length eventType then seg else eventType)"

definition SubjectForEventType :: "string \<Rightarrow> uuid \<Rightarrow> nat \<Rightarrow> string" where
  "SubjectForEventType eventType tenantID numPartitions =
     (let prefix = messaging_eventPrefix eventType in
      if prefix = ''deposit'' then DepositSubject tenantID numPartitions eventType
      else if prefix \<in> {''transfer'', ''settlement'', ''onramp'', ''offramp'', ''refund''}
      then TransferSubject tenantID numPartitions eventType
      else if prefix = ''provider'' then
        (if HasPrefix eventType ''provider.inbound.''
         then ProviderWebhookSubject tenantID numPartitions
                (drop (length ''provider.inbound.'') eventType)
         else ProviderSubject tenantID numPartitions eventType)
      else if prefix = ''ledger'' then LedgerSubject tenantID numPartitions eventType
      else if prefix \<in> {''treasury'', ''position'', ''liquidity''}
      then TreasurySubject tenantID numPartitions eventType
      else if prefix = ''blockchain'' then BlockchainSubject tenantID numPartitions eventType
      else if prefix = ''webhook'' then WebhookSubject tenantID numPartitions eventType
      else if prefix = ''email'' then EmailSubject tenantID numPartitions eventType
      else if prefix = ''bank_deposit'' then BankDepositSubject tenantID numPartitions eventType
      else TransferSubject tenantID numPartitions eventType)"

section \<open>Streams\<close>

record StreamDefinition =
  sd_Name :: string
  sd_Subjects :: "string list"

abbreviation stream_def :: "string \<Rightarrow> string list \<Rightarrow> StreamDefinition" where
  "stream_def name subjects \<equiv> \<lparr>sd_Name = name, sd_Subjects = subjects\<rparr>"

definition AllStreams :: "StreamDefinition list" where
  "AllStreams =
     [stream_def ''SETTLA_TRANSFERS'' [''settla.transfer.partition.*.>''],
      stream_def ''SETTLA_PROVIDERS'' [''settla.provider.command.partition.*.>''],
      stream_def ''SETTLA_LEDGER'' [''settla.ledger.partition.*.>''],
      stream_def ''SETTLA_TREASURY'' [''settla.treasury.partition.*.>''],
      stream_def ''SETTLA_BLOCKCHAIN'' [''settla.blockchain.partition.*.>''],
      stream_def ''SETTLA_WEBHOOKS'' [''settla.webhook.partition.*.>''],
      stream_def ''SETTLA_PROVIDER_WEBHOOKS''
        [''settla.provider.inbound.partition.*.>'', ''settla.provider.inbound.raw''],
      stream_def ''SETTLA_CRYPTO_DEPOSITS'' [''settla.deposit.partition.*.>''],
      stream_def ''SETTLA_EMAILS'' [''settla.email.partition.*.>''],
      stream_def ''SETTLA_BANK_DEPOSITS'' [''settla.bank_deposit.partition.*.>'', ''settla.inbound.bank.>''],
      stream_def ''SETTLA_POSITION_EVENTS'' [''settla.position.event.>''],
      stream_def ''SETTLA_DLQ'' [''settla.dlq.>'']]"

definition DLQSubject :: "string \<Rightarrow> string \<Rightarrow> string" where
  "DLQSubject streamName eventType = ''settla.dlq.'' @ streamName @ ''.'' @ eventType"

definition StreamForSubject :: "string \<Rightarrow> string" where
  "StreamForSubject subject =
     (if HasPrefix subject ''settla.transfer.partition.'' then ''SETTLA_TRANSFERS''
      else if HasPrefix subject ''settla.provider.inbound.partition.'' then ''SETTLA_PROVIDER_WEBHOOKS''
      else if HasPrefix subject ''settla.provider.command.partition.'' then ''SETTLA_PROVIDERS''
      else if HasPrefix subject ''settla.ledger.partition.'' then ''SETTLA_LEDGER''
      else if HasPrefix subject ''settla.treasury.partition.'' then ''SETTLA_TREASURY''
      else if HasPrefix subject ''settla.blockchain.partition.'' then ''SETTLA_BLOCKCHAIN''
      else if HasPrefix subject ''settla.webhook.partition.'' then ''SETTLA_WEBHOOKS''
      else if HasPrefix subject ''settla.deposit.partition.'' then ''SETTLA_CRYPTO_DEPOSITS''
      else if HasPrefix subject ''settla.email.partition.'' then ''SETTLA_EMAILS''
      else if HasPrefix subject ''settla.bank_deposit.partition.'' then ''SETTLA_BANK_DEPOSITS''
      else if HasPrefix subject ''settla.inbound.bank.'' then ''SETTLA_BANK_DEPOSITS''
      else if HasPrefix subject ''settla.position.event.'' then ''SETTLA_POSITION_EVENTS''
      else if HasPrefix subject ''settla.dlq.'' then ''SETTLA_DLQ''
      else [])"

section \<open>Lemmas\<close>

lemma TenantPartition_less: "0 < n \<Longrightarrow> n < 2 ^ 32 \<Longrightarrow> TenantPartition u n < n"
  by (simp add: TenantPartition_def unat_mod unsigned_of_nat take_bit_nat_eq_self)

definition literal_part :: "string \<Rightarrow> string" where
  "literal_part pattern = takeWhile (\<lambda>c. c \<noteq> CHR ''*'' \<and> c \<noteq> CHR ''>'') pattern"

definition routed_to :: "string \<Rightarrow> StreamDefinition \<Rightarrow> bool" where
  "routed_to subject sd \<longleftrightarrow>
     list_ex (\<lambda>pattern. HasPrefix subject (literal_part pattern)) (sd_Subjects sd)"

definition subject_prefixes :: "string set" where
  "subject_prefixes = {SubjectPrefixTransfer, SubjectPrefixProvider, SubjectPrefixLedger,
      SubjectPrefixTreasury, SubjectPrefixBlockchain, SubjectPrefixWebhook,
      SubjectPrefixProviderInbound, SubjectPrefixDeposit, SubjectPrefixEmail, SubjectPrefixBankDeposit}"

lemma routed_prefix:
  "prefix \<in> subject_prefixes \<Longrightarrow>
     map sd_Name (filter (routed_to (partitioned prefix p et)) AllStreams) =
       [StreamForSubject (partitioned prefix p et)]"
  unfolding subject_prefixes_def
  by (elim insertE emptyE)
    (simp_all add: partitioned_def AllStreams_def routed_to_def literal_part_def StreamForSubject_def)

definition tenant_subject :: "uuid \<Rightarrow> nat \<Rightarrow> string \<Rightarrow> bool" where
  "tenant_subject u n s \<longleftrightarrow>
     (\<exists>prefix \<in> subject_prefixes. \<exists>et. s = partitioned prefix (TenantPartition u n) et)"

lemma tenant_subject_if:
  "tenant_subject u n s \<Longrightarrow> tenant_subject u n t \<Longrightarrow> tenant_subject u n (if c then s else t)"
  by simp

lemma tenant_subjectI:
  "prefix \<in> subject_prefixes \<Longrightarrow> tenant_subject u n (partitioned prefix (TenantPartition u n) et)"
  by (auto simp: tenant_subject_def)

lemma tenant_subject_cases:
  "tenant_subject u n (TransferSubject u n et)" "tenant_subject u n (ProviderSubject u n et)"
  "tenant_subject u n (LedgerSubject u n et)" "tenant_subject u n (TreasurySubject u n et)"
  "tenant_subject u n (BlockchainSubject u n et)" "tenant_subject u n (WebhookSubject u n et)"
  "tenant_subject u n (ProviderWebhookSubject u n et)" "tenant_subject u n (DepositSubject u n et)"
  "tenant_subject u n (EmailSubject u n et)" "tenant_subject u n (BankDepositSubject u n et)"
  unfolding DepositSubject_def TransferSubject_def PartitionSubject_def ProviderWebhookSubject_def
    ProviderSubject_def LedgerSubject_def TreasurySubject_def BlockchainSubject_def
    WebhookSubject_def EmailSubject_def BankDepositSubject_def
  by (rule tenant_subjectI, simp add: subject_prefixes_def)+

lemma SubjectForEventType_shape: "tenant_subject u n (SubjectForEventType et u n)"
  unfolding SubjectForEventType_def Let_def
  by (intro tenant_subject_if tenant_subject_cases)

section \<open>Properties\<close>

text \<open>
  C35: Every event type is routed to exactly one stream: the subject that the relay computes
  lies under the subject patterns of one stream of \<^verbatim>\<open>AllStreams\<close> only, and \<^verbatim>\<open>StreamForSubject\<close>
  names that stream; the partition in the subject depends on the tenant alone and is in range.
\<close>

theorem routing_unique_stream:
  assumes "0 < n" and "n \<le> 256"
  shows "map sd_Name (filter (routed_to (SubjectForEventType et u n)) AllStreams) =
           [StreamForSubject (SubjectForEventType et u n)] \<and>
         (\<exists>prefix et'. SubjectForEventType et u n = partitioned prefix (TenantPartition u n) et') \<and>
         TenantPartition u n < n"
proof -
  obtain prefix et' where p: "prefix \<in> subject_prefixes"
    and s: "SubjectForEventType et u n = partitioned prefix (TenantPartition u n) et'"
    using SubjectForEventType_shape [of u n et] by (auto simp: tenant_subject_def)
  from routed_prefix [OF p, of "TenantPartition u n" et'] s TenantPartition_less [OF assms(1), of u]
    assms(2)
  show ?thesis by auto
qed

theorem routing_unique_stream_witness:
  "map sd_Name (filter (routed_to (SubjectForEventType IntentTreasuryReserve 1 8)) AllStreams) =
     [''SETTLA_TREASURY'']"
  using routing_unique_stream [of 8 IntentTreasuryReserve 1]
  by (simp add: SubjectForEventType_def messaging_eventPrefix_def TreasurySubject_def
      partitioned_def StreamForSubject_def)

end
