(* ===== verification/Relay.thy ===== *)
theory Relay
  imports Outbox_Store Messaging Event_System
begin

text \<open>
  The outbox relay (\<^verbatim>\<open>src/node/outbox/relay.go\<close>): it reads the unpublished entries, publishes each
  to its subject and marks it. The NATS publisher is a parameter on a state of any type. The
  entries of one tenant are handled in order by one goroutine and the goroutines of different
  tenants interleave: a batch runs on a schedule of its entries. Leader election, metrics and
  logging are not modelled.
\<close>

section \<open>Publishing\<close>

record 'p outboxMessage =
  om_ID :: uuid
  om_AggregateType :: string
  om_AggregateID :: uuid
  om_TenantID :: uuid
  om_EventType :: string
  om_Payload :: "'p option"
  om_IsIntent :: bool
  om_CreatedAt :: instant

type_synonym ('p, 'n) publisher = "string \<Rightarrow> string \<Rightarrow> 'p outboxMessage \<Rightarrow> 'n \<Rightarrow> 'n \<times> unit result"

text \<open>The environment of one poll: the clock and which database statements succeed.\<close>

record relay_env =
  re_now :: instant
  re_fetch_ok :: bool
  re_published_ok :: "uuid \<Rightarrow> bool"
  re_failed_ok :: "uuid \<Rightarrow> bool"

definition message_of :: "'p OutboxRow \<Rightarrow> 'p outboxMessage" where
  "message_of entry = \<lparr>om_ID = or_ID entry, om_AggregateType = or_AggregateType entry,
     om_AggregateID = or_AggregateID entry, om_TenantID = or_TenantID entry,
     om_EventType = or_EventType entry, om_Payload = or_Payload entry,
     om_IsIntent = or_IsIntent entry, om_CreatedAt = or_CreatedAt entry\<rparr>"

definition SubjectForEntry :: "'p OutboxRow \<Rightarrow> nat \<Rightarrow> string" where
  "SubjectForEntry entry numPartitions =
     SubjectForEventType (or_EventType entry) (or_TenantID entry) numPartitions"

definition publishEntry ::
  "lib \<Rightarrow> ('p, 'n) publisher \<Rightarrow> nat \<Rightarrow> relay_env \<Rightarrow> 'p OutboxRow \<Rightarrow> 'p outbox_table \<times> 'n \<Rightarrow>
   ('p outbox_table \<times> 'n) \<times> unit result" where
  "publishEntry L pub numPartitions E entry st =
     (case st of (outbox, nats) \<Rightarrow>
       let subject = SubjectForEntry entry numPartitions in
       (case pub subject (uuid_string L (or_ID entry)) (message_of entry) nats of
         (nats', Inl err) \<Rightarrow>
           ((if re_failed_ok E (or_ID entry)
             then MarkFailed (or_ID entry) (or_CreatedAt entry) outbox else outbox, nats'),
            Inl (Errorf ''settla-outbox: publishing entry'' (Some err)))
       | (nats', Inr _) \<Rightarrow>
           ((if re_published_ok E (or_ID entry)
             then MarkPublished (re_now E) (or_ID entry) (or_CreatedAt entry) outbox else outbox, nats'),
            Inr ())))"

text \<open>
  The grouping loop of \<^verbatim>\<open>publishBatch\<close>, and the schedules of its goroutines: each keeps the
  order within every group.
\<close>

definition add_to_group ::
  "'p OutboxRow \<Rightarrow> (uuid \<times> 'p OutboxRow list) list \<Rightarrow> (uuid \<times> 'p OutboxRow list) list" where
  "add_to_group entry groups =
     (if or_ID entry = uuid_Nil then groups
      else AList.update (or_TenantID entry)
             ((case map_of groups (or_TenantID entry) of None \<Rightarrow> [] | Some g \<Rightarrow> g) @ [entry]) groups)"

definition tenant_groups :: "'p OutboxRow list \<Rightarrow> (uuid \<times> 'p OutboxRow list) list" where
  "tenant_groups entries = fold add_to_group entries []"

definition batch_schedule :: "'p OutboxRow list \<Rightarrow> 'p OutboxRow list \<Rightarrow> bool" where
  "batch_schedule entries sched \<longleftrightarrow>
     (\<forall>(tid, g) \<in> set (tenant_groups entries). filter (\<lambda>e. or_TenantID e = tid) sched = g) \<and>
     (\<forall>e \<in> set sched. or_TenantID e \<in> fst ` set (tenant_groups entries))"

definition publishBatch ::
  "lib \<Rightarrow> ('p, 'n) publisher \<Rightarrow> nat \<Rightarrow> relay_env \<Rightarrow> 'p OutboxRow list \<Rightarrow> 'p outbox_table \<times> 'n \<Rightarrow>
   'p outbox_table \<times> 'n" where
  "publishBatch L pub numPartitions E sched st =
     fold (\<lambda>e st. fst (publishEntry L pub numPartitions E e st)) sched st"

definition poll ::
  "lib \<Rightarrow> ('p, 'n) publisher \<Rightarrow> nat \<Rightarrow> nat \<Rightarrow> ('p OutboxRow list \<Rightarrow> 'p OutboxRow list) \<Rightarrow> relay_env \<Rightarrow>
   'p outbox_table \<times> 'n \<Rightarrow> ('p outbox_table \<times> 'n) \<times> unit result" where
  "poll L pub numPartitions batchSize sched E st =
     (if \<not> re_fetch_ok E
      then (st, Inl (Errorf ''settla-outbox: fetching unpublished entries'' None))
      else let entries = GetUnpublishedEntries batchSize (fst st) in
           if entries = [] then (st, Inr ())
           else (publishBatch L pub numPartitions E (sched entries) st, Inr ()))"

text \<open>The pause of \<^verbatim>\<open>Run\<close> after a poll: exponential in the consecutive failures, capped.\<close>

definition maxBackoff :: int where
  "maxBackoff = 5 * Second"

definition next_pause :: "int \<Rightarrow> nat \<Rightarrow> unit result \<Rightarrow> nat \<times> int" where
  "next_pause pollInterval consecutiveFailures outcome =
     (case outcome of
        Inl err \<Rightarrow>
          (let failures = consecutiveFailures + 1;
               backoff = wrap64 (pollInterval * 2 ^ min failures 6) in
           (failures, if backoff > maxBackoff then maxBackoff else backoff))
      | Inr _ \<Rightarrow> (0, pollInterval))"

definition eventPrefix :: "string \<Rightarrow> string" where
  "eventPrefix eventType = takeWhile (\<lambda>c. c \<noteq> CHR ''.'') eventType"

section \<open>The relay as an event system\<close>

text \<open>
  A publisher that also records its calls, and the steps of the system: a poll on any schedule
  of its batch, and a transaction that inserts entries.
\<close>

type_synonym 'p publish_log = "('p outboxMessage \<times> bool) list"

definition logging :: "('p, 'n) publisher \<Rightarrow> ('p, 'n \<times> 'p publish_log) publisher" where
  "logging pub subject msgID msg nl =
     (case pub subject msgID msg (fst nl) of
        (n, res) \<Rightarrow> ((n, snd nl @ [(msg, \<not> isl res)]), res))"

datatype 'p relay_event =
    RelayPoll "'p OutboxRow list \<Rightarrow> 'p OutboxRow list" relay_env
  | RelayInsert instant "'p OutboxEntry list"

type_synonym ('p, 'n) relay_state = "'p outbox_table \<times> 'n \<times> 'p publish_log"

definition relay_step ::
  "lib \<Rightarrow> ('p, 'n) publisher \<Rightarrow> nat \<Rightarrow> nat \<Rightarrow> 'p relay_event \<Rightarrow> ('p, 'n) relay_state \<Rightarrow>
   ('p, 'n) relay_state" where
  "relay_step L pub numPartitions batchSize ev st =
     (case ev of
        RelayPoll sched E \<Rightarrow>
          if batch_schedule (GetUnpublishedEntries batchSize (fst st))
               (sched (GetUnpublishedEntries batchSize (fst st)))
          then fst (poll L (logging pub) numPartitions batchSize sched E st) else st
      | RelayInsert now entries \<Rightarrow>
          (case InsertOutboxEntries (outboxEntriesToParams now entries) (fst st) of
             Inl err \<Rightarrow> st
           | Inr outbox \<Rightarrow> (outbox, snd st)))"

definition failures :: "'p publish_log \<Rightarrow> 'p outboxMessage \<Rightarrow> int" where
  "failures calls m = int (length (filter (\<lambda>c. c = (m, False)) calls))"

definition row_logged :: "'p publish_log \<Rightarrow> 'p OutboxRow \<Rightarrow> bool" where
  "row_logged calls r \<longleftrightarrow>
     (or_Published r \<longrightarrow> (message_of r, True) \<in> set calls) \<and> or_RetryCount r \<le> failures calls (message_of r)"

definition relay_inv :: "('p, 'n) relay_state \<Rightarrow> bool" where
  "relay_inv st \<longleftrightarrow>
     distinct (map row_key (fst st)) \<and> (\<forall>r \<in> set (fst st). row_logged (snd (snd st)) r)"

lemma message_marks [simp]:
  "map message_of (MarkPublished now i c t) = map message_of t"
  "map message_of (MarkFailed i c t) = map message_of t"
  by (simp_all add: MarkPublished_def MarkFailed_def message_of_def)

lemma row_logged_mono: "row_logged calls r \<Longrightarrow> row_logged (calls @ calls') r"
  by (auto simp: row_logged_def failures_def)

lemma key_of_message:
  "message_of r = message_of e \<Longrightarrow> row_key r = row_key e"
  by (simp add: message_of_def)

lemma same_message:
  assumes "distinct (map row_key t)" and "r \<in> set t" and "message_of e \<in> message_of ` set t"
    and "row_key r = row_key e"
  shows "message_of r = message_of e"
proof -
  from assms(3) obtain r' where r': "r' \<in> set t" "message_of r' = message_of e" by force
  have "inj_on row_key (set t)" using assms(1) by (simp add: distinct_map)
  moreover have "row_key r = row_key r'" using assms(4) key_of_message [OF r'(2)] by simp
  ultimately have "r = r'" using assms(2) r'(1) by (meson inj_onD)
  with r'(2) show ?thesis by simp
qed

lemma publishEntry_inv:
  assumes "relay_inv st" and "message_of e \<in> message_of ` set (fst st)"
  shows "relay_inv (fst (publishEntry L (logging pub) n E e st)) \<and>
         map message_of (fst (fst (publishEntry L (logging pub) n E e st))) = map message_of (fst st)"
proof -
  obtain t nats calls where st: "st = (t, nats, calls)" by (cases st)
  obtain nats' res where pub: "pub (SubjectForEntry e n) (uuid_string L (or_ID e)) (message_of e) nats = (nats', res)"
    by (cases "pub (SubjectForEntry e n) (uuid_string L (or_ID e)) (message_of e) nats")
  have d: "distinct (map row_key t)" and l: "\<forall>r \<in> set t. row_logged calls r"
    using assms(1) by (auto simp: relay_inv_def st)
  have same: "message_of r = message_of e" if "r \<in> set t" "or_ID r = or_ID e" "or_CreatedAt r = or_CreatedAt e" for r
    using same_message [OF d that(1)] assms(2) that(2,3) by (simp add: st)
  have ok: "row_logged (calls @ [(message_of e, b)]) r" if "r \<in> set t" for r b
    using l that row_logged_mono by blast
  have pubd: "row_logged (calls @ [(message_of e, True)]) (r\<lparr>or_Published := True, or_PublishedAt := Some now\<rparr>)"
    if "r \<in> set t" "or_ID r = or_ID e" "or_CreatedAt r = or_CreatedAt e" for r now
    using l that(1) same [OF that] by (auto simp: row_logged_def failures_def message_of_def)
  have faild: "row_logged (calls @ [(message_of e, False)]) (r\<lparr>or_RetryCount := or_RetryCount r + 1\<rparr>)"
    if "r \<in> set t" "or_ID r = or_ID e" "or_CreatedAt r = or_CreatedAt e" for r
    using l that(1) same [OF that] by (auto simp: row_logged_def failures_def message_of_def)
  have failed: "\<forall>r \<in> set (MarkFailed (or_ID e) (or_CreatedAt e) t). row_logged (calls @ [(message_of e, False)]) r"
    using ok faild MarkFailed_mem by blast
  have published: "\<forall>r \<in> set (MarkPublished now (or_ID e) (or_CreatedAt e) t).
      row_logged (calls @ [(message_of e, True)]) r" for now
    using ok pubd MarkPublished_mem by blast
  show ?thesis
    by (cases res)
      (simp_all add: publishEntry_def st Let_def logging_def pub relay_inv_def d ok failed published)
qed

lemma tenant_groups_map:
  "map_of (fold add_to_group es gs) tid =
     (let F = filter (\<lambda>e. or_ID e \<noteq> uuid_Nil \<and> or_TenantID e = tid) es in
      if F = [] then map_of gs tid
      else Some ((case map_of gs tid of None \<Rightarrow> [] | Some g \<Rightarrow> g) @ F))"
proof (induction es arbitrary: gs)
  case (Cons e es)
  show ?case
    by (cases "or_ID e = uuid_Nil"; cases "or_TenantID e = tid")
      (simp_all add: Cons.IH Let_def add_to_group_def [of e] split: option.split)
qed simp

lemma add_to_group_distinct: "distinct (map fst gs) \<Longrightarrow> distinct (map fst (add_to_group e gs))"
  by (simp add: add_to_group_def AList.distinct_update)

lemma tenant_groups_distinct: "distinct (map fst gs) \<Longrightarrow> distinct (map fst (fold add_to_group es gs))"
  by (induction es arbitrary: gs) (simp_all add: add_to_group_distinct)

lemma batch_schedule_iff:
  "batch_schedule es sched \<longleftrightarrow>
     (\<forall>tid. filter (\<lambda>e. or_TenantID e = tid) sched =
            filter (\<lambda>e. or_ID e \<noteq> uuid_Nil \<and> or_TenantID e = tid) es)" (is "_ \<longleftrightarrow> ?R")
proof -
  let ?F = "\<lambda>tid. filter (\<lambda>e. or_ID e \<noteq> uuid_Nil \<and> or_TenantID e = tid) es"
  have m: "map_of (tenant_groups es) tid = (if ?F tid = [] then None else Some (?F tid))" for tid
    using tenant_groups_map [of es "[]" tid] by (simp add: tenant_groups_def Let_def)
  have d: "distinct (map fst (tenant_groups es))"
    using tenant_groups_distinct [of "[]" es] by (simp add: tenant_groups_def)
  have grp: "(tid, g) \<in> set (tenant_groups es) \<longleftrightarrow> ?F tid \<noteq> [] \<and> g = ?F tid" for tid g
    unfolding map_of_eq_Some_iff [OF d, symmetric] m by (split if_split) (simp only: option.simps, blast)
  have dom: "tid \<in> fst ` set (tenant_groups es) \<longleftrightarrow> ?F tid \<noteq> []" for tid
  proof -
    have "tid \<in> fst ` set (tenant_groups es) \<longleftrightarrow> (\<exists>g. (tid, g) \<in> set (tenant_groups es))" by force
    then show ?thesis by (simp only: grp) blast
  qed
  show ?thesis
  proof
    assume b: "batch_schedule es sched"
    note inG = conjunct2 [OF b [unfolded batch_schedule_def]]
      and eq = conjunct1 [OF b [unfolded batch_schedule_def]]
    show ?R
    proof
      fix tid
      show "filter (\<lambda>e. or_TenantID e = tid) sched = ?F tid"
      proof (cases "?F tid = []")
        case True
        then have "tid \<notin> fst ` set (tenant_groups es)" by (simp only: dom simp_thms)
        then have "\<forall>e \<in> set sched. or_TenantID e \<noteq> tid" using inG by metis
        then show ?thesis unfolding True by (simp only: filter_empty_conv)
      next
        case False
        then have "(tid, ?F tid) \<in> set (tenant_groups es)" by (simp only: grp simp_thms)
        from bspec [OF eq this] show ?thesis by (simp only: prod.case)
      qed
    qed
  next
    assume r: ?R
    show "batch_schedule es sched"
      unfolding batch_schedule_def
    proof (intro conjI ballI)
      fix x assume x: "x \<in> set (tenant_groups es)"
      obtain tid g where xx: "x = (tid, g)" by (rule prod.exhaust)
      have "g = ?F tid" using x unfolding xx grp by (rule conjunct2)
      then show "case x of (tid, g) \<Rightarrow> filter (\<lambda>e. or_TenantID e = tid) sched = g"
        by (simp only: xx prod.case r [rule_format])
    next
      fix e assume e: "e \<in> set sched"
      have "e \<in> set (filter (\<lambda>x. or_TenantID x = or_TenantID e) sched)" using e by simp
      then have "e \<in> set (?F (or_TenantID e))" by (simp only: r [rule_format])
      then have "?F (or_TenantID e) \<noteq> []" by (intro notI) (simp only: list.set empty_iff)
      then show "or_TenantID e \<in> fst ` set (tenant_groups es)" by (simp only: dom not_not simp_thms)
    qed
  qed
qed

lemma batch_schedule_subset: "batch_schedule es sched \<Longrightarrow> set sched \<subseteq> set es"
proof
  fix e assume b: "batch_schedule es sched" and e: "e \<in> set sched"
  have "e \<in> set (filter (\<lambda>x. or_TenantID x = or_TenantID e) sched)" using e by simp
  then have "e \<in> set (filter (\<lambda>x. or_ID x \<noteq> uuid_Nil \<and> or_TenantID x = or_TenantID e) es)"
    by (simp only: b [unfolded batch_schedule_iff, rule_format])
  then show "e \<in> set es" by simp
qed

lemma publishBatch_inv:
  "relay_inv st \<Longrightarrow> message_of ` set sched \<subseteq> message_of ` set (fst st) \<Longrightarrow>
     relay_inv (publishBatch L (logging pub) n E sched st)"
proof (induction sched arbitrary: st)
  case (Cons e es)
  let ?st = "fst (publishEntry L (logging pub) n E e st)"
  have "relay_inv ?st" and "map message_of (fst ?st) = map message_of (fst st)"
    using publishEntry_inv [of st e] Cons.prems by auto
  moreover from this(2) have "message_of ` set (fst ?st) = message_of ` set (fst st)"
    by (metis set_map)
  ultimately have "relay_inv (publishBatch L (logging pub) n E es ?st)"
    using Cons.prems by (intro Cons.IH) auto
  then show ?case by (simp add: publishBatch_def)
qed (simp add: publishBatch_def)

lemma relay_step_inv: "relay_inv st \<Longrightarrow> relay_inv (relay_step L pub n b ev st)"
proof (cases ev)
  case (RelayPoll sched E)
  let ?es = "GetUnpublishedEntries b (fst st)"
  assume inv: "relay_inv st"
  have "relay_inv (publishBatch L (logging pub) n E (sched ?es) st)" if "batch_schedule ?es (sched ?es)"
    using batch_schedule_subset [OF that] set_GetUnpublished [of b "fst st"]
    by (intro publishBatch_inv inv) blast
  with inv show ?thesis by (simp add: RelayPoll relay_step_def poll_def Let_def)
next
  case (RelayInsert now entries)
  assume inv: "relay_inv st"
  show ?thesis
  proof (cases "InsertOutboxEntries (outboxEntriesToParams now entries) (fst st)")
    case (Inr t)
    then have "t = fst st @ outboxEntriesToParams now entries" by (simp only: InsertOutboxEntries_ok)
    moreover have "row_logged calls r" if "r \<in> set (outboxEntriesToParams now entries)" for calls r
      using that by (auto simp: outboxEntriesToParams_def row_logged_def failures_def)
    ultimately show ?thesis
      using inv InsertOutboxEntries_distinct [OF Inr]
      by (auto simp: RelayInsert relay_step_def Inr relay_inv_def)
  qed (simp add: RelayInsert relay_step_def inv)
qed

interpretation relay: invariant_system "relay_step L pub n b" relay_inv
  by unfold_locales (rule relay_step_inv)


definition mark_all :: "instant \<Rightarrow> (uuid \<times> instant) set \<Rightarrow> 'p OutboxRow \<Rightarrow> 'p OutboxRow" where
  "mark_all now ks r =
     (if row_key r \<in> ks \<and> \<not> or_Published r
      then r\<lparr>or_Published := True, or_PublishedAt := Some now\<rparr> else r)"


lemma mark_all_empty [simp]: "mark_all now {} = (\<lambda>r. r)"
  by (simp add: mark_all_def fun_eq_iff)





section \<open>Properties\<close>

text \<open>
  C9: The relay loses nothing and claims nothing: over any sequence of inserted entries and
  polls, with any schedule of the goroutines and any failures of NATS and of the marks, a row
  marked published has had its own message accepted by NATS, and a row that is not published
  and has had fewer failed attempts than its maximum is still picked up by the next polls.
\<close>

theorem relay_no_loss:
  assumes "fold (relay_step L pub numPartitions batchSize) evs ([], n, []) = (outbox, n', calls)"
    and "r \<in> set outbox"
  shows "(or_Published r \<longrightarrow> (message_of r, True) \<in> set calls) \<and>
         (\<not> or_Published r \<longrightarrow> failures calls (message_of r) < or_MaxRetries r \<longrightarrow> pending_row r)"
proof -
  have "relay_inv ([], n, [])" by (simp add: relay_inv_def)
  from relay.run_inv [OF this, of L pub numPartitions batchSize evs] assms
  have "row_logged calls r" by (simp add: relay_inv_def)
  then show ?thesis by (auto simp: row_logged_def pending_row_def)
qed


section \<open>Witnesses\<close>

definition sample_row :: "uuid \<Rightarrow> instant \<Rightarrow> unit OutboxRow" where
  "sample_row ident created = \<lparr>or_ID = ident, or_AggregateType = ''transfer'', or_AggregateID = 7,
     or_TenantID = 1, or_EventType = EventTransferFunded, or_Payload = None, or_IsIntent = False,
     or_Published = False, or_PublishedAt = None, or_RetryCount = 0, or_MaxRetries = 5,
     or_CreatedAt = created\<rparr>"

definition sample_relay_env :: relay_env where
  "sample_relay_env = \<lparr>re_now = 100, re_fetch_ok = True, re_published_ok = (\<lambda>_. True),
     re_failed_ok = (\<lambda>_. True)\<rparr>"


text \<open>A publisher whose first call fails.\<close>

definition flaky_publisher :: "(unit, nat) publisher" where
  "flaky_publisher subject msgID msg n =
     (n + 1, if n = 0 then Inl (Errorf ''nats: timeout'' None) else Inr ())"

lemma id_schedule: "\<forall>e \<in> set es. or_ID e \<noteq> uuid_Nil \<Longrightarrow> batch_schedule es es"
  unfolding batch_schedule_iff by (auto intro: filter_cong)

theorem relay_no_loss_witness:
  "\<exists>outbox n calls r.
     fold (relay_step ref_lib flaky_publisher 8 10)
       [RelayInsert 5 [zero_entry\<lparr>ob_ID := 3, ob_MaxRetries := 5\<rparr>], RelayPoll (\<lambda>es. es) sample_relay_env]
       ([], 0, []) = (outbox, n, calls) \<and> r \<in> set outbox \<and> \<not> or_Published r \<and> pending_row r"
proof -
  let ?evs = "[RelayInsert 5 [zero_entry\<lparr>ob_ID := 3, ob_MaxRetries := 5\<rparr>], RelayPoll (\<lambda>es. es) sample_relay_env]"
  obtain outbox n calls where run: "fold (relay_step ref_lib flaky_publisher 8 10) ?evs ([], 0, []) = (outbox, n, calls)"
    by (metis prod_cases3)
  have sch: "batch_schedule [r] [r]" if "or_ID r \<noteq> uuid_Nil" for r :: "unit OutboxRow"
    using that by (intro id_schedule) simp
  have "\<exists>r. outbox = [r] \<and> calls = [(message_of r, False)] \<and> \<not> or_Published r \<and> or_MaxRetries r = 5"
    using run [symmetric]
    by (simp add: relay_step_def InsertOutboxEntries_def outboxEntriesToParams_def zero_entry_def
        GetUnpublishedEntries_def pending_row_def sch poll_def sample_relay_env_def publishBatch_def
        publishEntry_def logging_def flaky_publisher_def MarkFailed_def message_of_def Let_def)
  then obtain r where "outbox = [r]" and calls: "calls = [(message_of r, False)]"
    and "\<not> or_Published r" "or_MaxRetries r = 5" by blast
  moreover have "failures calls (message_of r) = 1" by (simp add: calls failures_def)
  ultimately have "r \<in> set outbox \<and> \<not> or_Published r \<and> pending_row r"
    using relay_no_loss [OF run, of r] by simp
  with run show ?thesis by blast
qed


text \<open>
  A publication failure reorders a tenant's events: the loop goes on to the later entries
  of the tenant, so that with one transient NATS failure the second entry is accepted before
  the first, although \<^verbatim>\<open>publishBatch\<close> is documented to publish the entries of a tenant in
  creation order.
\<close>

theorem relay_reorders_after_failure:
  "let t = [sample_row 3 10, sample_row 4 20];
       relay = (\<lambda>st. fst (poll ref_lib (logging flaky_publisher) 8 10 (\<lambda>es. es) sample_relay_env st)) in
   map (\<lambda>c. om_ID (fst c)) (filter snd (snd (snd (relay (relay (t, 0, [])))))) = [4, 3]"
  by (simp add: Let_def poll_def GetUnpublishedEntries_def pending_row_def sample_row_def
      sample_relay_env_def publishBatch_def publishEntry_def logging_def flaky_publisher_def
      MarkFailed_def MarkPublished_def message_of_def)

end
