(* ===== verification/Subscriber.thy ===== *)
theory Subscriber
  imports Relay
begin

text \<open>
  Delivery of messages to the workers (\<^verbatim>\<open>src/node/messaging/subscriber.go\<close>,
  \<^verbatim>\<open>src/node/messaging/nats.go\<close>): decoding, the handler call, acknowledgement and dead-lettering. The
  body of a message is the value it was marshalled from, or text that is no event at all. The
  durable consumer redelivers a message that is not acknowledged until its sixth delivery, as
  its \<^verbatim>\<open>MaxDeliver\<close> says. Tracing, logging, metrics, draining and the worker pool are not modelled.
\<close>

section \<open>Events and messages\<close>

record 'd Event =
  evt_ID :: uuid
  evt_TenantID :: uuid
  evt_Type :: string
  evt_Timestamp :: instant
  evt_Data :: "'d option"

datatype 'd message = OutboxWire "'d outboxMessage" | EventWire "'d Event" | Garbage string

definition unmarshalEvent :: "'d message \<Rightarrow> 'd Event result" where
  "unmarshalEvent msg =
     (case msg of
        OutboxWire w \<Rightarrow> Inr \<lparr>evt_ID = om_ID w, evt_TenantID = om_TenantID w, evt_Type = om_EventType w,
          evt_Timestamp = om_CreatedAt w, evt_Data = om_Payload w\<rparr>
      | EventWire e \<Rightarrow> Inr e
      | Garbage s \<Rightarrow> Inl (Errorf ''settla-messaging: unmarshal wire event'' None))"

text \<open>\<^verbatim>\<open>Publisher.Publish\<close>: the subject of an event; the connection is a parameter.\<close>

definition Publish ::
  "lib \<Rightarrow> nat \<Rightarrow> (string \<Rightarrow> string \<Rightarrow> 'd message \<Rightarrow> 'n \<Rightarrow> 'n \<times> unit result) \<Rightarrow> 'd Event \<Rightarrow> 'n \<Rightarrow>
   'n \<times> unit result" where
  "Publish L numPartitions js event nats =
     (case js (SubjectForEventType (evt_Type event) (evt_TenantID event) numPartitions)
             (uuid_string L (evt_ID event)) (EventWire event) nats of
        (nats', Inl err) \<Rightarrow> (nats', Inl (Errorf ''settla-messaging: publishing event'' (Some err)))
      | (nats', Inr _) \<Rightarrow> (nats', Inr ()))"

section \<open>Processing one delivery\<close>

definition MaxRetries :: nat where
  "MaxRetries = 6"

definition backoffBases :: "int list" where
  "backoffBases = [1 * Second, 5 * Second, 30 * Second, 2 * 60 * Second, 10 * 60 * Second]"

text \<open>The jitter factors are drawn at random between 0.8 and 1.2.\<close>

definition nakDelay :: "rat list \<Rightarrow> rat \<Rightarrow> nat \<Rightarrow> int" where
  "nakDelay schedule jitter deliveryCount =
     \<lfloor>(if deliveryCount > length schedule then last schedule
       else if deliveryCount < 1 then hd schedule
       else schedule ! (deliveryCount - 1)) * jitter\<rfloor>"

datatype verdict = Ack | Nak | NakWithDelay nat

type_synonym ('d, 's) handler = "'d Event \<Rightarrow> 's \<Rightarrow> 's \<times> unit result"

text \<open>
  The outcome: the handler's state, the subjects and messages sent to the dead-letter stream,
  and the verdict. \<open>dlq\<close> tells whether the publication to the dead-letter stream succeeds.
\<close>

definition processMessage ::
  "('d, 's) handler \<Rightarrow> string \<Rightarrow> nat \<Rightarrow> bool \<Rightarrow> 'd message \<Rightarrow> 's \<Rightarrow>
   's \<times> (string \<times> 'd message) list \<times> verdict" where
  "processMessage handler streamName deliveryCount dlq msg s =
     (case unmarshalEvent msg of
        Inl err \<Rightarrow> (s, if dlq then [(DLQSubject streamName ''unmarshal_error'', msg)] else [], Ack)
      | Inr event \<Rightarrow>
         if deliveryCount \<ge> MaxRetries then
           (if dlq then (s, [(DLQSubject streamName (evt_Type event), msg)], Ack) else (s, [], Nak))
         else (case handler event s of
            (s', Inl err) \<Rightarrow> (s', [], NakWithDelay deliveryCount)
          | (s', Inr _) \<Rightarrow> (s', [], Ack)))"

text \<open>All deliveries of one message, from the \<open>k\<close>-th on, with the handler of each delivery.\<close>

function deliveries ::
  "(nat \<Rightarrow> ('d, 's) handler) \<Rightarrow> string \<Rightarrow> (nat \<Rightarrow> bool) \<Rightarrow> 'd message \<Rightarrow> nat \<Rightarrow> 's \<Rightarrow>
   's \<times> (string \<times> 'd message) list \<times> bool" where
  "deliveries handler streamName dlq msg k s =
     (if k > MaxRetries then (s, [], False)
      else case processMessage (handler k) streamName k (dlq k) msg s of
        (s', dead, Ack) \<Rightarrow> (s', dead, True)
      | (s', dead, _) \<Rightarrow> deliveries handler streamName dlq msg (k + 1) s')"
  by pat_completeness auto
termination
  by (relation "measure (\<lambda>(handler, streamName, dlq, msg, k, s). Suc MaxRetries - k)") auto

declare deliveries.simps [simp del]

section \<open>Lemmas\<close>

lemma nakDelay_bounds:
  assumes "schedule \<noteq> []" and "\<forall>d \<in> set schedule. 0 \<le> d" and "4 / 5 \<le> jitter" and "jitter \<le> 6 / 5"
  shows "\<exists>d \<in> set schedule. \<lfloor>d * (4 / 5)\<rfloor> \<le> nakDelay schedule jitter n \<and> nakDelay schedule jitter n \<le> \<lfloor>d * (6 / 5)\<rfloor>"
proof -
  let ?d = "if n > length schedule then last schedule else if n < 1 then hd schedule else schedule ! (n - 1)"
  have d: "?d \<in> set schedule" using assms(1) by auto
  then have "0 \<le> ?d" using assms(2) by blast
  then have "?d * (4 / 5) \<le> ?d * jitter" "?d * jitter \<le> ?d * (6 / 5)"
    using assms(3,4) mult_left_mono by blast+
  then have "\<lfloor>?d * (4 / 5)\<rfloor> \<le> nakDelay schedule jitter n" "nakDelay schedule jitter n \<le> \<lfloor>?d * (6 / 5)\<rfloor>"
    unfolding nakDelay_def by (auto intro: floor_mono)
  with d show ?thesis by blast
qed

lemma processMessage_cases:
  assumes "processMessage handler streamName k dlq msg s = (s', dead, v)"
  obtains (garbage) err where "unmarshalEvent msg = Inl err" "v = Ack" "s' = s"
      "dead = (if dlq then [(DLQSubject streamName ''unmarshal_error'', msg)] else [])"
  | (dead) event where "unmarshalEvent msg = Inr event" "k \<ge> MaxRetries" "dlq" "v = Ack" "s' = s"
      "dead = [(DLQSubject streamName (evt_Type event), msg)]"
  | (stuck) event where "unmarshalEvent msg = Inr event" "k \<ge> MaxRetries" "\<not> dlq" "v = Nak" "s' = s" "dead = []"
  | (failed) event err where "unmarshalEvent msg = Inr event" "k < MaxRetries" "handler event s = (s', Inl err)"
      "v = NakWithDelay k" "dead = []"
  | (handled) event where "unmarshalEvent msg = Inr event" "k < MaxRetries" "handler event s = (s', Inr ())"
      "v = Ack" "dead = []"
  using assms unfolding processMessage_def
  by (auto split: sum.splits if_splits prod.splits)

lemma deliveries_step:
  "k \<le> MaxRetries \<Longrightarrow> deliveries handler streamName dlq msg k s =
     (case processMessage (handler k) streamName k (dlq k) msg s of
        (s', dead, v) \<Rightarrow> if v = Ack then (s', dead, True) else deliveries handler streamName dlq msg (k + 1) s')"
  by (subst deliveries.simps) (auto split: prod.split verdict.split)

lemma deliveries_end: "k > MaxRetries \<Longrightarrow> deliveries handler streamName dlq msg k s = (s, [], False)"
  by (simp add: deliveries.simps)

text \<open>A handler that fails at every delivery: the message ends in the dead-letter stream.\<close>

lemma deliveries_rejected:
  assumes "\<And>j s. P j s \<Longrightarrow> j < MaxRetries \<Longrightarrow> \<exists>s' err. handler j event s = (s', Inl err) \<and> P (Suc j) s'"
    and "unmarshalEvent msg = Inr event" and "k \<le> MaxRetries" and "P k s"
  shows "\<exists>s'. P MaxRetries s' \<and> deliveries handler streamName dlq msg k s =
    (s', if dlq MaxRetries then [(DLQSubject streamName (evt_Type event), msg)] else [], dlq MaxRetries)"
  using assms(3,4)
proof (induction "MaxRetries - k" arbitrary: k s)
  case 0
  then have "k = MaxRetries" by simp
  then show ?case
    using 0 by (intro exI [of _ s]) (simp add: deliveries_step deliveries_end processMessage_def assms(2))
next
  case (Suc n)
  then have k: "k < MaxRetries" by simp
  from assms(1) [OF Suc.prems(2) k] obtain s' err where h: "handler k event s = (s', Inl err)" "P (Suc k) s'" by blast
  then have "deliveries handler streamName dlq msg k s = deliveries handler streamName dlq msg (k + 1) s'"
    using k by (subst deliveries_step) (simp_all add: processMessage_def assms(2))
  with Suc.hyps(1) [of "k + 1" s'] Suc.hyps(2) k h(2) show ?case by simp
qed

section \<open>Properties\<close>

text \<open>
  C11: No message is settled silently. For every handler and every outcome of its calls, a
  message is acknowledged only after a delivery in which the handler returned no error, or after
  it went to the dead-letter stream, or because it is not an event; a message that is never
  acknowledged has met a failed publication to the dead-letter stream at its last delivery.
\<close>

theorem message_settled:
  "case deliveries handler streamName dlq msg 1 s of (s', dead, acked) \<Rightarrow>
     if acked
     then (\<exists>err. unmarshalEvent msg = Inl err) \<or> map snd dead = [msg] \<or>
          (\<exists>event k sk. unmarshalEvent msg = Inr event \<and> k \<in> {1..<MaxRetries} \<and> handler k event sk = (s', Inr ()))
     else dead = [] \<and> \<not> dlq MaxRetries"
proof -
  have "case deliveries handler streamName dlq msg k s of (s', dead, acked) \<Rightarrow>
     if acked
     then (\<exists>err. unmarshalEvent msg = Inl err) \<or> map snd dead = [msg] \<or>
          (\<exists>event k sk. unmarshalEvent msg = Inr event \<and> k \<in> {1..<MaxRetries} \<and> handler k event sk = (s', Inr ()))
     else dead = [] \<and> \<not> dlq MaxRetries" if "1 \<le> k" "k \<le> MaxRetries" for k
    using that
  proof (induction "MaxRetries - k" arbitrary: k s)
    case 0
    then have k: "k = MaxRetries" by simp
    obtain s' dead v where p: "processMessage (handler k) streamName k (dlq k) msg s = (s', dead, v)"
      by (cases "processMessage (handler k) streamName k (dlq k) msg s")
    then have d: "deliveries handler streamName dlq msg k s =
        (if v = Ack then (s', dead, True) else (s', [], False))"
      by (simp add: deliveries_step deliveries_end k)
    from p show ?case
      unfolding d using k by (cases rule: processMessage_cases) auto
  next
    case (Suc n)
    obtain s' dead v where p: "processMessage (handler k) streamName k (dlq k) msg s = (s', dead, v)"
      by (cases "processMessage (handler k) streamName k (dlq k) msg s")
    have k: "k < MaxRetries" "n = MaxRetries - (k + 1)" "1 \<le> k + 1" "k + 1 \<le> MaxRetries" using Suc by auto
    have d: "deliveries handler streamName dlq msg k s =
        (if v = Ack then (s', dead, True) else deliveries handler streamName dlq msg (k + 1) s')"
      using k(1) by (simp add: deliveries_step p)
    from p show ?case
    proof (cases rule: processMessage_cases)
      case (failed event err)
      then show ?thesis using Suc.hyps(1) [OF k(2-4), of s'] by (simp add: d)
    next
      case (handled event)
      with Suc.prems k show ?thesis by (auto simp: d)
    qed (use k in \<open>auto simp: d\<close>)
  qed
  from this [of 1] show ?thesis by (simp add: MaxRetries_def)
qed

text \<open>
  A message can be lost. When the handler keeps failing and the publication to the
  dead-letter stream fails at the sixth delivery, the message is left unacknowledged for a
  redelivery that the consumer's limit of six deliveries does not allow.
\<close>

theorem dead_letter_failure_loses_message:
  assumes "\<And>k. \<exists>err. handler k event s = (s, Inl err)" and "unmarshalEvent msg = Inr event"
    and "\<not> dlq MaxRetries"
  shows "deliveries handler streamName dlq msg 1 s = (s, [], False)"
  using deliveries_rejected [where P = "\<lambda>_ s'. s' = s" and handler = handler and k = 1 and event = event
      and msg = msg and streamName = streamName and dlq = dlq and s = s] assms
  by (simp add: MaxRetries_def)

definition sample_event :: "unit Event" where
  "sample_event = \<lparr>evt_ID = 1, evt_TenantID = 1, evt_Type = IntentLedgerPost, evt_Timestamp = 0, evt_Data = None\<rparr>"

theorem dead_letter_failure_loses_message_witness:
  "deliveries (\<lambda>k event s. (s, Inl (Errorf ''down'' None))) ''SETTLA_LEDGER'' (\<lambda>k. False) (EventWire sample_event) 1 (0 :: nat) =
     (0, [], False)"
  by (rule dead_letter_failure_loses_message [where event = sample_event]) (simp_all add: unmarshalEvent_def)

end
