(* ===== verification/Circuit_Breaker.thy ===== *)
theory Circuit_Breaker
  imports Domain_Errors Event_System
begin

text \<open>
  The circuit breaker (\<^verbatim>\<open>src/resilience/circuitbreaker.go\<close>). Its critical sections are separate
  steps, so that the calls it protects may overlap; \<^verbatim>\<open>Execute\<close> runs them around one call. Metrics,
  logging and the callback on state changes are not modelled.
\<close>

section \<open>State and steps\<close>

datatype State = StateClosed | StateOpen | StateHalfOpen

record cb_config =
  cc_failureThreshold :: int
  cc_resetTimeout :: int
  cc_halfOpenMaxRequests :: int
  cc_successThreshold :: int

record CircuitBreaker =
  cb_state :: State
  cb_consecutiveFailures :: int
  cb_consecutiveSuccess :: int
  cb_halfOpenRequests :: int
  cb_lastFailureTime :: instant

text \<open>The options of \<^verbatim>\<open>NewCircuitBreaker\<close> ignore values that are not positive.\<close>

datatype CBOption =
    WithFailureThreshold int
  | WithResetTimeout int
  | WithHalfOpenMax int
  | WithSuccessThreshold int

fun apply_option :: "CBOption \<Rightarrow> cb_config \<Rightarrow> cb_config" where
  "apply_option (WithFailureThreshold n) c = (if n > 0 then c\<lparr>cc_failureThreshold := n\<rparr> else c)"
| "apply_option (WithResetTimeout d) c = (if d > 0 then c\<lparr>cc_resetTimeout := d\<rparr> else c)"
| "apply_option (WithHalfOpenMax n) c = (if n > 0 then c\<lparr>cc_halfOpenMaxRequests := n\<rparr> else c)"
| "apply_option (WithSuccessThreshold n) c = (if n > 0 then c\<lparr>cc_successThreshold := n\<rparr> else c)"

definition NewCircuitBreaker :: "CBOption list \<Rightarrow> cb_config \<times> CircuitBreaker" where
  "NewCircuitBreaker opts =
     (fold apply_option opts \<lparr>cc_failureThreshold = 5, cc_resetTimeout = 10 * Second,
        cc_halfOpenMaxRequests = 3, cc_successThreshold = 2\<rparr>,
      \<lparr>cb_state = StateClosed, cb_consecutiveFailures = 0, cb_consecutiveSuccess = 0,
        cb_halfOpenRequests = 0, cb_lastFailureTime = 0\<rparr>)"

definition transitionLocked :: "State \<Rightarrow> CircuitBreaker \<Rightarrow> CircuitBreaker" where
  "transitionLocked target cb =
     (if cb_state cb = target then cb
      else cb\<lparr>cb_state := target, cb_halfOpenRequests := 0, cb_consecutiveSuccess := 0\<rparr>)"

definition currentStateLocked :: "cb_config \<Rightarrow> instant \<Rightarrow> CircuitBreaker \<Rightarrow> CircuitBreaker" where
  "currentStateLocked cfg now cb =
     (if cb_state cb = StateOpen \<and> now - cb_lastFailureTime cb \<ge> cc_resetTimeout cfg
      then transitionLocked StateHalfOpen cb else cb)"

definition GetState :: "cb_config \<Rightarrow> instant \<Rightarrow> CircuitBreaker \<Rightarrow> CircuitBreaker \<times> State" where
  "GetState cfg now cb = (let cb = currentStateLocked cfg now cb in (cb, cb_state cb))"

definition allowRequest :: "cb_config \<Rightarrow> instant \<Rightarrow> CircuitBreaker \<Rightarrow> CircuitBreaker \<times> bool" where
  "allowRequest cfg now cb =
     (let cb = currentStateLocked cfg now cb in
      case cb_state cb of
        StateClosed \<Rightarrow> (cb, True)
      | StateOpen \<Rightarrow> (cb, False)
      | StateHalfOpen \<Rightarrow>
         if cb_halfOpenRequests cb < cc_halfOpenMaxRequests cfg
         then (cb\<lparr>cb_halfOpenRequests := cb_halfOpenRequests cb + 1\<rparr>, True) else (cb, False))"

definition recordSuccess :: "cb_config \<Rightarrow> CircuitBreaker \<Rightarrow> CircuitBreaker" where
  "recordSuccess cfg cb =
     (let cb = cb\<lparr>cb_consecutiveFailures := 0\<rparr> in
      case cb_state cb of
        StateHalfOpen \<Rightarrow>
          (let cb = cb\<lparr>cb_consecutiveSuccess := cb_consecutiveSuccess cb + 1\<rparr> in
           if cb_consecutiveSuccess cb \<ge> cc_successThreshold cfg then transitionLocked StateClosed cb else cb)
      | _ \<Rightarrow> cb)"

definition recordFailure :: "cb_config \<Rightarrow> instant \<Rightarrow> CircuitBreaker \<Rightarrow> CircuitBreaker" where
  "recordFailure cfg now cb =
     (let cb = cb\<lparr>cb_consecutiveFailures := cb_consecutiveFailures cb + 1, cb_consecutiveSuccess := 0,
                cb_lastFailureTime := now\<rparr> in
      case cb_state cb of
        StateClosed \<Rightarrow>
          if cb_consecutiveFailures cb \<ge> cc_failureThreshold cfg then transitionLocked StateOpen cb else cb
      | StateHalfOpen \<Rightarrow> transitionLocked StateOpen cb
      | StateOpen \<Rightarrow> cb)"

definition ErrCircuitOpen :: error where
  "ErrCircuitOpen = Errorf ''settla-resilience: circuit breaker is open'' None"

text \<open>
  \<^verbatim>\<open>Execute\<close> on a state of its own and of the protected call; the call begins at \<open>t0\<close> and ends at \<open>t1\<close>,
  and \<open>alive\<close> says that the context is not cancelled.
\<close>

definition Execute ::
  "cb_config \<Rightarrow> bool \<Rightarrow> instant \<Rightarrow> instant \<Rightarrow> ('s \<Rightarrow> 's \<times> 'a result) \<Rightarrow> CircuitBreaker \<times> 's \<Rightarrow>
   (CircuitBreaker \<times> 's) \<times> 'a result" where
  "Execute cfg alive t0 t1 fn st =
     (case st of (cb, s) \<Rightarrow>
      if \<not> alive then (st, Inl (Errorf ''settla-resilience: circuit breaker'' None))
      else (case allowRequest cfg t0 cb of
         (cb, False) \<Rightarrow> ((cb, s), Inl ErrCircuitOpen)
       | (cb, True) \<Rightarrow>
          (case fn s of
             (s', Inl err) \<Rightarrow> ((recordFailure cfg t1 cb, s'), Inl err)
           | (s', Inr x) \<Rightarrow> ((recordSuccess cfg cb, s'), Inr x))))"

section \<open>Lemmas\<close>

lemmas breaker_defs = transitionLocked_def currentStateLocked_def allowRequest_def recordSuccess_def
  recordFailure_def Let_def

datatype cb_event = CbAllow instant | CbSuccess | CbFailure instant | CbPeek instant

fun cb_step :: "cb_config \<Rightarrow> cb_event \<Rightarrow> CircuitBreaker \<Rightarrow> CircuitBreaker" where
  "cb_step cfg (CbAllow now) cb = fst (allowRequest cfg now cb)"
| "cb_step cfg CbSuccess cb = recordSuccess cfg cb"
| "cb_step cfg (CbFailure now) cb = recordFailure cfg now cb"
| "cb_step cfg (CbPeek now) cb = fst (GetState cfg now cb)"

definition cb_wf :: "cb_config \<Rightarrow> bool" where
  "cb_wf cfg \<longleftrightarrow> 0 < cc_failureThreshold cfg \<and> 0 < cc_resetTimeout cfg \<and> 0 < cc_halfOpenMaxRequests cfg \<and>
     0 < cc_successThreshold cfg"

lemma apply_options_wf: "cb_wf cfg \<Longrightarrow> cb_wf (fold apply_option opts cfg)"
proof (induction opts arbitrary: cfg)
  case (Cons a opts)
  have "cb_wf (apply_option a cfg)" using Cons.prems by (cases a) (simp_all add: cb_wf_def)
  then show ?case using Cons.IH by simp
qed simp

definition cb_inv :: "cb_config \<Rightarrow> CircuitBreaker \<Rightarrow> bool" where
  "cb_inv cfg cb \<longleftrightarrow>
     0 \<le> cb_halfOpenRequests cb \<and> cb_halfOpenRequests cb \<le> cc_halfOpenMaxRequests cfg \<and>
     0 \<le> cb_consecutiveSuccess cb \<and> cb_consecutiveSuccess cb < cc_successThreshold cfg \<and>
     0 \<le> cb_consecutiveFailures cb \<and>
     (cb_state cb = StateClosed \<longrightarrow> cb_consecutiveFailures cb < cc_failureThreshold cfg \<and> cb_consecutiveSuccess cb = 0) \<and>
     (cb_state cb \<noteq> StateHalfOpen \<longrightarrow> cb_halfOpenRequests cb = 0)"

lemma cb_step_inv:
  assumes "cb_wf cfg" and "cb_inv cfg cb"
  shows "cb_inv cfg (cb_step cfg ev cb)"
proof (cases ev)
  case CbSuccess
  then show ?thesis using assms
    by (cases "cb_state cb") (auto simp: cb_inv_def cb_wf_def breaker_defs)
next
  case (CbFailure now)
  then show ?thesis using assms
    by (cases "cb_state cb") (auto simp: cb_inv_def cb_wf_def breaker_defs)
next
  case (CbAllow now)
  then show ?thesis using assms
    by (cases "cb_state cb") (auto simp: cb_inv_def cb_wf_def breaker_defs)
next
  case (CbPeek now)
  then show ?thesis using assms
    by (cases "cb_state cb") (auto simp: cb_inv_def cb_wf_def breaker_defs GetState_def)
qed

interpretation breaker: invariant_system "cb_step cfg" "\<lambda>cb. cb_wf cfg \<and> cb_inv cfg cb"
  by unfold_locales (use cb_step_inv in blast)

lemma half_open_success:
  assumes "cb_state cb = StateHalfOpen" and "cb_halfOpenRequests cb < cc_halfOpenMaxRequests cfg" and "fn s = (s', Inr x)"
  shows "Execute cfg True t0 t1 fn (cb, s) =
    ((let cb' = cb\<lparr>cb_halfOpenRequests := cb_halfOpenRequests cb + 1, cb_consecutiveFailures := 0,
               cb_consecutiveSuccess := cb_consecutiveSuccess cb + 1\<rparr> in
      if cb_consecutiveSuccess cb + 1 \<ge> cc_successThreshold cfg then transitionLocked StateClosed cb' else cb', s'), Inr x)"
  using assms by (simp add: Execute_def breaker_defs)

text \<open>A sequence of calls through the breaker, each with the times of its beginning and end.\<close>

definition calls_run ::
  "cb_config \<Rightarrow> ('s \<Rightarrow> 's \<times> 'a result) \<Rightarrow> (instant \<times> instant) list \<Rightarrow> CircuitBreaker \<times> 's \<Rightarrow> CircuitBreaker \<times> 's" where
  "calls_run cfg fn ts st = fold (\<lambda>(t0, t1) st. fst (Execute cfg True t0 t1 fn st)) ts st"

lemma half_open_run:
  assumes "\<And>s. \<exists>s' x. fn s = (s', Inr x)" and "cb_state cb = StateHalfOpen"
    and "int (length ts) \<le> cc_successThreshold cfg - cb_consecutiveSuccess cb"
    and "int (length ts) \<le> cc_halfOpenMaxRequests cfg - cb_halfOpenRequests cb"
    and "cb_consecutiveSuccess cb < cc_successThreshold cfg"
  shows "cb_state (fst (calls_run cfg fn ts (cb, s))) =
      (if cb_consecutiveSuccess cb + int (length ts) = cc_successThreshold cfg then StateClosed else StateHalfOpen) \<and>
    (cb_consecutiveSuccess cb + int (length ts) \<noteq> cc_successThreshold cfg \<longrightarrow>
       cb_halfOpenRequests (fst (calls_run cfg fn ts (cb, s))) = cb_halfOpenRequests cb + int (length ts) \<and>
       cb_consecutiveSuccess (fst (calls_run cfg fn ts (cb, s))) = cb_consecutiveSuccess cb + int (length ts))"
  using assms(2-5)
proof (induction ts arbitrary: cb s)
  case (Cons t ts)
  obtain t0 t1 where t: "t = (t0, t1)" by (cases t)
  obtain s' x where fn: "fn s = (s', Inr x)" using assms(1) by blast
  let ?cb = "cb\<lparr>cb_halfOpenRequests := cb_halfOpenRequests cb + 1, cb_consecutiveFailures := 0,
               cb_consecutiveSuccess := cb_consecutiveSuccess cb + 1\<rparr>"
  have ex: "fst (Execute cfg True t0 t1 fn (cb, s)) =
      (if cb_consecutiveSuccess cb + 1 \<ge> cc_successThreshold cfg then transitionLocked StateClosed ?cb else ?cb, s')"
    using half_open_success [where fn = fn and s = s, OF Cons.prems(1) _ fn] Cons.prems by (simp add: Let_def)
  show ?case
  proof (cases "cb_consecutiveSuccess cb + 1 \<ge> cc_successThreshold cfg")
    case True
    with Cons.prems(2) have "length ts \<le> 0" by (simp only: list.size of_nat_add of_nat_1)
    then have "ts = []" by simp
    with True ex t Cons.prems show ?thesis by (simp add: calls_run_def transitionLocked_def)
  next
    case False
    then show ?thesis using Cons.IH [of ?cb s'] Cons.prems ex t by (simp add: calls_run_def)
  qed
qed (simp add: calls_run_def)

lemma open_run:
  assumes "cb_state cb = StateOpen" and "cb_lastFailureTime cb + cc_resetTimeout cfg \<le> t0"
  shows "calls_run cfg fn ((t0, t1) # ts) (cb, s) =
    calls_run cfg fn ((t0, t1) # ts) (transitionLocked StateHalfOpen cb, s)"
proof -
  let ?cb = "transitionLocked StateHalfOpen cb"
  have half: "cb_state ?cb = StateHalfOpen" using assms by (simp add: transitionLocked_def)
  then have cur: "currentStateLocked cfg t0 cb = ?cb" "currentStateLocked cfg t0 ?cb = ?cb"
    using assms by (simp_all add: currentStateLocked_def)
  then have "fst (Execute cfg True t0 t1 fn (cb, s)) = fst (Execute cfg True t0 t1 fn (?cb, s))"
    using half by (simp add: Execute_def allowRequest_def Let_def split: sum.split prod.split bool.split)
  then show ?thesis by (simp add: calls_run_def)
qed

lemma half_open_exhausted:
  assumes "cb_state cb = StateHalfOpen" and "cb_halfOpenRequests cb = cc_halfOpenMaxRequests cfg"
  shows "calls_run cfg fn ts (cb, s) = (cb, s)"
proof -
  have "fst (Execute cfg True t0 t1 fn (cb, s)) = (cb, s)" for t0 t1
    using assms by (simp add: Execute_def breaker_defs)
  then show ?thesis by (induction ts) (auto simp: calls_run_def)
qed

section \<open>Properties\<close>

text \<open>
  An open breaker recovers: when the reset timeout has passed and the dependency works, with
  a probe limit that is not below the success threshold, the circuit is closed after exactly
  as many calls as the success threshold asks for.
\<close>

theorem breaker_recovers:
  assumes "\<And>s. \<exists>s' x. fn s = (s', Inr x)" and "cb_wf cfg" and "cc_successThreshold cfg \<le> cc_halfOpenMaxRequests cfg"
    and "cb_state cb = StateOpen" and "cb_lastFailureTime cb + cc_resetTimeout cfg \<le> start"
    and "int (length ts) + 1 = cc_successThreshold cfg"
  shows "cb_state (fst (calls_run cfg fn ((start, finish) # ts) (cb, s))) = StateClosed"
proof -
  let ?cb = "transitionLocked StateHalfOpen cb"
  have half: "cb_state ?cb = StateHalfOpen" "cb_halfOpenRequests ?cb = 0" "cb_consecutiveSuccess ?cb = 0"
    using assms(4) by (simp_all add: transitionLocked_def)
  from half_open_run [where fn = fn and cb = ?cb and ts = "(start, finish) # ts" and cfg = cfg and s = s, OF assms(1) half(1)]
  show ?thesis
    unfolding open_run [OF assms(4,5)] using half assms(2,3,6) by (simp add: cb_wf_def)
qed

text \<open>
  A probe limit below the success threshold locks the breaker for good: although the
  dependency works and every admitted probe succeeds, the circuit stays half-open and every
  later call is rejected, whenever it comes.
\<close>

theorem breaker_stuck_half_open:
  assumes "\<And>s. \<exists>s' x. fn s = (s', Inr x)" and "cb_wf cfg" and "cc_halfOpenMaxRequests cfg < cc_successThreshold cfg"
    and "cb_state cb = StateOpen" and "cb_lastFailureTime cb + cc_resetTimeout cfg \<le> start"
    and "int (length ts) + 1 = cc_halfOpenMaxRequests cfg"
  shows "cb_state (fst (calls_run cfg fn ((start, finish) # ts @ later) (cb, s))) = StateHalfOpen \<and>
    snd (calls_run cfg fn ((start, finish) # ts @ later) (cb, s)) = snd (calls_run cfg fn ((start, finish) # ts) (cb, s))"
proof -
  let ?cb = "transitionLocked StateHalfOpen cb"
  have half: "cb_state ?cb = StateHalfOpen" "cb_halfOpenRequests ?cb = 0" "cb_consecutiveSuccess ?cb = 0"
    using assms(4) by (simp_all add: transitionLocked_def)
  obtain cb' s' where run: "calls_run cfg fn ((start, finish) # ts) (cb, s) = (cb', s')"
    by (cases "calls_run cfg fn ((start, finish) # ts) (cb, s)")
  from half_open_run [where fn = fn and cb = ?cb and ts = "(start, finish) # ts" and cfg = cfg and s = s, OF assms(1) half(1)]
  have "cb_state cb' = StateHalfOpen \<and> cb_halfOpenRequests cb' = cc_halfOpenMaxRequests cfg"
    using run half assms(2,3,6) unfolding open_run [OF assms(4,5)] by (simp add: cb_wf_def)
  moreover have "calls_run cfg fn ((start, finish) # ts @ later) (cb, s) = calls_run cfg fn later (cb', s')"
    using run by (simp add: calls_run_def)
  ultimately show ?thesis using run by (simp add: half_open_exhausted)
qed

definition sample_breaker :: CircuitBreaker where
  "sample_breaker = \<lparr>cb_state = StateOpen, cb_consecutiveFailures = 5, cb_consecutiveSuccess = 0,
     cb_halfOpenRequests = 0, cb_lastFailureTime = 0\<rparr>"

lemma sample_options_wf: "cb_wf (fst (NewCircuitBreaker opts))"
  unfolding NewCircuitBreaker_def fst_conv by (rule apply_options_wf) (simp add: cb_wf_def)

theorem breaker_recovers_witness:
  "cb_state (fst (calls_run (fst (NewCircuitBreaker [])) (\<lambda>n :: nat. (n, Inr ()))
     [(11 * Second, 11 * Second), (12 * Second, 12 * Second)] (sample_breaker, 0))) = StateClosed"
  by (rule breaker_recovers [OF _ sample_options_wf]) (simp_all add: sample_breaker_def NewCircuitBreaker_def)

theorem breaker_stuck_half_open_witness:
  "cb_state (fst (calls_run (fst (NewCircuitBreaker [WithHalfOpenMax 1])) (\<lambda>n :: nat. (n, Inr ()))
     [(11 * Second, 11 * Second), (99 * Second, 99 * Second)] (sample_breaker, 0))) = StateHalfOpen"
  using breaker_stuck_half_open [where ts = "[]" and later = "[(99 * Second, 99 * Second)]" and cb = sample_breaker
      and cfg = "fst (NewCircuitBreaker [WithHalfOpenMax 1])" and fn = "\<lambda>n :: nat. (n, Inr ())"
      and start = "11 * Second" and finish = "11 * Second" and s = 0, OF _ sample_options_wf]
  by (simp add: sample_breaker_def NewCircuitBreaker_def)

end
