(* ===== verification/Transfer_Store.thy ===== *)
theory Transfer_Store
  imports Outbox_Store
begin

text \<open>
  The transfer database as the core engine sees it (\<^verbatim>\<open>src/store/transferdb/adapter.go\<close>,
  \<^verbatim>\<open>src/store/transferdb/outbox_store.go\<close> and the queries of
  \<^verbatim>\<open>src/store/transferdb/transfers.sql.go\<close>). A table is the list of its rows; a row of
  \<^verbatim>\<open>transfers\<close> is the domain transfer it is converted to. Every statement may fail; a
  transaction is applied completely or not at all. The adapter is the one without a PII
  encryptor, and a row-level-security pool runs the same queries.
\<close>

section \<open>State and environment\<close>

datatype transfer_payload =
    TransferSnapshot Transfer
  | TransferRef uuid uuid
  | ReservePayload TreasuryReservePayload
  | ReleasePayload TreasuryReleasePayload
  | ConsumePayload TreasuryConsumePayload
  | OnRampPayload ProviderOnRampPayload
  | OffRampPayload ProviderOffRampPayload
  | LedgerPayload LedgerPostPayload
  | BlockchainPayload BlockchainSendPayload
  | WebhookPayload WebhookDeliverPayload

type_synonym entry = "transfer_payload OutboxEntry"

record transfer_db =
  db_tenants :: "Tenant list"
  db_quotes :: "Quote list"
  db_transfers :: "Transfer list"
  db_outbox :: "transfer_payload outbox_table"

text \<open>
  The environment of one call: the clock, the identifiers that \<^verbatim>\<open>uuid.NewV7\<close> draws, the
  identifiers the database assigns to new rows, the rounding of a \<^verbatim>\<open>NUMERIC(28,k)\<close> column and of
  a 64-bit float, and which statements succeed (the \<open>k\<close>-th of its kind in the call). For the two
  transactions, 0 says whether the transaction is applied and 1 whether the acknowledgement of
  its commit arrives.
\<close>

datatype stmt =
    GetTenantStmt | GetTransferStmt | GetByKeyStmt | CountPendingStmt | DailyVolumeStmt
  | CreateQuoteStmt | GetQuoteStmt | CreateTransferTx | TransitionTx
  | CounterGet | CounterSeed | CounterIncr

record engine_env =
  ee_now :: instant
  ee_uuid :: "nat \<Rightarrow> uuid"
  ee_transfer_id :: uuid
  ee_quote_id :: uuid
  ee_numeric :: "nat \<Rightarrow> decimal \<Rightarrow> decimal"
  ee_float :: "decimal \<Rightarrow> decimal"
  ee_ok :: "stmt \<Rightarrow> nat \<Rightarrow> bool"

abbreviation db_error :: error where
  "db_error \<equiv> Errorf ''database error'' None"

abbreviation no_rows :: error where
  "no_rows \<equiv> Errorf ''no rows in result set'' None"

section \<open>Tenants\<close>

text \<open>
  \<^verbatim>\<open>tenantFromRow\<close> copies the columns it names; the pending-transfer limit and the
  notification settings keep their zero values.
\<close>

definition tenantFromRow :: "Tenant \<Rightarrow> Tenant" where
  "tenantFromRow row = row\<lparr>tn_MaxPendingTransfers := 0,
     tn_NotificationConfig := \<lparr>EmailEnabled = False, NotificationEmails = [], NotifyOnSuccess = False,
       NotifyOnFailure = False, NotifyOnDetection = False\<rparr>\<rparr>"

definition GetTenant :: "engine_env \<Rightarrow> transfer_db \<Rightarrow> uuid \<Rightarrow> Tenant result" where
  "GetTenant E db tenantID =
     (if \<not> ee_ok E GetTenantStmt 0 then Inl (Errorf ''settla-core: getting tenant'' (Some db_error))
      else case List.find (\<lambda>t. tn_ID t = tenantID) (db_tenants db) of
        None \<Rightarrow> Inl (Errorf ''settla-core: getting tenant'' (Some no_rows))
      | Some row \<Rightarrow> Inr (tenantFromRow row))"

section \<open>Quotes\<close>

definition CreateQuote :: "engine_env \<Rightarrow> Quote \<Rightarrow> transfer_db \<Rightarrow> transfer_db \<times> Quote result" where
  "CreateQuote E quote db =
     (if \<not> ee_ok E CreateQuoteStmt 0 then (db, Inl (Errorf ''settla-core: creating quote'' (Some db_error)))
      else let row = quote\<lparr>q_ID := ee_quote_id E, q_CreatedAt := ee_now E,
                 q_SourceAmount := ee_numeric E 8 (q_SourceAmount quote),
                 q_DestAmount := ee_numeric E 8 (q_DestAmount quote),
                 q_StableAmount := ee_numeric E 8 (q_StableAmount quote),
                 q_FXRate := ee_numeric E 12 (q_FXRate quote)\<rparr> in
           (db\<lparr>db_quotes := db_quotes db @ [row]\<rparr>,
            Inr (quote\<lparr>q_ID := ee_quote_id E, q_CreatedAt := ee_now E\<rparr>)))"

definition GetQuote :: "engine_env \<Rightarrow> transfer_db \<Rightarrow> uuid \<Rightarrow> uuid \<Rightarrow> Quote result" where
  "GetQuote E db tenantID quoteID =
     (if \<not> ee_ok E GetQuoteStmt 0 then Inl (Errorf ''settla-core: getting quote'' (Some db_error))
      else case List.find (\<lambda>q. q_ID q = quoteID \<and> q_TenantID q = tenantID) (db_quotes db) of
        None \<Rightarrow> Inl (Errorf ''settla-core: getting quote'' (Some no_rows))
      | Some q \<Rightarrow> Inr q)"

section \<open>Transfers\<close>

definition GetTransfer :: "engine_env \<Rightarrow> nat \<Rightarrow> transfer_db \<Rightarrow> uuid \<Rightarrow> uuid \<Rightarrow> Transfer result" where
  "GetTransfer E k db tenantID transferID =
     (if \<not> ee_ok E GetTransferStmt k then Inl (Errorf ''settla-core: getting transfer'' (Some db_error))
      else case List.find (\<lambda>t. t_ID t = transferID \<and> (tenantID = uuid_Nil \<or> t_TenantID t = tenantID))
                  (db_transfers db) of
        None \<Rightarrow> Inl (Errorf ''settla-core: getting transfer'' (Some no_rows))
      | Some t \<Rightarrow> Inr t)"

definition GetTransferByIdempotencyKey ::
  "engine_env \<Rightarrow> transfer_db \<Rightarrow> uuid \<Rightarrow> string \<Rightarrow> Transfer result" where
  "GetTransferByIdempotencyKey E db tenantID key =
     (if \<not> ee_ok E GetByKeyStmt 0
      then Inl (Errorf ''settla-core: getting transfer by idempotency key'' (Some db_error))
      else case List.find (\<lambda>t. t_TenantID t = tenantID \<and> key \<noteq> [] \<and> t_IdempotencyKey t = key \<and>
                  t_CreatedAt t \<ge> ee_now E - 72 * Hour) (db_transfers db) of
        None \<Rightarrow> Inl (Errorf ''settla-core: getting transfer by idempotency key'' (Some no_rows))
      | Some t \<Rightarrow> Inr t)"

definition CountPendingTransfers :: "engine_env \<Rightarrow> transfer_db \<Rightarrow> uuid \<Rightarrow> int result" where
  "CountPendingTransfers E db tenantID =
     (if \<not> ee_ok E CountPendingStmt 0
      then Inl (Errorf ''settla-store: counting pending transfers'' (Some db_error))
      else Inr (int (length (filter (\<lambda>t. t_TenantID t = tenantID \<and> t_Status t \<notin>
             {TransferStatusCompleted, TransferStatusFailed, TransferStatusRefunded}) (db_transfers db)))))"

abbreviation Day :: int where "Day \<equiv> 24 * Hour"

definition truncate_day :: "instant \<Rightarrow> instant" where
  "truncate_day t = t - t mod Day"

definition store_GetDailyVolume :: "engine_env \<Rightarrow> transfer_db \<Rightarrow> uuid \<Rightarrow> instant \<Rightarrow> decimal result" where
  "store_GetDailyVolume E db tenantID date =
     (let startOfDay = truncate_day date; endOfDay = startOfDay + Day in
      if \<not> ee_ok E DailyVolumeStmt 0
      then Inl (Errorf ''settla-core: getting daily volume'' (Some db_error))
      else Inr (ee_numeric E 8 (\<Sum>t\<leftarrow>filter (\<lambda>t. t_TenantID t = tenantID \<and> startOfDay \<le> t_CreatedAt t \<and>
             t_CreatedAt t < endOfDay \<and> t_Status t \<notin> {TransferStatusFailed, TransferStatusRefunded})
             (db_transfers db). t_StableAmount t)))"

section \<open>Transactions\<close>

definition transition_row :: "instant \<Rightarrow> TransferStatus \<Rightarrow> Transfer \<Rightarrow> Transfer" where
  "transition_row now newStatus t =
     t\<lparr>t_Status := newStatus, t_Version := t_Version t + 1, t_UpdatedAt := now,
       t_FundedAt := (if newStatus = TransferStatusFunded then Some now else t_FundedAt t),
       t_CompletedAt := (if newStatus = TransferStatusCompleted then Some now else t_CompletedAt t),
       t_FailedAt := (if newStatus = TransferStatusFailed then Some now else t_FailedAt t)\<rparr>"

definition TransitionTransferStatus ::
  "instant \<Rightarrow> TransferStatus \<Rightarrow> uuid \<Rightarrow> int \<Rightarrow> Transfer list \<Rightarrow> Transfer list \<times> nat" where
  "TransitionTransferStatus now newStatus ident expectedVersion rows =
     (map (\<lambda>t. if t_ID t = ident \<and> t_Version t = expectedVersion
                then transition_row now newStatus t else t) rows,
      length (filter (\<lambda>t. t_ID t = ident \<and> t_Version t = expectedVersion) rows))"

definition TransitionWithOutbox ::
  "engine_env \<Rightarrow> uuid \<Rightarrow> TransferStatus \<Rightarrow> int \<Rightarrow> entry list \<Rightarrow> transfer_db \<Rightarrow> transfer_db \<times> unit result" where
  "TransitionWithOutbox E transferID newStatus expectedVersion entries db =
     (if \<not> ee_ok E TransitionTx 0 then (db, Inl (Errorf ''settla-store: update transfer'' (Some db_error)))
      else case TransitionTransferStatus (ee_now E) newStatus transferID expectedVersion (db_transfers db) of
        (rows, affected) \<Rightarrow>
          if affected = 0 then (db, Inl (Errorf ''settla-store: transfer'' (Some SentinelOptimisticLock)))
          else (case InsertOutboxEntries (outboxEntriesToParams (ee_now E) entries) (db_outbox db) of
              Inl err \<Rightarrow> (db, Inl (Errorf ''settla-store: insert outbox entries for transfer'' (Some err)))
            | Inr outbox \<Rightarrow>
               (db\<lparr>db_transfers := rows, db_outbox := outbox\<rparr>,
                if ee_ok E TransitionTx 1 then Inr ()
                else Inl (Errorf ''settla-store: commit tx for transfer'' (Some db_error)))))"

text \<open>
  The insertion leaves the identifier, the version and the timestamps to the database; the fee
  schedule snapshot and the blockchain transactions have no parameter and are not stored.
\<close>

definition stored_transfer :: "engine_env \<Rightarrow> Transfer \<Rightarrow> Transfer" where
  "stored_transfer E t =
     t\<lparr>t_ID := ee_transfer_id E, t_Version := 0, t_CreatedAt := ee_now E, t_UpdatedAt := ee_now E,
       t_SourceAmount := ee_numeric E 8 (t_SourceAmount t), t_DestAmount := ee_numeric E 8 (t_DestAmount t),
       t_StableAmount := ee_numeric E 8 (t_StableAmount t), t_FXRate := ee_numeric E 12 (t_FXRate t),
       t_FeeScheduleSnapshot := None, t_BlockchainTxs := [], t_FundedAt := None, t_CompletedAt := None,
       t_FailedAt := None, t_FailureReason := [], t_FailureCode := []\<rparr>"

definition refresh_entry :: "Transfer \<Rightarrow> entry \<Rightarrow> entry" where
  "refresh_entry transfer e =
     e\<lparr>ob_AggregateID := (if ob_AggregateID e = uuid_Nil then t_ID transfer else ob_AggregateID e),
       ob_Payload := (if ob_AggregateType e = ''transfer'' \<and> \<not> ob_IsIntent e
                      then Some (TransferSnapshot transfer) else ob_Payload e)\<rparr>"

definition CreateTransferWithOutbox ::
  "engine_env \<Rightarrow> Transfer \<Rightarrow> entry list \<Rightarrow> transfer_db \<Rightarrow> transfer_db \<times> Transfer result" where
  "CreateTransferWithOutbox E transfer entries db =
     (if \<not> ee_ok E CreateTransferTx 0 then (db, Inl (Errorf ''settla-store: creating transfer'' (Some db_error)))
      else let row = stored_transfer E transfer;
               transfer = transfer\<lparr>t_ID := t_ID row, t_Version := t_Version row,
                            t_CreatedAt := t_CreatedAt row, t_UpdatedAt := t_UpdatedAt row\<rparr>;
               entries = map (refresh_entry transfer) entries in
           case InsertOutboxEntries (outboxEntriesToParams (ee_now E) entries) (db_outbox db) of
             Inl err \<Rightarrow> (db, Inl (Errorf ''settla-store: insert outbox entries for new transfer'' (Some err)))
           | Inr outbox \<Rightarrow>
              (db\<lparr>db_transfers := db_transfers db @ [row], db_outbox := outbox\<rparr>,
               if ee_ok E CreateTransferTx 1 then Inr transfer
               else Inl (Errorf ''settla-store: commit tx for new transfer'' (Some db_error))))"

end
