(* ===== verification/Engine.thy ===== *)
theory Engine
  imports Transfer_Store
begin

text \<open>
  The settlement engine (\<^verbatim>\<open>src/core/engine.go\<close>): creation of transfers and the handlers that move
  them. Every handler reads the database, computes the next status and the outbox entries, and
  commits both in one transaction guarded by the version it has read. A handler takes the
  databases its reads see as an argument, apart from the database its commit meets, so that
  the runs of several workers may interleave; a sequential call passes the same database twice.
  Tracing, logging and metrics are not modelled.
\<close>

section \<open>Helpers\<close>

abbreviation transfer_intent :: "engine_env \<Rightarrow> nat \<Rightarrow> Transfer \<Rightarrow> string \<Rightarrow> transfer_payload \<Rightarrow> entry result" where
  "transfer_intent E k t eventType payload \<equiv>
     NewOutboxIntent (ee_uuid E k) (ee_now E) ''transfer'' (t_ID t) (t_TenantID t) eventType (Some payload)"

abbreviation transfer_event :: "engine_env \<Rightarrow> nat \<Rightarrow> Transfer \<Rightarrow> string \<Rightarrow> transfer_payload \<Rightarrow> entry result" where
  "transfer_event E k t eventType payload \<equiv>
     NewOutboxEvent (ee_uuid E k) (ee_now E) ''transfer'' (t_ID t) (t_TenantID t) eventType (Some payload)"

definition transferEventPayload :: "uuid \<Rightarrow> uuid \<Rightarrow> transfer_payload" where
  "transferEventPayload transferID tenantID = TransferRef transferID tenantID"

fun buildOutboxEntries :: "'p OutboxEntry result list \<Rightarrow> 'p OutboxEntry list result" where
  "buildOutboxEntries [] = Inr []"
| "buildOutboxEntries (Inl err # rs) = Inl err"
| "buildOutboxEntries (Inr e # rs) =
     (case buildOutboxEntries rs of Inl err \<Rightarrow> Inl err | Inr es \<Rightarrow> Inr (e # es))"

definition setCorrelationID :: "'p OutboxEntry list \<Rightarrow> uuid \<Rightarrow> 'p OutboxEntry list" where
  "setCorrelationID entries corr = map (\<lambda>e. WithCorrelationID e corr) entries"

definition loadTransfer :: "engine_env \<Rightarrow> nat \<Rightarrow> transfer_db \<Rightarrow> uuid \<Rightarrow> uuid \<Rightarrow> Transfer result" where
  "loadTransfer E k db tenantID transferID =
     (case GetTransfer E k db tenantID transferID of
        Inl err \<Rightarrow> Inl (Errorf ''loading transfer'' (Some err))
      | Inr t \<Rightarrow> Inr t)"

definition loadTransferForStep ::
  "engine_env \<Rightarrow> nat \<Rightarrow> transfer_db \<Rightarrow> uuid \<Rightarrow> uuid \<Rightarrow> TransferStatus \<Rightarrow> Transfer result" where
  "loadTransferForStep E k db tenantID transferID expectedStatus =
     (case loadTransfer E k db tenantID transferID of
        Inl err \<Rightarrow> Inl err
      | Inr t \<Rightarrow>
         if t_Status t \<noteq> expectedStatus
         then Inl (ErrInvalidTransition (status_string (t_Status t)) ''next'') else Inr t)"

definition wrapTransitionError :: "error \<Rightarrow> string \<Rightarrow> error" where
  "wrapTransitionError err step =
     (if errors_Is_lock err
      then Errorf (''settla-core: '' @ step @ '': concurrent modification'') (Some SentinelOptimisticLock)
      else Errorf (''settla-core: '' @ step) (Some err))"

text \<open>
  \<^verbatim>\<open>validateLedgerLines\<close> gives every line a new identifier and runs the domain's check.
\<close>

definition entry_line :: "uuid \<Rightarrow> LedgerLineEntry \<Rightarrow> EntryLine" where
  "entry_line fresh l = \<lparr>p_AccountCode = ll_AccountCode l, p_EntryType = ll_EntryType l,
     p_Amount = ll_Amount l, p_Currency = ll_Currency l, p_Description = [],
     l_ID = fresh, l_AccountID = uuid_Nil\<rparr>"

definition validateLedgerLines :: "(nat \<Rightarrow> uuid) \<Rightarrow> LedgerLineEntry list \<Rightarrow> unit result" where
  "validateLedgerLines fresh lines =
     ValidateEntries (map (\<lambda>(i, l). entry_line (fresh i) l) (enumerate 0 lines))"

text \<open>The tail of every handler: build the entries, set their correlation, commit.\<close>

definition transition_step ::
  "engine_env \<Rightarrow> string \<Rightarrow> Transfer \<Rightarrow> TransferStatus \<Rightarrow> entry result list \<Rightarrow> transfer_db \<Rightarrow>
   transfer_db \<times> unit result" where
  "transition_step E step t newStatus results db =
     (case buildOutboxEntries results of
        Inl err \<Rightarrow> (db, Inl (Errorf (''settla-core: '' @ step @ '': building outbox entries'') (Some err)))
      | Inr entries \<Rightarrow>
         (case TransitionWithOutbox E (t_ID t) newStatus (t_Version t)
                 (setCorrelationID entries (t_ID t)) db of
            (db', Inl err) \<Rightarrow> (db', Inl (wrapTransitionError err step))
          | (db', Inr _) \<Rightarrow> (db', Inr ())))"

definition bank_location :: "Transfer \<Rightarrow> string" where
  "bank_location t = ''bank:'' @ ToLower (t_SourceCurrency t)"

definition releasePayload :: "Transfer \<Rightarrow> string \<Rightarrow> transfer_payload" where
  "releasePayload t reason = ReleasePayload \<lparr>lp_TransferID = t_ID t, lp_TenantID = t_TenantID t,
     lp_Currency = t_SourceCurrency t, lp_Amount = t_SourceAmount t, lp_Location = bank_location t,
     lp_Reason = reason\<rparr>"

section \<open>Replay detection\<close>

fun advancedPastStates :: "TransferStatus \<Rightarrow> (TransferStatus \<times> bool) list option" where
  "advancedPastStates TransferStatusOnRamping =
     Some [(TransferStatusSettling, True), (TransferStatusOffRamping, True)]"
| "advancedPastStates TransferStatusSettling = Some [(TransferStatusOffRamping, True)]"
| "advancedPastStates _ = None"

definition isAdvancedPast :: "TransferStatus \<Rightarrow> TransferStatus \<Rightarrow> bool" where
  "isAdvancedPast currentStatus expectedStatus =
     (case advancedPastStates expectedStatus of
        None \<Rightarrow> False
      | Some past \<Rightarrow> (case map_of past currentStatus of None \<Rightarrow> False | Some b \<Rightarrow> b))"

section \<open>Daily volume\<close>

text \<open>
  The two ways of tracking a tenant's volume of the day: the counter kept in Redis
  (\<^verbatim>\<open>src/cache/daily_volume.go\<close>) when one is configured, and the in-memory cache otherwise. Keys
  are a tenant and a day; a Redis value is a 64-bit float.
\<close>

type_synonym volume_key = "uuid \<times> instant"

record volume_state =
  vs_cache :: "(volume_key \<times> decimal \<times> instant) list"
  vs_counter :: "(volume_key \<times> decimal) list"

record engine =
  eg_router :: "uuid \<Rightarrow> currency \<times> decimal \<times> currency \<times> string \<Rightarrow> Quote result"
  eg_registry :: "((string \<Rightarrow> bool) \<times> (string \<Rightarrow> bool)) option"
  eg_counter :: bool
  eg_require_counter :: bool

definition dailyVolumeCacheTTL :: int where
  "dailyVolumeCacheTTL = 5 * Second"

definition counter_GetDailyVolume :: "engine_env \<Rightarrow> volume_state \<Rightarrow> volume_key \<Rightarrow> decimal result" where
  "counter_GetDailyVolume E vs key =
     (if \<not> ee_ok E CounterGet 0 then Inl (Errorf ''settla-cache: get daily volume'' None)
      else Inr (case map_of (vs_counter vs) key of None \<Rightarrow> 0 | Some v \<Rightarrow> v))"

definition SeedDailyVolume :: "engine_env \<Rightarrow> volume_key \<Rightarrow> decimal \<Rightarrow> volume_state \<Rightarrow> volume_state" where
  "SeedDailyVolume E key amount vs =
     (if \<not> ee_ok E CounterSeed 0 then vs
      else case map_of (vs_counter vs) key of
        None \<Rightarrow> vs\<lparr>vs_counter := AList.update key (ee_float E amount) (vs_counter vs)\<rparr>
      | Some _ \<Rightarrow> vs)"

definition counter_IncrDailyVolume :: "engine_env \<Rightarrow> volume_key \<Rightarrow> decimal \<Rightarrow> volume_state \<Rightarrow> volume_state" where
  "counter_IncrDailyVolume E key amount vs =
     (if \<not> ee_ok E CounterIncr 0 then vs
      else vs\<lparr>vs_counter := AList.update key
             (ee_float E ((case map_of (vs_counter vs) key of None \<Rightarrow> 0 | Some v \<Rightarrow> v) + ee_float E amount))
             (vs_counter vs)\<rparr>)"

definition getDailyVolume ::
  "engine \<Rightarrow> engine_env \<Rightarrow> transfer_db \<Rightarrow> uuid \<Rightarrow> instant \<Rightarrow> volume_state \<Rightarrow> volume_state \<times> decimal result" where
  "getDailyVolume eg E db tenantID today vs =
     (if eg_counter eg then
        (case counter_GetDailyVolume E vs (tenantID, today) of
           Inr vol \<Rightarrow>
             if vol \<noteq> 0 then (vs, Inr vol)
             else (case store_GetDailyVolume E db tenantID today of
                     Inl dbErr \<Rightarrow> (vs, Inl dbErr)
                   | Inr dbVol \<Rightarrow> (SeedDailyVolume E (tenantID, today) dbVol vs, Inr dbVol))
         | Inl err \<Rightarrow>
             (case store_GetDailyVolume E db tenantID today of
                Inl dbErr \<Rightarrow> (vs, Inl dbErr)
              | Inr dbVol \<Rightarrow> (SeedDailyVolume E (tenantID, today) dbVol vs, Inr dbVol)))
      else if eg_require_counter eg
      then (vs, Inl (Errorf ''settla-core: daily volume counter required but not configured'' None))
      else
        (case map_of (vs_cache vs) (tenantID, today) of
           Some (volume, expiresAt) \<Rightarrow>
             if ee_now E < expiresAt then (vs, Inr volume)
             else (case store_GetDailyVolume E db tenantID today of
                     Inl err \<Rightarrow> (vs\<lparr>vs_cache := AList.delete (tenantID, today) (vs_cache vs)\<rparr>, Inl err)
                   | Inr vol \<Rightarrow>
                      (vs\<lparr>vs_cache := AList.update (tenantID, today) (vol, ee_now E + dailyVolumeCacheTTL) (vs_cache vs)\<rparr>,
                       Inr vol))
         | None \<Rightarrow>
             (case store_GetDailyVolume E db tenantID today of
                Inl err \<Rightarrow> (vs, Inl err)
              | Inr vol \<Rightarrow>
                 (vs\<lparr>vs_cache := AList.update (tenantID, today) (vol, ee_now E + dailyVolumeCacheTTL) (vs_cache vs)\<rparr>,
                  Inr vol))))"

definition incrDailyVolume ::
  "engine \<Rightarrow> engine_env \<Rightarrow> uuid \<Rightarrow> instant \<Rightarrow> decimal \<Rightarrow> volume_state \<Rightarrow> volume_state" where
  "incrDailyVolume eg E tenantID today amount vs =
     (if eg_counter eg then counter_IncrDailyVolume E (tenantID, today) amount vs
      else case map_of (vs_cache vs) (tenantID, today) of
        Some (volume, expiresAt) \<Rightarrow>
          vs\<lparr>vs_cache := AList.update (tenantID, today) (volume + amount, expiresAt) (vs_cache vs)\<rparr>
      | None \<Rightarrow> vs)"

section \<open>Creation\<close>

record CreateTransferRequest =
  cr_ExternalRef :: string
  cr_IdempotencyKey :: string
  cr_SourceCurrency :: currency
  cr_SourceAmount :: decimal
  cr_DestCurrency :: currency
  cr_Sender :: Sender
  cr_Recipient :: Recipient
  cr_QuoteID :: "uuid option"

text \<open>Step b: validation of the request. The amounts in the texts of errors are left out.\<close>

definition validate_request :: "CreateTransferRequest \<Rightarrow> unit result" where
  "validate_request req =
     (if \<not> 0 < cr_SourceAmount req then Inl (ErrAmountTooLow [] ''0'')
      else case ValidateCurrency (cr_SourceCurrency req) of
        Inl err \<Rightarrow> Inl (Errorf ''settla-core: create transfer'' (Some err))
      | Inr _ \<Rightarrow> (case ValidateCurrency (cr_DestCurrency req) of
        Inl err \<Rightarrow> Inl (Errorf ''settla-core: create transfer'' (Some err))
      | Inr _ \<Rightarrow> (case Sender_Validate (cr_Sender req) of
        Inl err \<Rightarrow> Inl (Errorf ''settla-core: create transfer'' (Some err))
      | Inr _ \<Rightarrow>
         let r = cr_Recipient req; acctNum = rc_AccountNumber r in
         if rc_Name r = [] \<or> rc_Country r = []
         then Inl (Errorf ''settla-core: create transfer: recipient name and country are required'' None)
         else if acctNum \<noteq> [] \<and> (length acctNum < 4 \<or> length acctNum > 34)
         then Inl (Errorf ''settla-core: create transfer: recipient account_number must be 4-34 characters'' None)
         else if acctNum \<noteq> [] \<and> \<not> list_all account_char acctNum
         then Inl (Errorf ''settla-core: create transfer: recipient account_number contains invalid character'' None)
         else if acctNum \<noteq> [] \<and> rc_BankName r = []
         then Inl (Errorf ''settla-core: create transfer: recipient bank_name is required when account_number is provided'' None)
         else Inr ())))"

text \<open>Step d: the quote of the request, or a new one that is persisted.\<close>

definition resolve_quote ::
  "lib \<Rightarrow> engine \<Rightarrow> engine_env \<Rightarrow> uuid \<Rightarrow> CreateTransferRequest \<Rightarrow> transfer_db \<Rightarrow> transfer_db \<times> Quote result" where
  "resolve_quote L eg E tenantID req db =
     (case cr_QuoteID req of
        Some quoteID \<Rightarrow>
          (case GetQuote E db tenantID quoteID of
             Inl err \<Rightarrow> (db, Inl (Errorf ''settla-core: create transfer: fetching quote'' (Some err)))
           | Inr quote \<Rightarrow>
              if q_TenantID quote \<noteq> tenantID
              then (db, Inl (Errorf ''settla-core: create transfer: quote belongs to different tenant'' None))
              else if Quote_IsExpired (ee_now E) quote
              then (db, Inl (ErrQuoteExpired (uuid_string L quoteID)))
              else (db, Inr quote))
      | None \<Rightarrow>
          (case eg_router eg tenantID
                  (cr_SourceCurrency req, cr_SourceAmount req, cr_DestCurrency req, rc_Country (cr_Recipient req)) of
             Inl err \<Rightarrow> (db, Inl (Errorf ''settla-core: create transfer: getting quote'' (Some err)))
           | Inr quote \<Rightarrow>
              (case CreateQuote E quote db of
                 (db', Inl err) \<Rightarrow> (db', Inl (Errorf ''settla-core: create transfer: persisting inline quote'' (Some err)))
               | (db', Inr quote) \<Rightarrow> (db', Inr quote))))"

text \<open>Steps d2 to e: checks of the quote against the request, the registry and the tenant.\<close>

definition check_quote :: "engine \<Rightarrow> Tenant \<Rightarrow> CreateTransferRequest \<Rightarrow> Quote \<Rightarrow> unit result" where
  "check_quote eg tenant req quote =
     (if q_SourceCurrency quote \<noteq> cr_SourceCurrency req
      then Inl (Errorf ''settla-core: create transfer: quote source currency does not match'' None)
      else if q_DestCurrency quote \<noteq> cr_DestCurrency req
      then Inl (Errorf ''settla-core: create transfer: quote dest currency does not match'' None)
      else case Quote_Validate quote of
        Inl err \<Rightarrow> Inl (Errorf ''settla-core: create transfer: quote validation failed'' (Some err))
      | Inr _ \<Rightarrow>
         if (case eg_registry eg of None \<Rightarrow> False | Some (onRamp, offRamp) \<Rightarrow> \<not> onRamp (ri_OnRampProvider (q_Route quote)))
         then Inl (ErrProviderUnavailable (ri_OnRampProvider (q_Route quote)))
         else if (case eg_registry eg of None \<Rightarrow> False | Some (onRamp, offRamp) \<Rightarrow> \<not> offRamp (ri_OffRampProvider (q_Route quote)))
         then Inl (ErrProviderUnavailable (ri_OffRampProvider (q_Route quote)))
         else (case ValidateChain (ri_Chain (q_Route quote)) of
           Inl err \<Rightarrow> Inl (Errorf ''settla-core: create transfer'' (Some err))
         | Inr _ \<Rightarrow>
            if tn_PerTransferLimit tenant \<noteq> 0 \<and> q_StableAmount quote > tn_PerTransferLimit tenant
            then Inl (ErrAmountTooHigh [] []) else Inr ()))"

definition new_transfer ::
  "engine_env \<Rightarrow> Tenant \<Rightarrow> uuid \<Rightarrow> CreateTransferRequest \<Rightarrow> Quote \<Rightarrow> Transfer" where
  "new_transfer E tenant tenantID req quote = \<lparr>
     t_ID = ee_uuid E 0, t_TenantID = tenantID, t_ExternalRef = cr_ExternalRef req,
     t_IdempotencyKey = cr_IdempotencyKey req, t_Status = TransferStatusCreated, t_Version = 1,
     t_SourceCurrency = cr_SourceCurrency req, t_SourceAmount = cr_SourceAmount req,
     t_DestCurrency = cr_DestCurrency req, t_DestAmount = q_DestAmount quote,
     t_StableCoin = ri_StableCoin (q_Route quote), t_StableAmount = q_StableAmount quote,
     t_Chain = ri_Chain (q_Route quote), t_FXRate = q_FXRate quote, t_Fees = q_Fees quote,
     t_FeeScheduleSnapshot = Some (tn_FeeSchedule tenant),
     t_OnRampProviderID = ri_OnRampProvider (q_Route quote),
     t_OffRampProviderID = ri_OffRampProvider (q_Route quote),
     t_Sender = cr_Sender req, t_Recipient = cr_Recipient req,
     t_QuoteID = (case cr_QuoteID req of Some qid \<Rightarrow> Some qid | None \<Rightarrow> Some (q_ID quote)),
     t_BlockchainTxs = [], t_CreatedAt = ee_now E, t_UpdatedAt = ee_now E,
     t_FundedAt = None, t_CompletedAt = None, t_FailedAt = None, t_FailureReason = [], t_FailureCode = []\<rparr>"

text \<open>Steps g2 to g4: the fees of the new transfer.\<close>

definition check_fees :: "Transfer \<Rightarrow> unit result" where
  "check_fees t =
     (case FeeBreakdown_Validate (t_Fees t) of
        Inl err \<Rightarrow> Inl (Errorf ''settla-core: create transfer'' (Some err))
      | Inr _ \<Rightarrow>
         if TotalFeeUSD (t_Fees t) \<ge> t_SourceAmount t
         then Inl (Errorf ''settla-core: create transfer: total fees must be less than source amount'' None)
         else if TotalFeeUSD (t_Fees t) = 0
         then Inl (Errorf ''settla-core: create transfer: zero fees not permitted'' None)
         else Inr ())"

text \<open>Step f: the daily limit.\<close>

definition check_daily_limit ::
  "lib \<Rightarrow> engine \<Rightarrow> engine_env \<Rightarrow> transfer_db \<Rightarrow> Tenant \<Rightarrow> uuid \<Rightarrow> decimal \<Rightarrow> volume_state \<Rightarrow>
   volume_state \<times> unit result" where
  "check_daily_limit L eg E db tenant tenantID amount vs =
     (if tn_DailyLimitUSD tenant = 0 then (vs, Inr ())
      else case getDailyVolume eg E db tenantID (truncate_day (ee_now E)) vs of
        (vs', Inl err) \<Rightarrow> (vs', Inl (Errorf ''settla-core: create transfer: checking daily volume'' (Some err)))
      | (vs', Inr dailyVolume) \<Rightarrow>
         if dailyVolume + amount > tn_DailyLimitUSD tenant
         then (vs', Inl (ErrDailyLimitExceeded (uuid_string L tenantID))) else (vs', Inr ()))"

text \<open>
  The steps of \<^verbatim>\<open>CreateTransfer\<close> up to the transaction (a hit of the idempotency key ends the
  call with the existing transfer), and the transaction with the volume update that follows it.
\<close>

type_synonym engine_state = "transfer_db \<times> volume_state"

definition create_prepare ::
  "lib \<Rightarrow> engine \<Rightarrow> engine_env \<Rightarrow> uuid \<Rightarrow> CreateTransferRequest \<Rightarrow> engine_state \<Rightarrow>
   engine_state \<times> (Transfer + Tenant \<times> Transfer \<times> entry list) result" where
  "create_prepare L eg E tenantID req st =
     (case st of (db, vs) \<Rightarrow>
      (case GetTenant E db tenantID of
         Inl err \<Rightarrow> (st, Inl (Errorf ''settla-core: create transfer: loading tenant'' (Some err)))
       | Inr tenant \<Rightarrow>
      if \<not> Tenant_IsActive tenant then (st, Inl (ErrTenantSuspended (uuid_string L tenantID)))
      else (case validate_request req of
         Inl err \<Rightarrow> (st, Inl err)
       | Inr _ \<Rightarrow>
      (case (if cr_IdempotencyKey req \<noteq> []
             then GetTransferByIdempotencyKey E db tenantID (cr_IdempotencyKey req) else Inl no_rows) of
         Inr existing \<Rightarrow> (st, Inr (Inl existing))
       | Inl _ \<Rightarrow>
      (case (if tn_MaxPendingTransfers tenant > 0 then CountPendingTransfers E db tenantID else Inr (- 1)) of
         Inl err \<Rightarrow> (st, Inl (Errorf ''settla-core: create transfer: counting pending transfers'' (Some err)))
       | Inr count \<Rightarrow>
      if tn_MaxPendingTransfers tenant > 0 \<and> count \<ge> tn_MaxPendingTransfers tenant
      then (st, Inl (Errorf ''settla-core: create transfer: tenant exceeded max pending transfers'' None))
      else (case resolve_quote L eg E tenantID req db of
         (db', Inl err) \<Rightarrow> ((db', vs), Inl err)
       | (db', Inr quote) \<Rightarrow>
      (case check_quote eg tenant req quote of
         Inl err \<Rightarrow> ((db', vs), Inl err)
       | Inr _ \<Rightarrow>
      (case check_daily_limit L eg E db' tenant tenantID (q_StableAmount quote) vs of
         (vs', Inl err) \<Rightarrow> ((db', vs'), Inl err)
       | (vs', Inr _) \<Rightarrow>
      let t = new_transfer E tenant tenantID req quote in
      (case check_fees t of
         Inl err \<Rightarrow> ((db', vs'), Inl err)
       | Inr _ \<Rightarrow>
      (case buildOutboxEntries [NewOutboxEvent (ee_uuid E 1) (ee_now E) ''transfer'' (t_ID t) tenantID
                                  EventTransferCreated (Some (TransferSnapshot t))] of
         Inl err \<Rightarrow> ((db', vs'), Inl (Errorf ''settla-core: create transfer: building outbox entries'' (Some err)))
       | Inr entries \<Rightarrow>
          ((db', vs'), Inr (Inr (tenant, t, setCorrelationID entries (t_ID t))))))))))))))"

definition create_commit ::
  "engine \<Rightarrow> engine_env \<Rightarrow> uuid \<Rightarrow> Tenant \<Rightarrow> Transfer \<Rightarrow> entry list \<Rightarrow> engine_state \<Rightarrow>
   engine_state \<times> Transfer result" where
  "create_commit eg E tenantID tenant t entries st =
     (case st of (db, vs) \<Rightarrow>
      (case CreateTransferWithOutbox E t entries db of
         (db', Inl err) \<Rightarrow> ((db', vs), Inl (Errorf ''settla-core: create transfer: persisting'' (Some err)))
       | (db', Inr t') \<Rightarrow>
          ((db', if tn_DailyLimitUSD tenant \<noteq> 0
                 then incrDailyVolume eg E tenantID (truncate_day (ee_now E)) (t_StableAmount t) vs else vs),
           Inr t')))"

definition CreateTransfer ::
  "lib \<Rightarrow> engine \<Rightarrow> engine_env \<Rightarrow> uuid \<Rightarrow> CreateTransferRequest \<Rightarrow> engine_state \<Rightarrow>
   engine_state \<times> Transfer result" where
  "CreateTransfer L eg E tenantID req st =
     (case create_prepare L eg E tenantID req st of
        (st', Inl err) \<Rightarrow> (st', Inl err)
      | (st', Inr (Inl existing)) \<Rightarrow> (st', Inr existing)
      | (st', Inr (Inr (tenant, t, entries))) \<Rightarrow> create_commit eg E tenantID tenant t entries st')"

definition engine_GetQuote ::
  "lib \<Rightarrow> engine \<Rightarrow> engine_env \<Rightarrow> uuid \<Rightarrow> currency \<times> decimal \<times> currency \<times> string \<Rightarrow> transfer_db \<Rightarrow>
   transfer_db \<times> Quote result" where
  "engine_GetQuote L eg E tenantID req db =
     (case GetTenant E db tenantID of
        Inl err \<Rightarrow> (db, Inl (Errorf ''settla-core: get quote: loading tenant'' (Some err)))
      | Inr tenant \<Rightarrow>
         if \<not> Tenant_IsActive tenant then (db, Inl (ErrTenantSuspended (uuid_string L tenantID)))
         else (case eg_router eg tenantID req of
            Inl err \<Rightarrow> (db, Inl (Errorf ''settla-core: get quote'' (Some err)))
          | Inr quote \<Rightarrow>
             (case CreateQuote E quote db of
                (db', Inl err) \<Rightarrow> (db', Inl (Errorf ''settla-core: get quote: persisting'' (Some err)))
              | (db', Inr quote) \<Rightarrow> (db', Inr quote))))"

definition GetQuoteByID :: "lib \<Rightarrow> engine_env \<Rightarrow> transfer_db \<Rightarrow> uuid \<Rightarrow> uuid \<Rightarrow> Quote result" where
  "GetQuoteByID L E db tenantID quoteID =
     (case GetQuote E db tenantID quoteID of
        Inl err \<Rightarrow> Inl (Errorf ''settla-core: get quote'' (Some err))
      | Inr quote \<Rightarrow>
         if Quote_IsExpired (ee_now E) quote then Inl (ErrQuoteExpired (uuid_string L quoteID))
         else Inr quote)"

definition engine_GetTransfer :: "engine_env \<Rightarrow> transfer_db \<Rightarrow> uuid \<Rightarrow> uuid \<Rightarrow> Transfer result" where
  "engine_GetTransfer E db tenantID transferID =
     (case GetTransfer E 0 db tenantID transferID of
        Inl err \<Rightarrow> Inl (Errorf ''settla-core: get transfer'' (Some err))
      | Inr t \<Rightarrow> Inr t)"

section \<open>Funding and on-ramp\<close>

definition FundTransfer ::
  "engine_env \<Rightarrow> uuid \<Rightarrow> uuid \<Rightarrow> transfer_db \<Rightarrow> transfer_db \<Rightarrow> transfer_db \<times> unit result" where
  "FundTransfer E tenantID transferID rd db =
     (case loadTransferForStep E 0 rd tenantID transferID TransferStatusCreated of
        Inl err \<Rightarrow> (db, Inl (Errorf ''settla-core: fund transfer'' (Some err)))
      | Inr t \<Rightarrow>
         transition_step E ''fund transfer'' t TransferStatusFunded
           [transfer_intent E 0 t IntentTreasuryReserve
              (ReservePayload \<lparr>rp_TransferID = t_ID t, rp_TenantID = t_TenantID t,
                 rp_Currency = t_SourceCurrency t, rp_Amount = t_SourceAmount t,
                 rp_Location = bank_location t\<rparr>),
            transfer_event E 1 t EventTransferFunded (transferEventPayload (t_ID t) (t_TenantID t))] db)"

definition dedupKey :: "RouteAlternative \<Rightarrow> string" where
  "dedupKey alt = ra_OnRampProvider alt @ '':'' @ ra_OffRampProvider alt @ '':'' @ ra_Chain alt"

fun onramp_fallbacks :: "string list \<Rightarrow> RouteAlternative list \<Rightarrow> OnRampFallback list" where
  "onramp_fallbacks seen [] = []"
| "onramp_fallbacks seen (alt # alts) =
     (if dedupKey alt \<in> set seen then onramp_fallbacks seen alts
      else \<lparr>of_ProviderID = ra_OnRampProvider alt, of_OffRampProvider = ra_OffRampProvider alt,
             of_Chain = ra_Chain alt, of_StableCoin = ra_StableCoin alt, of_Fee = ra_Fee alt,
             of_Rate = ra_Rate alt, of_StableAmount = ra_StableAmount alt\<rparr>
           # onramp_fallbacks (dedupKey alt # seen) alts)"

definition quote_alternatives :: "engine_env \<Rightarrow> transfer_db \<Rightarrow> Transfer \<Rightarrow> RouteAlternative list" where
  "quote_alternatives E db t =
     (case t_QuoteID t of
        None \<Rightarrow> []
      | Some quoteID \<Rightarrow>
         (case GetQuote E db (t_TenantID t) quoteID of
            Inl err \<Rightarrow> []
          | Inr quote \<Rightarrow> ri_AlternativeRoutes (q_Route quote)))"

definition InitiateOnRamp ::
  "lib \<Rightarrow> engine_env \<Rightarrow> uuid \<Rightarrow> uuid \<Rightarrow> transfer_db \<Rightarrow> transfer_db \<Rightarrow> transfer_db \<times> unit result" where
  "InitiateOnRamp L E tenantID transferID rd db =
     (case loadTransferForStep E 0 rd tenantID transferID TransferStatusFunded of
        Inl err \<Rightarrow> (db, Inl (Errorf ''settla-core: on-ramp transfer'' (Some err)))
      | Inr t \<Rightarrow>
         transition_step E ''on-ramp transfer'' t TransferStatusOnRamping
           [transfer_intent E 0 t IntentProviderOnRamp
              (OnRampPayload \<lparr>on_TransferID = t_ID t, on_TenantID = t_TenantID t,
                 on_ProviderID = t_OnRampProviderID t, on_Amount = t_SourceAmount t,
                 on_FromCurrency = t_SourceCurrency t, on_ToCurrency = t_StableCoin t,
                 on_Reference = uuid_string L (t_ID t),
                 on_Alternatives = onramp_fallbacks [] (quote_alternatives E rd t),
                 on_QuotedRate = t_FXRate t\<rparr>)] db)"

abbreviation ledger_line :: "string \<Rightarrow> EntryType \<Rightarrow> decimal \<Rightarrow> currency \<Rightarrow> string \<Rightarrow> LedgerLineEntry" where
  "ledger_line code ty amount cur descr \<equiv>
     \<lparr>ll_AccountCode = code, ll_EntryType = ty, ll_Amount = amount, ll_Currency = cur,
      ll_Description = descr\<rparr>"

definition crypto_account :: "Transfer \<Rightarrow> string" where
  "crypto_account t = ''assets:crypto:'' @ ToLower (t_StableCoin t) @ '':'' @ ToLower (t_Chain t)"

definition clearing_account :: "string \<Rightarrow> Transfer \<Rightarrow> string" where
  "clearing_account slug t =
     TenantAccountCode slug (''assets:bank:'' @ ToLower (t_SourceCurrency t) @ '':clearing'')"

definition onRampLines :: "string \<Rightarrow> Transfer \<Rightarrow> LedgerLineEntry list" where
  "onRampLines slug t =
     [ledger_line (crypto_account t) EntryTypeDebit (t_StableAmount t) (t_StableCoin t) ''Debit crypto asset'',
      ledger_line ''expenses:provider:onramp'' EntryTypeDebit (OnRampFee (t_Fees t)) (t_SourceCurrency t)
        ''Debit on-ramp fee'',
      ledger_line (clearing_account slug t) EntryTypeCredit (t_SourceAmount t) (t_SourceCurrency t)
        ''Credit clearing account'']"

text \<open>The reversal lines of the failure and refund paths; \<open>what\<close> is the word of the descriptions.\<close>

definition reversalLines :: "string \<Rightarrow> Transfer \<Rightarrow> string \<times> string \<times> string \<Rightarrow> LedgerLineEntry list" where
  "reversalLines slug t descrs =
     (case descrs of (d1, d2, d3) \<Rightarrow>
       [ledger_line (crypto_account t) EntryTypeCredit (t_StableAmount t) (t_StableCoin t) d1,
        ledger_line ''expenses:provider:onramp'' EntryTypeCredit (OnRampFee (t_Fees t)) (t_SourceCurrency t) d2,
        ledger_line (clearing_account slug t) EntryTypeDebit (t_SourceAmount t) (t_SourceCurrency t) d3])"

definition HandleOnRampResult ::
  "lib \<Rightarrow> engine_env \<Rightarrow> uuid \<Rightarrow> uuid \<Rightarrow> IntentResult \<Rightarrow> transfer_db \<Rightarrow> transfer_db \<Rightarrow>
   transfer_db \<times> unit result" where
  "HandleOnRampResult L E tenantID transferID result rd db =
     (case loadTransfer E 0 rd tenantID transferID of
        Inl err \<Rightarrow> (db, Inl (Errorf ''settla-core: handle on-ramp result'' (Some err)))
      | Inr t \<Rightarrow>
         if t_Status t \<noteq> TransferStatusOnRamping then
           (if \<not> isAdvancedPast (t_Status t) TransferStatusOnRamping
            then (db, Inl (ErrInvalidTransition (status_string (t_Status t)) (status_string TransferStatusOnRamping)))
            else (db, Inr ()))
         else if ir_Success result then
           (case GetTenant E rd (t_TenantID t) of
              Inl err \<Rightarrow> (db, Inl (Errorf ''settla-core: handle on-ramp result: loading tenant'' (Some err)))
            | Inr tenant \<Rightarrow>
               if \<not> 0 < t_SourceAmount t - OnRampFee (t_Fees t)
               then (db, Inl (Errorf ''settla-core: net amount after fee must be positive'' None))
               else transition_step E ''handle on-ramp result'' t TransferStatusSettling
                 [transfer_intent E 0 t IntentLedgerPost
                    (LedgerPayload \<lparr>gp_TransferID = t_ID t, gp_TenantID = t_TenantID t,
                       gp_IdempotencyKey = ''onramp:'' @ uuid_string L (t_ID t),
                       gp_Description = ''On-ramp transfer '' @ uuid_string L (t_ID t),
                       gp_ReferenceType = ''transfer'', gp_Lines = onRampLines (tn_Slug tenant) t\<rparr>),
                  transfer_intent E 1 t IntentBlockchainSend
                    (BlockchainPayload \<lparr>bs_TransferID = t_ID t, bs_TenantID = t_TenantID t,
                       bs_Chain = t_Chain t, bs_From = [], bs_To = [], bs_Token = t_StableCoin t,
                       bs_Amount = t_StableAmount t, bs_Memo = ''settlement:'' @ uuid_string L (t_ID t)\<rparr>),
                  transfer_event E 2 t EventOnRampCompleted (transferEventPayload (t_ID t) (t_TenantID t))] db)
         else transition_step E ''handle on-ramp result'' t TransferStatusRefunding
           [transfer_intent E 0 t IntentTreasuryRelease (releasePayload t ''onramp_failure''),
            transfer_event E 1 t EventProviderOnRampFailed (transferEventPayload (t_ID t) (t_TenantID t))] db)"

section \<open>Settlement and off-ramp\<close>

definition offramp_fallbacks :: "Transfer \<Rightarrow> RouteAlternative list \<Rightarrow> OffRampFallback list" where
  "offramp_fallbacks t alts =
     map (\<lambda>alt. \<lparr>ff_ProviderID = ra_OffRampProvider alt, ff_Fee = ra_Fee alt, ff_Rate = ra_Rate alt\<rparr>)
       (filter (\<lambda>alt. ra_Chain alt = t_Chain t \<and> ra_StableCoin alt = t_StableCoin t) alts)"

definition HandleSettlementResult ::
  "lib \<Rightarrow> engine_env \<Rightarrow> uuid \<Rightarrow> uuid \<Rightarrow> IntentResult \<Rightarrow> transfer_db \<Rightarrow> transfer_db \<Rightarrow>
   transfer_db \<times> unit result" where
  "HandleSettlementResult L E tenantID transferID result rd db =
     (case loadTransfer E 0 rd tenantID transferID of
        Inl err \<Rightarrow> (db, Inl (Errorf ''settla-core: handle settlement result'' (Some err)))
      | Inr t \<Rightarrow>
         if t_Status t \<noteq> TransferStatusSettling then
           (if \<not> isAdvancedPast (t_Status t) TransferStatusSettling
            then (db, Inl (ErrInvalidTransition (status_string (t_Status t)) (status_string TransferStatusSettling)))
            else (db, Inr ()))
         else if ir_Success result then
           transition_step E ''handle settlement result'' t TransferStatusOffRamping
             [transfer_intent E 0 t IntentProviderOffRamp
                (OffRampPayload \<lparr>off_TransferID = t_ID t, off_TenantID = t_TenantID t,
                   off_ProviderID = t_OffRampProviderID t, off_Amount = t_StableAmount t,
                   off_FromCurrency = t_StableCoin t, off_ToCurrency = t_DestCurrency t,
                   off_Recipient = t_Recipient t, off_Reference = uuid_string L (t_ID t),
                   off_Alternatives = offramp_fallbacks t (quote_alternatives E rd t),
                   off_QuotedRate = t_FXRate t, off_SourceTxHash = ir_TxHash result\<rparr>),
              transfer_event E 1 t EventSettlementCompleted (transferEventPayload (t_ID t) (t_TenantID t))] db
         else
           (case GetTenant E rd (t_TenantID t) of
              Inl err \<Rightarrow> (db, Inl (Errorf ''settla-core: handle settlement result: loading tenant for reversal'' (Some err)))
            | Inr tenant \<Rightarrow>
               transition_step E ''handle settlement result'' t TransferStatusFailed
                 [transfer_intent E 0 t IntentTreasuryRelease (releasePayload t ''settlement_failure''),
                  transfer_intent E 1 t IntentLedgerReverse
                    (LedgerPayload \<lparr>gp_TransferID = t_ID t, gp_TenantID = t_TenantID t,
                       gp_IdempotencyKey = ''reverse-settle:'' @ uuid_string L (t_ID t),
                       gp_Description = ''Reverse settlement for transfer '' @ uuid_string L (t_ID t)
                          @ '': '' @ ir_Error result,
                       gp_ReferenceType = ''reversal'',
                       gp_Lines = reversalLines (tn_Slug tenant) t
                         (''Reverse: credit crypto asset'', ''Reverse: credit on-ramp fee'',
                          ''Reverse: debit clearing account'')\<rparr>),
                  transfer_event E 2 t EventBlockchainFailed (transferEventPayload (t_ID t) (t_TenantID t))] db))"

definition completionLines :: "string \<Rightarrow> Transfer \<Rightarrow> LedgerLineEntry list" where
  "completionLines slug t =
     [ledger_line (TenantAccountCode slug ''liabilities:customer:pending'') EntryTypeDebit
        (t_SourceAmount t) (t_SourceCurrency t) ''Debit customer pending'',
      ledger_line (TenantAccountCode slug ''liabilities:payable:recipient'') EntryTypeCredit
        (t_SourceAmount t - TotalFeeUSD (t_Fees t)) (t_SourceCurrency t) ''Credit recipient payable (net of fees)'',
      ledger_line (TenantAccountCode slug ''revenue:fees:settlement'') EntryTypeCredit
        (TotalFeeUSD (t_Fees t)) (t_SourceCurrency t) ''Credit settlement fee revenue'']"

definition webhookPayload :: "Transfer \<Rightarrow> string \<Rightarrow> string \<Rightarrow> transfer_payload" where
  "webhookPayload t eventType webhook_data = WebhookPayload \<lparr>wd_TransferID = t_ID t, wd_SessionID = uuid_Nil,
     wd_TenantID = t_TenantID t, wd_EventType = eventType, wd_Data = webhook_data\<rparr>"

text \<open>The number \<open>k\<close> of the read: \<^verbatim>\<open>HandleOffRampResult\<close> has loaded the transfer once before.\<close>

definition CompleteTransfer ::
  "lib \<Rightarrow> engine_env \<Rightarrow> nat \<Rightarrow> uuid \<Rightarrow> uuid \<Rightarrow> transfer_db \<Rightarrow> transfer_db \<Rightarrow> transfer_db \<times> unit result" where
  "CompleteTransfer L E k tenantID transferID rd db =
     (case loadTransferForStep E k rd tenantID transferID TransferStatusOffRamping of
        Inl err \<Rightarrow> (db, Inl (Errorf ''settla-core: complete transfer'' (Some err)))
      | Inr t \<Rightarrow>
         (case GetTenant E rd (t_TenantID t) of
            Inl err \<Rightarrow> (db, Inl (Errorf ''settla-core: complete transfer: loading tenant'' (Some err)))
          | Inr tenant \<Rightarrow>
             if \<not> 0 < t_SourceAmount t - TotalFeeUSD (t_Fees t)
             then (db, Inl (Errorf ''settla-core: complete transfer: net amount after fees must be positive'' None))
             else (case validateLedgerLines (\<lambda>i. ee_uuid E (10 + i)) (completionLines (tn_Slug tenant) t) of
                Inl err \<Rightarrow> (db, Inl (Errorf ''settla-core: complete transfer: ledger entries imbalanced'' (Some err)))
              | Inr _ \<Rightarrow>
                 transition_step E ''complete transfer'' t TransferStatusCompleted
                   [transfer_intent E 0 t IntentTreasuryConsume
                      (ConsumePayload \<lparr>cp_TransferID = t_ID t, cp_TenantID = t_TenantID t,
                         cp_Currency = t_SourceCurrency t, cp_Amount = t_SourceAmount t,
                         cp_Location = bank_location t\<rparr>),
                    transfer_intent E 1 t IntentLedgerPost
                      (LedgerPayload \<lparr>gp_TransferID = t_ID t, gp_TenantID = t_TenantID t,
                         gp_IdempotencyKey = ''complete:'' @ uuid_string L (t_ID t),
                         gp_Description = ''Complete transfer '' @ uuid_string L (t_ID t),
                         gp_ReferenceType = ''transfer'', gp_Lines = completionLines (tn_Slug tenant) t\<rparr>),
                    transfer_intent E 2 t IntentWebhookDeliver (webhookPayload t EventTransferCompleted []),
                    transfer_event E 3 t EventTransferCompleted (transferEventPayload (t_ID t) (t_TenantID t))] db)))"

definition HandleOffRampResult ::
  "lib \<Rightarrow> engine_env \<Rightarrow> uuid \<Rightarrow> uuid \<Rightarrow> IntentResult \<Rightarrow> transfer_db \<Rightarrow> transfer_db \<Rightarrow> transfer_db \<Rightarrow>
   transfer_db \<times> unit result" where
  "HandleOffRampResult L E tenantID transferID result rd0 rd db =
     (case loadTransfer E 0 rd0 tenantID transferID of
        Inl err \<Rightarrow> (db, Inl (Errorf ''settla-core: handle off-ramp result'' (Some err)))
      | Inr precheck \<Rightarrow>
         if t_Status precheck \<noteq> TransferStatusOffRamping then
           (if \<not> isAdvancedPast (t_Status precheck) TransferStatusOffRamping
            then (db, Inl (ErrInvalidTransition (status_string (t_Status precheck)) (status_string TransferStatusOffRamping)))
            else (db, Inr ()))
         else if ir_Success result then CompleteTransfer L E 1 tenantID transferID rd db
         else (case loadTransferForStep E 1 rd tenantID transferID TransferStatusOffRamping of
              Inl err \<Rightarrow> (db, Inl (Errorf ''settla-core: handle off-ramp result'' (Some err)))
            | Inr t \<Rightarrow>
               (case GetTenant E rd (t_TenantID t) of
                  Inl err \<Rightarrow> (db, Inl (Errorf ''settla-core: handle off-ramp result: loading tenant for reversal'' (Some err)))
                | Inr tenant \<Rightarrow>
                   transition_step E ''handle off-ramp result'' t TransferStatusFailed
                     [transfer_intent E 0 t IntentTreasuryRelease (releasePayload t ''offramp_failure''),
                      transfer_intent E 1 t IntentLedgerReverse
                        (LedgerPayload \<lparr>gp_TransferID = t_ID t, gp_TenantID = t_TenantID t,
                           gp_IdempotencyKey = ''reverse-offramp:'' @ uuid_string L (t_ID t),
                           gp_Description = ''Reverse off-ramp for transfer '' @ uuid_string L (t_ID t)
                              @ '': '' @ ir_Error result,
                           gp_ReferenceType = ''reversal'',
                           gp_Lines = reversalLines (tn_Slug tenant) t
                             (''Reverse: credit crypto asset'', ''Reverse: credit on-ramp fee'',
                              ''Reverse: debit clearing account'')\<rparr>),
                      transfer_intent E 2 t IntentWebhookDeliver (webhookPayload t EventTransferFailed []),
                      transfer_event E 3 t EventProviderOffRampFailed (transferEventPayload (t_ID t) (t_TenantID t))] db)))"

section \<open>Failure and refund\<close>

text \<open>\<^verbatim>\<open>fmt\<close>'s \<^verbatim>\<open>%q\<close> on text: a double-quoted string with Go's escapes.\<close>

definition hex_char :: "nat \<Rightarrow> char" where
  "hex_char n = (if n < 10 then char_of (48 + n) else char_of (87 + n))"

definition quote_char :: "char \<Rightarrow> string" where
  "quote_char c =
     (let n = (of_char c :: nat); bs = char_of (92 :: nat) in
      if n = 34 \<or> n = 92 then [bs, c]
      else if n = 7 then [bs, CHR ''a''] else if n = 8 then [bs, CHR ''b'']
      else if n = 12 then [bs, CHR ''f''] else if n = 10 then [bs, CHR ''n'']
      else if n = 13 then [bs, CHR ''r''] else if n = 9 then [bs, CHR ''t'']
      else if n = 11 then [bs, CHR ''v'']
      else if n < 32 \<or> n = 127 then [bs, CHR ''x'', hex_char (n div 16), hex_char (n mod 16)]
      else [c])"

definition go_quote :: "string \<Rightarrow> string" where
  "go_quote s = [char_of (34 :: nat)] @ concat (map quote_char s) @ [char_of (34 :: nat)]"

abbreviation dquote :: "string \<Rightarrow> string" where
  "dquote s \<equiv> [char_of (34 :: nat)] @ s @ [char_of (34 :: nat)]"

definition FailTransfer ::
  "engine_env \<Rightarrow> uuid \<Rightarrow> uuid \<Rightarrow> string \<Rightarrow> string \<Rightarrow> transfer_db \<Rightarrow> transfer_db \<Rightarrow> transfer_db \<times> unit result" where
  "FailTransfer E tenantID transferID reason failureCode rd db =
     (case loadTransfer E 0 rd tenantID transferID of
        Inl err \<Rightarrow> (db, Inl (Errorf ''settla-core: fail transfer'' (Some err)))
      | Inr t \<Rightarrow>
         if \<not> CanTransitionTo t TransferStatusFailed
         then (db, Inl (Errorf ''settla-core: fail transfer''
                (Some (ErrInvalidTransition (status_string (t_Status t)) (status_string TransferStatusFailed)))))
         else transition_step E ''fail transfer'' t TransferStatusFailed
           [transfer_intent E 0 t IntentTreasuryRelease (releasePayload t ''transfer_failed''),
            transfer_intent E 1 t IntentWebhookDeliver
              (webhookPayload t EventTransferFailed
                (''{'' @ dquote ''reason'' @ '':'' @ go_quote reason @ '','' @ dquote ''code'' @ '':''
                  @ go_quote failureCode @ ''}'')),
            transfer_event E 2 t EventTransferFailed (transferEventPayload (t_ID t) (t_TenantID t))] db)"

definition InitiateRefund ::
  "lib \<Rightarrow> engine_env \<Rightarrow> uuid \<Rightarrow> uuid \<Rightarrow> transfer_db \<Rightarrow> transfer_db \<Rightarrow> transfer_db \<times> unit result" where
  "InitiateRefund L E tenantID transferID rd db =
     (case loadTransfer E 0 rd tenantID transferID of
        Inl err \<Rightarrow> (db, Inl (Errorf ''settla-core: refund transfer'' (Some err)))
      | Inr t \<Rightarrow>
         if t_Status t \<noteq> TransferStatusFunded \<and> t_Status t \<noteq> TransferStatusFailed
            \<or> \<not> CanTransitionTo t TransferStatusRefunding
         then (db, Inl (Errorf ''settla-core: refund transfer''
                (Some (ErrInvalidTransition (status_string (t_Status t)) (status_string TransferStatusRefunding)))))
         else
           (case (if t_Status t = TransferStatusFailed \<and> 0 < t_StableAmount t
                  then (case GetTenant E rd (t_TenantID t) of
                          Inl err \<Rightarrow> Inl (Errorf ''settla-core: refund transfer: loading tenant for reversal'' (Some err))
                        | Inr tenant \<Rightarrow>
                           Inr (reversalLines (tn_Slug tenant) t
                             (''Refund: reverse crypto asset'', ''Refund: reverse on-ramp fee'',
                              ''Refund: debit clearing account'')))
                  else Inr []) of
              Inl err \<Rightarrow> (db, Inl err)
            | Inr refundLines \<Rightarrow>
               transition_step E ''refund transfer'' t TransferStatusRefunding
                 [transfer_intent E 0 t IntentLedgerReverse
                    (LedgerPayload \<lparr>gp_TransferID = t_ID t, gp_TenantID = t_TenantID t,
                       gp_IdempotencyKey = ''refund:'' @ uuid_string L (t_ID t),
                       gp_Description = ''Refund for transfer '' @ uuid_string L (t_ID t),
                       gp_ReferenceType = ''reversal'', gp_Lines = refundLines\<rparr>),
                  transfer_intent E 1 t IntentTreasuryRelease (releasePayload t ''refund''),
                  transfer_event E 2 t EventRefundInitiated (transferEventPayload (t_ID t) (t_TenantID t))] db))"

definition HandleRefundResult ::
  "lib \<Rightarrow> engine_env \<Rightarrow> uuid \<Rightarrow> uuid \<Rightarrow> IntentResult \<Rightarrow> transfer_db \<Rightarrow> transfer_db \<Rightarrow>
   transfer_db \<times> unit result" where
  "HandleRefundResult L E tenantID transferID result rd db =
     (case loadTransferForStep E 0 rd tenantID transferID TransferStatusRefunding of
        Inl err \<Rightarrow> (db, Inl (Errorf ''settla-core: handle refund result'' (Some err)))
      | Inr t \<Rightarrow>
         if ir_Success result then
           transition_step E ''handle refund result'' t TransferStatusRefunded
             [transfer_intent E 0 t IntentWebhookDeliver
                (webhookPayload t EventRefundCompleted
                  (''{'' @ dquote ''reason'' @ '':'' @ dquote ''refund_completed'' @ '','' @ dquote ''transfer_id'' @ '':''
                    @ dquote (uuid_string L (t_ID t)) @ ''}'')),
              transfer_event E 1 t EventRefundCompleted (transferEventPayload (t_ID t) (t_TenantID t))] db
         else (db, Inr ()))"

section \<open>The demo pipeline\<close>

definition success_result :: "string \<Rightarrow> IntentResult" where
  "success_result txHash = \<lparr>ir_Success = True, ir_ProviderRef = [], ir_TxHash = txHash, ir_Error = [],
     ir_ErrorCode = [], ir_Metadata = []\<rparr>"

definition then_step ::
  "('s \<times> unit result) \<Rightarrow> ('s \<Rightarrow> 's \<times> unit result) \<Rightarrow> 's \<times> unit result" where
  "then_step r f = (case r of (s, Inl err) \<Rightarrow> (s, Inl err) | (s, Inr _) \<Rightarrow> f s)"

definition ProcessTransfer ::
  "lib \<Rightarrow> (nat \<Rightarrow> engine_env) \<Rightarrow> uuid \<Rightarrow> uuid \<Rightarrow> transfer_db \<Rightarrow> transfer_db \<times> unit result" where
  "ProcessTransfer L E tenantID transferID db =
     then_step (FundTransfer (E 0) tenantID transferID db db) (\<lambda>db.
     then_step (InitiateOnRamp L (E 1) tenantID transferID db db) (\<lambda>db.
     then_step (HandleOnRampResult L (E 2) tenantID transferID (success_result []) db db) (\<lambda>db.
     then_step (HandleSettlementResult L (E 3) tenantID transferID (success_result ''0xdemo'') db db) (\<lambda>db.
     HandleOffRampResult L (E 4) tenantID transferID (success_result []) db db db))))"

end
