(* ===== verification/Samples.thy ===== *)
theory Samples
  imports Engine
begin

text \<open>Concrete data on which the properties are applied.\<close>

text \<open>A tenant with a quote, its request for a transfer and the new transfer.\<close>

definition sample_tenant :: Tenant where
  "sample_tenant = \<lparr>tn_ID = 1, tn_Name = ''Acme'', tn_Slug = ''acme'', tn_Status = TenantStatusActive,
     tn_FeeSchedule = sample_schedule, tn_SettlementModel = SettlementModelPrefunded, tn_WebhookURL = [],
     tn_WebhookSecret = [], tn_DailyLimitUSD = 0, tn_PerTransferLimit = 5000, tn_MaxPendingTransfers = 10,
     tn_KYBStatus = KYBStatusVerified, tn_KYBVerifiedAt = Some 0, tn_Metadata = [],
     tn_CryptoConfig = \<lparr>CryptoEnabled = False, DefaultSettlementPref = [], cc_SupportedChains = [],
       MinConfirmationsTron = 0, MinConfirmationsEth = 0, MinConfirmationsBase = 0, PaymentToleranceBPS = 0,
       cc_DefaultSessionTTLSecs = 0\<rparr>,
     tn_BankConfig = \<lparr>BankDepositsEnabled = False, DefaultBankingPartner = [], BankSupportedCurrencies = [],
       DefaultMismatchPolicy = [], bc_DefaultSessionTTLSecs = 0\<rparr>,
     tn_NotificationConfig = \<lparr>EmailEnabled = False, NotificationEmails = [], NotifyOnSuccess = False,
       NotifyOnFailure = False, NotifyOnDetection = False\<rparr>,
     tn_CreatedAt = 0, tn_UpdatedAt = 0\<rparr>"

definition sample_quote :: Quote where
  "sample_quote = \<lparr>q_ID = 5, q_TenantID = 1, q_SourceCurrency = ''GBP'', q_SourceAmount = 1000,
     q_DestCurrency = ''NGN'', q_DestAmount = 2000000, q_StableAmount = 1250, q_FXRate = 2000,
     q_Fees = sample_fees, q_Route = \<lparr>ri_Chain = ''tron'', ri_StableCoin = ''USDT'', ri_EstimatedTimeMin = 5,
       ri_OnRampProvider = ''onramp-1'', ri_OffRampProvider = ''offramp-1'', ri_ExplorerURL = [],
       ri_AlternativeRoutes = []\<rparr>, q_ExpiresAt = 1000000, q_CreatedAt = 0\<rparr>"

definition sample_request :: CreateTransferRequest where
  "sample_request = \<lparr>cr_ExternalRef = ''ref'', cr_IdempotencyKey = ''key'', cr_SourceCurrency = ''GBP'',
     cr_SourceAmount = 1000, cr_DestCurrency = ''NGN'',
     cr_Sender = \<lparr>sn_ID = 2, sn_Name = ''Ada'', sn_Email = [], sn_Country = ''GB''\<rparr>,
     cr_Recipient = \<lparr>rc_Name = ''Bayo'', rc_AccountNumber = [], rc_SortCode = [], rc_BankName = [],
       rc_Country = ''NG'', rc_IBAN = []\<rparr>, cr_QuoteID = Some 5\<rparr>"

definition sample_engine :: engine where
  "sample_engine = \<lparr>eg_router = (\<lambda>tn req. Inl (Errorf ''no route'' None)), eg_registry = None,
     eg_counter = True, eg_require_counter = True\<rparr>"

definition sample_env :: "nat \<Rightarrow> engine_env" where
  "sample_env k = \<lparr>ee_now = int k, ee_uuid = (\<lambda>j. of_nat (100 * k + j + 100)), ee_transfer_id = 7, ee_quote_id = 6,
     ee_numeric = (\<lambda>_ x. x), ee_float = (\<lambda>x. x), ee_ok = (\<lambda>_ _. True)\<rparr>"

definition sample_db :: transfer_db where
  "sample_db = \<lparr>db_tenants = [sample_tenant], db_quotes = [sample_quote], db_transfers = [], db_outbox = []\<rparr>"

definition sample_volume :: volume_state where
  "sample_volume = \<lparr>vs_cache = [], vs_counter = []\<rparr>"

definition sample_new :: Transfer where
  "sample_new = new_transfer (sample_env 0) (tenantFromRow sample_tenant) 1 sample_request sample_quote"

end
