(* ===== verification/Engine_Safety.thy ===== *)
theory Engine_Safety
  imports Engine Event_System Samples
begin

text \<open>
  Safety of the settlement engine under interleaving: any number of workers read the database at
  any earlier moment and commit later, guarded only by the version they have read.
\<close>

section \<open>What a handler may do\<close>

text \<open>The treasury intents, and those that each transition of a transfer is to emit.\<close>

definition money_intents :: "string set" where
  "money_intents = {IntentTreasuryReserve, IntentTreasuryRelease, IntentTreasuryConsume}"

fun money_step :: "TransferStatus \<Rightarrow> string list" where
  "money_step TransferStatusFunded = [IntentTreasuryReserve]"
| "money_step TransferStatusCompleted = [IntentTreasuryConsume]"
| "money_step TransferStatusFailed = [IntentTreasuryRelease]"
| "money_step TransferStatusRefunding = [IntentTreasuryRelease]"
| "money_step _ = []"

definition payload_amount :: "transfer_payload \<Rightarrow> decimal" where
  "payload_amount p =
     (case p of ReservePayload r \<Rightarrow> rp_Amount r | ReleasePayload r \<Rightarrow> lp_Amount r
      | ConsumePayload c \<Rightarrow> cp_Amount c | _ \<Rightarrow> 0)"

abbreviation money_entry :: "entry \<Rightarrow> bool" where
  "money_entry e \<equiv> ob_IsIntent e \<and> ob_EventType e \<in> money_intents"

definition step_entries :: "Transfer \<Rightarrow> TransferStatus \<Rightarrow> entry list \<Rightarrow> bool" where
  "step_entries t s es \<longleftrightarrow>
     (\<forall>e \<in> set es. ob_AggregateType e = ''transfer'' \<and> ob_AggregateID e = t_ID t \<and> ob_TenantID e = t_TenantID t) \<and>
     map ob_EventType (filter money_entry es) = money_step s \<and>
     (\<forall>e \<in> set es. money_entry e \<longrightarrow>
        (case ob_Payload e of None \<Rightarrow> False | Some p \<Rightarrow> payload_amount p = t_SourceAmount t))"

text \<open>
  The shape of a handler's effect: nothing, or the transaction for an allowed transition of the
  transfer it has read.
\<close>

definition moves ::
  "engine_env \<Rightarrow> uuid \<Rightarrow> uuid \<Rightarrow> transfer_db \<Rightarrow> transfer_db \<Rightarrow> transfer_db \<times> unit result \<Rightarrow> bool" where
  "moves E tenantID transferID rd db out \<longleftrightarrow>
     fst out = db \<or>
     (\<exists>t s es r. t \<in> set (db_transfers rd) \<and> t_ID t = transferID \<and>
        (tenantID = uuid_Nil \<or> t_TenantID t = tenantID) \<and> s \<in> set (ValidTransitions (t_Status t)) \<and>
        step_entries t s es \<and> TransitionWithOutbox E (t_ID t) s (t_Version t) es db = (fst out, r) \<and>
        (isl (snd out) \<longleftrightarrow> isl r))"

lemma buildOutboxEntries_Cons:
  "buildOutboxEntries (r # rs) = Inr es \<longleftrightarrow>
     (\<exists>e es'. r = Inr e \<and> buildOutboxEntries rs = Inr es' \<and> es = e # es')"
  by (cases r) (auto split: sum.splits)

lemma loadTransfer_ok:
  "loadTransfer E k db tn i = Inr t \<Longrightarrow>
     t \<in> set (db_transfers db) \<and> t_ID t = i \<and> (tn = uuid_Nil \<or> t_TenantID t = tn)"
  by (auto simp: loadTransfer_def GetTransfer_def find_Some_iff in_set_conv_nth
      split: sum.splits if_splits option.splits)

lemma loadTransferForStep_ok:
  "loadTransferForStep E k db tn i s = Inr t \<Longrightarrow> loadTransfer E k db tn i = Inr t \<and> t_Status t = s"
  by (auto simp: loadTransferForStep_def split: sum.splits if_splits)

lemma moves_same [intro!, simp]: "moves E tn i rd db (db, r)"
  by (simp add: moves_def)

lemma moves_transition:
  assumes "loadTransfer E k rd tn i = Inr t" and "s \<in> set (ValidTransitions (t_Status t))"
    and "\<And>es. buildOutboxEntries results = Inr es \<Longrightarrow> step_entries t s (setCorrelationID es (t_ID t))"
  shows "moves E tn i rd db (transition_step E step t s results db)"
proof (cases "buildOutboxEntries results")
  case (Inr es)
  obtain db' r where tr: "TransitionWithOutbox E (t_ID t) s (t_Version t) (setCorrelationID es (t_ID t)) db = (db', r)"
    by (cases "TransitionWithOutbox E (t_ID t) s (t_Version t) (setCorrelationID es (t_ID t)) db")
  then have "fst (transition_step E step t s results db) = db'"
    and "isl (snd (transition_step E step t s results db)) \<longleftrightarrow> isl r"
    by (simp_all add: transition_step_def Inr split: sum.split)
  with tr assms loadTransfer_ok [OF assms(1)] Inr show ?thesis
    unfolding moves_def by blast
qed (simp add: transition_step_def)

lemmas entry_rules = buildOutboxEntries_Cons NewOutboxIntent_ok NewOutboxEvent_ok step_entries_def
  setCorrelationID_def WithCorrelationID_def zero_entry_def money_intents_def payload_amount_def
  releasePayload_def webhookPayload_def

lemma moves_sum:
  "(\<And>e. r = Inl e \<Longrightarrow> moves E tn i rd db (f e)) \<Longrightarrow> (\<And>x. r = Inr x \<Longrightarrow> moves E tn i rd db (g x)) \<Longrightarrow>
     moves E tn i rd db (case r of Inl e \<Rightarrow> f e | Inr x \<Rightarrow> g x)"
  by (simp split: sum.split)

lemma moves_if:
  "(c \<Longrightarrow> moves E tn i rd db a) \<Longrightarrow> (\<not> c \<Longrightarrow> moves E tn i rd db b) \<Longrightarrow>
     moves E tn i rd db (if c then a else b)"
  by simp

lemma FundTransfer_moves [moves_intros]: "moves E tn i rd db (FundTransfer E tn i rd db)"
  unfolding FundTransfer_def
  by (intro moves_sum moves_same, drule loadTransferForStep_ok, rule moves_transition)
    (auto simp: entry_rules)

lemma InitiateOnRamp_moves [moves_intros]: "moves E tn i rd db (InitiateOnRamp L E tn i rd db)"
  unfolding InitiateOnRamp_def
  by (intro moves_sum moves_same, drule loadTransferForStep_ok, rule moves_transition)
    (auto simp: entry_rules)

lemma HandleOnRampResult_moves [moves_intros]: "moves E tn i rd db (HandleOnRampResult L E tn i res rd db)"
  unfolding HandleOnRampResult_def
  by (intro moves_sum moves_if moves_same; erule moves_transition) (auto simp: entry_rules)

lemma HandleSettlementResult_moves [moves_intros]: "moves E tn i rd db (HandleSettlementResult L E tn i res rd db)"
  unfolding HandleSettlementResult_def
  by (intro moves_sum moves_if moves_same; erule moves_transition) (auto simp: entry_rules)

lemma CompleteTransfer_moves [moves_intros]: "moves E tn i rd db (CompleteTransfer L E k tn i rd db)"
  unfolding CompleteTransfer_def
  by (intro moves_sum moves_if moves_same, drule loadTransferForStep_ok, rule moves_transition)
    (auto simp: entry_rules)

lemma HandleOffRampResult_moves [moves_intros]: "moves E tn i rd db (HandleOffRampResult L E tn i res rd0 rd db)"
  unfolding HandleOffRampResult_def
  by (intro moves_sum moves_if moves_same CompleteTransfer_moves;
      (drule loadTransferForStep_ok)+, rule moves_transition)
    (auto simp: entry_rules)

lemma FailTransfer_moves [moves_intros]: "moves E tn i rd db (FailTransfer E tn i reason code rd db)"
  unfolding FailTransfer_def
  by (intro moves_sum moves_if moves_same; erule moves_transition)
    (auto simp: entry_rules CanTransitionTo_iff)

lemma InitiateRefund_moves [moves_intros]: "moves E tn i rd db (InitiateRefund L E tn i rd db)"
  unfolding InitiateRefund_def
  by (intro moves_sum moves_if moves_same; erule moves_transition)
    (auto simp: entry_rules CanTransitionTo_iff)

lemma HandleRefundResult_moves [moves_intros]: "moves E tn i rd db (HandleRefundResult L E tn i res rd db)"
  unfolding HandleRefundResult_def
  by (intro moves_sum moves_if moves_same, drule loadTransferForStep_ok, rule moves_transition)
    (auto simp: entry_rules)

section \<open>Interleaved runs\<close>

datatype engine_call =
    CallFund
  | CallInitiateOnRamp
  | CallOnRampResult IntentResult
  | CallSettlementResult IntentResult
  | CallOffRampResult IntentResult
  | CallComplete
  | CallFail string string
  | CallRefund
  | CallRefundResult IntentResult

fun exec_call ::
  "lib \<Rightarrow> engine_env \<Rightarrow> engine_call \<Rightarrow> uuid \<Rightarrow> uuid \<Rightarrow> transfer_db \<Rightarrow> transfer_db \<Rightarrow> transfer_db \<Rightarrow>
   transfer_db \<times> unit result" where
  "exec_call L E CallFund tn i rd0 rd db = FundTransfer E tn i rd db"
| "exec_call L E CallInitiateOnRamp tn i rd0 rd db = InitiateOnRamp L E tn i rd db"
| "exec_call L E (CallOnRampResult res) tn i rd0 rd db = HandleOnRampResult L E tn i res rd db"
| "exec_call L E (CallSettlementResult res) tn i rd0 rd db = HandleSettlementResult L E tn i res rd db"
| "exec_call L E (CallOffRampResult res) tn i rd0 rd db = HandleOffRampResult L E tn i res rd0 rd db"
| "exec_call L E CallComplete tn i rd0 rd db = CompleteTransfer L E 0 tn i rd db"
| "exec_call L E (CallFail reason failureCode) tn i rd0 rd db = FailTransfer E tn i reason failureCode rd db"
| "exec_call L E CallRefund tn i rd0 rd db = InitiateRefund L E tn i rd db"
| "exec_call L E (CallRefundResult res) tn i rd0 rd db = HandleRefundResult L E tn i res rd db"

lemma exec_call_moves: "moves E tn i rd db (exec_call L E c tn i rd0 rd db)"
  by (cases c) (simp_all add: moves_intros)

text \<open>
  A run is the list of the database states so far, the latest first. A call reads any of them
  and commits on the latest; a creation prepares on any of them. Quotes, tenants and the marks
  of the outbox relay may change at any time. The identifiers the database assigns are new.
\<close>

inductive engine_run :: "lib \<Rightarrow> transfer_db list \<Rightarrow> bool" for L where
  run_start: "db_transfers db = [] \<Longrightarrow> db_outbox db = [] \<Longrightarrow> engine_run L [db]"
| run_call: "engine_run L H \<Longrightarrow> rd0 \<in> set H \<Longrightarrow> rd \<in> set H \<Longrightarrow>
     exec_call L E c tn i rd0 rd (hd H) = (db, r) \<Longrightarrow> engine_run L (db # H)"
| run_create: "engine_run L H \<Longrightarrow> rd \<in> set H \<Longrightarrow>
     create_prepare L eg E tn req (rd, vs) = (st, Inr (Inr (tenant, t, entries))) \<Longrightarrow>
     ee_transfer_id E \<notin> t_ID ` set (db_transfers (hd H)) \<Longrightarrow>
     create_commit eg E tn tenant t entries (hd H, vs') = ((db, vs''), r) \<Longrightarrow> engine_run L (db # H)"
| run_config: "engine_run L H \<Longrightarrow>
     engine_run L ((hd H)\<lparr>db_tenants := ts, db_quotes := qs\<rparr> # H)"
| run_published: "engine_run L H \<Longrightarrow>
     engine_run L ((hd H)\<lparr>db_outbox := MarkPublished now k c (db_outbox (hd H))\<rparr> # H)"
| run_failed: "engine_run L H \<Longrightarrow>
     engine_run L ((hd H)\<lparr>db_outbox := MarkFailed k c (db_outbox (hd H))\<rparr> # H)"

lemma engine_run_Cons: "engine_run L H \<Longrightarrow> \<exists>db H'. H = db # H'"
  by (induction rule: engine_run.induct) auto

section \<open>Versions identify rows\<close>

definition version_inv :: "transfer_db list \<Rightarrow> bool" where
  "version_inv H \<longleftrightarrow>
     distinct (map t_ID (db_transfers (hd H))) \<and>
     (\<forall>d \<in> set H. \<forall>t \<in> set (db_transfers d). \<forall>t' \<in> set (db_transfers (hd H)).
        t_ID t = t_ID t' \<longrightarrow> t_Version t \<le> t_Version t' \<and> (t_Version t = t_Version t' \<longrightarrow> t = t')) \<and>
     (\<forall>d \<in> set H. t_ID ` set (db_transfers d) \<subseteq> t_ID ` set (db_transfers (hd H)))"

lemma version_inv_same:
  "version_inv H \<Longrightarrow> H \<noteq> [] \<Longrightarrow> db_transfers db = db_transfers (hd H) \<Longrightarrow> version_inv (db # H)"
  by (cases H) (auto simp: version_inv_def)

lemma TransitionWithOutbox_cases:
  assumes "TransitionWithOutbox E i s v es db = (db', r)"
  obtains "db' = db" "isl r"
  | t where "t \<in> set (db_transfers db)" "t_ID t = i" "t_Version t = v"
      "db' = db\<lparr>db_transfers := map (\<lambda>t. if t_ID t = i \<and> t_Version t = v
                then transition_row (ee_now E) s t else t) (db_transfers db),
              db_outbox := db_outbox db @ outboxEntriesToParams (ee_now E) es\<rparr>"
      "isl r \<longleftrightarrow> \<not> ee_ok E TransitionTx 1"
proof (cases "db' = db \<and> isl r")
  case False
  with assms have ok: "ee_ok E TransitionTx 0"
    and rows: "filter (\<lambda>t. t_ID t = i \<and> t_Version t = v) (db_transfers db) \<noteq> []"
    by (auto simp: TransitionWithOutbox_def TransitionTransferStatus_def split: if_splits)
  then obtain t where t: "t \<in> set (db_transfers db)" "t_ID t = i" "t_Version t = v"
    by (auto simp: filter_empty_conv)
  from False assms ok rows obtain outbox where
    "InsertOutboxEntries (outboxEntriesToParams (ee_now E) es) (db_outbox db) = Inr outbox"
    and db': "db' = db\<lparr>db_transfers := map (\<lambda>t. if t_ID t = i \<and> t_Version t = v
                then transition_row (ee_now E) s t else t) (db_transfers db), db_outbox := outbox\<rparr>"
    and r: "isl r \<longleftrightarrow> \<not> ee_ok E TransitionTx 1"
    by (auto simp: TransitionWithOutbox_def TransitionTransferStatus_def split: sum.splits if_splits)
  then have "outbox = db_outbox db @ outboxEntriesToParams (ee_now E) es"
    by (simp only: InsertOutboxEntries_ok)
  with that(2) [OF t] db' r show ?thesis by simp
qed (use that in blast)

definition apply_step :: "instant \<Rightarrow> Transfer \<Rightarrow> TransferStatus \<Rightarrow> entry list \<Rightarrow> transfer_db \<Rightarrow> transfer_db" where
  "apply_step now t s es db =
     db\<lparr>db_transfers := map (\<lambda>x. if x = t then transition_row now s x else x) (db_transfers db),
        db_outbox := db_outbox db @ outboxEntriesToParams now es\<rparr>"

lemma transition_row_simps [simp]:
  "t_ID (transition_row now s t) = t_ID t" "t_TenantID (transition_row now s t) = t_TenantID t"
  "t_Status (transition_row now s t) = s" "t_Version (transition_row now s t) = t_Version t + 1"
  "t_SourceAmount (transition_row now s t) = t_SourceAmount t"
  by (simp_all add: transition_row_def)

lemma distinct_ids_eq:
  "distinct (map t_ID ts) \<Longrightarrow> t \<in> set ts \<Longrightarrow> t' \<in> set ts \<Longrightarrow> t_ID t = t_ID t' \<Longrightarrow> t = t'"
  by (auto simp: distinct_map inj_on_def)

text \<open>Since a version identifies a row, a commit that succeeds meets the row that was read.\<close>

lemma moves_current:
  assumes "version_inv H" and "rd \<in> set H" and "moves E tn i rd (hd H) out"
  shows "fst out = hd H \<or>
    (\<exists>t s es. t \<in> set (db_transfers (hd H)) \<and> t_ID t = i \<and> (tn = uuid_Nil \<or> t_TenantID t = tn) \<and>
       s \<in> set (ValidTransitions (t_Status t)) \<and> step_entries t s es \<and>
       fst out = apply_step (ee_now E) t s es (hd H) \<and> (isl (snd out) \<longrightarrow> \<not> ee_ok E TransitionTx 1))"
proof (cases "fst out = hd H")
  case False
  with assms(3) obtain t s es r where t: "t \<in> set (db_transfers rd)" "t_ID t = i"
    "tn = uuid_Nil \<or> t_TenantID t = tn" and s: "s \<in> set (ValidTransitions (t_Status t))"
    and es: "step_entries t s es" and r: "isl (snd out) \<longleftrightarrow> isl r"
    and tr: "TransitionWithOutbox E (t_ID t) s (t_Version t) es (hd H) = (fst out, r)"
    unfolding moves_def by blast
  from tr show ?thesis
  proof (cases rule: TransitionWithOutbox_cases)
    case 1
    with False show ?thesis by simp
  next
    case (2 u)
    have ids: "distinct (map t_ID (db_transfers (hd H)))" using assms(1) by (simp add: version_inv_def)
    have "u = t" using assms(1,2) t(1) 2(1-3) unfolding version_inv_def by metis
    then have "(\<lambda>x. if t_ID x = t_ID t \<and> t_Version x = t_Version t then transition_row (ee_now E) s x else x) y =
               (if y = t then transition_row (ee_now E) s y else y)" if "y \<in> set (db_transfers (hd H))" for y
      using distinct_ids_eq [OF ids that 2(1)] by auto
    then have "fst out = apply_step (ee_now E) t s es (hd H)"
      unfolding 2(4) apply_step_def by (simp cong: map_cong)
    with 2 \<open>u = t\<close> t s es r show ?thesis by blast
  qed
qed simp

lemma version_inv_step:
  assumes "version_inv H" and "H \<noteq> []" and "t \<in> set (db_transfers (hd H))"
  shows "version_inv (apply_step now t s es (hd H) # H)"
proof -
  let ?ts = "db_transfers (hd H)"
  let ?f = "\<lambda>x. if x = t then transition_row now s x else x"
  have ids: "distinct (map t_ID ?ts)"
    and le: "\<And>d x y. d \<in> set H \<Longrightarrow> x \<in> set (db_transfers d) \<Longrightarrow> y \<in> set ?ts \<Longrightarrow> t_ID x = t_ID y \<Longrightarrow>
        t_Version x \<le> t_Version y \<and> (t_Version x = t_Version y \<longrightarrow> x = y)"
    and sub: "\<And>d. d \<in> set H \<Longrightarrow> t_ID ` set (db_transfers d) \<subseteq> t_ID ` set ?ts"
    using assms(1) unfolding version_inv_def by blast+
  have new: "db_transfers (apply_step now t s es (hd H)) = map ?f ?ts" by (simp add: apply_step_def)
  have idf: "t_ID (?f x) = t_ID x" for x by simp
  have le': "t_Version x \<le> t_Version y \<and> (t_Version x = t_Version y \<longrightarrow> x = y)"
    if "d \<in> set (apply_step now t s es (hd H) # H)" "x \<in> set (db_transfers d)" "y \<in> ?f ` set ?ts"
      "t_ID x = t_ID y" for d x y
  proof -
    from that(3) obtain y' where y': "y' \<in> set ?ts" "y = ?f y'" by blast
    show ?thesis
    proof (cases "d \<in> set H")
      case True
      with le [OF True that(2) y'(1)] that(4) y'(2) idf show ?thesis by auto
    next
      case False
      with that(1,2) new obtain x' where "x' \<in> set ?ts" "x = ?f x'" by auto
      with y' that(4) idf distinct_ids_eq [OF ids] show ?thesis by (metis order_refl)
    qed
  qed
  have map_ids: "map t_ID (map ?f ?ts) = map t_ID ?ts" by simp
  have img: "t_ID ` ?f ` set ?ts = t_ID ` set ?ts" by (simp only: image_image idf)
  have sub': "t_ID ` set (db_transfers d) \<subseteq> t_ID ` ?f ` set ?ts"
    if "d \<in> set (apply_step now t s es (hd H) # H)" for d
    using that sub new unfolding img by (auto simp: idf)
  show ?thesis
    unfolding version_inv_def list.sel new set_map map_ids
  proof (intro conjI ballI impI)
    show "t_Version x \<le> t_Version y"
      if "d \<in> set (apply_step now t s es (hd H) # H)" "x \<in> set (db_transfers d)" "y \<in> ?f ` set ?ts"
        "t_ID x = t_ID y" for d x y
      using le' [OF that] by (rule conjunct1)
    show "x = y"
      if "d \<in> set (apply_step now t s es (hd H) # H)" "x \<in> set (db_transfers d)" "y \<in> ?f ` set ?ts"
        "t_ID x = t_ID y" "t_Version x = t_Version y" for d x y
      using le' [OF that(1-4)] that(5) by simp
  qed (fact ids, fact sub')
qed

section \<open>Creation\<close>

definition created_entry :: "engine_env \<Rightarrow> uuid \<Rightarrow> Transfer \<Rightarrow> entry" where
  "created_entry E tn t =
     zero_entry\<lparr>ob_ID := ee_uuid E 1, ob_AggregateType := ''transfer'', ob_AggregateID := t_ID t,
       ob_TenantID := tn, ob_EventType := EventTransferCreated, ob_Payload := Some (TransferSnapshot t),
       ob_IsIntent := False, ob_MaxRetries := 5, ob_CreatedAt := ee_now E, ob_CorrelationID := t_ID t\<rparr>"

lemma create_prepare_ok:
  assumes "create_prepare L eg E tn req (db, vs) = ((db2, vs2), Inr (Inr (tenant, t, entries)))"
  obtains quote where
    "GetTenant E db tn = Inr tenant" "Tenant_IsActive tenant" "validate_request req = Inr ()"
    "resolve_quote L eg E tn req db = (db2, Inr quote)" "check_quote eg tenant req quote = Inr ()"
    "check_daily_limit L eg E db2 tenant tn (q_StableAmount quote) vs = (vs2, Inr ())"
    "t = new_transfer E tenant tn req quote" "check_fees t = Inr ()" "entries = [created_entry E tn t]"
  using assms unfolding create_prepare_def Let_def
  by (simp only: prod.case split: sum.splits if_splits prod.splits)
    (auto simp: entry_rules created_entry_def split: sum.splits)

lemma CreateTransferWithOutbox_cases:
  assumes "CreateTransferWithOutbox E t es db = (db', r)"
  obtains "db' = db" "isl r"
  | "db' = db\<lparr>db_transfers := db_transfers db @ [stored_transfer E t],
              db_outbox := db_outbox db @ outboxEntriesToParams (ee_now E) (map (refresh_entry
                (t\<lparr>t_ID := ee_transfer_id E, t_Version := 0, t_CreatedAt := ee_now E, t_UpdatedAt := ee_now E\<rparr>)) es)\<rparr>"
     "r = (if ee_ok E CreateTransferTx 1
           then Inr (t\<lparr>t_ID := ee_transfer_id E, t_Version := 0, t_CreatedAt := ee_now E, t_UpdatedAt := ee_now E\<rparr>)
           else Inl (Errorf ''settla-store: commit tx for new transfer'' (Some db_error)))"
proof (cases "db' = db \<and> isl r")
  case False
  let ?t = "t\<lparr>t_ID := ee_transfer_id E, t_Version := 0, t_CreatedAt := ee_now E, t_UpdatedAt := ee_now E\<rparr>"
  let ?ps = "outboxEntriesToParams (ee_now E) (map (refresh_entry ?t) es)"
  have st: "t_ID (stored_transfer E t) = ee_transfer_id E" "t_Version (stored_transfer E t) = 0"
    "t_CreatedAt (stored_transfer E t) = ee_now E" "t_UpdatedAt (stored_transfer E t) = ee_now E"
    by (simp_all add: stored_transfer_def)
  from assms False have ok: "ee_ok E CreateTransferTx 0"
    by (auto simp: CreateTransferWithOutbox_def split: if_splits)
  with assms False obtain outbox where ins: "InsertOutboxEntries ?ps (db_outbox db) = Inr outbox"
    by (cases "InsertOutboxEntries ?ps (db_outbox db)")
      (auto simp: CreateTransferWithOutbox_def Let_def st)
  then have outbox: "outbox = db_outbox db @ ?ps" by (simp only: InsertOutboxEntries_ok)
  have "(db', r) = (db\<lparr>db_transfers := db_transfers db @ [stored_transfer E t], db_outbox := outbox\<rparr>,
      if ee_ok E CreateTransferTx 1 then Inr ?t
      else Inl (Errorf ''settla-store: commit tx for new transfer'' (Some db_error)))"
    unfolding assms [symmetric] using ok ins by (simp add: CreateTransferWithOutbox_def Let_def st)
  then show ?thesis unfolding outbox prod.inject using that(2) by blast
qed (use that in blast)

lemma run_create_effect:
  assumes "create_prepare L eg E tn req (rd, vs) = (st, Inr (Inr (tenant, t, entries)))"
    and "create_commit eg E tn tenant t entries (db, vs') = ((db', vs''), r)"
  shows "db' = db \<or> (\<exists>t ps. db' = db\<lparr>db_transfers := db_transfers db @ [t], db_outbox := db_outbox db @ ps\<rparr> \<and>
     t_ID t = ee_transfer_id E \<and> t_Version t = 0 \<and> t_Status t = TransferStatusCreated \<and>
     (\<forall>p \<in> set ps. \<not> or_IsIntent p))"
proof -
  obtain db2 vs2 where st: "st = (db2, vs2)" by (cases st)
  from create_prepare_ok [OF assms(1) [unfolded st]] obtain quote where
    t: "t = new_transfer E tenant tn req quote" and es: "entries = [created_entry E tn t]" by blast
  obtain r0 where "CreateTransferWithOutbox E t entries db = (db', r0)"
    using assms(2) by (auto simp: create_commit_def split: prod.splits sum.splits)
  then show ?thesis
  proof (cases rule: CreateTransferWithOutbox_cases)
    case 2
    then show ?thesis
      by (intro disjI2 exI [of _ "stored_transfer E t"] exI conjI)
        (auto simp: stored_transfer_def t new_transfer_def es created_entry_def refresh_entry_def
          outboxEntriesToParams_def)
  qed simp
qed

lemma version_inv_create:
  assumes "version_inv H" and "H \<noteq> []" and "t_ID t \<notin> t_ID ` set (db_transfers (hd H))"
  shows "version_inv ((hd H)\<lparr>db_transfers := db_transfers (hd H) @ [t], db_outbox := ob\<rparr> # H)"
proof -
  have notin: "t_ID t \<notin> t_ID ` set (db_transfers d)" if "d \<in> set H" for d
    using assms(1,3) that unfolding version_inv_def by blast
  have ne: "t_ID x \<noteq> t_ID t" if "d \<in> set H" "x \<in> set (db_transfers d)" for d x
    using notin [OF that(1)] that(2) by (metis image_eqI)
  have sub: "t_ID x \<in> t_ID ` set (db_transfers (hd H))" if "d \<in> set H" "x \<in> set (db_transfers d)" for d x
    using assms(1) that unfolding version_inv_def by blast
  have "hd H \<in> set H" using assms(2) by simp
  with ne sub assms(1) show ?thesis unfolding version_inv_def by (auto dest: ne)
qed

lemma run_version_inv: "engine_run L H \<Longrightarrow> version_inv H"
proof (induction rule: engine_run.induct)
  case (run_start db)
  then show ?case by (simp add: version_inv_def)
next
  case (run_call H rd0 rd E c tn i db r)
  have ne: "H \<noteq> []" using engine_run_Cons [OF run_call.hyps(1)] by blast
  from moves_current [OF run_call.IH run_call.hyps(3) exec_call_moves [of E tn i rd "hd H" L c rd0]]
  show ?case
    using version_inv_same [OF run_call.IH ne] version_inv_step [OF run_call.IH ne] run_call.hyps(4)
    by auto
next
  case (run_create H rd eg E tn req vs st tenant t entries vs' db vs'' r)
  have ne: "H \<noteq> []" using engine_run_Cons [OF run_create.hyps(1)] by blast
  from run_create_effect [OF run_create.hyps(3,5)] show ?case
    using version_inv_same [OF run_create.IH ne] version_inv_create [OF run_create.IH ne] run_create.hyps(4)
    by auto
qed (use engine_run_Cons in \<open>fastforce intro!: version_inv_same\<close>)+

section \<open>The treasury intents of a transfer\<close>

definition money_row :: "transfer_payload OutboxRow \<Rightarrow> bool" where
  "money_row r \<longleftrightarrow> or_IsIntent r \<and> or_EventType r \<in> money_intents"

definition money_rows :: "uuid \<Rightarrow> transfer_payload outbox_table \<Rightarrow> (string \<times> transfer_payload option) list" where
  "money_rows i tbl =
     map (\<lambda>r. (or_EventType r, or_Payload r)) (filter (\<lambda>r. money_row r \<and> or_AggregateID r = i) tbl)"

definition transfer_ok :: "transfer_payload outbox_table \<Rightarrow> Transfer \<Rightarrow> bool" where
  "transfer_ok tbl t \<longleftrightarrow>
     (\<exists>ss. path ValidTransitions TransferStatusCreated ss \<and>
        t_Status t = last (TransferStatusCreated # ss) \<and> t_Version t = int (length ss) \<and>
        map fst (money_rows (t_ID t) tbl) = concat (map money_step ss)) \<and>
     (\<forall>(et, p) \<in> set (money_rows (t_ID t) tbl).
        case p of None \<Rightarrow> False | Some q \<Rightarrow> payload_amount q = t_SourceAmount t)"

definition money_inv :: "transfer_db \<Rightarrow> bool" where
  "money_inv db \<longleftrightarrow>
     (\<forall>t \<in> set (db_transfers db). transfer_ok (db_outbox db) t) \<and>
     (\<forall>i. i \<notin> t_ID ` set (db_transfers db) \<longrightarrow> money_rows i (db_outbox db) = [])"

lemma money_rows_append: "money_rows i (a @ b) = money_rows i a @ money_rows i b"
  by (simp add: money_rows_def)

lemma money_rows_marks [simp]:
  "money_rows i (MarkPublished now k c tbl) = money_rows i tbl"
  "money_rows i (MarkFailed k c tbl) = money_rows i tbl"
  by (induction tbl) (simp_all add: money_rows_def MarkPublished_def MarkFailed_def money_row_def)

lemma money_rows_params:
  assumes "step_entries t s es"
  shows "money_rows i (outboxEntriesToParams now es) =
    (if i = t_ID t then map (\<lambda>e. (ob_EventType e, ob_Payload e)) (filter money_entry es) else [])"
proof -
  have "\<forall>e \<in> set es. ob_AggregateID e = t_ID t" using assms by (simp add: step_entries_def)
  then show ?thesis
    by (induction es) (auto simp: money_rows_def outboxEntriesToParams_def money_row_def)
qed

lemma money_rows_events:
  "\<forall>p \<in> set ps. \<not> or_IsIntent p \<Longrightarrow> money_rows i ps = []"
  by (auto simp: money_rows_def money_row_def filter_empty_conv)

lemma transfer_ok_step:
  assumes "transfer_ok tbl t" and "s \<in> set (ValidTransitions (t_Status t))" and "step_entries t s es"
  shows "transfer_ok (tbl @ outboxEntriesToParams now es) (transition_row now s t)"
proof -
  from assms(1) obtain ss where ss: "path ValidTransitions TransferStatusCreated ss"
    "t_Status t = last (TransferStatusCreated # ss)" "t_Version t = int (length ss)"
    "map fst (money_rows (t_ID t) tbl) = concat (map money_step ss)"
    unfolding transfer_ok_def by blast
  have new: "money_rows (t_ID t) (outboxEntriesToParams now es) =
      map (\<lambda>e. (ob_EventType e, ob_Payload e)) (filter money_entry es)"
    using money_rows_params [OF assms(3)] by simp
  then have "map fst (money_rows (t_ID t) (outboxEntriesToParams now es)) = money_step s"
    using assms(3) by (simp add: step_entries_def comp_def)
  then have "map fst (money_rows (t_ID t) (tbl @ outboxEntriesToParams now es)) =
      concat (map money_step (ss @ [s]))"
    using ss(4) by (simp add: money_rows_append)
  moreover have "path ValidTransitions TransferStatusCreated (ss @ [s])"
    using ss(1,2) assms(2) by (simp add: path_append)
  moreover have "\<forall>(et, p) \<in> set (money_rows (t_ID t) (tbl @ outboxEntriesToParams now es)).
        case p of None \<Rightarrow> False | Some q \<Rightarrow> payload_amount q = t_SourceAmount t"
    using assms(1,3) new by (auto simp: money_rows_append transfer_ok_def step_entries_def)
  ultimately show ?thesis
    using ss(3) unfolding transfer_ok_def by (intro conjI exI [of _ "ss @ [s]"]) simp_all
qed

lemma money_inv_step:
  assumes "money_inv db" and "distinct (map t_ID (db_transfers db))" and "t \<in> set (db_transfers db)"
    and "s \<in> set (ValidTransitions (t_Status t))" and "step_entries t s es"
  shows "money_inv (apply_step now t s es db)"
proof -
  let ?ob = "db_outbox db @ outboxEntriesToParams now es"
  have other: "money_rows i ?ob = money_rows i (db_outbox db)" if "i \<noteq> t_ID t" for i
    using that money_rows_params [OF assms(5)] by (simp add: money_rows_append)
  have "transfer_ok ?ob (if x = t then transition_row now s x else x)" if "x \<in> set (db_transfers db)" for x
  proof (cases "x = t")
    case True
    then show ?thesis using assms(1,3,4,5) transfer_ok_step by (auto simp: money_inv_def)
  next
    case False
    then have "t_ID x \<noteq> t_ID t" using distinct_ids_eq [OF assms(2) that assms(3)] by blast
    then show ?thesis using False assms(1) that other by (auto simp: money_inv_def transfer_ok_def)
  qed
  moreover have "money_rows i ?ob = []" if "i \<notin> t_ID ` set (db_transfers db)" for i
    using that assms(1,3) other [of i] by (auto simp: money_inv_def)
  moreover have idf: "t_ID (if x = t then transition_row now s x else x) = t_ID x" for x by simp
  have new: "db_transfers (apply_step now t s es db) =
      map (\<lambda>x. if x = t then transition_row now s x else x) (db_transfers db)"
    "db_outbox (apply_step now t s es db) = ?ob" by (simp_all add: apply_step_def)
  ultimately show ?thesis
    unfolding money_inv_def new set_map image_image idf by blast
qed

lemma money_inv_create:
  assumes "money_inv db" and "t_ID t \<notin> t_ID ` set (db_transfers db)" and "\<forall>p \<in> set ps. \<not> or_IsIntent p"
    and "t_Version t = 0" and "t_Status t = TransferStatusCreated"
  shows "money_inv (db\<lparr>db_transfers := db_transfers db @ [t], db_outbox := db_outbox db @ ps\<rparr>)"
proof -
  have rows: "money_rows i (db_outbox db @ ps) = money_rows i (db_outbox db)" for i
    using money_rows_events [OF assms(3)] by (simp add: money_rows_append)
  have "transfer_ok (db_outbox db) t"
    using assms(1,2,4,5) unfolding transfer_ok_def money_inv_def by (intro conjI exI [of _ "[]"]) auto
  with rows assms(1) show ?thesis by (auto simp: money_inv_def transfer_ok_def)
qed

lemma run_money_inv: "engine_run L H \<Longrightarrow> money_inv (hd H)"
proof (induction rule: engine_run.induct)
  case (run_call H rd0 rd E c tn i db r)
  note inv = run_version_inv [OF run_call.hyps(1)]
  have ids: "distinct (map t_ID (db_transfers (hd H)))" using inv by (simp add: version_inv_def)
  from moves_current [OF inv run_call.hyps(3) exec_call_moves [of E tn i rd "hd H" L c rd0]] show ?case
    using run_call.IH run_call.hyps(4) money_inv_step [OF run_call.IH ids] by auto
next
  case (run_create H rd eg E tn req vs st tenant t entries vs' db vs'' r)
  from run_create_effect [OF run_create.hyps(3,5)] show ?case
    using run_create.IH run_create.hyps(4) money_inv_create [OF run_create.IH] by auto
next
  case (run_start db)
  then show ?case by (simp add: money_inv_def money_rows_def)
qed (simp_all add: money_inv_def transfer_ok_def)

definition intents_of :: "string \<Rightarrow> uuid \<Rightarrow> transfer_payload outbox_table \<Rightarrow> transfer_payload OutboxRow list" where
  "intents_of et i tbl = filter (\<lambda>r. or_IsIntent r \<and> or_EventType r = et \<and> or_AggregateID r = i) tbl"

lemma count_intents:
  assumes "et \<in> money_intents"
  shows "length (intents_of et i tbl) = count_list (map fst (money_rows i tbl)) et"
  using assms
  by (induction tbl) (auto simp: intents_of_def money_rows_def money_row_def)

lemma intents_payload:
  assumes "et \<in> money_intents" and "r \<in> set (intents_of et i tbl)"
  shows "(et, or_Payload r) \<in> set (money_rows i tbl)"
  using assms by (auto simp: intents_of_def money_rows_def money_row_def)

lemma count_money:
  "count_list (concat (map money_step ss)) IntentTreasuryReserve = count_list ss TransferStatusFunded"
  "count_list (concat (map money_step ss)) IntentTreasuryConsume = count_list ss TransferStatusCompleted"
  "count_list (concat (map money_step ss)) IntentTreasuryRelease =
     count_list ss TransferStatusFailed + count_list ss TransferStatusRefunding"
proof (induction ss)
  case (Cons s ss)
  {
    case 1
    then show ?case using Cons by (cases s) simp_all
  next
    case 2
    then show ?case using Cons by (cases s) simp_all
  next
    case 3
    then show ?case using Cons by (cases s) simp_all
  }
qed simp_all

lemma count_distinct: "distinct xs \<Longrightarrow> count_list xs x \<le> 1"
  by (induction xs) (auto simp: count_list_0_iff)

lemma completed_last:
  "path ValidTransitions s ss \<Longrightarrow> TransferStatusCompleted \<in> set ss \<Longrightarrow>
     last (s # ss) = TransferStatusCompleted"
proof (induction ss arbitrary: s)
  case (Cons a ss)
  then show ?case by (cases "a = TransferStatusCompleted"; cases ss) auto
qed simp

lemma path_intents:
  assumes "path ValidTransitions TransferStatusCreated ss"
  shows "count_list (concat (map money_step ss)) IntentTreasuryReserve \<le> 1"
    and "count_list (concat (map money_step ss)) IntentTreasuryConsume \<le> 1"
    and "count_list (concat (map money_step ss)) IntentTreasuryConsume = 1 \<Longrightarrow>
      count_list (concat (map money_step ss)) IntentTreasuryReserve = 1 \<and>
      count_list (concat (map money_step ss)) IntentTreasuryRelease = 0"
proof -
  have d: "distinct ss" using tsm.path_distinct [OF assms] by simp
  show "count_list (concat (map money_step ss)) IntentTreasuryReserve \<le> 1"
    and "count_list (concat (map money_step ss)) IntentTreasuryConsume \<le> 1"
    unfolding count_money using count_distinct [OF d] by blast+
  assume "count_list (concat (map money_step ss)) IntentTreasuryConsume = 1"
  then have "TransferStatusCompleted \<in> set ss"
    unfolding count_money by (metis count_list_0_iff zero_neq_one)
  then have "ss = [TransferStatusFunded, TransferStatusOnRamping, TransferStatusSettling,
               TransferStatusOffRamping, TransferStatusCompleted]"
    using completed_path [OF assms] completed_last [OF assms] by blast
  then show "count_list (concat (map money_step ss)) IntentTreasuryReserve = 1 \<and>
      count_list (concat (map money_step ss)) IntentTreasuryRelease = 0"
    unfolding count_money by simp
qed

section \<open>Properties\<close>

text \<open>
  C5: Under any interleaving of engine calls, creations, configuration changes and relay marks,
  with any failures and lost acknowledgements, every transfer has gone through a chain of
  allowed transitions from CREATED to its status, of at most seven steps, and its version
  counts them: two workers that act on the same read never both commit.
\<close>

theorem engine_runs_follow_machine:
  assumes "engine_run L H" and "t \<in> set (db_transfers (hd H))"
  shows "\<exists>ss. path ValidTransitions TransferStatusCreated ss \<and>
           t_Status t = last (TransferStatusCreated # ss) \<and> t_Version t = int (length ss) \<and> length ss \<le> 7"
proof -
  from run_money_inv [OF assms(1)] assms(2) obtain ss where
    "path ValidTransitions TransferStatusCreated ss" "t_Status t = last (TransferStatusCreated # ss)"
    "t_Version t = int (length ss)" unfolding money_inv_def transfer_ok_def by blast
  with tsm.path_bounded [of TransferStatusCreated ss] show ?thesis by (intro exI [of _ ss]) simp
qed

text \<open>
  C2: Under any such interleaving, a transfer's funds are reserved at most once and consumed at
  most once, always for its source amount; a transfer whose reservation is consumed has had
  exactly one reservation and no release.
\<close>

theorem engine_reserves_and_consumes_once:
  assumes "engine_run L H" and "t \<in> set (db_transfers (hd H))"
  shows "length (intents_of IntentTreasuryReserve (t_ID t) (db_outbox (hd H))) \<le> 1 \<and>
         length (intents_of IntentTreasuryConsume (t_ID t) (db_outbox (hd H))) \<le> 1 \<and>
         (length (intents_of IntentTreasuryConsume (t_ID t) (db_outbox (hd H))) = 1 \<longrightarrow>
            length (intents_of IntentTreasuryReserve (t_ID t) (db_outbox (hd H))) = 1 \<and>
            length (intents_of IntentTreasuryRelease (t_ID t) (db_outbox (hd H))) = 0) \<and>
         (\<forall>et \<in> money_intents. \<forall>r \<in> set (intents_of et (t_ID t) (db_outbox (hd H))).
            \<exists>p. or_Payload r = Some p \<and> payload_amount p = t_SourceAmount t)"
proof -
  let ?rows = "money_rows (t_ID t) (db_outbox (hd H))"
  have ok: "transfer_ok (db_outbox (hd H)) t"
    using run_money_inv [OF assms(1)] assms(2) by (simp add: money_inv_def)
  then obtain ss where p: "path ValidTransitions TransferStatusCreated ss"
    and m: "map fst ?rows = concat (map money_step ss)" unfolding transfer_ok_def by blast
  have "\<exists>p. or_Payload r = Some p \<and> payload_amount p = t_SourceAmount t"
    if "et \<in> money_intents" "r \<in> set (intents_of et (t_ID t) (db_outbox (hd H)))" for et r
    using ok intents_payload [OF that] unfolding transfer_ok_def by (auto split: option.splits)
  moreover have "IntentTreasuryReserve \<in> money_intents" "IntentTreasuryConsume \<in> money_intents"
    "IntentTreasuryRelease \<in> money_intents" by (simp_all add: money_intents_def)
  ultimately show ?thesis
    using path_intents [OF p] by (simp add: count_intents m)
qed

text \<open>
  C25: A handler that returns an error without a lost commit acknowledgement has changed nothing,
  and no handler called for a tenant touches the transfers of another tenant.
\<close>

theorem engine_call_isolated:
  assumes "engine_run L H" and "rd0 \<in> set H" and "rd \<in> set H"
    and "exec_call L E c tn i rd0 rd (hd H) = (db, r)"
  shows "(isl r \<longrightarrow> ee_ok E TransitionTx 1 \<longrightarrow> db = hd H) \<and>
         (tn \<noteq> uuid_Nil \<longrightarrow> filter (\<lambda>t. t_TenantID t \<noteq> tn) (db_transfers db) =
                        filter (\<lambda>t. t_TenantID t \<noteq> tn) (db_transfers (hd H)))"
proof -
  have other: "filter (\<lambda>x. t_TenantID x \<noteq> tn) (map (\<lambda>x. if x = t then transition_row now s x else x) ts) =
      filter (\<lambda>x. t_TenantID x \<noteq> tn) ts" if "t_TenantID t = tn" for t s now ts
    using that by (induction ts) auto
  from moves_current [OF run_version_inv [OF assms(1)] assms(3) exec_call_moves [of E tn i rd "hd H" L c rd0]]
    assms(4)
  consider "db = hd H"
    | t s es where "tn = uuid_Nil \<or> t_TenantID t = tn" "db = apply_step (ee_now E) t s es (hd H)"
      "isl r \<longrightarrow> \<not> ee_ok E TransitionTx 1" by auto
  then show ?thesis
  proof cases
    case (2 t s es)
    then show ?thesis using other by (auto simp: apply_step_def)
  qed simp
qed

section \<open>Witnesses\<close>

definition sample_created :: transfer_db where
  "sample_created = sample_db\<lparr>db_transfers := [stored_transfer (sample_env 0) sample_new],
     db_outbox := outboxEntriesToParams 0 [refresh_entry (sample_new\<lparr>t_ID := 7, t_Version := 0\<rparr>)
       (created_entry (sample_env 0) 1 sample_new)]\<rparr>"

lemma sample_checks:
  "GetTenant (sample_env 0) sample_db 1 = Inr (tenantFromRow sample_tenant)"
  "Tenant_IsActive (tenantFromRow sample_tenant)" "tn_MaxPendingTransfers (tenantFromRow sample_tenant) = 0"
  "validate_request sample_request = Inr ()"
  "GetTransferByIdempotencyKey (sample_env 0) sample_db 1 (cr_IdempotencyKey sample_request) =
     Inl (Errorf ''settla-core: getting transfer by idempotency key'' (Some no_rows))"
  "resolve_quote L sample_engine (sample_env 0) 1 sample_request sample_db = (sample_db, Inr sample_quote)"
  "check_quote sample_engine (tenantFromRow sample_tenant) sample_request sample_quote = Inr ()"
  "check_daily_limit L sample_engine (sample_env 0) sample_db (tenantFromRow sample_tenant) 1 a vs = (vs, Inr ())"
  "check_fees sample_new = Inr ()"
  by (simp_all add: GetTenant_def sample_env_def sample_db_def sample_tenant_def tenantFromRow_def Tenant_IsActive_def
      validate_request_def sample_request_def ValidateCurrency_def SupportedCurrencies_def CurrencyNGN_def
      CurrencyUSD_def CurrencyGBP_def Sender_Validate_def
      GetTransferByIdempotencyKey_def resolve_quote_def GetQuote_def sample_quote_def Quote_IsExpired_def
      check_quote_def Quote_Validate_def sample_engine_def ValidateChain_def SupportedChains_def check_daily_limit_def
      check_fees_def sample_new_def new_transfer_def sample_fees_def FeeBreakdown_Validate_def)

lemma sample_prepare:
  "create_prepare L sample_engine (sample_env 0) 1 sample_request (sample_db, sample_volume) =
     ((sample_db, sample_volume),
      Inr (Inr (tenantFromRow sample_tenant, sample_new, [created_entry (sample_env 0) 1 sample_new])))"
proof -
  have key: "cr_IdempotencyKey sample_request \<noteq> []" by (simp add: sample_request_def)
  have ev: "NewOutboxEvent (ee_uuid (sample_env 0) 1) (ee_now (sample_env 0)) ''transfer'' (t_ID sample_new) 1
      EventTransferCreated (Some (TransferSnapshot sample_new)) =
      Inr (created_entry (sample_env 0) 1 sample_new\<lparr>ob_CorrelationID := uuid_Nil\<rparr>)"
    by (simp add: NewOutboxEvent_ok created_entry_def zero_entry_def known_type_defs)
  have "setCorrelationID [created_entry (sample_env 0) 1 sample_new\<lparr>ob_CorrelationID := uuid_Nil\<rparr>] (t_ID sample_new) =
      [created_entry (sample_env 0) 1 sample_new]"
    by (simp add: setCorrelationID_def WithCorrelationID_def created_entry_def)
  then show ?thesis
    unfolding create_prepare_def
    by (simp add: sample_checks key Let_def sample_new_def [symmetric] ev [unfolded One_nat_def])
qed

lemma sample_commit:
  "create_commit sample_engine (sample_env 0) 1 (tenantFromRow sample_tenant) sample_new
     [created_entry (sample_env 0) 1 sample_new] (sample_db, sample_volume) =
     ((sample_created, sample_volume), Inr (sample_new\<lparr>t_ID := 7, t_Version := 0, t_CreatedAt := 0, t_UpdatedAt := 0\<rparr>))"
proof -
  let ?t = "sample_new\<lparr>t_ID := 7, t_Version := 0, t_CreatedAt := 0, t_UpdatedAt := 0\<rparr>"
  have st: "t_ID (stored_transfer (sample_env 0) sample_new) = 7"
    "t_Version (stored_transfer (sample_env 0) sample_new) = 0"
    "t_CreatedAt (stored_transfer (sample_env 0) sample_new) = 0"
    "t_UpdatedAt (stored_transfer (sample_env 0) sample_new) = 0"
    by (simp_all add: stored_transfer_def sample_env_def)
  have t: "?t = sample_new\<lparr>t_ID := 7, t_Version := 0\<rparr>"
    by (simp add: sample_new_def new_transfer_def sample_env_def)
  have "InsertOutboxEntries (outboxEntriesToParams 0 [refresh_entry ?t (created_entry (sample_env 0) 1 sample_new)])
      (db_outbox sample_db) =
      Inr (outboxEntriesToParams 0 [refresh_entry ?t (created_entry (sample_env 0) 1 sample_new)])"
    by (simp add: InsertOutboxEntries_def outboxEntriesToParams_def sample_db_def)
  moreover have "db_transfers sample_db = []" "tn_DailyLimitUSD (tenantFromRow sample_tenant) = 0"
    "ee_now (sample_env 0) = 0" "ee_ok (sample_env 0) s k"  for s k
    by (simp_all add: sample_db_def tenantFromRow_def sample_tenant_def sample_env_def)
  ultimately show ?thesis
    by (simp add: create_commit_def CreateTransferWithOutbox_def Let_def st sample_created_def t)
qed

lemma sample_run: "engine_run L [sample_created, sample_db]"
proof (rule run_create [where vs' = sample_volume, OF _ _ sample_prepare])
  show "engine_run L [sample_db]" by (rule run_start) (simp_all add: sample_db_def)
  show "create_commit sample_engine (sample_env 0) 1 (tenantFromRow sample_tenant) sample_new
      [created_entry (sample_env 0) 1 sample_new] (hd [sample_db], sample_volume) =
     ((sample_created, sample_volume), Inr (sample_new\<lparr>t_ID := 7, t_Version := 0, t_CreatedAt := 0, t_UpdatedAt := 0\<rparr>))"
    by (simp only: list.sel sample_commit)
qed (simp_all add: sample_db_def)

lemma sample_stored:
  "stored_transfer (sample_env 0) sample_new \<in> set (db_transfers sample_created)"
  "t_ID (stored_transfer (sample_env 0) sample_new) = 7"
  by (simp_all add: sample_created_def stored_transfer_def sample_env_def)

theorem engine_runs_follow_machine_witness:
  "engine_run ref_lib [sample_created, sample_db] \<and>
   (\<exists>ss. path ValidTransitions TransferStatusCreated ss \<and> length ss \<le> 7 \<and>
      t_Status (stored_transfer (sample_env 0) sample_new) = last (TransferStatusCreated # ss))"
  using sample_run engine_runs_follow_machine [OF sample_run [of ref_lib], of "stored_transfer (sample_env 0) sample_new"]
    sample_stored(1) by auto

theorem engine_reserves_and_consumes_once_witness:
  "engine_run ref_lib [sample_created, sample_db] \<and>
   length (intents_of IntentTreasuryReserve 7 (db_outbox sample_created)) \<le> 1"
  using sample_run engine_reserves_and_consumes_once [OF sample_run [of ref_lib], of "stored_transfer (sample_env 0) sample_new"]
    sample_stored by auto

theorem engine_call_isolated_witness:
  "\<exists>db r. exec_call ref_lib (sample_env 1) CallInitiateOnRamp 1 7 sample_db sample_created sample_created = (db, r) \<and>
     isl r \<and> db = sample_created"
proof -
  obtain db r where c: "exec_call ref_lib (sample_env 1) CallInitiateOnRamp 1 7 sample_db sample_created sample_created = (db, r)"
    by (cases "exec_call ref_lib (sample_env 1) CallInitiateOnRamp 1 7 sample_db sample_created sample_created")
  then have "isl r"
    by (auto simp: InitiateOnRamp_def loadTransferForStep_def loadTransfer_def GetTransfer_def sample_env_def
        sample_created_def stored_transfer_def sample_new_def new_transfer_def)
  moreover have "ee_ok (sample_env 1) TransitionTx 1" by (simp add: sample_env_def)
  ultimately show ?thesis
    using engine_call_isolated [OF sample_run, of sample_db sample_created ref_lib "sample_env 1" CallInitiateOnRamp 1 7 db r] c
    by (simp del: exec_call.simps)
qed

end
