(* ===== verification/Ledger_Service.thy ===== *)
theory Ledger_Service
  imports Ledger_Domain
begin

text \<open>
  The TigerBeetle write path of the ledger (\<^verbatim>\<open>src/ledger/tigerbeetle.go\<close>,
  \<^verbatim>\<open>src/ledger/batch.go\<close>, \<^verbatim>\<open>src/ledger/ledger.go\<close>, \<^verbatim>\<open>src/resilience/retry.go\<close>). The TigerBeetle
  client is third-party code: its two write calls are parameters on a state of any type. Amounts
  are 64-bit words at the client, as in the code.
\<close>

section \<open>Amounts and identifiers\<close>

definition AmountScale :: int where
  "AmountScale = 100000000"

definition AccountIDFromCode :: "lib \<Rightarrow> string \<Rightarrow> uuid" where
  "AccountIDFromCode L code = sha256_16 L code"

definition generateTransferID :: "lib \<Rightarrow> uuid \<Rightarrow> nat \<Rightarrow> uuid" where
  "generateTransferID L entryID index = sha256_16 L (uuid_string L entryID @ '':'' @ show_nat index)"

definition DecimalToTBAmount :: "lib \<Rightarrow> decimal \<Rightarrow> 64 word result" where
  "DecimalToTBAmount L d =
     (let scaled = dec_truncate L d 8 * of_int AmountScale in
      if scaled < 0 then Inl (Errorf ''settla-ledger: negative amount'' None)
      else Inr (word_of_int (dec_int_part L scaled)))"

definition TBAmountToDecimal :: "lib \<Rightarrow> 64 word \<Rightarrow> decimal" where
  "TBAmountToDecimal L amount = dec_div L (of_int (sint amount)) (of_int AmountScale)"

section \<open>Transfers of a journal entry\<close>

record TBAccount =
  ta_ID :: uuid
  ta_Ledger :: "32 word"
  ta_Code :: "16 word"
  ta_DebitsPosted :: "64 word"
  ta_CreditsPosted :: "64 word"

record TBTransfer =
  tb_ID :: uuid
  tb_DebitAccountID :: uuid
  tb_CreditAccountID :: uuid
  tb_UserData128 :: uuid
  tb_Amount :: "64 word"
  tb_Ledger :: "32 word"
  tb_Code :: "16 word"
  tb_Flags :: "16 word"

record TBCreateResult =
  tr_Index :: nat
  tr_Result :: nat

definition TBResultOK :: nat where "TBResultOK = 0"
definition TBResultExists :: nat where "TBResultExists = 1"

definition TBFlagLinked :: "16 word" where "TBFlagLinked = 1"

text \<open>
  The matching loop of \<^verbatim>\<open>buildTransfers\<close>. The indices \<^verbatim>\<open>di\<close> and \<^verbatim>\<open>ci\<close> are the lists of lines not
  yet used up; \<^verbatim>\<open>dRem\<close> and \<^verbatim>\<open>cRem\<close> are what is left of their first lines.
\<close>

definition next_rem :: "EntryLine list \<Rightarrow> decimal \<Rightarrow> decimal" where
  "next_rem ls rem = (case ls of [] \<Rightarrow> rem | l # _ \<Rightarrow> p_Amount l)"

function build_loop ::
  "lib \<Rightarrow> 32 word \<Rightarrow> JournalEntry \<Rightarrow> uuid \<Rightarrow> EntryLine list \<Rightarrow> EntryLine list \<Rightarrow>
   decimal \<Rightarrow> decimal \<Rightarrow> nat \<Rightarrow> TBTransfer list result" where
  "build_loop L ledger entry idempKey debits credits dRem cRem idx =
     (case (debits, credits) of
        (d # ds, c # cs) \<Rightarrow>
          (let amount = (if cRem < dRem then cRem else dRem) in
           case DecimalToTBAmount L amount of
             Inl err \<Rightarrow> Inl (Errorf ''settla-ledger: converting amount for pair'' (Some err))
           | Inr tbAmount \<Rightarrow>
              (let t = \<lparr>tb_ID = generateTransferID L (je_ID entry) idx,
                        tb_DebitAccountID = AccountIDFromCode L (p_AccountCode d),
                        tb_CreditAccountID = AccountIDFromCode L (p_AccountCode c),
                        tb_UserData128 = idempKey, tb_Amount = tbAmount,
                        tb_Ledger = ledger, tb_Code = 1, tb_Flags = 0\<rparr>;
                   dRem' = dRem - amount; cRem' = cRem - amount;
                   debits' = (if dRem' = 0 then ds else d # ds);
                   credits' = (if cRem' = 0 then cs else c # cs);
                   dRem'' = (if dRem' = 0 then next_rem ds dRem' else dRem');
                   cRem'' = (if cRem' = 0 then next_rem cs cRem' else cRem') in
               case build_loop L ledger entry idempKey debits' credits' dRem'' cRem'' (idx + 1) of
                 Inl err \<Rightarrow> Inl err
               | Inr ts \<Rightarrow> Inr (t # ts)))
      | _ \<Rightarrow> Inr [])"
  by pat_completeness auto
termination
  by (relation "measure (\<lambda>(L, ledger, entry, key, ds, cs, d, c, idx). length ds + length cs)") auto

declare build_loop.simps [simp del]

fun link_all_but_last :: "TBTransfer list \<Rightarrow> TBTransfer list" where
  "link_all_but_last [] = []"
| "link_all_but_last [t] = [t]"
| "link_all_but_last (t # u # ts) = t\<lparr>tb_Flags := tb_Flags t OR TBFlagLinked\<rparr> # link_all_but_last (u # ts)"

definition buildTransfers ::
  "lib \<Rightarrow> 32 word \<Rightarrow> JournalEntry \<Rightarrow> EntryLine list \<Rightarrow> EntryLine list \<Rightarrow> TBTransfer list result" where
  "buildTransfers L ledger entry debits credits =
     (case build_loop L ledger entry (AccountIDFromCode L (je_IdempotencyKey entry)) debits credits
             (next_rem debits 0) (next_rem credits 0) 0 of
        Inl err \<Rightarrow> Inl err
      | Inr ts \<Rightarrow> Inr (link_all_but_last ts))"

abbreviation debit_lines :: "JournalEntry \<Rightarrow> EntryLine list" where
  "debit_lines entry \<equiv> filter (\<lambda>l. p_EntryType l = EntryTypeDebit) (je_Lines entry)"

abbreviation credit_lines :: "JournalEntry \<Rightarrow> EntryLine list" where
  "credit_lines entry \<equiv> filter (\<lambda>l. p_EntryType l = EntryTypeCredit) (je_Lines entry)"

section \<open>The backend\<close>

record 'tb tb_client =
  CreateAccounts :: "TBAccount list \<Rightarrow> 'tb \<Rightarrow> 'tb \<times> TBCreateResult list result"
  CreateTransfers :: "TBTransfer list \<Rightarrow> 'tb \<Rightarrow> 'tb \<times> TBCreateResult list result"
  LookupAccounts :: "uuid list \<Rightarrow> 'tb \<Rightarrow> TBAccount list result"

definition bad_result :: "TBCreateResult \<Rightarrow> bool" where
  "bad_result r \<longleftrightarrow> tr_Result r \<noteq> TBResultOK \<and> tr_Result r \<noteq> TBResultExists"

definition EnsureAccounts ::
  "lib \<Rightarrow> 'tb tb_client \<Rightarrow> 32 word \<Rightarrow> string list \<Rightarrow> 'tb \<Rightarrow> 'tb \<times> unit result" where
  "EnsureAccounts L client ledger codes st =
     (if codes = [] then (st, Inr ())
      else let accounts = map (\<lambda>code. \<lparr>ta_ID = AccountIDFromCode L code, ta_Ledger = ledger, ta_Code = 1,
                                 ta_DebitsPosted = 0, ta_CreditsPosted = 0\<rparr>) codes in
           case CreateAccounts client accounts st of
             (st', Inl err) \<Rightarrow> (st', Inl (Errorf ''settla-ledger: creating TB accounts'' (Some err)))
           | (st', Inr results) \<Rightarrow>
              if list_ex bad_result results
              then (st', Inl (Errorf ''settla-ledger: creating TB account: result code'' None))
              else (st', Inr ()))"

definition tb_PostEntries ::
  "lib \<Rightarrow> 'tb tb_client \<Rightarrow> 32 word \<Rightarrow> JournalEntry \<Rightarrow> 'tb \<Rightarrow> 'tb \<times> uuid list result" where
  "tb_PostEntries L client ledger entry st =
     (case buildTransfers L ledger entry (debit_lines entry) (credit_lines entry) of
        Inl err \<Rightarrow> (st, Inl err)
      | Inr transfers \<Rightarrow>
         if transfers = []
         then (st, Inl (Errorf ''settla-ledger: no transfers to create from entry'' None))
         else case CreateTransfers client transfers st of
             (st', Inl err) \<Rightarrow> (st', Inl (Errorf ''settla-ledger: posting to TigerBeetle'' (Some err)))
           | (st', Inr results) \<Rightarrow>
              if list_ex bad_result results
              then (st', Inl (Errorf ''settla-ledger: TB transfer failed: result code'' None))
              else (st', Inr (map tb_ID transfers)))"

definition tb_GetBalance :: "lib \<Rightarrow> 'tb tb_client \<Rightarrow> string \<Rightarrow> 'tb \<Rightarrow> decimal result" where
  "tb_GetBalance L client accountCode st =
     (case LookupAccounts client [AccountIDFromCode L accountCode] st of
        Inl err \<Rightarrow> Inl (Errorf ''settla-ledger: looking up TB account'' (Some err))
      | Inr [] \<Rightarrow> Inl (Errorf ''settla-ledger: account'' (Some (ErrAccountNotFound accountCode)))
      | Inr (acc # _) \<Rightarrow>
         Inr (TBAmountToDecimal L (ta_CreditsPosted acc) - TBAmountToDecimal L (ta_DebitsPosted acc)))"

section \<open>The batcher\<close>

text \<open>
  \<^verbatim>\<open>flushBatch\<close>: the first loop builds the transfers of every item (\<^verbatim>\<open>Inl\<close>: the error already sent
  to that item), the second distributes the results by index range. An outcome of \<^verbatim>\<open>None\<close> is a
  result channel that receives nothing.
\<close>

definition collect_item ::
  "lib \<Rightarrow> 32 word \<Rightarrow> JournalEntry \<Rightarrow> TBTransfer list \<times> (error + nat \<times> nat) list \<Rightarrow>
   TBTransfer list \<times> (error + nat \<times> nat) list" where
  "collect_item L ledger entry acc =
     (case acc of (allTransfers, entryMap) \<Rightarrow>
       (case buildTransfers L ledger entry (debit_lines entry) (credit_lines entry) of
          Inl err \<Rightarrow>
            (allTransfers,
             entryMap @ [Inl (Errorf ''settla-ledger: building transfers'' (Some err))])
        | Inr transfers \<Rightarrow>
            (allTransfers @ transfers,
             entryMap @ [Inr (length allTransfers, length transfers)])))"

definition entry_outcome :: "TBCreateResult list \<Rightarrow> error + nat \<times> nat \<Rightarrow> unit result option" where
  "entry_outcome results slot =
     (case slot of
        Inl err \<Rightarrow> Some (Inl err)
      | Inr (startIdx, count) \<Rightarrow>
         if count = 0 then None
         else if list_ex (\<lambda>r. bad_result r \<and> startIdx \<le> tr_Index r \<and> tr_Index r < startIdx + count) results
         then Some (Inl (Errorf ''settla-ledger: TB transfer failed: result code'' None))
         else Some (Inr ()))"

definition flushBatch ::
  "lib \<Rightarrow> 'tb tb_client \<Rightarrow> 32 word \<Rightarrow> JournalEntry list \<Rightarrow> 'tb \<Rightarrow> 'tb \<times> unit result option list" where
  "flushBatch L client ledger items st =
     (case fold (collect_item L ledger) items ([], []) of
        (allTransfers, entryMap) \<Rightarrow>
          if allTransfers = []
          then (st, map (\<lambda>slot. case slot of Inl err \<Rightarrow> Some (Inl err) | Inr _ \<Rightarrow> None) entryMap)
          else case CreateTransfers client allTransfers st of
              (st', Inl err) \<Rightarrow>
                (st', map (\<lambda>slot. case slot of Inl err \<Rightarrow> Some (Inl err)
                             | Inr _ \<Rightarrow> Some (Inl (Errorf ''settla-ledger: batch TB write failed'' (Some err)))) entryMap)
            | (st', Inr results) \<Rightarrow> (st', map (entry_outcome results) entryMap))"

section \<open>Retry\<close>

text \<open>
  \<^verbatim>\<open>resilience.Retry\<close> with the ledger's \<^verbatim>\<open>shouldRetry\<close>: the \<open>k\<close>-th attempt runs on the state the
  previous ones left; \<open>alive k\<close> says that the context is not cancelled when attempt \<open>k\<close> has ended,
  \<open>alive_backoff k\<close> that it is not cancelled during the sleep that follows. The sleeping time
  (backoff and jitter) is not modelled.
\<close>

fun Retry ::
  "(nat \<Rightarrow> bool) \<Rightarrow> (nat \<Rightarrow> bool) \<Rightarrow> (nat \<Rightarrow> 's \<Rightarrow> 's \<times> unit result) \<Rightarrow> nat \<Rightarrow> nat \<Rightarrow> 's \<Rightarrow>
   's \<times> unit result" where
  "Retry alive alive_backoff fn attempt 0 st =
     (st, Inl (Errorf ''settla-resilience: retry exhausted'' None))"
| "Retry alive alive_backoff fn attempt (Suc left) st =
     (case fn attempt st of
        (st', Inr _) \<Rightarrow> (st', Inr ())
      | (st', Inl lastErr) \<Rightarrow>
         if \<not> alive attempt then (st', Inl lastErr)
         else if left = 0
         then (st', Inl (Errorf ''settla-resilience: retry exhausted'' (Some lastErr)))
         else if \<not> alive_backoff attempt
         then (st', Inl (Errorf ''settla-resilience: retry cancelled during backoff'' None))
         else Retry alive alive_backoff fn (attempt + 1) left st')"

section \<open>The composite service\<close>

record 'tb ledger_service =
  ls_client :: "'tb tb_client option"
  ls_ledger :: "32 word"
  ls_batching :: bool

text \<open>
  One write attempt. With batching, \<^verbatim>\<open>Submit\<close> joins a batch in which other callers' entries
  stand before and after (\<open>peers\<close>); when no result ever arrives the call ends with the
  cancellation of its context.
\<close>

definition tbWrite ::
  "lib \<Rightarrow> 'tb ledger_service \<Rightarrow> 'tb tb_client \<Rightarrow> JournalEntry list \<times> JournalEntry list \<Rightarrow>
   JournalEntry \<Rightarrow> 'tb \<Rightarrow> 'tb \<times> unit result" where
  "tbWrite L svc client peers entry st =
     (if ls_batching svc then
        (case flushBatch L client (ls_ledger svc) (fst peers @ [entry] @ snd peers) st of
           (st', outcomes) \<Rightarrow>
             (case outcomes ! length (fst peers) of
                Some r \<Rightarrow> (st', r)
              | None \<Rightarrow> (st', Inl (Errorf ''settla-ledger: batch submit cancelled'' None))))
      else
        (case tb_PostEntries L client (ls_ledger svc) entry st of
           (st', Inl err) \<Rightarrow> (st', Inl err)
         | (st', Inr _) \<Rightarrow> (st', Inr ())))"

definition assign_ids :: "(nat \<Rightarrow> uuid) \<Rightarrow> instant \<Rightarrow> JournalEntry \<Rightarrow> JournalEntry" where
  "assign_ids fresh now entry =
     (let posted = (if je_PostedAt entry = 0 then now else je_PostedAt entry) in
      entry\<lparr>je_ID := (if je_ID entry = uuid_Nil then fresh 0 else je_ID entry),
            je_PostedAt := posted,
            je_EffectiveDate := (if je_EffectiveDate entry = 0 then posted else je_EffectiveDate entry),
            je_Lines := map (\<lambda>(i, line). if l_ID line = uuid_Nil then line\<lparr>l_ID := fresh (i + 1)\<rparr> else line)
                          (enumerate 0 (je_Lines entry))\<rparr>)"

definition PostEntries ::
  "lib \<Rightarrow> 'tb ledger_service \<Rightarrow> (nat \<Rightarrow> bool) \<Rightarrow> (nat \<Rightarrow> bool) \<Rightarrow>
   (nat \<Rightarrow> JournalEntry list \<times> JournalEntry list) \<Rightarrow> (nat \<Rightarrow> uuid) \<Rightarrow> instant \<Rightarrow>
   JournalEntry \<Rightarrow> 'tb \<Rightarrow> 'tb \<times> JournalEntry result" where
  "PostEntries L svc alive alive_backoff peers fresh now entry st =
     (case ValidateEntries (je_Lines entry) of
        Inl err \<Rightarrow> (st, Inl (Errorf ''settla-ledger: validating entries'' (Some err)))
      | Inr _ \<Rightarrow>
         (let entry = assign_ids fresh now entry in
          case ls_client svc of
            None \<Rightarrow> (st, Inr entry)
          | Some client \<Rightarrow>
             (case EnsureAccounts L client (ls_ledger svc) (map p_AccountCode (je_Lines entry)) st of
                (st1, Inl err) \<Rightarrow> (st1, Inl (Errorf ''settla-ledger: ensuring accounts'' (Some err)))
              | (st1, Inr _) \<Rightarrow>
                 (case Retry alive alive_backoff (\<lambda>k. tbWrite L svc client (peers k) entry) 0 3 st1 of
                    (st2, Inl err) \<Rightarrow> (st2, Inl (Errorf ''settla-ledger: TB write'' (Some err)))
                  | (st2, Inr _) \<Rightarrow> (st2, Inr entry)))))"

definition reverse_type :: "EntryType \<Rightarrow> EntryType" where
  "reverse_type ty = (if ty = EntryTypeDebit then EntryTypeCredit else EntryTypeDebit)"

definition reversal_line :: "string \<Rightarrow> uuid \<Rightarrow> EntryLine \<Rightarrow> EntryLine" where
  "reversal_line reason fresh_id line =
     line\<lparr>l_ID := fresh_id, p_EntryType := reverse_type (p_EntryType line),
          p_Description := ''Reversal: '' @ reason\<rparr>"

definition reversal_entry ::
  "lib \<Rightarrow> (nat \<Rightarrow> uuid) \<Rightarrow> instant \<Rightarrow> uuid \<Rightarrow> string \<Rightarrow> JournalEntry \<Rightarrow> JournalEntry" where
  "reversal_entry L fresh now entryID reason original =
     \<lparr>je_ID = fresh 0, je_TenantID = je_TenantID original,
      je_IdempotencyKey = ''reversal:'' @ uuid_string L entryID,
      je_PostedAt = now, je_EffectiveDate = now,
      je_Description = ''Reversal of '' @ uuid_string L entryID @ '': '' @ reason,
      je_ReferenceType = ''reversal'', je_ReferenceID = Some entryID,
      je_ReversedBy = None, je_ReversalOf = Some entryID,
      je_Lines = map (\<lambda>(i, line). reversal_line reason (fresh (i + 1)) line)
                   (enumerate 0 (je_Lines original)),
      je_Metadata = [(''reason'', reason)]\<rparr>"

text \<open>\<^verbatim>\<open>ReverseEntry\<close>; \<open>lookup\<close> is the Postgres read model, \<^verbatim>\<open>None\<close> when it is not configured.\<close>

definition ReverseEntry ::
  "lib \<Rightarrow> 'tb ledger_service \<Rightarrow> (uuid \<Rightarrow> JournalEntry result) option \<Rightarrow> (nat \<Rightarrow> bool) \<Rightarrow>
   (nat \<Rightarrow> bool) \<Rightarrow> (nat \<Rightarrow> JournalEntry list \<times> JournalEntry list) \<Rightarrow> (nat \<Rightarrow> uuid) \<Rightarrow> instant \<Rightarrow>
   uuid \<Rightarrow> string \<Rightarrow> 'tb \<Rightarrow> 'tb \<times> JournalEntry result" where
  "ReverseEntry L svc lookup alive alive_backoff peers fresh now entryID reason st =
     (case lookup of
        None \<Rightarrow> (st, Inl (Errorf ''settla-ledger: postgres backend not available for reversal lookup'' None))
      | Some get \<Rightarrow>
         (case get entryID of
            Inl err \<Rightarrow> (st, Inl (Errorf ''settla-ledger: loading entry for reversal'' (Some err)))
          | Inr original \<Rightarrow>
             (case PostEntries L svc alive alive_backoff peers fresh now
                     (reversal_entry L fresh now entryID reason original) st of
                (st', Inl err) \<Rightarrow> (st', Inl (Errorf ''settla-ledger: posting reversal'' (Some err)))
              | (st', Inr e) \<Rightarrow> (st', Inr e))))"

section \<open>Lemmas on amounts and matching\<close>

text \<open>Amounts the client can carry exactly: positive, at most 8 decimals, below the \<^verbatim>\<open>int64\<close> limit.\<close>

definition tb_exact :: "decimal \<Rightarrow> bool" where
  "tb_exact d \<longleftrightarrow> multiple_of (1 / 10 ^ 8) d \<and> 0 < d \<and> d * 10 ^ 8 \<le> of_int max_int64"

lemma tb_exact_scaled:
  assumes "tb_exact d"
  obtains k where "d * 10 ^ 8 = of_int k" and "0 < k" and "k \<le> max_int64"
proof -
  from assms obtain k :: int where k: "d = of_int k * (1 / 10 ^ 8)"
    by (auto simp: tb_exact_def multiple_of_def)
  then have "d * 10 ^ 8 = of_int k" by simp
  moreover have "0 < k" using assms k by (simp add: tb_exact_def zero_less_mult_iff)
  moreover have "(of_int k :: rat) \<le> of_int max_int64"
    using assms unfolding calculation(1) [symmetric] by (simp only: tb_exact_def)
  then have "k \<le> max_int64" by (simp only: of_int_le_iff)
  ultimately show thesis by (rule that)
qed

definition tb_value :: "64 word \<Rightarrow> rat" where
  "tb_value w = of_int (uint w)"

lemma DecimalToTBAmount_exact:
  assumes "truncate_law L" and "int_part_law L" and "tb_exact d"
  shows "\<exists>w. DecimalToTBAmount L d = Inr w \<and> tb_value w = d * 10 ^ 8"
proof -
  from assms(3) obtain k where k: "d * 10 ^ 8 = of_int k" "0 < k" "k \<le> max_int64"
    by (rule tb_exact_scaled)
  have "dec_truncate L d 8 = of_int k / 10 ^ 8"
    using assms(1) k(1) by (simp only: truncate_law_def trunc_rat_of_int)
  then have scaled: "dec_truncate L d 8 * of_int AmountScale = of_int k"
    by (simp add: AmountScale_def)
  have "dec_int_part L (of_int k) = k"
    using assms(2) k(2,3) by (simp add: int_part_law_def in_int64_nonneg)
  then have "DecimalToTBAmount L d = Inr (word_of_int k)"
    using k(2) by (simp add: DecimalToTBAmount_def scaled)
  moreover have "uint (word_of_int k :: 64 word) = k"
    using k(2,3) by (simp add: uint_word_of_int max_int64_def)
  then have "tb_value (word_of_int k) = of_int k" by (simp only: tb_value_def)
  ultimately show ?thesis using k by auto
qed

lemma tb_exact_diff:
  assumes "tb_exact x" and "tb_exact y" and "y < x"
  shows "tb_exact (x - y)"
proof -
  from assms obtain i j :: int where "x = of_int i * (1 / 10 ^ 8)" and "y = of_int j * (1 / 10 ^ 8)"
    by (auto simp: tb_exact_def multiple_of_def)
  then have "x - y = of_int (i - j) * (1 / 10 ^ 8)" by (simp add: left_diff_distrib)
  then have "multiple_of (1 / 10 ^ 8) (x - y)" unfolding multiple_of_def by blast
  with assms show ?thesis by (auto simp: tb_exact_def algebra_simps)
qed

definition acct_sum :: "lib \<Rightarrow> uuid \<Rightarrow> EntryLine list \<Rightarrow> decimal" where
  "acct_sum L a ls = (\<Sum>l\<leftarrow>ls. if AccountIDFromCode L (p_AccountCode l) = a then p_Amount l else 0)"

fun side_sum :: "lib \<Rightarrow> uuid \<Rightarrow> EntryLine list \<Rightarrow> decimal \<Rightarrow> decimal" where
  "side_sum L a [] rem = 0"
| "side_sum L a (l # ls) rem =
     (if AccountIDFromCode L (p_AccountCode l) = a then rem else 0) + acct_sum L a ls"

fun side_total :: "EntryLine list \<Rightarrow> decimal \<Rightarrow> decimal" where
  "side_total [] rem = 0"
| "side_total (l # ls) rem = rem + (\<Sum>l\<leftarrow>ls. p_Amount l)"

definition tb_debited :: "uuid \<Rightarrow> TBTransfer list \<Rightarrow> rat" where
  "tb_debited a ts = (\<Sum>t\<leftarrow>ts. if tb_DebitAccountID t = a then tb_value (tb_Amount t) else 0)"

definition tb_credited :: "uuid \<Rightarrow> TBTransfer list \<Rightarrow> rat" where
  "tb_credited a ts = (\<Sum>t\<leftarrow>ts. if tb_CreditAccountID t = a then tb_value (tb_Amount t) else 0)"

definition pair_transfer ::
  "lib \<Rightarrow> 32 word \<Rightarrow> JournalEntry \<Rightarrow> uuid \<Rightarrow> EntryLine \<Rightarrow> EntryLine \<Rightarrow> 64 word \<Rightarrow> nat \<Rightarrow> TBTransfer" where
  "pair_transfer L ledger entry key d c w idx =
     \<lparr>tb_ID = generateTransferID L (je_ID entry) idx,
      tb_DebitAccountID = AccountIDFromCode L (p_AccountCode d),
      tb_CreditAccountID = AccountIDFromCode L (p_AccountCode c),
      tb_UserData128 = key, tb_Amount = w, tb_Ledger = ledger, tb_Code = 1, tb_Flags = 0\<rparr>"

abbreviation cons_result :: "'a \<Rightarrow> 'a list result \<Rightarrow> 'a list result" where
  "cons_result t r \<equiv> (case r of Inl err \<Rightarrow> Inl err | Inr ts \<Rightarrow> Inr (t # ts))"

lemma build_loop_Nil [simp]:
  "build_loop L ledger entry key [] cs dRem cRem idx = Inr []"
  "build_loop L ledger entry key ds [] dRem cRem idx = Inr []"
  by (subst build_loop.simps; simp split: list.splits)+

lemma build_loop_less:
  assumes "dRem < cRem" and "DecimalToTBAmount L dRem = Inr w"
  shows "build_loop L ledger entry key (d # ds) (c # cs) dRem cRem idx =
     cons_result (pair_transfer L ledger entry key d c w idx)
       (build_loop L ledger entry key ds (c # cs) (next_rem ds 0) (cRem - dRem) (idx + 1))"
  using assms by (subst build_loop.simps) (simp add: Let_def pair_transfer_def split: sum.splits)

lemma build_loop_greater:
  assumes "cRem < dRem" and "DecimalToTBAmount L cRem = Inr w"
  shows "build_loop L ledger entry key (d # ds) (c # cs) dRem cRem idx =
     cons_result (pair_transfer L ledger entry key d c w idx)
       (build_loop L ledger entry key (d # ds) cs (dRem - cRem) (next_rem cs 0) (idx + 1))"
  using assms by (subst build_loop.simps) (simp add: Let_def pair_transfer_def split: sum.splits)

lemma build_loop_equal:
  assumes "DecimalToTBAmount L rem = Inr w"
  shows "build_loop L ledger entry key (d # ds) (c # cs) rem rem idx =
     cons_result (pair_transfer L ledger entry key d c w idx)
       (build_loop L ledger entry key ds cs (next_rem ds 0) (next_rem cs 0) (idx + 1))"
  using assms by (subst build_loop.simps) (simp add: Let_def pair_transfer_def split: sum.splits)

text \<open>
  The loop posts every line exactly: for a balanced pair of sides it succeeds, and the transfers
  debit and credit every account by the lines that name it, in units of 10^-8.
\<close>

lemma next_rem_exact:
  "\<forall>l \<in> set ls. tb_exact (p_Amount l) \<Longrightarrow> ls \<noteq> [] \<Longrightarrow> tb_exact (next_rem ls r)"
  by (cases ls) (auto simp: next_rem_def)

lemma side_next_rem:
  "side_sum L a ls (next_rem ls r) = acct_sum L a ls"
  "side_total ls (next_rem ls r) = (\<Sum>l\<leftarrow>ls. p_Amount l)"
  by (cases ls; simp add: next_rem_def acct_sum_def)+

lemma amounts_pos:
  "\<forall>l \<in> set ls. tb_exact (p_Amount l) \<Longrightarrow> 0 \<le> (\<Sum>l\<leftarrow>ls. p_Amount l)"
  "\<forall>l \<in> set ls. tb_exact (p_Amount l) \<Longrightarrow> (\<Sum>l\<leftarrow>ls. p_Amount l) = 0 \<longleftrightarrow> ls = []"
proof -
  assume a: "\<forall>l \<in> set ls. tb_exact (p_Amount l)"
  then show nn: "0 \<le> (\<Sum>l\<leftarrow>ls. p_Amount l)"
    by (intro sum_list_rat_nonneg) (auto simp: tb_exact_def)
  show "(\<Sum>l\<leftarrow>ls. p_Amount l) = 0 \<longleftrightarrow> ls = []"
  proof (cases ls)
    case (Cons l ls')
    have "0 < p_Amount l" using a Cons by (simp add: tb_exact_def)
    moreover have "0 \<le> (\<Sum>l\<leftarrow>ls'. p_Amount l)"
      using a Cons by (intro sum_list_rat_nonneg) (auto simp: tb_exact_def)
    ultimately show ?thesis using Cons by simp
  qed simp
qed

definition posts_exactly ::
  "lib \<Rightarrow> EntryLine list \<Rightarrow> decimal \<Rightarrow> EntryLine list \<Rightarrow> decimal \<Rightarrow> TBTransfer list result \<Rightarrow> bool" where
  "posts_exactly L debits dRem credits cRem r \<longleftrightarrow>
     (\<exists>ts. r = Inr ts \<and>
       (\<forall>a. tb_debited a ts = 10 ^ 8 * side_sum L a debits dRem) \<and>
       (\<forall>a. tb_credited a ts = 10 ^ 8 * side_sum L a credits cRem))"

lemmas posts_simps =
  posts_exactly_def tb_debited_def tb_credited_def pair_transfer_def side_next_rem algebra_simps

lemma posts_less:
  assumes "dRem < cRem" and "DecimalToTBAmount L dRem = Inr w" and "tb_value w = dRem * 10 ^ 8"
    and "posts_exactly L ds (next_rem ds 0) (c # cs) (cRem - dRem)
      (build_loop L ledger entry key ds (c # cs) (next_rem ds 0) (cRem - dRem) (idx + 1))"
  shows "posts_exactly L (d # ds) dRem (c # cs) cRem
      (build_loop L ledger entry key (d # ds) (c # cs) dRem cRem idx)"
  using assms(3,4) unfolding build_loop_less [OF assms(1,2)] by (auto simp: posts_simps)

lemma posts_greater:
  assumes "cRem < dRem" and "DecimalToTBAmount L cRem = Inr w" and "tb_value w = cRem * 10 ^ 8"
    and "posts_exactly L (d # ds) (dRem - cRem) cs (next_rem cs 0)
      (build_loop L ledger entry key (d # ds) cs (dRem - cRem) (next_rem cs 0) (idx + 1))"
  shows "posts_exactly L (d # ds) dRem (c # cs) cRem
      (build_loop L ledger entry key (d # ds) (c # cs) dRem cRem idx)"
  using assms(3,4) unfolding build_loop_greater [OF assms(1,2)] by (auto simp: posts_simps)

lemma posts_equal:
  assumes "DecimalToTBAmount L rem = Inr w" and "tb_value w = rem * 10 ^ 8"
    and "posts_exactly L ds (next_rem ds 0) cs (next_rem cs 0)
      (build_loop L ledger entry key ds cs (next_rem ds 0) (next_rem cs 0) (idx + 1))"
  shows "posts_exactly L (d # ds) rem (c # cs) rem
      (build_loop L ledger entry key (d # ds) (c # cs) rem rem idx)"
  using assms(2,3) unfolding build_loop_equal [OF assms(1)] by (auto simp: posts_simps)

lemma side_total_pos:
  assumes "\<forall>l \<in> set ls. tb_exact (p_Amount l)" and "ls \<noteq> []" and "tb_exact rem"
  shows "0 < side_total ls rem"
proof (cases ls)
  case (Cons l ls')
  then have "0 \<le> (\<Sum>l\<leftarrow>ls'. p_Amount l)" using assms(1) by (intro amounts_pos(1)) simp
  then show ?thesis using Cons assms(3) by (simp add: tb_exact_def add_pos_nonneg)
qed (use assms in simp)

lemma build_loop_exact:
  assumes laws: "truncate_law L" "int_part_law L"
    and "\<forall>l \<in> set debits. tb_exact (p_Amount l)" and "\<forall>l \<in> set credits. tb_exact (p_Amount l)"
    and "debits \<noteq> [] \<longrightarrow> tb_exact dRem" and "credits \<noteq> [] \<longrightarrow> tb_exact cRem"
    and "side_total debits dRem = side_total credits cRem"
  shows "posts_exactly L debits dRem credits cRem
      (build_loop L ledger entry key debits credits dRem cRem idx)"
  using assms(3-)
proof (induction "length debits + length credits" arbitrary: debits credits dRem cRem idx
    rule: less_induct)
  case less
  show ?case
  proof (cases "debits = [] \<or> credits = []")
    case True
    then have "debits = []" "credits = []"
      using less.prems side_total_pos [of debits dRem] side_total_pos [of credits cRem]
      by (cases debits; cases credits; auto)+
    then show ?thesis by (simp add: posts_simps)
  next
    case False
    then obtain d ds c cs where D [simp]: "debits = d # ds" and C [simp]: "credits = c # cs"
      by (meson neq_Nil_conv)
    have ok: "tb_exact dRem" "tb_exact cRem"
      "\<forall>l \<in> set ds. tb_exact (p_Amount l)" "\<forall>l \<in> set cs. tb_exact (p_Amount l)"
      and tot: "dRem + (\<Sum>l\<leftarrow>ds. p_Amount l) = cRem + (\<Sum>l\<leftarrow>cs. p_Amount l)"
      using less.prems by auto
    obtain w v where w: "DecimalToTBAmount L dRem = Inr w" "tb_value w = dRem * 10 ^ 8"
      and v: "DecimalToTBAmount L cRem = Inr v" "tb_value v = cRem * 10 ^ 8"
      using DecimalToTBAmount_exact [OF laws] ok(1,2) by blast
    consider "dRem < cRem" | "cRem < dRem" | "dRem = cRem" by linarith
    then show ?thesis
    proof cases
      case 1
      with less.prems ok tot show ?thesis
        unfolding D C
        by (intro posts_less [OF 1 w] less.hyps)
          (auto simp: side_next_rem intro: next_rem_exact tb_exact_diff)
    next
      case 2
      with less.prems ok tot show ?thesis
        unfolding D C
        by (intro posts_greater [OF 2 v] less.hyps)
          (auto simp: side_next_rem intro: next_rem_exact tb_exact_diff)
    next
      case 3
      with ok tot show ?thesis
        unfolding D C 3
        by (intro posts_equal [OF v] less.hyps) (auto simp: side_next_rem intro: next_rem_exact)
    qed
  qed
qed

text \<open>Debits equal credits in every currency, hence in total.\<close>

lemma total_balance:
  assumes "\<forall>cur. line_debits cur lines = line_credits cur lines"
  shows "(\<Sum>l\<leftarrow>filter (\<lambda>l. p_EntryType l = EntryTypeDebit) lines. p_Amount l) =
         (\<Sum>l\<leftarrow>filter (\<lambda>l. p_EntryType l = EntryTypeCredit) lines. p_Amount l)"
proof -
  have part: "(\<Sum>l\<leftarrow>filter (\<lambda>l. p_EntryType l = ty) ls. p_Amount l) =
      (\<Sum>cur \<in> C. \<Sum>l\<leftarrow>filter (\<lambda>l. p_Currency l = cur \<and> p_EntryType l = ty) ls. p_Amount l)"
    if "finite C" and "p_Currency ` set ls \<subseteq> C" for ty C and ls :: "EntryLine list"
    using that(2)
  proof (induction ls)
    case (Cons l ls)
    have "(\<Sum>cur \<in> C. \<Sum>k\<leftarrow>filter (\<lambda>l. p_Currency l = cur \<and> p_EntryType l = ty) (l # ls). p_Amount k) =
        (\<Sum>cur \<in> C. (if p_Currency l = cur then (if p_EntryType l = ty then p_Amount l else 0) else 0) +
           (\<Sum>k\<leftarrow>filter (\<lambda>l. p_Currency l = cur \<and> p_EntryType l = ty) ls. p_Amount k))"
      by (intro sum.cong) auto
    then show ?case using Cons that(1) by (simp add: sum.distrib)
  qed simp
  let ?C = "p_Currency ` set lines"
  show ?thesis
    using assms part [of ?C lines EntryTypeDebit] part [of ?C lines EntryTypeCredit]
    by (simp add: line_debits_def line_credits_def)
qed

lemma link_all_but_last_sums [simp]:
  "tb_debited a (link_all_but_last ts) = tb_debited a ts"
  "tb_credited a (link_all_but_last ts) = tb_credited a ts"
  by (induction ts rule: link_all_but_last.induct) (simp_all add: tb_debited_def tb_credited_def)

lemma link_all_but_last_flags:
  "length (link_all_but_last ts) = length ts"
  "i < length ts \<Longrightarrow> tb_Flags (link_all_but_last ts ! i) =
     (if i + 1 < length ts then tb_Flags (ts ! i) OR TBFlagLinked else tb_Flags (ts ! i))"
proof (induction ts arbitrary: i rule: link_all_but_last.induct)
  case (3 t u ts)
  { case 1 then show ?case using 3 by simp }
  { case 2 then show ?case using 3 by (cases i) auto }
qed auto

section \<open>Lemmas on batches and reversals\<close>

definition item_transfers :: "lib \<Rightarrow> 32 word \<Rightarrow> JournalEntry \<Rightarrow> TBTransfer list" where
  "item_transfers L ledger entry =
     (case buildTransfers L ledger entry (debit_lines entry) (credit_lines entry) of
        Inl err \<Rightarrow> [] | Inr ts \<Rightarrow> ts)"

definition batch_transfers :: "lib \<Rightarrow> 32 word \<Rightarrow> JournalEntry list \<Rightarrow> TBTransfer list" where
  "batch_transfers L ledger items = concat (map (item_transfers L ledger) items)"

fun batch_slots :: "lib \<Rightarrow> 32 word \<Rightarrow> nat \<Rightarrow> JournalEntry list \<Rightarrow> (error + nat \<times> nat) list" where
  "batch_slots L ledger off [] = []"
| "batch_slots L ledger off (e # es) =
     (case buildTransfers L ledger e (debit_lines e) (credit_lines e) of
        Inl err \<Rightarrow> Inl (Errorf ''settla-ledger: building transfers'' (Some err))
      | Inr ts \<Rightarrow> Inr (off, length ts)) # batch_slots L ledger (off + length (item_transfers L ledger e)) es"

lemma fold_collect_item:
  "fold (collect_item L ledger) items (all, em) =
     (all @ batch_transfers L ledger items, em @ batch_slots L ledger (length all) items)"
  by (induction items arbitrary: all em)
    (auto simp: collect_item_def batch_transfers_def item_transfers_def split: sum.splits)

lemma batch_slots_length [simp]: "length (batch_slots L ledger off items) = length items"
  by (induction items arbitrary: off) auto

lemma batch_slots_nth:
  assumes "i < length items"
    and "buildTransfers L ledger (items ! i) (debit_lines (items ! i)) (credit_lines (items ! i)) = Inr ts"
  shows "batch_slots L ledger off items ! i =
     Inr (off + length (batch_transfers L ledger (take i items)), length ts)"
  using assms
  by (induction items arbitrary: i off)
    (auto simp: nth_Cons' take_Cons' batch_transfers_def split: if_splits)

lemma batch_transfers_segment:
  assumes "i < length items"
  shows "take (length (item_transfers L ledger (items ! i)))
           (drop (length (batch_transfers L ledger (take i items))) (batch_transfers L ledger items)) =
         item_transfers L ledger (items ! i)"
proof -
  have "items = take i items @ items ! i # drop (Suc i) items"
    using assms by (rule id_take_nth_drop)
  then have "batch_transfers L ledger items = batch_transfers L ledger (take i items) @
      item_transfers L ledger (items ! i) @ batch_transfers L ledger (drop (Suc i) items)"
    by (metis batch_transfers_def concat.simps(2) concat_append list.simps(9) map_append)
  then show ?thesis by simp
qed

lemma reverse_type_swap [simp]:
  "reverse_type EntryTypeDebit = EntryTypeCredit" "reverse_type EntryTypeCredit = EntryTypeDebit"
  by (simp_all add: reverse_type_def)

lemma reversal_line_fields [simp]:
  "p_AccountCode (reversal_line r u l) = p_AccountCode l" "p_Amount (reversal_line r u l) = p_Amount l"
  "p_Currency (reversal_line r u l) = p_Currency l" "l_ID (reversal_line r u l) = u"
  "p_EntryType (reversal_line r u l) = reverse_type (p_EntryType l)"
  by (simp_all add: reversal_line_def)

definition reversal_lines :: "string \<Rightarrow> (nat \<Rightarrow> uuid) \<Rightarrow> nat \<Rightarrow> EntryLine list \<Rightarrow> EntryLine list" where
  "reversal_lines reason fresh n ls =
     map (\<lambda>(i, l). reversal_line reason (fresh (i + 1)) l) (enumerate n ls)"

lemma reversal_lines_simps [simp]:
  "reversal_lines r f n [] = []"
  "reversal_lines r f n (l # ls) = reversal_line r (f (n + 1)) l # reversal_lines r f (Suc n) ls"
  by (simp_all add: reversal_lines_def enumerate_simps)

definition debit_credit_only :: "EntryLine list \<Rightarrow> bool" where
  "debit_credit_only ls \<longleftrightarrow> (\<forall>l \<in> set ls. p_EntryType l = EntryTypeDebit \<or> p_EntryType l = EntryTypeCredit)"


lemma aeKey_cancel: "aeKey a = aeKey b \<Longrightarrow> p_EntryType a = p_EntryType b \<Longrightarrow> p_AccountCode a = p_AccountCode b"
  by (simp add: aeKey_def)






lemma reversal_lines_length [simp]: "length (reversal_lines r f n ls) = length ls"
  by (simp add: reversal_lines_def)

section \<open>Properties\<close>

text \<open>
  C4: TigerBeetle receives exactly what was posted. For an entry that \<^verbatim>\<open>ValidateEntries\<close> accepts and
  whose amounts the client can carry, the greedy matching succeeds, every account is debited and
  credited by exactly the lines that name it (in units of 10^-8), and all transfers but the last
  are linked, so that the entry is written atomically.
\<close>

theorem buildTransfers_exact:
  assumes "truncate_law L" and "int_part_law L"
    and "ValidateEntries (je_Lines entry) = Inr ()"
    and "\<forall>l \<in> set (je_Lines entry). tb_exact (p_Amount l)"
  shows "\<exists>ts. buildTransfers L ledger entry (debit_lines entry) (credit_lines entry) = Inr ts \<and>
     (\<forall>a. tb_debited a ts = 10 ^ 8 * acct_sum L a (debit_lines entry)) \<and>
     (\<forall>a. tb_credited a ts = 10 ^ 8 * acct_sum L a (credit_lines entry)) \<and>
     (\<forall>i. i + 1 < length ts \<longrightarrow> tb_Flags (ts ! i) AND TBFlagLinked = TBFlagLinked)"
proof -
  let ?ds = "debit_lines entry" and ?cs = "credit_lines entry"
  have "(\<Sum>l\<leftarrow>?ds. p_Amount l) = (\<Sum>l\<leftarrow>?cs. p_Amount l)"
    using assms(3) by (intro total_balance) (simp add: ValidateEntries_ok)
  then have "posts_exactly L ?ds (next_rem ?ds 0) ?cs (next_rem ?cs 0)
      (build_loop L ledger entry (AccountIDFromCode L (je_IdempotencyKey entry)) ?ds ?cs
        (next_rem ?ds 0) (next_rem ?cs 0) 0)"
    using assms(4)
    by (intro build_loop_exact [OF assms(1,2)]) (auto simp: side_next_rem intro: next_rem_exact)
  then show ?thesis
    by (auto simp: posts_exactly_def buildTransfers_def side_next_rem link_all_but_last_flags
        bit.conj_disj_distrib2 TBFlagLinked_def)
qed

text \<open>
  C32: Amounts survive the client's 64-bit representation: converting a carried amount and reading
  it back gives the same decimal.
\<close>

theorem TBAmount_roundtrip:
  assumes "decimal_laws L" and "tb_exact d"
  shows "\<exists>w. DecimalToTBAmount L d = Inr w \<and> TBAmountToDecimal L w = d"
proof -
  from assms(2) obtain k where k: "d * 10 ^ 8 = of_int k" "0 < k" "k \<le> max_int64"
    by (rule tb_exact_scaled)
  obtain w where w: "DecimalToTBAmount L d = Inr w" "tb_value w = d * 10 ^ 8"
    using DecimalToTBAmount_exact assms by (auto simp: decimal_laws_def)
  then have "uint w = k" using k(1) by (simp add: tb_value_def del: of_int_uint)
  then have "sint w = k" using k(2,3) by (simp add: sint_uint signed_take_bit_int_eq_self max_int64_def)
  moreover have d: "of_int k / of_int AmountScale = d" using k(1) by (simp add: AmountScale_def field_simps)
  moreover have "multiple_of (1 / 10 ^ 16) d"
    using assms(2) multiple_of_10 [of 8 d 16] by (simp add: tb_exact_def)
  then have "dec_div L (of_int k) (of_int AmountScale) = d"
    using assms(1) dec_div_exact [of L "of_int AmountScale" "of_int k"] unfolding d
    by (simp add: decimal_laws_def AmountScale_def)
  ultimately have "TBAmountToDecimal L w = d"
    by (simp only: TBAmountToDecimal_def)
  with w(1) show ?thesis by blast
qed

text \<open>
  C23: Batching keeps callers apart. When the single client call of a batch returns per-transfer
  results, the caller of entry \<open>i\<close> is told success exactly when no result rejects one of the
  transfers built from that entry, whatever happens to the other entries of the batch.
\<close>

theorem flushBatch_isolated:
  assumes "i < length items"
    and "buildTransfers L ledger (items ! i) (debit_lines (items ! i)) (credit_lines (items ! i)) = Inr ts"
    and "ts \<noteq> []"
    and "CreateTransfers client (batch_transfers L ledger items) st = (st', Inr results)"
  shows "let n = length (batch_transfers L ledger (take i items)) in
    take (length ts) (drop n (batch_transfers L ledger items)) = ts \<and>
    (snd (flushBatch L client ledger items st) ! i = Some (Inr ()) \<longleftrightarrow>
      (\<forall>r \<in> set results. bad_result r \<longrightarrow> tr_Index r < n \<or> n + length ts \<le> tr_Index r))"
proof -
  define n where "n = length (batch_transfers L ledger (take i items))"
  have ts: "item_transfers L ledger (items ! i) = ts"
    using assms(2) by (simp add: item_transfers_def)
  have seg: "take (length ts) (drop n (batch_transfers L ledger items)) = ts"
    using batch_transfers_segment [OF assms(1), of L ledger] unfolding ts n_def .
  then have "batch_transfers L ledger items \<noteq> []" using assms(3) by auto
  then have "snd (flushBatch L client ledger items st) ! i = entry_outcome results (Inr (n, length ts))"
    using assms(1,4) batch_slots_nth [OF assms(1,2), of 0]
    by (simp add: flushBatch_def fold_collect_item n_def)
  with seg assms(3) show ?thesis
    by (auto simp: entry_outcome_def list_ex_iff not_le not_less simp flip: n_def)
qed


section \<open>Witnesses\<close>

definition sample_entry :: JournalEntry where
  "sample_entry = \<lparr>je_ID = 1, je_TenantID = None, je_IdempotencyKey = ''k'', je_PostedAt = 1,
     je_EffectiveDate = 1, je_Description = [], je_ReferenceType = ''transfer'',
     je_ReferenceID = None, je_ReversedBy = None, je_ReversalOf = None,
     je_Lines = [sample_line ''a'' EntryTypeDebit 5, sample_line ''bb'' EntryTypeCredit 3,
                 sample_line ''ccc'' EntryTypeCredit 2], je_Metadata = []\<rparr>"

lemma multiple_of_tb: "multiple_of (1 / 10 ^ 8) (of_int k)"
  unfolding multiple_of_def by (rule exI [of _ "k * 100000000"]) simp

lemma tb_exact_int: "0 < k \<Longrightarrow> k \<le> 92233720368 \<Longrightarrow> tb_exact (of_int k)"
proof -
  assume k: "0 < k" "k \<le> 92233720368"
  then have "k * 10 ^ 8 \<le> max_int64" by (simp add: max_int64_def)
  then have "(of_int (k * 10 ^ 8) :: rat) \<le> of_int max_int64" by (simp only: of_int_le_iff)
  then show ?thesis using k multiple_of_tb by (simp add: tb_exact_def)
qed

lemma sample_entry_valid:
  "ValidateEntries (je_Lines sample_entry) = Inr ()" "debit_credit_only (je_Lines sample_entry)"
  "\<forall>l \<in> set (je_Lines sample_entry). tb_exact (p_Amount l)"
  using tb_exact_int [of 5] tb_exact_int [of 3] tb_exact_int [of 2]
  by (simp_all add: ValidateEntries_ok check_lines_iff sample_entry_def sample_line_def aeKey_def
      debit_credit_only_def EntryTypeDebit_def EntryTypeCredit_def)

theorem buildTransfers_exact_witness:
  "\<exists>ts. buildTransfers ref_lib 1 sample_entry (debit_lines sample_entry) (credit_lines sample_entry) = Inr ts \<and>
     tb_debited 1 ts = 500000000 \<and> tb_credited 2 ts = 300000000 \<and> tb_credited 3 ts = 200000000"
  using buildTransfers_exact [OF ref_lib_laws(3,4) sample_entry_valid(1,3), of 1]
  by (auto simp: sample_entry_def sample_line_def acct_sum_def AccountIDFromCode_def ref_lib_def)

theorem TBAmount_roundtrip_witness:
  "\<exists>w. DecimalToTBAmount ref_lib 5 = Inr w \<and> TBAmountToDecimal ref_lib w = 5"
  using TBAmount_roundtrip [OF ref_lib_decimal_laws, of 5] tb_exact_int [of 5] by simp

definition sample_client :: "unit tb_client" where
  "sample_client = \<lparr>CreateAccounts = (\<lambda>as st. (st, Inr [])),
     CreateTransfers = (\<lambda>ts st. (st, Inr [\<lparr>tr_Index = 0, tr_Result = 7\<rparr>])),
     LookupAccounts = (\<lambda>ids st. Inr [])\<rparr>"

theorem flushBatch_isolated_witness:
  "\<exists>ts. buildTransfers ref_lib 1 sample_entry (debit_lines sample_entry) (credit_lines sample_entry) = Inr ts \<and>
     ts \<noteq> [] \<and>
     snd (flushBatch ref_lib sample_client 1 [sample_entry, sample_entry] ()) ! 1 = Some (Inr ())"
proof -
  obtain ts where ts: "buildTransfers ref_lib 1 sample_entry (debit_lines sample_entry)
      (credit_lines sample_entry) = Inr ts" "ts \<noteq> []"
  proof -
    let ?ds = "debit_lines sample_entry" and ?cs = "credit_lines sample_entry"
    obtain w where "DecimalToTBAmount ref_lib 3 = Inr w"
      using DecimalToTBAmount_exact [OF ref_lib_laws(3,4), of 3] tb_exact_int [of 3] by auto
    moreover obtain v where "DecimalToTBAmount ref_lib 2 = Inr v"
      using DecimalToTBAmount_exact [OF ref_lib_laws(3,4), of 2] tb_exact_int [of 2] by auto
    ultimately have "\<exists>ts. buildTransfers ref_lib 1 sample_entry ?ds ?cs = Inr ts \<and> ts \<noteq> []"
      by (simp add: buildTransfers_def sample_entry_def sample_line_def next_rem_def
          build_loop_greater build_loop_equal)
    then show thesis using that by blast
  qed
  have len: "length (batch_transfers ref_lib 1 (take 1 [sample_entry, sample_entry])) = length ts"
    using ts(1) by (simp add: batch_transfers_def item_transfers_def)
  have c: "CreateTransfers sample_client (batch_transfers ref_lib 1 [sample_entry, sample_entry]) () =
      ((), Inr [\<lparr>tr_Index = 0, tr_Result = 7\<rparr>])" by (simp add: sample_client_def)
  from flushBatch_isolated [where i = 1 and items = "[sample_entry, sample_entry]", OF _ _ ts(2) c]
  have "snd (flushBatch ref_lib sample_client 1 [sample_entry, sample_entry] ()) ! 1 = Some (Inr ())"
    using ts len by (auto simp: Let_def)
  with ts show ?thesis by blast
qed


end
