(* ===== verification/Workers.thy ===== *)
theory Workers
  imports Subscriber Circuit_Breaker Engine_Safety Ledger_Service Treasury_Safety
begin

text \<open>
  The workers that execute the engine's intents and feed results back
  (\<^verbatim>\<open>src/node/worker/transfer_worker.go\<close>, \<^verbatim>\<open>src/node/worker/treasury_worker.go\<close>,
  \<^verbatim>\<open>src/node/worker/ledger_worker.go\<close>), with the circuit breaker around the ledger
  (\<^verbatim>\<open>src/resilience/wrappers.go\<close>). The data of an event is the payload it was marshalled from; decoding
  it as another payload is the malformed case. Identifiers read back from their text are the
  identifiers written. Metrics and logging are not modelled.
\<close>

section \<open>Event data\<close>

datatype worker_data =
    IntentData transfer_payload
  | CreditData PositionCreditPayload
  | DebitData PositionDebitPayload
  | ResultData uuid "(string \<times> string) list"

section \<open>Transfer worker\<close>

text \<open>\<^verbatim>\<open>extractTransferID\<close>: the key \<^verbatim>\<open>transfer_id\<close>, or \<^verbatim>\<open>ID\<close> for a marshalled transfer.\<close>

definition extractTransferID :: "worker_data Event \<Rightarrow> uuid result" where
  "extractTransferID event =
     (case evt_Data event of
        Some (IntentData (TransferSnapshot t)) \<Rightarrow> Inr (t_ID t)
      | Some (IntentData (TransferRef transferID tenantID)) \<Rightarrow> Inr transferID
      | Some (IntentData (ReservePayload p)) \<Rightarrow> Inr (rp_TransferID p)
      | Some (IntentData (ReleasePayload p)) \<Rightarrow> Inr (lp_TransferID p)
      | Some (IntentData (ConsumePayload p)) \<Rightarrow> Inr (cp_TransferID p)
      | Some (IntentData (OnRampPayload p)) \<Rightarrow> Inr (on_TransferID p)
      | Some (IntentData (OffRampPayload p)) \<Rightarrow> Inr (off_TransferID p)
      | Some (IntentData (LedgerPayload p)) \<Rightarrow> Inr (gp_TransferID p)
      | Some (IntentData (BlockchainPayload p)) \<Rightarrow> Inr (bs_TransferID p)
      | Some (IntentData (WebhookPayload p)) \<Rightarrow> Inr (wd_TransferID p)
      | Some (ResultData transferID kv) \<Rightarrow> Inr transferID
      | _ \<Rightarrow> Inl (Errorf ''settla-worker: no transfer_id in event data'' None))"

definition extractErrorFromEvent :: "worker_data Event \<Rightarrow> string" where
  "extractErrorFromEvent event =
     (case evt_Data event of
        Some (ResultData transferID kv) \<Rightarrow>
          (case map_of kv ''error'' of Some s \<Rightarrow> s | None \<Rightarrow> ''unknown error'')
      | _ \<Rightarrow> ''unknown error'')"

definition extractTxHashFromEvent :: "worker_data Event \<Rightarrow> string" where
  "extractTxHashFromEvent event =
     (case evt_Data event of
        Some (ResultData transferID kv) \<Rightarrow>
          (case map_of kv ''tx_hash'' of Some s \<Rightarrow> s | None \<Rightarrow> [])
      | _ \<Rightarrow> [])"

definition failed_result :: "string \<Rightarrow> string \<Rightarrow> IntentResult" where
  "failed_result errMsg errorCode = \<lparr>ir_Success = False, ir_ProviderRef = [], ir_TxHash = [], ir_Error = errMsg,
     ir_ErrorCode = errorCode, ir_Metadata = []\<rparr>"

text \<open>The engine call an event is routed to.\<close>

definition route_event :: "worker_data Event \<Rightarrow> engine_call option" where
  "route_event event =
     (let ty = evt_Type event; errMsg = extractErrorFromEvent event in
      if ty = EventTransferCreated then Some CallFund
      else if ty = EventTransferFunded then Some CallInitiateOnRamp
      else if ty = EventTreasuryReserved then Some CallInitiateOnRamp
      else if ty = EventTreasuryFailed then Some (CallFail errMsg ''TREASURY_FAILED'')
      else if ty = EventProviderOnRampDone then Some (CallOnRampResult (success_result []))
      else if ty = EventProviderOnRampFailed then Some (CallOnRampResult (failed_result errMsg ''ONRAMP_FAILED''))
      else if ty = EventBlockchainConfirmed
      then Some (CallSettlementResult (success_result (extractTxHashFromEvent event)))
      else if ty = EventBlockchainFailed then Some (CallSettlementResult (failed_result errMsg ''BLOCKCHAIN_FAILED''))
      else if ty = EventProviderOffRampDone then Some (CallOffRampResult (success_result []))
      else if ty = EventProviderOffRampFailed then Some (CallOffRampResult (failed_result errMsg ''OFFRAMP_FAILED''))
      else if ty = EventOnRampCompleted then Some (CallOnRampResult (success_result []))
      else if ty = EventSettlementCompleted then Some (CallSettlementResult (success_result []))
      else if ty = EventOffRampCompleted then Some (CallOffRampResult (success_result []))
      else None)"

definition callEngine :: "transfer_db \<times> unit result \<Rightarrow> transfer_db \<times> unit result" where
  "callEngine out =
     (case out of
        (db, Inr _) \<Rightarrow> (db, Inr ())
      | (db, Inl err) \<Rightarrow>
         (case errors_As err of
            Some domErr \<Rightarrow> if Code domErr = Some CodeInvalidTransition then (db, Inr ()) else (db, Inl err)
          | None \<Rightarrow> (db, Inl err)))"

definition transfer_handleEvent ::
  "lib \<Rightarrow> engine_env \<Rightarrow> transfer_db \<Rightarrow> transfer_db \<Rightarrow> (worker_data, transfer_db) handler" where
  "transfer_handleEvent L E rd0 rd event db =
     (case extractTransferID event of
        Inl err \<Rightarrow> (db, Inr ())
      | Inr transferID \<Rightarrow>
         (case route_event event of
            None \<Rightarrow> (db, Inr ())
          | Some c \<Rightarrow> callEngine (exec_call L E c (evt_TenantID event) transferID rd0 rd db)))"

section \<open>Treasury worker\<close>

text \<open>
  The environment: the configuration and clock of the treasury, the identifier of the result event,
  the text of errors, the number of partitions and the connection that results are published on.
\<close>

record 'n treasury_worker_env =
  tw_cfg :: treasury_config
  tw_op :: op_env
  tw_event_id :: uuid
  tw_error_text :: "error \<Rightarrow> string"
  tw_partitions :: nat
  tw_js :: "string \<Rightarrow> string \<Rightarrow> worker_data message \<Rightarrow> 'n \<Rightarrow> 'n \<times> unit result"

definition publishResult ::
  "lib \<Rightarrow> 'n treasury_worker_env \<Rightarrow> uuid \<Rightarrow> uuid \<Rightarrow> string \<Rightarrow> string \<Rightarrow> Manager \<times> 'n \<Rightarrow>
   (Manager \<times> 'n) \<times> unit result" where
  "publishResult L W transferID tenantID eventType errMsg st =
     (case st of (m, nats) \<Rightarrow>
      (case Publish L (tw_partitions W) (tw_js W)
             \<lparr>evt_ID = tw_event_id W, evt_TenantID = tenantID, evt_Type = eventType,
              evt_Timestamp = ev_now (tw_op W), evt_Data = Some (ResultData transferID [(''error'', errMsg)])\<rparr> nats of
         (nats', Inl err) \<Rightarrow> ((m, nats'), Inl (Errorf ''settla-treasury-worker: publishing'' (Some err)))
       | (nats', Inr _) \<Rightarrow> ((m, nats'), Inr ())))"

definition handleReserve ::
  "lib \<Rightarrow> 'n treasury_worker_env \<Rightarrow> worker_data Event \<Rightarrow> Manager \<times> 'n \<Rightarrow> (Manager \<times> 'n) \<times> unit result" where
  "handleReserve L W event st =
     (case evt_Data event of
        Some (IntentData (ReservePayload p)) \<Rightarrow>
          (case Reserve L (tw_cfg W) (tw_op W) (rp_TenantID p) (rp_Currency p) (rp_Location p) (rp_Amount p)
                  (rp_TransferID p) (fst st) of
             (m, Inl err) \<Rightarrow>
               publishResult L W (rp_TransferID p) (rp_TenantID p) EventTreasuryFailed (tw_error_text W err) (m, snd st)
           | (m, Inr _) \<Rightarrow>
               publishResult L W (rp_TransferID p) (rp_TenantID p) EventTreasuryReserved [] (m, snd st))
      | _ \<Rightarrow> (st, Inr ()))"

definition releaseRef :: "lib \<Rightarrow> TreasuryReleasePayload \<Rightarrow> uuid" where
  "releaseRef L p = (if lp_Reason p \<noteq> [] then uuid_sha1 L (lp_TransferID p) (lp_Reason p) else lp_TransferID p)"

definition handleRelease ::
  "lib \<Rightarrow> 'n treasury_worker_env \<Rightarrow> worker_data Event \<Rightarrow> Manager \<times> 'n \<Rightarrow> (Manager \<times> 'n) \<times> unit result" where
  "handleRelease L W event st =
     (case evt_Data event of
        Some (IntentData (ReleasePayload p)) \<Rightarrow>
          (case Release L (tw_cfg W) (tw_op W) (lp_TenantID p) (lp_Currency p) (lp_Location p) (lp_Amount p)
                  (releaseRef L p) (fst st) of
             (m, r) \<Rightarrow>
               publishResult L W (lp_TransferID p) (lp_TenantID p) EventTreasuryReleased [] (m, snd st))
      | _ \<Rightarrow> (st, Inr ()))"

definition handleConsume ::
  "lib \<Rightarrow> 'n treasury_worker_env \<Rightarrow> worker_data Event \<Rightarrow> Manager \<times> 'n \<Rightarrow> (Manager \<times> 'n) \<times> unit result" where
  "handleConsume L W event st =
     (case evt_Data event of
        Some (IntentData (ConsumePayload p)) \<Rightarrow>
          (case ConsumeReservation L (tw_cfg W) (tw_op W) (cp_TenantID p) (cp_Currency p) (cp_Location p)
                  (cp_Amount p) (cp_TransferID p) (fst st) of
             (m, Inl err) \<Rightarrow>
               publishResult L W (cp_TransferID p) (cp_TenantID p) EventTreasuryFailed (tw_error_text W err) (m, snd st)
           | (m, Inr _) \<Rightarrow>
               publishResult L W (cp_TransferID p) (cp_TenantID p) EventTreasuryConsumed [] (m, snd st))
      | _ \<Rightarrow> (st, Inr ()))"

definition handlePositionCredit ::
  "lib \<Rightarrow> 'n treasury_worker_env \<Rightarrow> worker_data Event \<Rightarrow> Manager \<times> 'n \<Rightarrow> (Manager \<times> 'n) \<times> unit result" where
  "handlePositionCredit L W event st =
     (case evt_Data event of
        Some (CreditData p) \<Rightarrow>
          (case CreditBalance L (tw_cfg W) (tw_op W) (pc_TenantID p) (pc_Currency p) (pc_Location p)
                  (pc_Amount p) (pc_Reference p) (pc_RefType p) (fst st) of
             (m, Inl err) \<Rightarrow>
               publishResult L W (pc_Reference p) (pc_TenantID p) EventTreasuryFailed (tw_error_text W err) (m, snd st)
           | (m, Inr _) \<Rightarrow>
               publishResult L W (pc_Reference p) (pc_TenantID p) EventPositionCredited [] (m, snd st))
      | _ \<Rightarrow> (st, Inr ()))"

definition handlePositionDebit ::
  "lib \<Rightarrow> 'n treasury_worker_env \<Rightarrow> worker_data Event \<Rightarrow> Manager \<times> 'n \<Rightarrow> (Manager \<times> 'n) \<times> unit result" where
  "handlePositionDebit L W event st =
     (case evt_Data event of
        Some (DebitData p) \<Rightarrow>
          (case DebitBalance L (tw_cfg W) (tw_op W) (pd_TenantID p) (pd_Currency p) (pd_Location p)
                  (pd_Amount p) (pd_Reference p) (pd_RefType p) (fst st) of
             (m, Inl err) \<Rightarrow>
               publishResult L W (pd_Reference p) (pd_TenantID p) EventTreasuryFailed (tw_error_text W err) (m, snd st)
           | (m, Inr _) \<Rightarrow>
               publishResult L W (pd_Reference p) (pd_TenantID p) EventPositionDebited [] (m, snd st))
      | _ \<Rightarrow> (st, Inr ()))"

definition treasury_handleEvent ::
  "lib \<Rightarrow> 'n treasury_worker_env \<Rightarrow> (worker_data, Manager \<times> 'n) handler" where
  "treasury_handleEvent L W event st =
     (if evt_Type event = IntentTreasuryReserve then handleReserve L W event st
      else if evt_Type event = IntentTreasuryRelease then handleRelease L W event st
      else if evt_Type event = IntentTreasuryConsume then handleConsume L W event st
      else if evt_Type event = IntentPositionCredit then handlePositionCredit L W event st
      else if evt_Type event = IntentPositionDebit then handlePositionDebit L W event st
      else (st, Inr ()))"

section \<open>Ledger worker\<close>

text \<open>The environment: the ledger service and its outcomes, the breaker, fresh identifiers and the clock.\<close>

record 'tb ledger_worker_env =
  lw_service :: "'tb ledger_service"
  lw_alive :: "nat \<Rightarrow> bool"
  lw_backoff :: "nat \<Rightarrow> bool"
  lw_peers :: "nat \<Rightarrow> JournalEntry list \<times> JournalEntry list"
  lw_breaker :: cb_config
  lw_fresh :: "nat \<Rightarrow> uuid"
  lw_now :: instant
  lw_done :: instant

definition breaker_PostEntries ::
  "lib \<Rightarrow> 'tb ledger_worker_env \<Rightarrow> JournalEntry \<Rightarrow> CircuitBreaker \<times> 'tb \<Rightarrow> (CircuitBreaker \<times> 'tb) \<times> JournalEntry result" where
  "breaker_PostEntries L W entry =
     Execute (lw_breaker W) True (lw_now W) (lw_done W)
       (PostEntries L (lw_service W) (lw_alive W) (lw_backoff W) (lw_peers W) (\<lambda>i. lw_fresh W (100 + i)) (lw_now W) entry)"

definition posting_line :: "uuid \<Rightarrow> LedgerLineEntry \<Rightarrow> EntryLine" where
  "posting_line fresh l = \<lparr>p_AccountCode = ll_AccountCode l, p_EntryType = ll_EntryType l,
     p_Amount = ll_Amount l, p_Currency = ll_Currency l, p_Description = ll_Description l,
     l_ID = fresh, l_AccountID = uuid_Nil\<rparr>"

definition post_entry :: "'tb ledger_worker_env \<Rightarrow> LedgerPostPayload \<Rightarrow> JournalEntry" where
  "post_entry W p = \<lparr>je_ID = lw_fresh W 0, je_TenantID = Some (gp_TenantID p),
     je_IdempotencyKey = gp_IdempotencyKey p, je_PostedAt = lw_now W, je_EffectiveDate = lw_now W,
     je_Description = gp_Description p, je_ReferenceType = gp_ReferenceType p,
     je_ReferenceID = Some (gp_TransferID p), je_ReversedBy = None, je_ReversalOf = None,
     je_Lines = map (\<lambda>(i, l). posting_line (lw_fresh W (i + 1)) l) (enumerate 0 (gp_Lines p)), je_Metadata = []\<rparr>"

definition handlePost ::
  "lib \<Rightarrow> 'tb ledger_worker_env \<Rightarrow> worker_data Event \<Rightarrow> CircuitBreaker \<times> 'tb \<Rightarrow> (CircuitBreaker \<times> 'tb) \<times> unit result" where
  "handlePost L W event st =
     (case evt_Data event of
        Some (IntentData (LedgerPayload p)) \<Rightarrow>
          (case breaker_PostEntries L W (post_entry W p) st of
             (st', Inl err) \<Rightarrow> (st', Inl (Errorf ''settla-ledger-worker: posting entry for transfer'' (Some err)))
           | (st', Inr _) \<Rightarrow> (st', Inr ()))
      | _ \<Rightarrow> (st, Inr ()))"

definition reversed_line :: "uuid \<Rightarrow> LedgerLineEntry \<Rightarrow> EntryLine" where
  "reversed_line fresh l = (posting_line fresh l)\<lparr>
     p_EntryType := (if ll_EntryType l = EntryTypeDebit then EntryTypeCredit else EntryTypeDebit),
     p_Description := ''Reversal: '' @ ll_Description l\<rparr>"

definition reverse_entry :: "lib \<Rightarrow> 'tb ledger_worker_env \<Rightarrow> LedgerPostPayload \<Rightarrow> JournalEntry" where
  "reverse_entry L W p = \<lparr>je_ID = lw_fresh W 0, je_TenantID = Some (gp_TenantID p),
     je_IdempotencyKey = ''reverse:'' @ uuid_string L (gp_TransferID p), je_PostedAt = lw_now W,
     je_EffectiveDate = lw_now W, je_Description = ''Reversal: '' @ gp_Description p,
     je_ReferenceType = ''reversal'', je_ReferenceID = Some (gp_TransferID p), je_ReversedBy = None,
     je_ReversalOf = Some (gp_TransferID p),
     je_Lines = map (\<lambda>(i, l). reversed_line (lw_fresh W (i + 1)) l) (enumerate 0 (gp_Lines p)), je_Metadata = []\<rparr>"

definition handleReverse ::
  "lib \<Rightarrow> 'tb ledger_worker_env \<Rightarrow> worker_data Event \<Rightarrow> CircuitBreaker \<times> 'tb \<Rightarrow> (CircuitBreaker \<times> 'tb) \<times> unit result" where
  "handleReverse L W event st =
     (case evt_Data event of
        Some (IntentData (LedgerPayload p)) \<Rightarrow>
          (case breaker_PostEntries L W (reverse_entry L W p) st of
             (st', Inl err) \<Rightarrow> (st', Inl (Errorf ''settla-ledger-worker: reversing entry for transfer'' (Some err)))
           | (st', Inr _) \<Rightarrow> (st', Inr ()))
      | _ \<Rightarrow> (st, Inr ()))"

definition ledger_handleEvent ::
  "lib \<Rightarrow> 'tb ledger_worker_env \<Rightarrow> (worker_data, CircuitBreaker \<times> 'tb) handler" where
  "ledger_handleEvent L W event st =
     (if evt_Type event = IntentLedgerPost then handlePost L W event st
      else if evt_Type event = IntentLedgerReverse then handleReverse L W event st
      else (st, Inr ()))"

end
