(* ===== verification/Engine_Flow.thy ===== *)
theory Engine_Flow
  imports Engine_Safety
begin

text \<open>
  What the engine's calls do when their statements succeed: the exact effect of every transition,
  the completion of the whole pipeline, the creation of transfers, and the flaws that the
  exact effects show.
\<close>

section \<open>Undisturbed calls\<close>

text \<open>
  An undisturbed call: every statement succeeds and the first \<open>n\<close> identifiers it draws are
  different from each other and from those of the outbox.
\<close>

definition undisturbed :: "nat \<Rightarrow> engine_env \<Rightarrow> transfer_db \<Rightarrow> bool" where
  "undisturbed n E db \<longleftrightarrow>
     (\<forall>s k. ee_ok E s k) \<and> inj_on (ee_uuid E) {..<n} \<and> (\<forall>k < n. ee_uuid E k \<notin> or_ID ` set (db_outbox db))"

definition holds_transfer :: "transfer_db \<Rightarrow> Transfer \<Rightarrow> bool" where
  "holds_transfer db t \<longleftrightarrow> t \<in> set (db_transfers db) \<and> distinct (map t_ID (db_transfers db))"

lemma loadTransfer_undisturbed:
  assumes "undisturbed n E db" and "holds_transfer db t" and "tn = uuid_Nil \<or> tn = t_TenantID t"
  shows "loadTransfer E k db tn (t_ID t) = Inr t"
proof -
  let ?P = "\<lambda>x. t_ID x = t_ID t \<and> (tn = uuid_Nil \<or> t_TenantID x = tn)"
  have "List.find ?P (db_transfers db) = Some t"
  proof (cases "List.find ?P (db_transfers db)")
    case None
    then show ?thesis using assms(2,3) by (auto simp: find_None_iff holds_transfer_def)
  next
    case (Some x)
    then have "x \<in> set (db_transfers db)" "t_ID x = t_ID t" by (auto simp: find_Some_iff)
    then show ?thesis using Some assms(2) distinct_ids_eq unfolding holds_transfer_def by metis
  qed
  then show ?thesis using assms(1) by (simp add: loadTransfer_def GetTransfer_def undisturbed_def)
qed

lemma insert_fresh:
  assumes "distinct (map ob_ID es)" and "ob_ID ` set es \<inter> or_ID ` set tbl = {}"
  shows "InsertOutboxEntries (outboxEntriesToParams now es) tbl = Inr (tbl @ outboxEntriesToParams now es)"
proof -
  let ?ps = "outboxEntriesToParams now es"
  have ids: "map or_ID ?ps = map ob_ID es" by (simp add: outboxEntriesToParams_def)
  have "distinct (map fst (map row_key ?ps))" using assms(1) ids by (simp add: comp_def)
  then have "distinct (map row_key ?ps)" using distinct_map by blast
  moreover have "row_key p \<noteq> row_key r" if "p \<in> set ?ps" "r \<in> set tbl" for p r
  proof -
    have "or_ID p \<in> ob_ID ` set es" using that(1) ids by (metis image_eqI set_map)
    then show ?thesis using assms(2) that(2) by auto
  qed
  then have "set (map row_key ?ps) \<inter> set (map row_key tbl) = {}" by auto
  ultimately show ?thesis by (simp only: InsertOutboxEntries_ok)
qed

lemma transition_step_undisturbed:
  assumes "undisturbed n E db" and "holds_transfer db t" and "buildOutboxEntries results = Inr es"
    and "map ob_ID es = map (ee_uuid E) [0..<length es]" and "length es \<le> n"
  shows "transition_step E step t s results db =
           (apply_step (ee_now E) t s (setCorrelationID es (t_ID t)) db, Inr ())"
proof -
  let ?es = "setCorrelationID es (t_ID t)"
  have ids: "map ob_ID ?es = map (ee_uuid E) [0..<length es]"
    using assms(4) by (simp add: setCorrelationID_def WithCorrelationID_def comp_def)
  have inj: "inj_on (ee_uuid E) {0..<length es}"
    using assms(1,5) unfolding undisturbed_def by (auto elim: inj_on_subset)
  have "distinct (map ob_ID ?es)" unfolding ids using inj by (simp add: distinct_map)
  moreover have "ob_ID ` set ?es \<inter> or_ID ` set (db_outbox db) = {}"
  proof -
    have img: "ob_ID ` set ?es = ee_uuid E ` {0..<length es}" using ids by (metis atLeastLessThan_upt set_map)
    have "ee_uuid E k \<notin> or_ID ` set (db_outbox db)" if "k \<in> {0..<length es}" for k
      using assms(1,5) that unfolding undisturbed_def by simp
    then show ?thesis unfolding img disjoint_iff by (metis imageE)
  qed
  ultimately have ins: "InsertOutboxEntries (outboxEntriesToParams (ee_now E) ?es) (db_outbox db) =
      Inr (db_outbox db @ outboxEntriesToParams (ee_now E) ?es)" by (rule insert_fresh)
  have t: "t \<in> set (db_transfers db)" and d: "distinct (map t_ID (db_transfers db))"
    using assms(2) by (auto simp: holds_transfer_def)
  have "filter (\<lambda>x. t_ID x = t_ID t \<and> t_Version x = t_Version t) (db_transfers db) \<noteq> []"
    using t by (auto simp: filter_empty_conv)
  moreover have "map (\<lambda>x. if t_ID x = t_ID t \<and> t_Version x = t_Version t then transition_row (ee_now E) s x else x)
      (db_transfers db) = map (\<lambda>x. if x = t then transition_row (ee_now E) s x else x) (db_transfers db)"
    using distinct_ids_eq [OF d _ t] by (intro map_cong) auto
  ultimately have "TransitionWithOutbox E (t_ID t) s (t_Version t) ?es db =
      (apply_step (ee_now E) t s ?es db, Inr ())"
    using assms(1) ins
    by (simp add: TransitionWithOutbox_def TransitionTransferStatus_def apply_step_def undisturbed_def)
  then show ?thesis by (simp add: transition_step_def assms(3))
qed

lemma apply_step_holds:
  "holds_transfer db t \<Longrightarrow> holds_transfer (apply_step now t s es db) (transition_row now s t)"
proof -
  assume h: "holds_transfer db t"
  have new: "db_transfers (apply_step now t s es db) =
      map (\<lambda>x. if x = t then transition_row now s x else x) (db_transfers db)" by (simp add: apply_step_def)
  have ids: "map t_ID (map (\<lambda>x. if x = t then transition_row now s x else x) (db_transfers db)) =
      map t_ID (db_transfers db)" by simp
  show ?thesis using h unfolding holds_transfer_def new ids by auto
qed

lemma apply_step_frame [simp]:
  "db_tenants (apply_step now t s es db) = db_tenants db" "db_quotes (apply_step now t s es db) = db_quotes db"
  "db_outbox (apply_step now t s es db) = db_outbox db @ outboxEntriesToParams now es"
  by (simp_all add: apply_step_def)

lemma undisturbed_step:
  assumes "undisturbed n E' db" and "map ob_ID es = map (ee_uuid E) [0..<m]"
    and "\<forall>k < n. \<forall>j < m. ee_uuid E' k \<noteq> ee_uuid E j"
  shows "undisturbed n E' (apply_step now t s es db)"
proof -
  have "or_ID ` set (outboxEntriesToParams now es) = set (map ob_ID es)"
    by (simp add: outboxEntriesToParams_def image_image)
  also have "\<dots> = ee_uuid E ` {..<m}" unfolding assms(2) by (simp add: lessThan_atLeast0)
  finally show ?thesis using assms(1,3) unfolding undisturbed_def by (auto simp: image_Un)
qed

section \<open>The handlers' exact effects\<close>

text \<open>
  The call commits the transition to \<open>s\<close> with entries of exactly these types; the treasury
  intents among them are for the transfer's source amount.
\<close>

definition advances ::
  "engine_env \<Rightarrow> Transfer \<Rightarrow> TransferStatus \<Rightarrow> string list \<Rightarrow> transfer_db \<Rightarrow> transfer_db \<times> unit result \<Rightarrow> bool" where
  "advances E t s types db r \<longleftrightarrow>
     (\<exists>es. r = (apply_step (ee_now E) t s es db, Inr ()) \<and> map ob_EventType es = types \<and>
        map ob_ID es = map (ee_uuid E) [0..<length types] \<and> (\<forall>e \<in> set es. ob_AggregateID e = t_ID t \<and>
          (ob_EventType e \<in> money_intents \<longrightarrow> ob_IsIntent e \<and>
             map_option payload_amount (ob_Payload e) = Some (t_SourceAmount t))))"

lemma advances_transition:
  fixes results :: "entry result list"
  defines "es \<equiv> map projr results"
  assumes "undisturbed n E db" and "holds_transfer db t" and "length types \<le> n"
    and "buildOutboxEntries results = Inr es" and "map ob_EventType es = types"
    and "map ob_ID es = map (ee_uuid E) [0..<length types]"
    and "\<forall>e \<in> set es. ob_AggregateID e = t_ID t \<and>
          (ob_EventType e \<in> money_intents \<longrightarrow> ob_IsIntent e \<and>
             map_option payload_amount (ob_Payload e) = Some (t_SourceAmount t))"
  shows "advances E t s types db (transition_step E step t s results db)"
proof -
  have len: "length es = length types" using assms(6) by (metis length_map)
  have "transition_step E step t s results db =
      (apply_step (ee_now E) t s (setCorrelationID es (t_ID t)) db, Inr ())"
    by (rule transition_step_undisturbed [OF assms(2,3,5)]) (simp_all only: len assms(4,7))
  then show ?thesis
    unfolding advances_def using assms(6-8)
    by (intro exI [of _ "setCorrelationID es (t_ID t)"]) (auto simp: setCorrelationID_def WithCorrelationID_def comp_def)
qed

lemma engine_types_known [simp]:
  "IntentTreasuryReserve \<in> set knownEventTypes" "IntentTreasuryRelease \<in> set knownEventTypes"
  "IntentTreasuryConsume \<in> set knownEventTypes" "IntentProviderOnRamp \<in> set knownEventTypes"
  "IntentProviderOffRamp \<in> set knownEventTypes" "IntentLedgerPost \<in> set knownEventTypes"
  "IntentLedgerReverse \<in> set knownEventTypes" "IntentBlockchainSend \<in> set knownEventTypes"
  "IntentWebhookDeliver \<in> set knownEventTypes" "EventTransferFunded \<in> set knownEventTypes"
  "EventTransferCreated \<in> set knownEventTypes" "EventOnRampCompleted \<in> set knownEventTypes"
  "EventSettlementCompleted \<in> set knownEventTypes" "EventTransferCompleted \<in> set knownEventTypes"
  "EventTransferFailed \<in> set knownEventTypes" "EventBlockchainFailed \<in> set knownEventTypes"
  "EventProviderOnRampFailed \<in> set knownEventTypes" "EventProviderOffRampFailed \<in> set knownEventTypes"
  "EventRefundInitiated \<in> set knownEventTypes" "EventRefundCompleted \<in> set knownEventTypes"
  by (simp_all add: known_type_defs)

lemma engine_types_money [simp]:
  "IntentProviderOnRamp \<notin> money_intents" "IntentProviderOffRamp \<notin> money_intents"
  "IntentLedgerPost \<notin> money_intents" "IntentLedgerReverse \<notin> money_intents"
  "IntentBlockchainSend \<notin> money_intents" "IntentWebhookDeliver \<notin> money_intents"
  "EventTransferFunded \<notin> money_intents" "EventOnRampCompleted \<notin> money_intents"
  "EventSettlementCompleted \<notin> money_intents" "EventTransferCompleted \<notin> money_intents"
  "EventTransferFailed \<notin> money_intents" "EventBlockchainFailed \<notin> money_intents"
  "EventRefundInitiated \<notin> money_intents" "EventProviderOnRampFailed \<notin> money_intents"
  "EventProviderOffRampFailed \<notin> money_intents" "EventRefundCompleted \<notin> money_intents"
  by (simp_all add: money_intents_def)

lemma known_type_valid: "et \<in> set knownEventTypes \<Longrightarrow> ValidateEventType et = Inr ()"
  by (simp add: ValidateEventType_def)

lemmas advance_rules = NewOutboxIntent_def NewOutboxEvent_def known_type_valid zero_entry_def
  payload_amount_def releasePayload_def eval_nat_numeral

abbreviation fund_types :: "string list" where
  "fund_types \<equiv> [IntentTreasuryReserve, EventTransferFunded]"
abbreviation onramp_types :: "string list" where
  "onramp_types \<equiv> [IntentProviderOnRamp]"
abbreviation settle_types :: "string list" where
  "settle_types \<equiv> [IntentLedgerPost, IntentBlockchainSend, EventOnRampCompleted]"
abbreviation offramp_types :: "string list" where
  "offramp_types \<equiv> [IntentProviderOffRamp, EventSettlementCompleted]"
abbreviation complete_types :: "string list" where
  "complete_types \<equiv> [IntentTreasuryConsume, IntentLedgerPost, IntentWebhookDeliver, EventTransferCompleted]"

lemma FundTransfer_advances:
  assumes "undisturbed n E db" and "2 \<le> n" and "holds_transfer db t"
    and "tn = uuid_Nil \<or> tn = t_TenantID t" and "t_Status t = TransferStatusCreated"
  shows "advances E t TransferStatusFunded fund_types db (FundTransfer E tn (t_ID t) db db)"
proof -
  have "loadTransferForStep E 0 db tn (t_ID t) TransferStatusCreated = Inr t"
    using assms by (simp add: loadTransferForStep_def loadTransfer_undisturbed)
  then show ?thesis unfolding FundTransfer_def using assms
    by (simp only: sum.case) (rule advances_transition, simp_all add: advance_rules)
qed

lemma InitiateOnRamp_advances:
  assumes "undisturbed n E db" and "1 \<le> n" and "holds_transfer db t"
    and "tn = uuid_Nil \<or> tn = t_TenantID t" and "t_Status t = TransferStatusFunded"
  shows "advances E t TransferStatusOnRamping onramp_types db (InitiateOnRamp L E tn (t_ID t) db db)"
proof -
  have "loadTransferForStep E 0 db tn (t_ID t) TransferStatusFunded = Inr t"
    using assms by (simp add: loadTransferForStep_def loadTransfer_undisturbed)
  then show ?thesis unfolding InitiateOnRamp_def using assms
    by (simp only: sum.case) (rule advances_transition, simp_all add: advance_rules)
qed

lemma HandleOnRampResult_advances:
  assumes "undisturbed n E db" and "3 \<le> n" and "holds_transfer db t"
    and "tn = uuid_Nil \<or> tn = t_TenantID t" and "t_Status t = TransferStatusOnRamping" and "ir_Success res"
    and "GetTenant E db (t_TenantID t) = Inr tenant" and "OnRampFee (t_Fees t) < t_SourceAmount t"
  shows "advances E t TransferStatusSettling settle_types db (HandleOnRampResult L E tn (t_ID t) res db db)"
proof -
  have "loadTransfer E 0 db tn (t_ID t) = Inr t" using assms by (simp add: loadTransfer_undisturbed)
  with assms(5-8) show ?thesis unfolding HandleOnRampResult_def
    by (simp only: sum.case simp_thms if_True if_False diff_gt_0_iff_gt)
      (rule advances_transition [OF assms(1,3)], use assms(2) in \<open>simp_all add: advance_rules\<close>)
qed

lemma HandleSettlementResult_advances:
  assumes "undisturbed n E db" and "2 \<le> n" and "holds_transfer db t"
    and "tn = uuid_Nil \<or> tn = t_TenantID t" and "t_Status t = TransferStatusSettling" and "ir_Success res"
  shows "advances E t TransferStatusOffRamping offramp_types db (HandleSettlementResult L E tn (t_ID t) res db db)"
proof -
  have "loadTransfer E 0 db tn (t_ID t) = Inr t" using assms by (simp add: loadTransfer_undisturbed)
  with assms(5-6) show ?thesis unfolding HandleSettlementResult_def
    by (simp only: sum.case simp_thms if_True if_False)
      (rule advances_transition [OF assms(1,3)], use assms(2) in \<open>simp_all add: advance_rules\<close>)
qed

lemma completionLines_valid:
  assumes "0 < TotalFeeUSD (t_Fees t)" and "TotalFeeUSD (t_Fees t) < t_SourceAmount t"
    and "fresh 0 \<noteq> fresh 1" and "fresh 0 \<noteq> fresh 2" and "fresh 1 \<noteq> fresh 2"
  shows "validateLedgerLines fresh (completionLines slug t) = Inr ()"
  unfolding validateLedgerLines_def ValidateEntries_ok using assms
  by (simp add: completionLines_def entry_line_def aeKey_def TenantAccountCode_def numeral_2_eq_2
      EntryTypeDebit_def EntryTypeCredit_def)

lemma HandleOffRampResult_advances:
  assumes "undisturbed 13 E db" and "holds_transfer db t"
    and "tn = uuid_Nil \<or> tn = t_TenantID t" and "t_Status t = TransferStatusOffRamping" and "ir_Success res"
    and "GetTenant E db (t_TenantID t) = Inr tenant"
    and "0 < TotalFeeUSD (t_Fees t)" and "TotalFeeUSD (t_Fees t) < t_SourceAmount t"
  shows "advances E t TransferStatusCompleted complete_types db (HandleOffRampResult L E tn (t_ID t) res db db db)"
proof -
  have ld: "loadTransfer E k db tn (t_ID t) = Inr t" for k using assms by (simp add: loadTransfer_undisturbed)
  then have "loadTransferForStep E 1 db tn (t_ID t) TransferStatusOffRamping = Inr t"
    using assms(4) by (simp add: loadTransferForStep_def)
  moreover have "inj_on (ee_uuid E) {..<13}" using assms(1) by (simp add: undisturbed_def)
  then have "ee_uuid E i \<noteq> ee_uuid E j" if "i < 13" "j < 13" "i \<noteq> j" for i j
    using that by (auto dest: inj_onD)
  then have "validateLedgerLines (\<lambda>i. ee_uuid E (10 + i)) (completionLines (tn_Slug tenant) t) = Inr ()"
    using assms(7,8) by (intro completionLines_valid) simp_all
  moreover have "0 < t_SourceAmount t - TotalFeeUSD (t_Fees t)" using assms(8) by simp
  ultimately have "advances E t TransferStatusCompleted complete_types db (CompleteTransfer L E 1 tn (t_ID t) db db)"
    unfolding CompleteTransfer_def using assms(6)
    by (simp only: sum.case simp_thms if_False)
      (rule advances_transition [OF assms(1,2)], simp_all add: advance_rules)
  with ld [of 0] assms(4,5) show ?thesis
    unfolding HandleOffRampResult_def by (simp only: sum.case simp_thms if_True if_False)
qed

abbreviation settle_failed_types :: "string list" where
  "settle_failed_types \<equiv> [IntentTreasuryRelease, IntentLedgerReverse, EventBlockchainFailed]"
abbreviation refund_types :: "string list" where
  "refund_types \<equiv> [IntentLedgerReverse, IntentTreasuryRelease, EventRefundInitiated]"
abbreviation fail_types :: "string list" where
  "fail_types \<equiv> [IntentTreasuryRelease, IntentWebhookDeliver, EventTransferFailed]"

lemma HandleSettlementResult_fails:
  assumes "undisturbed n E db" and "3 \<le> n" and "holds_transfer db t"
    and "tn = uuid_Nil \<or> tn = t_TenantID t" and "t_Status t = TransferStatusSettling" and "\<not> ir_Success res"
    and "GetTenant E db (t_TenantID t) = Inr tenant"
  shows "advances E t TransferStatusFailed settle_failed_types db (HandleSettlementResult L E tn (t_ID t) res db db)"
proof -
  have "loadTransfer E 0 db tn (t_ID t) = Inr t" using assms by (simp add: loadTransfer_undisturbed)
  with assms(5-7) show ?thesis unfolding HandleSettlementResult_def
    by (simp only: sum.case simp_thms if_True if_False)
      (rule advances_transition [OF assms(1,3)], use assms(2) in \<open>simp_all add: advance_rules\<close>)
qed

lemma InitiateRefund_advances:
  assumes "undisturbed n E db" and "3 \<le> n" and "holds_transfer db t"
    and "tn = uuid_Nil \<or> tn = t_TenantID t"
    and "t_Status t = TransferStatusFailed \<and> GetTenant E db (t_TenantID t) = Inr tenant \<or>
         t_Status t = TransferStatusFunded"
  shows "advances E t TransferStatusRefunding refund_types db (InitiateRefund L E tn (t_ID t) db db)"
proof -
  have ld: "loadTransfer E 0 db tn (t_ID t) = Inr t" using assms by (simp add: loadTransfer_undisturbed)
  have can: "CanTransitionTo t TransferStatusRefunding" using assms(5) by (auto simp: CanTransitionTo_def)
  have "\<exists>ls. (if t_Status t = TransferStatusFailed \<and> 0 < t_StableAmount t
                  then (case GetTenant E db (t_TenantID t) of
                          Inl err \<Rightarrow> Inl (Errorf ''settla-core: refund transfer: loading tenant for reversal'' (Some err))
                        | Inr tenant \<Rightarrow>
                           Inr (reversalLines (tn_Slug tenant) t
                             (''Refund: reverse crypto asset'', ''Refund: reverse on-ramp fee'',
                              ''Refund: debit clearing account'')))
                  else Inr []) = Inr ls" using assms(5) by auto
  then obtain ls where ls: "(if t_Status t = TransferStatusFailed \<and> 0 < t_StableAmount t
                  then (case GetTenant E db (t_TenantID t) of
                          Inl err \<Rightarrow> Inl (Errorf ''settla-core: refund transfer: loading tenant for reversal'' (Some err))
                        | Inr tenant \<Rightarrow>
                           Inr (reversalLines (tn_Slug tenant) t
                             (''Refund: reverse crypto asset'', ''Refund: reverse on-ramp fee'',
                              ''Refund: debit clearing account'')))
                  else Inr []) = Inr ls" ..
  have guard: "(t_Status t \<noteq> TransferStatusFunded \<and> t_Status t \<noteq> TransferStatusFailed
            \<or> \<not> CanTransitionTo t TransferStatusRefunding) = False" using assms(5) can by auto
  show ?thesis unfolding InitiateRefund_def
    by (simp only: ld sum.case guard if_False ls)
      (rule advances_transition [OF assms(1,3)], use assms(2) in \<open>simp_all add: advance_rules\<close>)
qed

lemma FailTransfer_advances:
  assumes "undisturbed n E db" and "3 \<le> n" and "holds_transfer db t"
    and "tn = uuid_Nil \<or> tn = t_TenantID t" and "CanTransitionTo t TransferStatusFailed"
  shows "advances E t TransferStatusFailed fail_types db (FailTransfer E tn (t_ID t) reason code db db)"
proof -
  have "loadTransfer E 0 db tn (t_ID t) = Inr t" using assms by (simp add: loadTransfer_undisturbed)
  with assms(5) show ?thesis unfolding FailTransfer_def
    by (simp only: sum.case simp_thms if_True if_False)
      (rule advances_transition [OF assms(1,3)], use assms(2) in \<open>simp_all add: advance_rules\<close>)
qed

section \<open>Sequences of calls\<close>

definition other_transfers :: "uuid \<Rightarrow> transfer_db \<Rightarrow> Transfer list" where
  "other_transfers i db = filter (\<lambda>x. t_ID x \<noteq> i) (db_transfers db)"

abbreviation outbox_types :: "transfer_db \<Rightarrow> string list" where
  "outbox_types db \<equiv> map or_EventType (db_outbox db)"

lemma apply_step_others: "other_transfers (t_ID t) (apply_step now t s es db) = other_transfers (t_ID t) db"
proof -
  have "filter (\<lambda>x. t_ID x \<noteq> t_ID t) (map (\<lambda>x. if x = t then transition_row now s x else x) ts) =
      filter (\<lambda>x. t_ID x \<noteq> t_ID t) ts" for ts by (induction ts) auto
  then show ?thesis by (simp add: other_transfers_def apply_step_def)
qed

lemma intents_of_new:
  assumes "\<forall>e \<in> set es. ob_AggregateID e = i \<and> (ob_EventType e \<in> money_intents \<longrightarrow> ob_IsIntent e)"
    and "et \<in> money_intents"
  shows "length (intents_of et i (tbl @ outboxEntriesToParams now es)) =
           length (intents_of et i tbl) + count_list (map ob_EventType es) et"
proof -
  have "length (intents_of et i (outboxEntriesToParams now es)) = count_list (map ob_EventType es) et"
    using assms by (induction es) (auto simp: intents_of_def outboxEntriesToParams_def)
  then show ?thesis by (simp add: intents_of_def)
qed

lemma advances_next:
  assumes "advances E t s types db r" and "holds_transfer db t" and "length types \<le> n"
  obtains db' where "r = (db', Inr ())" "holds_transfer db' (transition_row (ee_now E) s t)"
    "db_tenants db' = db_tenants db" "outbox_types db' = outbox_types db @ types"
    "other_transfers (t_ID t) db' = other_transfers (t_ID t) db"
    "\<And>m E'. undisturbed m E' db \<Longrightarrow> \<forall>k < m. \<forall>j < n. ee_uuid E' k \<noteq> ee_uuid E j \<Longrightarrow> undisturbed m E' db'"
    "\<And>et. et \<in> money_intents \<Longrightarrow> length (intents_of et (t_ID t) (db_outbox db')) =
        length (intents_of et (t_ID t) (db_outbox db)) + count_list types et"
proof -
  from assms(1) obtain es where r: "r = (apply_step (ee_now E) t s es db, Inr ())"
    and ty: "map ob_EventType es = types" and ids: "map ob_ID es = map (ee_uuid E) [0..<length types]"
    and ag: "\<forall>e \<in> set es. ob_AggregateID e = t_ID t \<and> (ob_EventType e \<in> money_intents \<longrightarrow> ob_IsIntent e)"
    unfolding advances_def by blast
  let ?db = "apply_step (ee_now E) t s es db"
  have "undisturbed m E' ?db" if "undisturbed m E' db" "\<forall>k < m. \<forall>j < n. ee_uuid E' k \<noteq> ee_uuid E j" for m E'
    using that assms(3) by (intro undisturbed_step [OF that(1) ids]) auto
  moreover have "map or_EventType (outboxEntriesToParams (ee_now E) es) = types"
    using ty by (simp add: outboxEntriesToParams_def comp_def)
  then have "outbox_types ?db = outbox_types db @ types" by simp
  moreover have "length (intents_of et (t_ID t) (db_outbox ?db)) =
        length (intents_of et (t_ID t) (db_outbox db)) + count_list types et" if "et \<in> money_intents" for et
    using intents_of_new [OF ag that] ty by simp
  ultimately show thesis
    using that [OF r apply_step_holds [OF assms(2)] _ _ apply_step_others] by simp
qed

lemma GetTenant_tenants:
  "db_tenants db' = db_tenants db \<Longrightarrow> GetTenant E db' tn = GetTenant E db tn"
  by (simp add: GetTenant_def)

lemma transition_row_fees [simp]: "t_Fees (transition_row now s t) = t_Fees t"
  by (simp add: transition_row_def)

text \<open>
  A sequence of undisturbed calls, of which those from \<open>m\<close> on remain: the identifiers of
  different calls differ as well.
\<close>

definition undisturbed_seq :: "nat \<Rightarrow> nat \<Rightarrow> (nat \<Rightarrow> engine_env) \<Rightarrow> transfer_db \<Rightarrow> bool" where
  "undisturbed_seq m calls E db \<longleftrightarrow>
     (\<forall>k \<in> {m..<calls}. undisturbed 13 (E k) db) \<and>
     (\<forall>k < calls. \<forall>l < calls. k \<noteq> l \<longrightarrow> (\<forall>i < 13. \<forall>j < 13. ee_uuid (E k) i \<noteq> ee_uuid (E l) j))"

text \<open>What holds between the calls of a sequence that began in \<open>db0\<close> with the transfer \<open>t0\<close>.\<close>

definition stage ::
  "nat \<Rightarrow> nat \<Rightarrow> (nat \<Rightarrow> engine_env) \<Rightarrow> transfer_db \<Rightarrow> Transfer \<Rightarrow> string list \<Rightarrow> transfer_db \<Rightarrow> Transfer \<Rightarrow> bool" where
  "stage m calls E db0 t0 types db t \<longleftrightarrow>
     holds_transfer db t \<and> undisturbed_seq m calls E db \<and> db_tenants db = db_tenants db0 \<and>
     t_ID t = t_ID t0 \<and> t_TenantID t = t_TenantID t0 \<and> t_SourceAmount t = t_SourceAmount t0 \<and> t_Fees t = t_Fees t0 \<and>
     outbox_types db = outbox_types db0 @ types \<and> other_transfers (t_ID t0) db = other_transfers (t_ID t0) db0 \<and>
     (\<forall>et \<in> money_intents. length (intents_of et (t_ID t0) (db_outbox db)) =
        length (intents_of et (t_ID t0) (db_outbox db0)) + count_list types et)"

lemma stage_start: "holds_transfer db t \<Longrightarrow> undisturbed_seq 0 calls E db \<Longrightarrow> stage 0 calls E db t [] db t"
  by (simp add: stage_def)

lemma stage_undisturbed: "stage m calls E db0 t0 types db t \<Longrightarrow> m < calls \<Longrightarrow> undisturbed 13 (E m) db"
  by (simp add: stage_def undisturbed_seq_def)

lemma stage_tenant:
  assumes "stage m calls E db0 t0 types db t" and "m < calls" and "\<exists>row \<in> set (db_tenants db0). tn_ID row = t_TenantID t0"
  shows "\<exists>tenant. GetTenant (E m) db (t_TenantID t) = Inr tenant"
  using stage_undisturbed [OF assms(1,2)] assms
  by (auto simp: GetTenant_def undisturbed_def stage_def find_None_iff split: option.split)

lemma stage_step:
  assumes "stage m calls E db0 t0 types db t" and "m < calls"
    and "advances (E m) t s tys db r" and "length tys \<le> 13"
  obtains db' where "r = (db', Inr ())"
    "stage (Suc m) calls E db0 t0 (types @ tys) db' (transition_row (ee_now (E m)) s t)"
proof -
  have h: "holds_transfer db t" and u: "undisturbed_seq m calls E db" and i: "t_ID t = t_ID t0"
    using assms(1) by (simp_all add: stage_def)
  from advances_next [OF assms(3) h assms(4)] obtain db' where r: "r = (db', Inr ())"
    "holds_transfer db' (transition_row (ee_now (E m)) s t)" "db_tenants db' = db_tenants db"
    "outbox_types db' = outbox_types db @ tys" "other_transfers (t_ID t) db' = other_transfers (t_ID t) db"
    "\<And>n E'. undisturbed n E' db \<Longrightarrow> \<forall>k < n. \<forall>j < 13. ee_uuid E' k \<noteq> ee_uuid (E m) j \<Longrightarrow> undisturbed n E' db'"
    "\<And>et. et \<in> money_intents \<Longrightarrow> length (intents_of et (t_ID t) (db_outbox db')) =
        length (intents_of et (t_ID t) (db_outbox db)) + count_list tys et" by metis
  have "undisturbed 13 (E k) db'" if "k \<in> {Suc m..<calls}" for k
    using that u assms(2) unfolding undisturbed_seq_def by (intro r(6)) auto
  then have "undisturbed_seq (Suc m) calls E db'" using u by (simp add: undisturbed_seq_def)
  with that r assms(1) i show thesis by (simp add: stage_def count_list_append)
qed

lemma success_result_ok [simp]: "ir_Success (success_result txHash)"
  by (simp add: success_result_def)

section \<open>Properties\<close>

text \<open>
  C7: The pipeline completes. On a transfer in CREATED whose fees are positive and below its
  source amount, with every statement succeeding, \<^verbatim>\<open>ProcessTransfer\<close> returns no error, the
  transfer is COMPLETED five versions later with its other fields kept, the outbox has gained
  exactly the twelve entries of the five steps, in order, with one reservation and one consumption,
  and no other transfer has changed.
\<close>

theorem process_transfer_completes:
  assumes "holds_transfer db t" and "t_Status t = TransferStatusCreated"
    and "tn = uuid_Nil \<or> tn = t_TenantID t" and "\<exists>row \<in> set (db_tenants db). tn_ID row = t_TenantID t"
    and "0 < TotalFeeUSD (t_Fees t)" and "TotalFeeUSD (t_Fees t) < t_SourceAmount t"
    and "OnRampFee (t_Fees t) < t_SourceAmount t" and "undisturbed_seq 0 5 E db"
  shows "\<exists>db' t'. ProcessTransfer L E tn (t_ID t) db = (db', Inr ()) \<and> t' \<in> set (db_transfers db') \<and>
     t' = t\<lparr>t_Status := TransferStatusCompleted, t_Version := t_Version t + 5, t_UpdatedAt := ee_now (E 4),
             t_FundedAt := Some (ee_now (E 0)), t_CompletedAt := Some (ee_now (E 4))\<rparr> \<and>
     other_transfers (t_ID t) db' = other_transfers (t_ID t) db \<and>
     outbox_types db' = outbox_types db @ fund_types @ onramp_types @ settle_types @ offramp_types @ complete_types"
proof -
  let ?st = "\<lambda>m. stage m 5 E db t"
  let ?t1 = "transition_row (ee_now (E 0)) TransferStatusFunded t"
  let ?t2 = "transition_row (ee_now (E 1)) TransferStatusOnRamping ?t1"
  let ?t3 = "transition_row (ee_now (E 2)) TransferStatusSettling ?t2"
  let ?t4 = "transition_row (ee_now (E 3)) TransferStatusOffRamping ?t3"
  let ?t5 = "transition_row (ee_now (E 4)) TransferStatusCompleted ?t4"
  have st0: "?st 0 [] db t" by (rule stage_start [OF assms(1,8)])
  have inv: "holds_transfer d x" "tn = uuid_Nil \<or> tn = t_TenantID x" "t_ID x = t_ID t" "t_Fees x = t_Fees t"
    "t_SourceAmount x = t_SourceAmount t" if "?st m tys d x" for m tys d x
    using that assms(3) by (simp_all add: stage_def)
  note u = stage_undisturbed and tenant = stage_tenant [OF _ _ assms(4)]
  from stage_step [OF st0 _ FundTransfer_advances [OF u [OF st0] _ inv(1,2) [OF st0] assms(2)]]
  obtain d1 where d1: "FundTransfer (E 0) tn (t_ID t) db db = (d1, Inr ())"
    and st1: "?st 1 fund_types d1 ?t1" by auto
  from stage_step [OF st1 _ InitiateOnRamp_advances [OF u [OF st1] _ inv(1,2) [OF st1]]]
  obtain d2 where d2: "InitiateOnRamp L (E 1) tn (t_ID t) d1 d1 = (d2, Inr ())"
    and st2: "?st 2 (fund_types @ onramp_types) d2 ?t2"
    by (auto simp: numeral_2_eq_2)
  obtain c2 where "GetTenant (E 2) d2 (t_TenantID ?t2) = Inr c2" using tenant [OF st2] by auto
  with stage_step [OF st2 _ HandleOnRampResult_advances [OF u [OF st2] _ inv(1,2) [OF st2], where res = "success_result []" and L = L]]
  obtain d3 where d3: "HandleOnRampResult L (E 2) tn (t_ID t) (success_result []) d2 d2 = (d3, Inr ())"
    and st3: "?st 3 (fund_types @ onramp_types @ settle_types) d3 ?t3"
    using assms(7) by auto
  from stage_step [OF st3 _ HandleSettlementResult_advances [OF u [OF st3] _ inv(1,2) [OF st3], where res = "success_result ''0xdemo''" and L = L]]
  obtain d4 where d4: "HandleSettlementResult L (E 3) tn (t_ID t) (success_result ''0xdemo'') d3 d3 = (d4, Inr ())"
    and st4: "?st 4 (fund_types @ onramp_types @ settle_types @ offramp_types) d4 ?t4"
    by auto
  obtain c4 where "GetTenant (E 4) d4 (t_TenantID ?t4) = Inr c4" using tenant [OF st4] by auto
  with stage_step [OF st4 _ HandleOffRampResult_advances [OF u [OF st4] inv(1,2) [OF st4], where res = "success_result []" and L = L]]
  obtain d5 where d5: "HandleOffRampResult L (E 4) tn (t_ID t) (success_result []) d4 d4 d4 = (d5, Inr ())"
    and st5: "?st 5 (fund_types @ onramp_types @ settle_types @ offramp_types @ complete_types) d5 ?t5"
    using assms(5,6) by auto
  have "ProcessTransfer L E tn (t_ID t) db = (d5, Inr ())"
    by (simp add: ProcessTransfer_def then_step_def d1 d2 [simplified] d3 d4 d5)
  with st5 show ?thesis
    by (intro exI [of _ d5] exI [of _ ?t5])
      (simp add: stage_def holds_transfer_def transition_row_def)
qed

text \<open>
  Funds may be released twice. When the settlement of a transfer fails and the transfer is
  then refunded, both calls succeed and each writes a release intent for the whole source amount:
  the outbox gains two releases and no reservation.
\<close>

theorem refund_after_failure_releases_twice:
  assumes "holds_transfer db t" and "t_Status t = TransferStatusSettling"
    and "tn = uuid_Nil \<or> tn = t_TenantID t" and "\<exists>row \<in> set (db_tenants db). tn_ID row = t_TenantID t"
    and "\<not> ir_Success res" and "undisturbed_seq 0 2 E db"
  shows "\<exists>db1 db2. HandleSettlementResult L (E 0) tn (t_ID t) res db db = (db1, Inr ()) \<and>
     InitiateRefund L (E 1) tn (t_ID t) db1 db1 = (db2, Inr ()) \<and>
     length (intents_of IntentTreasuryRelease (t_ID t) (db_outbox db2)) =
       length (intents_of IntentTreasuryRelease (t_ID t) (db_outbox db)) + 2 \<and>
     length (intents_of IntentTreasuryReserve (t_ID t) (db_outbox db2)) =
       length (intents_of IntentTreasuryReserve (t_ID t) (db_outbox db))"
proof -
  let ?t1 = "transition_row (ee_now (E 0)) TransferStatusFailed t"
  have st0: "stage 0 2 E db t [] db t" by (rule stage_start [OF assms(1,6)])
  obtain c0 where c0: "GetTenant (E 0) db (t_TenantID t) = Inr c0" using stage_tenant [OF st0 _ assms(4)] by auto
  have u0: "undisturbed 13 (E 0) db" using stage_undisturbed [OF st0] by simp
  from stage_step [OF st0 _ HandleSettlementResult_fails [OF u0 _ assms(1,3,2,5) c0, where L = L]]
  obtain d1 where d1: "HandleSettlementResult L (E 0) tn (t_ID t) res db db = (d1, Inr ())"
    and st1: "stage 1 2 E db t settle_failed_types d1 ?t1" by auto
  have h1: "holds_transfer d1 ?t1" "tn = uuid_Nil \<or> tn = t_TenantID ?t1" and u1: "undisturbed 13 (E 1) d1"
    using st1 stage_undisturbed [OF st1] assms(3) by (simp_all add: stage_def)
  obtain c1 where "GetTenant (E 1) d1 (t_TenantID ?t1) = Inr c1" using stage_tenant [OF st1 _ assms(4)] by auto
  then have "t_Status ?t1 = TransferStatusFailed \<and> GetTenant (E 1) d1 (t_TenantID ?t1) = Inr c1 \<or>
         t_Status ?t1 = TransferStatusFunded" by simp
  from stage_step [OF st1 _ InitiateRefund_advances [OF u1 _ h1 this, where L = L]]
  obtain d2 where d2: "InitiateRefund L (E 1) tn (t_ID t) d1 d1 = (d2, Inr ())"
    and st2: "stage 2 2 E db t (settle_failed_types @ refund_types) d2
      (transition_row (ee_now (E 1)) TransferStatusRefunding ?t1)" by (auto simp: numeral_2_eq_2)
  have "IntentTreasuryRelease \<in> money_intents" "IntentTreasuryReserve \<in> money_intents"
    by (simp_all add: money_intents_def)
  with st2 have "length (intents_of IntentTreasuryRelease (t_ID t) (db_outbox d2)) =
       length (intents_of IntentTreasuryRelease (t_ID t) (db_outbox db)) +
         count_list (settle_failed_types @ refund_types) IntentTreasuryRelease"
    "length (intents_of IntentTreasuryReserve (t_ID t) (db_outbox d2)) =
       length (intents_of IntentTreasuryReserve (t_ID t) (db_outbox db)) +
         count_list (settle_failed_types @ refund_types) IntentTreasuryReserve"
    unfolding stage_def by blast+
  with d1 d2 show ?thesis by simp
qed

text \<open>
  A transfer that has never been funded may be failed, and its failure releases an amount
  that was never reserved.
\<close>

theorem fail_created_releases_unreserved:
  assumes "holds_transfer db t" and "t_Status t = TransferStatusCreated"
    and "tn = uuid_Nil \<or> tn = t_TenantID t" and "undisturbed_seq 0 1 E db"
    and "intents_of IntentTreasuryReserve (t_ID t) (db_outbox db) = []"
  shows "\<exists>db'. FailTransfer (E 0) tn (t_ID t) reason failureCode db db = (db', Inr ()) \<and>
     intents_of IntentTreasuryReserve (t_ID t) (db_outbox db') = [] \<and>
     intents_of IntentTreasuryRelease (t_ID t) (db_outbox db') \<noteq> []"
proof -
  have st0: "stage 0 1 E db t [] db t" by (rule stage_start [OF assms(1,4)])
  have u0: "undisturbed 13 (E 0) db" using stage_undisturbed [OF st0] by simp
  have "CanTransitionTo t TransferStatusFailed" using assms(2) by (simp add: CanTransitionTo_def)
  from stage_step [OF st0 _ FailTransfer_advances [OF u0 _ assms(1,3) this, where reason = reason and code = failureCode]]
  obtain d1 where d1: "FailTransfer (E 0) tn (t_ID t) reason failureCode db db = (d1, Inr ())"
    and st1: "stage 1 1 E db t fail_types d1 (transition_row (ee_now (E 0)) TransferStatusFailed t)" by auto
  have "IntentTreasuryRelease \<in> money_intents" "IntentTreasuryReserve \<in> money_intents"
    by (simp_all add: money_intents_def)
  with st1 have "length (intents_of IntentTreasuryRelease (t_ID t) (db_outbox d1)) =
       length (intents_of IntentTreasuryRelease (t_ID t) (db_outbox db)) + count_list fail_types IntentTreasuryRelease"
    "length (intents_of IntentTreasuryReserve (t_ID t) (db_outbox d1)) =
       length (intents_of IntentTreasuryReserve (t_ID t) (db_outbox db)) + count_list fail_types IntentTreasuryReserve"
    unfolding stage_def by blast+
  with d1 assms(5) show ?thesis by auto
qed

section \<open>Witnesses\<close>

lemma sample_ids:
  assumes "k < 6" and "l < 6" and "i < 13" and "j < 13"
  shows "ee_uuid (sample_env k) i = ee_uuid (sample_env l) j \<longleftrightarrow> k = l \<and> i = j"
proof -
  have inj: "(word_of_nat a :: uuid) = word_of_nat b \<longleftrightarrow> a = b" if "a < 1000" "b < 1000" for a b
    using that by (simp add: word_of_nat_eq_iff take_bit_nat_eq_self)
  have "ee_uuid (sample_env k) i = ee_uuid (sample_env l) j \<longleftrightarrow> 100 * k + i + 100 = 100 * l + j + 100"
    unfolding sample_env_def engine_env.simps using assms by (intro inj) simp_all
  moreover have "k = l" if "100 * k + i + 100 = 100 * l + j + 100"
    using assms(3,4) that by (cases k l rule: linorder_cases) linarith+
  ultimately show ?thesis by auto
qed

lemma sample_outbox: "or_ID ` set (db_outbox sample_created) = {ee_uuid (sample_env 0) 1}"
  by (simp add: sample_created_def outboxEntriesToParams_def refresh_entry_def created_entry_def zero_entry_def)

lemma sample_undisturbed:
  assumes "calls \<le> 5" and "db_outbox db = db_outbox sample_created"
  shows "undisturbed_seq 0 calls (\<lambda>k. sample_env (Suc k)) db"
proof -
  have "undisturbed 13 (sample_env (Suc k)) db" if "k < calls" for k
    unfolding undisturbed_def assms(2) sample_outbox using that assms(1)
    by (auto simp: inj_on_def sample_ids) (simp add: sample_env_def)
  then show ?thesis using assms(1) by (auto simp: undisturbed_seq_def sample_ids)
qed

lemma sample_stored_facts:
  "t_Status (stored_transfer (sample_env 0) sample_new) = TransferStatusCreated"
  "t_TenantID (stored_transfer (sample_env 0) sample_new) = 1"
  "t_Fees (stored_transfer (sample_env 0) sample_new) = sample_fees"
  "t_SourceAmount (stored_transfer (sample_env 0) sample_new) = 1000"
  by (simp_all add: stored_transfer_def sample_new_def new_transfer_def sample_quote_def sample_request_def sample_env_def)

lemma sample_holds: "holds_transfer sample_created (stored_transfer (sample_env 0) sample_new)"
  by (simp add: holds_transfer_def sample_created_def)

lemma sample_has_tenant: "\<exists>row \<in> set (db_tenants sample_created). tn_ID row = 1"
  by (simp add: sample_created_def sample_db_def sample_tenant_def)

theorem process_transfer_completes_witness:
  "\<exists>db'. ProcessTransfer ref_lib (\<lambda>k. sample_env (Suc k)) 1 7 sample_created = (db', Inr ()) \<and>
     (\<exists>t' \<in> set (db_transfers db'). t_Status t' = TransferStatusCompleted \<and> t_Version t' = 5)"
proof -
  let ?t = "stored_transfer (sample_env 0) sample_new"
  have "t_Version ?t = 0" by (simp add: stored_transfer_def)
  with process_transfer_completes [OF sample_holds, of 1 "\<lambda>k. sample_env (Suc k)" ref_lib]
  obtain db' t' where "ProcessTransfer ref_lib (\<lambda>k. sample_env (Suc k)) 1 7 sample_created = (db', Inr ())"
    "t' \<in> set (db_transfers db')" "t_Status t' = TransferStatusCompleted" "t_Version t' = 5"
    using sample_stored(2) sample_has_tenant sample_undisturbed [of 5 sample_created]
    by (auto simp: sample_stored_facts sample_fees_def)
  then show ?thesis by blast
qed

definition sample_settling :: transfer_db where
  "sample_settling = sample_created\<lparr>db_transfers :=
     [stored_transfer (sample_env 0) sample_new\<lparr>t_Status := TransferStatusSettling, t_Version := 3\<rparr>]\<rparr>"

theorem refund_after_failure_releases_twice_witness:
  "\<exists>db1 db2 failed. \<not> ir_Success failed \<and>
     HandleSettlementResult ref_lib (sample_env 1) 1 7 failed sample_settling sample_settling = (db1, Inr ()) \<and>
     InitiateRefund ref_lib (sample_env 2) 1 7 db1 db1 = (db2, Inr ()) \<and>
     length (intents_of IntentTreasuryRelease 7 (db_outbox db2)) \<ge> 2"
proof -
  let ?t = "stored_transfer (sample_env 0) sample_new\<lparr>t_Status := TransferStatusSettling, t_Version := 3\<rparr>"
  let ?failed = "success_result []\<lparr>ir_Success := False\<rparr>"
  have h: "holds_transfer sample_settling ?t" by (simp add: holds_transfer_def sample_settling_def)
  have "t_ID ?t = 7" using sample_stored(2) by simp
  moreover have "db_outbox sample_settling = db_outbox sample_created" "db_tenants sample_settling = db_tenants sample_created"
    by (simp_all add: sample_settling_def)
  ultimately obtain db1 db2 where
    "HandleSettlementResult ref_lib (sample_env 1) 1 7 ?failed sample_settling sample_settling = (db1, Inr ())"
    "InitiateRefund ref_lib (sample_env 2) 1 7 db1 db1 = (db2, Inr ())"
    "length (intents_of IntentTreasuryRelease 7 (db_outbox db2)) \<ge> 2"
    using refund_after_failure_releases_twice [OF h, of 1 ?failed "\<lambda>k. sample_env (Suc k)" ref_lib]
      sample_has_tenant sample_undisturbed [of 2 sample_settling]
    by (auto simp: sample_stored_facts numeral_2_eq_2)
  moreover have "\<not> ir_Success ?failed" by simp
  ultimately show ?thesis by blast
qed

theorem fail_created_releases_unreserved_witness:
  "\<exists>db'. FailTransfer (sample_env 1) 1 7 ''reason'' ''code'' sample_created sample_created = (db', Inr ()) \<and>
     intents_of IntentTreasuryReserve 7 (db_outbox db') = [] \<and>
     intents_of IntentTreasuryRelease 7 (db_outbox db') \<noteq> []"
proof -
  have "intents_of IntentTreasuryReserve 7 (db_outbox sample_created) = []"
    by (simp add: intents_of_def sample_created_def outboxEntriesToParams_def refresh_entry_def created_entry_def zero_entry_def)
  with fail_created_releases_unreserved [OF sample_holds, of 1 "\<lambda>k. sample_env (Suc k)" "''reason''" "''code''"]
  show ?thesis using sample_stored(2) sample_undisturbed [of 1 sample_created] by (auto simp: sample_stored_facts)
qed

end
