(* ===== verification/Pipeline.thy ===== *)
theory Pipeline
  imports Workers Engine_Flow
begin

text \<open>
  The engine, the message streams and the workers together: what becomes of the engine's intents
  and of the workers' results.
\<close>

section \<open>Ledger postings\<close>

lemma onRampLines_unbalanced:
  assumes "t_StableCoin t \<noteq> t_SourceCurrency t"
    and "map (\<lambda>l. (p_EntryType l, p_Amount l, p_Currency l)) ls =
         map (\<lambda>l. (ll_EntryType l, ll_Amount l, ll_Currency l)) (onRampLines slug t)"
  shows "\<exists>err. ValidateEntries ls = Inl err"
proof (rule ccontr)
  assume "\<nexists>err. ValidateEntries ls = Inl err"
  then have ok: "ValidateEntries ls = Inr ()" by (cases "ValidateEntries ls") auto
  obtain a b c where ls: "ls = [a, b, c]"
    using assms(2) by (auto simp: onRampLines_def map_eq_Cons_conv)
  have "0 < p_Amount a" using ok by (simp add: ls ValidateEntries_ok split: if_splits)
  moreover have "line_debits (t_StableCoin t) ls = line_credits (t_StableCoin t) ls"
    using ok by (simp add: ValidateEntries_ok)
  ultimately show False
    using assms by (simp add: ls onRampLines_def split: if_splits)
qed

lemma PostEntries_invalid:
  "ValidateEntries (je_Lines entry) = Inl err \<Longrightarrow>
     PostEntries L svc alive alive_backoff peers fresh now entry st =
       (st, Inl (Errorf ''settla-ledger: validating entries'' (Some err)))"
  by (simp add: PostEntries_def)

lemma breaker_rejects_invalid:
  assumes "ValidateEntries (je_Lines entry) = Inl err"
  shows "\<exists>e. breaker_PostEntries L W entry (cb, st) =
    ((fst (fst (Execute (lw_breaker W) True (lw_now W) (lw_done W)
        (\<lambda>s. (s, Inl (Errorf [] None) :: unit result)) (cb, st))), st), Inl e)"
  by (simp add: breaker_PostEntries_def Execute_def PostEntries_invalid [OF assms] split: prod.split bool.split)

definition onramp_payload :: "lib \<Rightarrow> string \<Rightarrow> Transfer \<Rightarrow> LedgerPostPayload" where
  "onramp_payload L slug t = \<lparr>gp_TransferID = t_ID t, gp_TenantID = t_TenantID t,
     gp_IdempotencyKey = ''onramp:'' @ uuid_string L (t_ID t),
     gp_Description = ''On-ramp transfer '' @ uuid_string L (t_ID t),
     gp_ReferenceType = ''transfer'', gp_Lines = onRampLines slug t\<rparr>"

definition ledger_event :: "uuid \<Rightarrow> string \<Rightarrow> LedgerPostPayload \<Rightarrow> worker_data Event" where
  "ledger_event ident ty p = \<lparr>evt_ID = ident, evt_TenantID = gp_TenantID p, evt_Type = ty, evt_Timestamp = 0,
     evt_Data = Some (IntentData (LedgerPayload p))\<rparr>"

lemma onramp_post_invalid:
  assumes "t_StableCoin t \<noteq> t_SourceCurrency t"
  shows "\<exists>err. ValidateEntries (je_Lines (post_entry W (onramp_payload L slug t))) = Inl err"
  by (rule onRampLines_unbalanced [OF assms])
    (simp add: post_entry_def onramp_payload_def posting_line_def onRampLines_def)

lemma onramp_payload_emitted:
  assumes "undisturbed n E db" and "3 \<le> n" and "holds_transfer db t"
    and "tn = uuid_Nil \<or> tn = t_TenantID t" and "t_Status t = TransferStatusOnRamping" and "ir_Success res"
    and "GetTenant E db (t_TenantID t) = Inr tenant" and "OnRampFee (t_Fees t) < t_SourceAmount t"
  shows "\<exists>db' row. HandleOnRampResult L E tn (t_ID t) res db db = (db', Inr ()) \<and> row \<in> set (db_outbox db') \<and>
    or_EventType row = IntentLedgerPost \<and> or_IsIntent row \<and>
    or_Payload row = Some (LedgerPayload (onramp_payload L (tn_Slug tenant) t))"
proof -
  let ?results = "[transfer_intent E 0 t IntentLedgerPost (LedgerPayload (onramp_payload L (tn_Slug tenant) t)),
      transfer_intent E 1 t IntentBlockchainSend
        (BlockchainPayload \<lparr>bs_TransferID = t_ID t, bs_TenantID = t_TenantID t,
           bs_Chain = t_Chain t, bs_From = [], bs_To = [], bs_Token = t_StableCoin t,
           bs_Amount = t_StableAmount t, bs_Memo = ''settlement:'' @ uuid_string L (t_ID t)\<rparr>),
      transfer_event E 2 t EventOnRampCompleted (transferEventPayload (t_ID t) (t_TenantID t))]"
  have ld: "loadTransfer E 0 db tn (t_ID t) = Inr t" using assms by (simp add: loadTransfer_undisturbed)
  have h: "HandleOnRampResult L E tn (t_ID t) res db db =
      transition_step E ''handle on-ramp result'' t TransferStatusSettling ?results db"
    using ld assms(5-8) by (simp add: HandleOnRampResult_def onramp_payload_def)
  have es: "buildOutboxEntries ?results = Inr (map projr ?results)" by (simp add: advance_rules)
  have step: "transition_step E ''handle on-ramp result'' t TransferStatusSettling ?results db =
      (apply_step (ee_now E) t TransferStatusSettling (setCorrelationID (map projr ?results) (t_ID t)) db, Inr ())"
    by (rule transition_step_undisturbed [OF assms(1,3) es]) (use assms(2) in \<open>simp_all add: advance_rules\<close>)
  let ?row = "hd (outboxEntriesToParams (ee_now E) (setCorrelationID (map projr ?results) (t_ID t)))"
  let ?db = "apply_step (ee_now E) t TransferStatusSettling (setCorrelationID (map projr ?results) (t_ID t)) db"
  have "?row \<in> set (outboxEntriesToParams (ee_now E) (setCorrelationID (map projr ?results) (t_ID t)))"
    by (simp add: setCorrelationID_def outboxEntriesToParams_def)
  then have row: "?row \<in> set (db_outbox ?db)" unfolding apply_step_frame set_append by (rule UnI2)
  have "or_EventType ?row = IntentLedgerPost" "or_IsIntent ?row"
    "or_Payload ?row = Some (LedgerPayload (onramp_payload L (tn_Slug tenant) t))"
    by (simp_all add: setCorrelationID_def WithCorrelationID_def outboxEntriesToParams_def advance_rules)
  with h step row show ?thesis by metis
qed

text \<open>
  Every delivery of the on-ramp posting fails and leaves the books alone; \<open>P\<close> follows the breaker.
\<close>

lemma onramp_posting_rejected:
  assumes "t_StableCoin t \<noteq> t_SourceCurrency t"
    and "\<And>k cb s. P k cb \<Longrightarrow> k < MaxRetries \<Longrightarrow>
      P (Suc k) (fst (fst (Execute (lw_breaker (W k)) True (lw_now (W k)) (lw_done (W k))
        (\<lambda>s. (s :: 'tb, Inl (Errorf [] None) :: unit result)) (cb, s))))"
    and "P 1 cb"
  shows "\<exists>cb'. P MaxRetries cb' \<and> deliveries (\<lambda>k. ledger_handleEvent L (W k :: 'tb ledger_worker_env)) ''SETTLA_LEDGER'' dlq
      (EventWire (ledger_event ident IntentLedgerPost (onramp_payload L slug t))) 1 (cb, books) =
    ((cb', books), if dlq MaxRetries then [(DLQSubject ''SETTLA_LEDGER'' IntentLedgerPost,
       EventWire (ledger_event ident IntentLedgerPost (onramp_payload L slug t)))] else [], dlq MaxRetries)"
proof -
  let ?ev = "ledger_event ident IntentLedgerPost (onramp_payload L slug t)"
  have step: "\<exists>s' err. ledger_handleEvent L (W k) ?ev s = (s', Inl err) \<and> P (Suc k) (fst s') \<and> snd s' = books"
    if P: "P k (fst s) \<and> snd s = books" and k: "k < MaxRetries" for k s
  proof -
    obtain cb where s: "s = (cb, books)" using P by (cases s) simp
    obtain err where "ValidateEntries (je_Lines (post_entry (W k) (onramp_payload L slug t))) = Inl err"
      using onramp_post_invalid [OF assms(1)] by blast
    from breaker_rejects_invalid [OF this, of L "W k" cb books] assms(2) [of k cb books] P k show ?thesis
      by (auto simp: s ledger_handleEvent_def handlePost_def ledger_event_def)
  qed
  have "unmarshalEvent (EventWire ?ev) = Inr ?ev" by (simp add: unmarshalEvent_def)
  from deliveries_rejected [where P = "\<lambda>k s. P k (fst s) \<and> snd s = books" and handler = "\<lambda>k. ledger_handleEvent L (W k)"
      and k = 1 and s = "(cb, books)" and streamName = "''SETTLA_LEDGER''" and dlq = dlq, OF step this]
  show ?thesis using assms(3) by (auto simp: MaxRetries_def ledger_event_def)
qed

section \<open>Properties\<close>

text \<open>
  C28: No on-ramp is ever recorded in the ledger. The engine's handler of a completed on-ramp
  succeeds and writes a posting intent, whose lines have a debit with no credit in its currency;
  the ledger validates every entry per currency, so the ledger worker fails at each delivery of
  the intent, the message goes to the dead-letter stream and the books are unchanged.
\<close>

theorem onramp_posting_dead_lettered:
  assumes "undisturbed n E db" and "3 \<le> n" and "holds_transfer db t"
    and "tn = uuid_Nil \<or> tn = t_TenantID t" and "t_Status t = TransferStatusOnRamping" and "ir_Success res"
    and "GetTenant E db (t_TenantID t) = Inr tenant" and "OnRampFee (t_Fees t) < t_SourceAmount t"
    and "t_StableCoin t \<noteq> t_SourceCurrency t" and "dlq MaxRetries"
  shows "\<exists>db' row p. HandleOnRampResult L E tn (t_ID t) res db db = (db', Inr ()) \<and> row \<in> set (db_outbox db') \<and>
    or_EventType row = IntentLedgerPost \<and> or_Payload row = Some (LedgerPayload p) \<and> gp_TransferID p = t_ID t \<and>
    (\<forall>cb books. \<exists>cb'. deliveries (\<lambda>k. ledger_handleEvent L (W k)) ''SETTLA_LEDGER'' dlq
        (EventWire (ledger_event ident IntentLedgerPost p)) 1 (cb, books) =
      ((cb', books), [(DLQSubject ''SETTLA_LEDGER'' IntentLedgerPost,
         EventWire (ledger_event ident IntentLedgerPost p))], True))"
proof -
  let ?p = "onramp_payload L (tn_Slug tenant) t"
  have "gp_TransferID ?p = t_ID t" by (simp add: onramp_payload_def)
  moreover have "\<forall>cb books. \<exists>cb'. deliveries (\<lambda>k. ledger_handleEvent L (W k)) ''SETTLA_LEDGER'' dlq
        (EventWire (ledger_event ident IntentLedgerPost ?p)) 1 (cb, books) =
      ((cb', books), [(DLQSubject ''SETTLA_LEDGER'' IntentLedgerPost,
         EventWire (ledger_event ident IntentLedgerPost ?p))], True)"
    using onramp_posting_rejected [where P = "\<lambda>_ _. True" and W = W and L = L and dlq = dlq and ident = ident
        and slug = "tn_Slug tenant", OF assms(9)] assms(10) by simp
  ultimately show ?thesis using onramp_payload_emitted [OF assms(1-8), of L] by metis
qed

text \<open>
  A reversal repeats the posting it should undo. The engine's reversal intents already carry
  the on-ramp lines with debit and credit swapped, and the ledger worker swaps them again: account
  by account the entry it posts has the directions and amounts of the on-ramp entry.
\<close>

theorem reversal_repeats_onramp:
  "map (\<lambda>l. (p_AccountCode l, p_EntryType l, p_Amount l, p_Currency l))
     (je_Lines (reverse_entry L W (onramp_payload L slug t\<lparr>gp_Lines := reversalLines slug t descrs\<rparr>))) =
   map (\<lambda>l. (p_AccountCode l, p_EntryType l, p_Amount l, p_Currency l))
     (je_Lines (post_entry W (onramp_payload L slug t)))"
  by (cases descrs) (simp add: reverse_entry_def post_entry_def onramp_payload_def reversalLines_def onRampLines_def
      reversed_line_def posting_line_def)

text \<open>
  Invalid postings shut the ledger for valid ones. The breaker around the ledger counts a
  rejected entry like a failing ledger: after the five attempts at one on-ramp posting it is open, and
  every posting of the next thirty seconds, however valid, is refused without reaching the ledger.
\<close>

theorem rejected_postings_block_ledger:
  assumes "t_StableCoin t \<noteq> t_SourceCurrency t" and "cb_state cb = StateClosed" and "cb_consecutiveFailures cb = 0"
    and "\<And>k. lw_breaker (W k) = fst (NewCircuitBreaker [WithFailureThreshold 5, WithResetTimeout (30 * Second)])"
    and "lw_now (W 7) < lw_done (W 5) + 30 * Second"
  shows "\<exists>cb' dead acked. deliveries (\<lambda>k. ledger_handleEvent L (W k)) ''SETTLA_LEDGER'' dlq
        (EventWire (ledger_event ident IntentLedgerPost (onramp_payload L slug t))) 1 (cb, books) = ((cb', books), dead, acked) \<and>
      breaker_PostEntries L (W 7) entry (cb', books) = ((cb', books), Inl ErrCircuitOpen)"
proof -
  let ?P = "\<lambda>k cb. if k < MaxRetries then cb_state cb = StateClosed \<and> cb_consecutiveFailures cb = int k - 1
    else cb_state cb = StateOpen \<and> cb_lastFailureTime cb = lw_done (W 5)"
  have cfg: "cc_failureThreshold (lw_breaker (W k)) = 5" "cc_resetTimeout (lw_breaker (W k)) = 30 * Second" for k
    by (simp_all add: assms(4) NewCircuitBreaker_def)
  have step: "?P (Suc k) (fst (fst (Execute (lw_breaker (W k)) True (lw_now (W k)) (lw_done (W k))
        (\<lambda>s. (s, Inl (Errorf [] None) :: unit result)) (cb, s))))" if "?P k cb" and "k < MaxRetries" for k cb s
  proof -
    consider "k < 5" | "k = 5" using \<open>k < MaxRetries\<close> by (fastforce simp: MaxRetries_def)
    then show ?thesis using that by cases (auto simp: Execute_def breaker_defs cfg MaxRetries_def)
  qed
  have start: "?P 1 cb" using assms(2,3) by (simp add: MaxRetries_def)
  obtain cb' dead acked where cb': "cb_state cb' = StateOpen" "cb_lastFailureTime cb' = lw_done (W 5)"
    and d: "deliveries (\<lambda>k. ledger_handleEvent L (W k)) ''SETTLA_LEDGER'' dlq
        (EventWire (ledger_event ident IntentLedgerPost (onramp_payload L slug t))) 1 (cb, books) = ((cb', books), dead, acked)"
    using onramp_posting_rejected [where P = ?P and W = W and L = L and dlq = dlq and ident = ident
        and slug = slug and books = books, OF assms(1) step start] by auto
  then show ?thesis using assms(5) by (auto simp: breaker_PostEntries_def Execute_def breaker_defs cfg)
qed

text \<open>
  A failed reservation does not stop a transfer. The treasury worker reports it in an event that
  would fail the transfer, but publishes that event on a subject that the filter of no transfer
  worker matches, and acknowledges the intent; the event that the transfer is funded, which was written with
  the intent, makes the transfer worker start the on-ramp.
\<close>

theorem failed_reservation_unheard:
  assumes "evt_Type event = IntentTreasuryReserve" and "evt_Data event = Some (IntentData (ReservePayload p))"
    and "Reserve L (tw_cfg W) (tw_op W) (rp_TenantID p) (rp_Currency p) (rp_Location p) (rp_Amount p)
      (rp_TransferID p) m = (m', Inl err)"
    and "tw_js W = (\<lambda>subject ident body sent. (sent @ [(subject, body)], Inr ()))"
  shows "\<exists>subject ev. treasury_handleEvent L W event (m, sent) = ((m', sent @ [(subject, EventWire ev)]), Inr ()) \<and>
    extractTransferID ev = Inr (rp_TransferID p) \<and>
    route_event ev = Some (CallFail (tw_error_text W err) ''TREASURY_FAILED'') \<and>
    (\<forall>part. \<not> HasPrefix subject (literal_part (PartitionFilter part))) \<and>
    route_event (ev\<lparr>evt_Type := EventTransferFunded\<rparr>) = Some CallInitiateOnRamp"
proof -
  let ?ev = "\<lparr>evt_ID = tw_event_id W, evt_TenantID = rp_TenantID p, evt_Type = EventTreasuryFailed,
    evt_Timestamp = ev_now (tw_op W), evt_Data = Some (ResultData (rp_TransferID p) [(''error'', tw_error_text W err)])\<rparr>"
  have subject: "SubjectForEventType EventTreasuryFailed u n = ''settla.treasury.'' @
      drop 16 (SubjectForEventType EventTreasuryFailed u n)" for u n
    by (simp add: SubjectForEventType_def messaging_eventPrefix_def TreasurySubject_def partitioned_def)
  have "\<not> HasPrefix (SubjectForEventType EventTreasuryFailed u n) (literal_part (PartitionFilter part))" for u n part
    by (subst subject) (simp add: PartitionFilter_def partitioned_def literal_part_def)
  then show ?thesis
    using assms
    by (intro exI [of _ "SubjectForEventType EventTreasuryFailed (rp_TenantID p) (tw_partitions W)"] exI [of _ ?ev])
      (simp add: treasury_handleEvent_def handleReserve_def publishResult_def Publish_def extractTransferID_def
        route_event_def extractErrorFromEvent_def)
qed

text \<open>
  A transfer released twice frees the reservation of another. The references of two releases of
  one transfer with different reasons differ, so the second is no replay to the treasury: when both
  messages are processed the reserved amount of the position drops twice, by what only the reservations of
  other transfers can cover.
\<close>

theorem double_release_frees_other:
  assumes "uuid_string_law L" and "evt_Data e1 = Some (IntentData (ReleasePayload p))"
    and "evt_Data e2 = Some (IntentData (ReleasePayload (p\<lparr>lp_Reason := reason\<rparr>)))"
    and "evt_Type e1 = IntentTreasuryRelease" and "evt_Type e2 = IntentTreasuryRelease"
    and "releaseRef L p \<noteq> releaseRef L (p\<lparr>lp_Reason := reason\<rparr>)"
    and "healthy (tw_op W1) m" and "length (mg_pendingOps m) < 9999" and "ev_wal_ok (tw_op W2)" and "ev_flush_ok (tw_op W2)"
    and "counters m (lp_TenantID p, lp_Currency p, lp_Location p) = Some (b, l, amt + other)"
    and "0 < lp_Amount p" and "toMicro L (lp_Amount p) = Inr amt" and "0 \<le> amt" and "amt \<le> other"
    and "in_int64 other"
    and "\<And>reason. call_claim L (CallRelease (lp_TenantID p) (lp_Currency p) (lp_Location p) (lp_Amount p)
      (releaseRef L (p\<lparr>lp_Reason := reason\<rparr>))) m = None"
  shows "counters (fst (fst (treasury_handleEvent L W2 e2 (fst (treasury_handleEvent L W1 e1 (m, nats))))))
      (lp_TenantID p, lp_Currency p, lp_Location p) = Some (b, l, other - amt)"
proof -
  let ?key = "(lp_TenantID p, lp_Currency p, lp_Location p)"
  let ?c1 = "CallRelease (lp_TenantID p) (lp_Currency p) (lp_Location p) (lp_Amount p) (releaseRef L p)"
  let ?c2 = "CallRelease (lp_TenantID p) (lp_Currency p) (lp_Location p) (lp_Amount p) (releaseRef L (p\<lparr>lp_Reason := reason\<rparr>))"
  have out: "fst (fst (treasury_handleEvent L W e (m, nats))) = fst (treasury_exec L (tw_cfg W) (tw_op W,
      CallRelease (lp_TenantID p) (lp_Currency p) (lp_Location p) (lp_Amount p) (releaseRef L p)) m)"
    if "evt_Type e = IntentTreasuryRelease" "evt_Data e = Some (IntentData (ReleasePayload p))" for W e p m nats
    using that by (auto simp: treasury_handleEvent_def handleRelease_def publishResult_def Publish_def split: prod.split sum.split)
  obtain m1 r1 where m1: "treasury_exec L (tw_cfg W1) (tw_op W1, ?c1) m = (m1, r1)" by force
  have claims: "call_claim L ?c1 m = None" "call_claim L ?c2 m = None"
    using assms(17) [of "lp_Reason p"] assms(17) [of reason] by simp_all
  have i: "in_int64 (other - amt)" using assms(14-16) by (auto simp: in_int64_def min_int64_def)
  have s1: "r1 = Inr ()" "counters m1 ?key = Some (b, l, other)"
    using fresh_call_spec [OF assms(7) claims(1) _ _ _ m1, of amt "(b, l, amt + other)"] assms(11-16) by simp_all
  then have f: "healthy (tw_op W2) m1 \<and> call_claim L ?c2 m1 = None"
    using fresh_after [where c = ?c1 and m' = m1 and cfg = "tw_cfg W1", OF assms(1,7,8) _ assms(9,10) _ _ _ claims(2)]
      m1 assms(6) by simp
  obtain m2 r2 where m2: "treasury_exec L (tw_cfg W2) (tw_op W2, ?c2) m1 = (m2, r2)" by force
  have "counters m2 ?key = Some (b, l, other - amt)"
    using fresh_call_spec [OF conjunct1 [OF f] conjunct2 [OF f] _ _ _ m2, of amt "(b, l, other)"] s1(2) assms(12-15) i by simp
  moreover obtain nats1 where "fst (treasury_handleEvent L W1 e1 (m, nats)) = (m1, nats1)"
    using out [OF assms(4,2), of W1 m nats] m1 by (cases "fst (treasury_handleEvent L W1 e1 (m, nats))") simp
  ultimately show ?thesis using out [OF assms(5,3), of W2 m1] m2 by simp
qed

section \<open>Witnesses\<close>

definition sample_onramping :: Transfer where
  "sample_onramping = stored_transfer (Samples.sample_env 0) sample_new
     \<lparr>t_Status := TransferStatusOnRamping, t_Version := 2, t_StableCoin := ''USDT''\<rparr>"

definition sample_worker :: "nat \<Rightarrow> unit ledger_worker_env" where
  "sample_worker k = \<lparr>lw_service = \<lparr>ls_client = None, ls_ledger = 1, ls_batching = False\<rparr>, lw_alive = (\<lambda>_. True), lw_backoff = (\<lambda>_. True), lw_peers = (\<lambda>_. ([], [])),
     lw_breaker = fst (NewCircuitBreaker [WithFailureThreshold 5, WithResetTimeout (30 * Second)]),
     lw_fresh = of_nat, lw_now = int k, lw_done = int k\<rparr>"

lemma sample_onramping_facts:
  "t_ID sample_onramping = 7" "t_TenantID sample_onramping = 1" "t_Status sample_onramping = TransferStatusOnRamping"
  "OnRampFee (t_Fees sample_onramping) < t_SourceAmount sample_onramping"
  "t_StableCoin sample_onramping \<noteq> t_SourceCurrency sample_onramping"
  by (simp_all add: sample_onramping_def stored_transfer_def sample_new_def new_transfer_def sample_quote_def sample_request_def
      Samples.sample_env_def sample_fees_def)

theorem onramp_posting_dead_lettered_witness:
  "\<exists>db' row p. HandleOnRampResult ref_lib (Samples.sample_env 1) 1 7 (success_result [])
      (sample_created\<lparr>db_transfers := [sample_onramping]\<rparr>) (sample_created\<lparr>db_transfers := [sample_onramping]\<rparr>) = (db', Inr ()) \<and>
    row \<in> set (db_outbox db') \<and> or_Payload row = Some (LedgerPayload p) \<and>
    snd (deliveries (\<lambda>k. ledger_handleEvent ref_lib (sample_worker k)) ''SETTLA_LEDGER'' (\<lambda>_. True)
      (EventWire (ledger_event 1 IntentLedgerPost p)) 1 (snd (NewCircuitBreaker []), ())) =
    ([(DLQSubject ''SETTLA_LEDGER'' IntentLedgerPost, EventWire (ledger_event 1 IntentLedgerPost p))], True)"
proof -
  let ?db = "sample_created\<lparr>db_transfers := [sample_onramping]\<rparr>" and ?t = sample_onramping
  have "undisturbed_seq 0 1 (\<lambda>k. Samples.sample_env (Suc k)) ?db" by (rule sample_undisturbed) simp_all
  then have u: "undisturbed 13 (Samples.sample_env 1) ?db" by (simp add: undisturbed_seq_def)
  have h: "holds_transfer ?db ?t" by (simp add: holds_transfer_def)
  note t = sample_onramping_facts
  have g: "GetTenant (Samples.sample_env 1) ?db 1 = Inr (tenantFromRow sample_tenant)"
    by (simp add: GetTenant_def Samples.sample_env_def sample_created_def sample_db_def sample_tenant_def)
  obtain db' row p where r: "HandleOnRampResult ref_lib (Samples.sample_env 1) 1 (t_ID ?t) (success_result []) ?db ?db = (db', Inr ())"
      "row \<in> set (db_outbox db')" "or_Payload row = Some (LedgerPayload p)"
    and d: "\<forall>cb books. \<exists>cb'. deliveries (\<lambda>k. ledger_handleEvent ref_lib (sample_worker k)) ''SETTLA_LEDGER'' (\<lambda>_. True)
        (EventWire (ledger_event 1 IntentLedgerPost p)) 1 (cb, books) =
      ((cb', books), [(DLQSubject ''SETTLA_LEDGER'' IntentLedgerPost, EventWire (ledger_event 1 IntentLedgerPost p))], True)"
    using onramp_posting_dead_lettered [OF u _ h, where tn = 1 and res = "success_result []" and L = ref_lib
      and W = sample_worker and ident = 1 and dlq = "\<lambda>_. True" and tenant = "tenantFromRow sample_tenant"]
    unfolding t(2) using t g by auto
  obtain cb' where "deliveries (\<lambda>k. ledger_handleEvent ref_lib (sample_worker k)) ''SETTLA_LEDGER'' (\<lambda>_. True)
        (EventWire (ledger_event 1 IntentLedgerPost p)) 1 (snd (NewCircuitBreaker []), ()) =
      ((cb', ()), [(DLQSubject ''SETTLA_LEDGER'' IntentLedgerPost, EventWire (ledger_event 1 IntentLedgerPost p))], True)"
    using d by blast
  then show ?thesis using r unfolding t(1) by (metis snd_conv)
qed

theorem rejected_postings_block_ledger_witness:
  "\<exists>cb'. breaker_PostEntries ref_lib (sample_worker 7) sample_entry (cb', ()) = ((cb', ()), Inl ErrCircuitOpen)"
proof -
  let ?cb = "snd (NewCircuitBreaker [])"
  have "cb_state ?cb = StateClosed" "cb_consecutiveFailures ?cb = 0" by (simp_all add: NewCircuitBreaker_def)
  moreover have "lw_breaker (sample_worker k) = fst (NewCircuitBreaker [WithFailureThreshold 5, WithResetTimeout (30 * Second)])"
    "lw_now (sample_worker 7) < lw_done (sample_worker 5) + 30 * Second" for k by (simp_all add: sample_worker_def)
  ultimately show ?thesis
    using rejected_postings_block_ledger [where W = sample_worker and L = ref_lib and entry = sample_entry and books = "()"
        and t = sample_onramping and cb = ?cb, OF sample_onramping_facts(5)] by blast
qed

definition sample_treasury_worker :: "nat \<Rightarrow> bool \<Rightarrow> (string \<times> worker_data message) list treasury_worker_env" where
  "sample_treasury_worker k wal_ok = \<lparr>tw_cfg = sample_config, tw_op = Treasury_Safety.sample_env k wal_ok, tw_event_id = 1,
     tw_error_text = (\<lambda>_. ''error''), tw_partitions = 8,
     tw_js = (\<lambda>subject ident body sent. (sent @ [(subject, body)], Inr ()))\<rparr>"

definition sample_treasury_event :: "string \<Rightarrow> transfer_payload \<Rightarrow> worker_data Event" where
  "sample_treasury_event ty p = \<lparr>evt_ID = 1, evt_TenantID = 1, evt_Type = ty, evt_Timestamp = 0,
     evt_Data = Some (IntentData p)\<rparr>"

definition sample_reserve :: TreasuryReservePayload where
  "sample_reserve = \<lparr>rp_TransferID = 5, rp_TenantID = 1, rp_Currency = ''USD'', rp_Amount = 250, rp_Location = ''bank:us''\<rparr>"

theorem failed_reservation_unheard_witness:
  "\<exists>m' subject ev. treasury_handleEvent ref_lib (sample_treasury_worker 1 False)
     (sample_treasury_event IntentTreasuryReserve (ReservePayload sample_reserve))
     (sample_manager, []) = ((m', [(subject, EventWire ev)]), Inr ()) \<and> route_event ev = Some (CallFail ''error'' ''TREASURY_FAILED'')"
proof -
  let ?W = "sample_treasury_worker 1 False" and ?e = "sample_treasury_event IntentTreasuryReserve (ReservePayload sample_reserve)"
  obtain m' err where "Reserve ref_lib (tw_cfg ?W) (tw_op ?W) (rp_TenantID sample_reserve) (rp_Currency sample_reserve)
      (rp_Location sample_reserve) (rp_Amount sample_reserve) (rp_TransferID sample_reserve) sample_manager = (m', Inl err)"
    using sample_reserve_wal by (simp add: sample_treasury_worker_def sample_reserve_def)
  from failed_reservation_unheard [OF _ _ this, of ?e "[]"] show ?thesis
    by (auto simp: sample_treasury_event_def) (auto simp: sample_treasury_worker_def)
qed

definition sample_reserved_manager :: Manager where
  "sample_reserved_manager = sample_manager\<lparr>mg_positions :=
     [((1, ''USD'', ''bank:us''), sample_position\<lparr>ps_reserved := 500000000\<rparr>)]\<rparr>"

definition sample_release :: "string \<Rightarrow> TreasuryReleasePayload" where
  "sample_release reason = \<lparr>lp_TransferID = 5, lp_TenantID = 1, lp_Currency = ''USD'', lp_Amount = 250, lp_Location = ''bank:us'',
     lp_Reason = reason\<rparr>"

theorem double_release_frees_other_witness:
  "counters (fst (fst (treasury_handleEvent ref_lib (sample_treasury_worker 2 True)
       (sample_treasury_event IntentTreasuryRelease (ReleasePayload (sample_release ''refund'')))
     (fst (treasury_handleEvent ref_lib (sample_treasury_worker 1 True)
       (sample_treasury_event IntentTreasuryRelease (ReleasePayload (sample_release ''settlement_failed'')))
       (sample_reserved_manager, []))))))
      (1, ''USD'', ''bank:us'') = Some (1000000000, 0, 0)"
proof -
  have h: "healthy (tw_op (sample_treasury_worker 1 True)) sample_reserved_manager"
    using sample_manager_healthy [of 1]
    by (simp add: healthy_def sample_reserved_manager_def sample_treasury_worker_def)
  have c: "counters sample_reserved_manager (1, ''USD'', ''bank:us'') = Some (1000000000, 0, 500000000)"
    by (simp add: counters_def sample_reserved_manager_def sample_position_def)
  have f: "call_claim ref_lib c sample_reserved_manager = None" for c
    using sample_manager_fresh [of ref_lib c] by (auto simp: call_claim_def sample_reserved_manager_def split: option.splits)
  have r: "releaseRef ref_lib (sample_release ''settlement_failed'') \<noteq> releaseRef ref_lib (sample_release ''refund'')"
    by (simp add: releaseRef_def sample_release_def ref_lib_def)
  have u: "sample_release ''settlement_failed''\<lparr>lp_Reason := ''refund''\<rparr> = sample_release ''refund''"
    by (simp add: sample_release_def)
  have w: "ev_wal_ok (tw_op (sample_treasury_worker k True))" "ev_flush_ok (tw_op (sample_treasury_worker k True))" for k
    by (simp_all add: sample_treasury_worker_def Treasury_Safety.sample_env_def)
  have p: "mg_pendingOps sample_reserved_manager = []" by (simp add: sample_reserved_manager_def sample_manager_def)
  have "lp_TenantID (sample_release x) = 1" "lp_Currency (sample_release x) = ''USD''" "lp_Location (sample_release x) = ''bank:us''"
    "lp_Amount (sample_release x) = 250" for x by (simp_all add: sample_release_def)
  then show ?thesis
    using double_release_frees_other [where p = "sample_release ''settlement_failed''" and reason = "''refund''"
        and ?W1.0 = "sample_treasury_worker 1 True" and ?W2.0 = "sample_treasury_worker 2 True" and nats = "[]"
        and ?e1.0 = "sample_treasury_event IntentTreasuryRelease (ReleasePayload (sample_release ''settlement_failed''))"
        and ?e2.0 = "sample_treasury_event IntentTreasuryRelease (ReleasePayload (sample_release ''refund''))"
        and amt = 250000000 and other = 250000000 and b = 1000000000 and l = 0, OF ref_lib_uuid_law _ _ _ _ _ h _ w] c f r
    by (simp add: sample_treasury_event_def u p in_int64_def min_int64_def max_int64_def)
qed

end
