(* ===== verification/Settlement.thy ===== *)
theory Settlement
  imports Samples "HOL-Library.Multiset"
begin

text \<open>
  Net settlement: the calculator and the cross-tenant netting (\<^verbatim>\<open>src/core/settlement/calculator.go\<close>,
  \<^verbatim>\<open>src/core/settlement/netting.go\<close>) over the settlement queries
  (\<^verbatim>\<open>src/store/transferdb/settlement_adapter.go\<close>, \<^verbatim>\<open>src/store/transferdb/settlement.sql.go\<close>). The rows of a
  query without an order, and a map that is iterated, are lists in the order of insertion. The
  percentage of \<^verbatim>\<open>NettingResult\<close> is a decimal, not a float.
\<close>

section \<open>Data\<close>

record CorridorAggregate =
  ca_SourceCurrency :: currency
  ca_DestCurrency :: currency
  ca_TotalSource :: decimal
  ca_TotalDest :: decimal
  ca_TransferCount :: int
  ca_TotalFeesUSD :: decimal

record CorridorPosition =
  co_SourceCurrency :: currency
  co_DestCurrency :: currency
  co_TotalSource :: decimal
  co_TotalDest :: decimal
  co_TransferCount :: int

record CurrencyNet =
  cn_Currency :: currency
  cn_Inflows :: decimal
  cn_Outflows :: decimal
  cn_Net :: decimal

record SettlementInstruction =
  si_Direction :: string
  si_Currency :: currency
  si_Amount :: decimal
  si_Description :: string

record NetSettlement =
  ns_ID :: uuid
  ns_TenantID :: uuid
  ns_TenantName :: string
  ns_PeriodStart :: instant
  ns_PeriodEnd :: instant
  ns_Corridors :: "CorridorPosition list"
  ns_NetByCurrency :: "CurrencyNet list"
  ns_TotalFeesUSD :: decimal
  ns_Instructions :: "SettlementInstruction list"
  ns_FeeScheduleSnapshot :: "FeeSchedule option"
  ns_Status :: string
  ns_DueDate :: "instant option"
  ns_CreatedAt :: instant

record settlement_db =
  sd_db :: transfer_db
  sd_settlements :: "NetSettlement list"

text \<open>
  The environment of one calculation: the engine's environment for the clock and the tenant query, the
  new identifier, the time at which the row is inserted, and whether the other two statements succeed.
\<close>

record settlement_env =
  se_engine :: engine_env
  se_id :: uuid
  se_inserted :: instant
  se_aggregate_ok :: bool
  se_insert_ok :: bool

section \<open>Queries\<close>

text \<open>The column \<^verbatim>\<open>fees\<close> holds the breakdown as \<^verbatim>\<open>json.Marshal\<close> writes it, keyed by the field names.\<close>

definition fees_json :: "FeeBreakdown \<Rightarrow> (string \<times> decimal) list" where
  "fees_json f = [(''OnRampFee'', OnRampFee f), (''NetworkFee'', NetworkFee f), (''OffRampFee'', OffRampFee f),
     (''TotalFeeUSD'', TotalFeeUSD f)]"

definition fees_usd :: "Transfer \<Rightarrow> decimal" where
  "fees_usd t = (case map_of (fees_json (t_Fees t)) ''total_usd'' of Some x \<Rightarrow> x | None \<Rightarrow> 0)"

definition completed_in :: "uuid \<Rightarrow> instant \<Rightarrow> instant \<Rightarrow> Transfer \<Rightarrow> bool" where
  "completed_in tenantID from to t \<longleftrightarrow> t_TenantID t = tenantID \<and> t_Status t = TransferStatusCompleted \<and>
     (case t_CompletedAt t of Some c \<Rightarrow> from \<le> c \<and> c < to | None \<Rightarrow> False)"

definition corridor :: "Transfer \<Rightarrow> currency \<times> currency" where
  "corridor t = (t_SourceCurrency t, t_DestCurrency t)"

definition AggregateCompletedTransfersByPeriod ::
  "settlement_env \<Rightarrow> uuid \<Rightarrow> instant \<Rightarrow> instant \<Rightarrow> settlement_db \<Rightarrow> CorridorAggregate list result" where
  "AggregateCompletedTransfersByPeriod S tenantID from to sdb =
     (if \<not> se_aggregate_ok S then Inl (Errorf ''settla-settlement: aggregating completed transfers'' (Some db_error))
      else let rows = filter (completed_in tenantID from to) (db_transfers (sd_db sdb));
               numeric = ee_numeric (se_engine S) 8 in
        Inr (map (\<lambda>(s, d). let g = filter (\<lambda>t. corridor t = (s, d)) rows in
                \<lparr>ca_SourceCurrency = s, ca_DestCurrency = d,
                 ca_TotalSource = numeric (sum_list (map t_SourceAmount g)),
                 ca_TotalDest = numeric (sum_list (map t_DestAmount g)),
                 ca_TransferCount = int (length g),
                 ca_TotalFeesUSD = numeric (sum_list (map fees_usd g))\<rparr>)
             (remdups (map corridor rows))))"

definition settlement_GetTenant :: "settlement_env \<Rightarrow> uuid \<Rightarrow> settlement_db \<Rightarrow> Tenant result" where
  "settlement_GetTenant S tenantID sdb =
     (if \<not> ee_ok (se_engine S) GetTenantStmt 0 then Inl (Errorf ''settla-settlement: getting tenant'' (Some db_error))
      else case List.find (\<lambda>t. tn_ID t = tenantID) (db_tenants (sd_db sdb)) of
        None \<Rightarrow> Inl (Errorf ''settla-settlement: getting tenant'' (Some no_rows))
      | Some row \<Rightarrow> Inr (tenantFromRow row))"

text \<open>
  The table \<^verbatim>\<open>net_settlements\<close> has the keys (\<^verbatim>\<open>id\<close>, \<^verbatim>\<open>created_at\<close>) and
  (\<^verbatim>\<open>tenant_id\<close>, \<^verbatim>\<open>period_start\<close>, \<^verbatim>\<open>period_end\<close>, \<^verbatim>\<open>created_at\<close>), where \<^verbatim>\<open>created_at\<close> is the time of the
  insertion. The name of the tenant and the fee schedule are not stored; the due date is a \<^verbatim>\<open>DATE\<close>.
\<close>

abbreviation duplicate_key :: error where
  "duplicate_key \<equiv> Errorf ''duplicate key value violates unique constraint'' None"

definition CreateNetSettlement :: "settlement_env \<Rightarrow> NetSettlement \<Rightarrow> settlement_db \<Rightarrow> settlement_db \<times> unit result" where
  "CreateNetSettlement S s sdb =
     (let row = s\<lparr>ns_TenantName := [], ns_FeeScheduleSnapshot := None, ns_DueDate := map_option truncate_day (ns_DueDate s),
                ns_TotalFeesUSD := ee_numeric (se_engine S) 8 (ns_TotalFeesUSD s), ns_CreatedAt := se_inserted S\<rparr> in
      if \<not> se_insert_ok S then (sdb, Inl (Errorf ''settla-settlement: creating net settlement'' (Some db_error)))
      else if list_ex (\<lambda>r. ns_CreatedAt r = ns_CreatedAt row \<and> (ns_ID r = ns_ID row \<or> ns_TenantID r = ns_TenantID row \<and>
                ns_PeriodStart r = ns_PeriodStart row \<and> ns_PeriodEnd r = ns_PeriodEnd row)) (sd_settlements sdb)
      then (sdb, Inl (Errorf ''settla-settlement: creating net settlement'' (Some duplicate_key)))
      else (sdb\<lparr>sd_settlements := sd_settlements sdb @ [row]\<rparr>, Inr ()))"

section \<open>Calculator\<close>

definition corridorsFromAggregates :: "CorridorAggregate list \<Rightarrow> CorridorPosition list" where
  "corridorsFromAggregates aggregates =
     map (\<lambda>a. \<lparr>co_SourceCurrency = ca_SourceCurrency a, co_DestCurrency = ca_DestCurrency a,
       co_TotalSource = ca_TotalSource a, co_TotalDest = ca_TotalDest a, co_TransferCount = ca_TransferCount a\<rparr>) aggregates"

text \<open>The map from currencies to nets: a missing entry is added with zero flows before it is changed.\<close>

fun with_net :: "currency \<Rightarrow> (CurrencyNet \<Rightarrow> CurrencyNet) \<Rightarrow> CurrencyNet list \<Rightarrow> CurrencyNet list" where
  "with_net c f [] = [f \<lparr>cn_Currency = c, cn_Inflows = 0, cn_Outflows = 0, cn_Net = 0\<rparr>]"
| "with_net c f (n # nets) = (if cn_Currency n = c then f n # nets else n # with_net c f nets)"

definition add_aggregate :: "CorridorAggregate \<Rightarrow> CurrencyNet list \<Rightarrow> CurrencyNet list" where
  "add_aggregate a nets =
     with_net (ca_DestCurrency a) (\<lambda>n. n\<lparr>cn_Inflows := cn_Inflows n + ca_TotalDest a\<rparr>)
       (with_net (ca_SourceCurrency a) (\<lambda>n. n\<lparr>cn_Outflows := cn_Outflows n + ca_TotalSource a\<rparr>) nets)"

definition netByCurrencyFromAggregates :: "CorridorAggregate list \<Rightarrow> CurrencyNet list" where
  "netByCurrencyFromAggregates aggregates =
     map (\<lambda>n. n\<lparr>cn_Net := cn_Inflows n - cn_Outflows n\<rparr>) (fold add_aggregate aggregates [])"

text \<open>\<open>fixed\<close> stands for the decimal library's \<^verbatim>\<open>StringFixed\<close>.\<close>

type_synonym fixed_string = "decimal \<Rightarrow> nat \<Rightarrow> string"

definition formatAmount :: "lib \<Rightarrow> fixed_string \<Rightarrow> decimal \<Rightarrow> string" where
  "formatAmount L fixed amount =
     (if amount \<ge> 1000000000 then fixed (dec_div L amount 1000000000) 2 @ ''B''
      else if amount \<ge> 1000000 then fixed (dec_div L amount 1000000) 2 @ ''M''
      else if amount \<ge> 1000 then fixed (dec_div L amount 1000) 0 @ ''K''
      else fixed amount 2)"

definition instruction_for :: "lib \<Rightarrow> fixed_string \<Rightarrow> string \<Rightarrow> CurrencyNet \<Rightarrow> SettlementInstruction" where
  "instruction_for L fixed tenantName n =
     (if cn_Net n > 0
      then \<lparr>si_Direction = ''settla_owes_tenant'', si_Currency = cn_Currency n, si_Amount = cn_Net n,
            si_Description = ''Settla owes '' @ tenantName @ '' '' @ formatAmount L fixed (cn_Net n) @ '' '' @ cn_Currency n\<rparr>
      else \<lparr>si_Direction = ''tenant_owes_settla'', si_Currency = cn_Currency n, si_Amount = \<bar>cn_Net n\<bar>,
            si_Description = tenantName @ '' owes Settla '' @ formatAmount L fixed \<bar>cn_Net n\<bar> @ '' '' @ cn_Currency n\<rparr>)"

definition generateInstructions ::
  "lib \<Rightarrow> fixed_string \<Rightarrow> string \<Rightarrow> CurrencyNet list \<Rightarrow> decimal \<Rightarrow> SettlementInstruction list" where
  "generateInstructions L fixed tenantName netByCurrency totalFees =
     map (instruction_for L fixed tenantName) (filter (\<lambda>n. cn_Net n \<noteq> 0) netByCurrency) @
     (if totalFees > 0
      then [\<lparr>si_Direction = ''tenant_owes_settla'', si_Currency = ''USD'', si_Amount = dec_round L totalFees 2,
             si_Description = ''Fees: '' @ formatAmount L fixed (dec_round L totalFees 2) @ '' USD''\<rparr>]
      else [])"

definition DefaultSettlementDays :: int where
  "DefaultSettlementDays = 3"

definition CalculateNetSettlement ::
  "lib \<Rightarrow> fixed_string \<Rightarrow> settlement_env \<Rightarrow> uuid \<Rightarrow> instant \<Rightarrow> instant \<Rightarrow> settlement_db \<Rightarrow>
   settlement_db \<times> NetSettlement result" where
  "CalculateNetSettlement L fixed S tenantID periodStart periodEnd sdb =
     (if \<not> periodStart < periodEnd then (sdb, Inl (Errorf ''settla-settlement: invalid period range'' None))
      else case settlement_GetTenant S tenantID sdb of
        Inl err \<Rightarrow> (sdb, Inl (Errorf ''settla-settlement: loading tenant'' (Some err)))
      | Inr tenant \<Rightarrow>
        if tn_SettlementModel tenant \<noteq> SettlementModelNetSettlement
        then (sdb, Inl (Errorf ''settla-settlement: tenant uses another model, not NET_SETTLEMENT'' None))
        else (case AggregateCompletedTransfersByPeriod S tenantID periodStart periodEnd sdb of
          Inl err \<Rightarrow> (sdb, Inl (Errorf ''settla-settlement: aggregating transfers for tenant'' (Some err)))
        | Inr aggregates \<Rightarrow>
          (let netByCurrency = netByCurrencyFromAggregates aggregates;
               totalFees = sum_list (map ca_TotalFeesUSD aggregates);
               settlement = \<lparr>ns_ID = se_id S, ns_TenantID = tenantID, ns_TenantName = tn_Name tenant,
                 ns_PeriodStart = periodStart, ns_PeriodEnd = periodEnd,
                 ns_Corridors = corridorsFromAggregates aggregates, ns_NetByCurrency = netByCurrency,
                 ns_TotalFeesUSD = totalFees,
                 ns_Instructions = generateInstructions L fixed (tn_Name tenant) netByCurrency totalFees,
                 ns_FeeScheduleSnapshot = Some (tn_FeeSchedule tenant), ns_Status = ''pending'',
                 ns_DueDate = Some (periodEnd + DefaultSettlementDays * Day),
                 ns_CreatedAt = ee_now (se_engine S)\<rparr> in
           case CreateNetSettlement S settlement sdb of
             (sdb', Inl err) \<Rightarrow>
               if err = Errorf ''settla-settlement: creating net settlement'' (Some duplicate_key)
               then (sdb', Inr settlement)
               else (sdb', Inl (Errorf ''settla-settlement: persisting net settlement for tenant'' (Some err)))
           | (sdb', Inr _) \<Rightarrow> (sdb', Inr settlement))))"

section \<open>Cross-tenant netting\<close>

record NettedInstruction =
  ni_Currency :: currency
  ni_Direction :: string
  ni_TenantID :: uuid
  ni_TenantName :: string
  ni_Amount :: decimal
  ni_Description :: string

record NettingResult =
  nr_OriginalInstructions :: int
  nr_NettedInstructions :: "NettedInstruction list"
  nr_TotalOriginalVolume :: decimal
  nr_TotalNettedVolume :: decimal
  nr_SavingsPercent :: decimal

record tenantPosition =
  tp_currency :: currency
  tp_tenantID :: uuid
  tp_tenantName :: string
  tp_net :: decimal

definition tenant_positions :: "NetSettlement list \<Rightarrow> tenantPosition list" where
  "tenant_positions settlements =
     concat (map (\<lambda>s. map (\<lambda>cn. \<lparr>tp_currency = cn_Currency cn, tp_tenantID = ns_TenantID s,
       tp_tenantName = ns_TenantName s, tp_net = cn_Net cn\<rparr>) (ns_NetByCurrency s)) settlements)"

definition netted_instruction :: "fixed_string \<Rightarrow> tenantPosition \<Rightarrow> NettedInstruction" where
  "netted_instruction fixed pos =
     (let amount = fixed \<bar>tp_net pos\<bar> 2 in
      \<lparr>ni_Currency = tp_currency pos,
       ni_Direction = (if tp_net pos < 0 then ''settla_owes_tenant'' else ''tenant_owes_settla''),
       ni_TenantID = tp_tenantID pos, ni_TenantName = tp_tenantName pos, ni_Amount = \<bar>tp_net pos\<bar>,
       ni_Description = (if tp_net pos < 0 then ''Settla owes '' @ tp_tenantName pos @ '' '' @ amount @ '' '' @ tp_currency pos
                         else tp_tenantName pos @ '' owes Settla '' @ amount @ '' '' @ tp_currency pos)\<rparr>)"

definition CalculateCrossTenantNetting :: "lib \<Rightarrow> fixed_string \<Rightarrow> NetSettlement list \<Rightarrow> NettingResult" where
  "CalculateCrossTenantNetting L fixed settlements =
     (let positions = tenant_positions settlements;
          totalOriginal = sum_list (map (\<lambda>p. \<bar>tp_net p\<bar>) positions);
          netted = concat (map (\<lambda>c. map (netted_instruction fixed) (filter (\<lambda>p. tp_net p \<noteq> 0)
              (sort_key (\<lambda>p. - tp_net p) (filter (\<lambda>p. tp_currency p = c) positions))))
            (remdups (map tp_currency positions)));
          totalNetted = sum_list (map ni_Amount netted) in
      \<lparr>nr_OriginalInstructions = int (length positions), nr_NettedInstructions = netted,
       nr_TotalOriginalVolume = totalOriginal, nr_TotalNettedVolume = totalNetted,
       nr_SavingsPercent = (if totalOriginal \<noteq> 0 then dec_div L (totalOriginal - totalNetted) totalOriginal * 100 else 0)\<rparr>)"

section \<open>Lemmas\<close>

lemma sum_by_key:
  assumes "finite K" and "f ` set xs \<subseteq> K"
  shows "(\<Sum>k\<in>K. sum_list (map h (filter (\<lambda>x. f x = k) xs))) = (sum_list (map h xs) :: decimal)"
  using assms(2)
proof (induction xs)
  case (Cons x xs)
  have "(\<Sum>k\<in>K. sum_list (map h (filter (\<lambda>x. f x = k) (x # xs)))) =
      (\<Sum>k\<in>K. (if k = f x then h x else 0) + sum_list (map h (filter (\<lambda>x. f x = k) xs)))"
    by (rule sum.cong) auto
  also have "\<dots> = h x + sum_list (map h xs)" using Cons assms(1) by (simp add: sum.distrib)
  finally show ?case by simp
qed simp

lemma sum_groups:
  "sum_list (map (\<lambda>k. sum_list (map h (filter (\<lambda>x. f x = k) xs))) (remdups (map f xs))) = (sum_list (map h xs) :: decimal)"
  by (simp add: sum_list_distinct_conv_sum_set sum_by_key)









lemma sum_sorted: "sum_list (map h (filter P (sort_key k xs))) = (sum_list (map h (filter P xs)) :: decimal)"
proof -
  have "mset (map h (filter P (sort_key k xs))) = mset (map h (filter P xs))" by simp
  then show ?thesis by (metis sum_mset_sum_list)
qed

lemma sum_concat: "sum_list (map h (concat (map g xs))) = (sum_list (map (\<lambda>x. sum_list (map h (g x))) xs) :: decimal)"
  by (induction xs) simp_all

lemma netting_volume:
  "nr_TotalNettedVolume (CalculateCrossTenantNetting L fixed ss) = nr_TotalOriginalVolume (CalculateCrossTenantNetting L fixed ss)"
proof -
  let ?ps = "tenant_positions ss" and ?h = "\<lambda>p. \<bar>tp_net p\<bar>"
  have "sum_list (map ni_Amount (map (netted_instruction fixed) (filter (\<lambda>p. tp_net p \<noteq> 0)
      (sort_key (\<lambda>p. - tp_net p) (filter (\<lambda>p. tp_currency p = c) ?ps))))) =
      sum_list (map ?h (filter (\<lambda>p. tp_currency p = c) ?ps))" for c
  proof -
    have "map ni_Amount (map (netted_instruction fixed) ps) = map ?h ps" for ps
      by (simp add: netted_instruction_def Let_def)
    then have "sum_list (map ni_Amount (map (netted_instruction fixed) (filter (\<lambda>p. tp_net p \<noteq> 0)
        (sort_key (\<lambda>p. - tp_net p) (filter (\<lambda>p. tp_currency p = c) ?ps))))) =
        sum_list (map ?h (filter (\<lambda>p. tp_net p \<noteq> 0) (filter (\<lambda>p. tp_currency p = c) ?ps)))"
      by (simp only: sum_sorted)
    also have "\<dots> = sum_list (map ?h (filter (\<lambda>p. tp_currency p = c) ?ps))" by (rule sum_list_map_filter) simp
    finally show ?thesis .
  qed
  then show ?thesis
    using sum_groups [of ?h tp_currency ?ps]
    by (simp add: CalculateCrossTenantNetting_def Let_def sum_concat del: map_map)
qed


lemma CalculateNetSettlement_ok:
  assumes "CalculateNetSettlement L fixed S tenantID from to sdb = (sdb', Inr ns)"
  shows "\<exists>as. AggregateCompletedTransfersByPeriod S tenantID from to sdb = Inr as \<and>
    ns_NetByCurrency ns = netByCurrencyFromAggregates as \<and> ns_TotalFeesUSD ns = sum_list (map ca_TotalFeesUSD as) \<and>
    ns_Instructions ns = generateInstructions L fixed (ns_TenantName ns) (ns_NetByCurrency ns) (ns_TotalFeesUSD ns)"
  using assms by (auto simp: CalculateNetSettlement_def Let_def split: if_splits sum.splits prod.splits)

section \<open>Properties\<close>


text \<open>
  No fee of a transfer is ever billed by net settlement: the query reads a key of the stored
  fee breakdown under a name that it is not written with, so that the total of the fees is zero.
\<close>

theorem net_settlement_bills_no_fees:
  assumes "CalculateNetSettlement L fixed S tenantID from to sdb = (sdb', Inr ns)" and "ee_numeric (se_engine S) 8 0 = 0"
  shows "ns_TotalFeesUSD ns = 0 \<and> (\<forall>i \<in> set (ns_Instructions ns). \<exists>n \<in> set (ns_NetByCurrency ns). si_Currency i = cn_Currency n)"
proof -
  obtain as where as: "AggregateCompletedTransfersByPeriod S tenantID from to sdb = Inr as"
    and ns: "ns_TotalFeesUSD ns = sum_list (map ca_TotalFeesUSD as)"
      "ns_Instructions ns = generateInstructions L fixed (ns_TenantName ns) (ns_NetByCurrency ns) (ns_TotalFeesUSD ns)"
    using CalculateNetSettlement_ok [OF assms(1)] by blast
  have "sum_list (map fees_usd ts) = 0" for ts by (induction ts) (simp_all add: fees_usd_def fees_json_def)
  then have "\<forall>a \<in> set as. ca_TotalFeesUSD a = 0"
    using as assms(2) by (auto simp: AggregateCompletedTransfersByPeriod_def Let_def split: if_splits)
  then have "ns_TotalFeesUSD ns = 0" unfolding ns(1) by (induction as) simp_all
  then show ?thesis unfolding ns(2) by (auto simp: generateInstructions_def instruction_for_def)
qed

text \<open>
  A settlement may be billed twice. The unique key of the table includes the time of the
  insertion, so that a second calculation for the same tenant and period at another time is stored
  beside the first instead of being recognised as a duplicate.
\<close>

theorem settlement_stored_twice:
  assumes "CalculateNetSettlement L fixed S tenantID from to sdb = (sdb1, Inr first)"
    and "CalculateNetSettlement L fixed S' tenantID from to sdb1 = (sdb2, Inr second)"
    and "\<forall>r \<in> set (sd_settlements sdb). ns_CreatedAt r \<notin> {se_inserted S, se_inserted S'}"
    and "se_inserted S \<noteq> se_inserted S'"
  shows "\<exists>r1 r2. sd_settlements sdb2 = sd_settlements sdb @ [r1, r2] \<and>
     (\<forall>r \<in> {r1, r2}. ns_TenantID r = tenantID \<and> ns_PeriodStart r = from \<and> ns_PeriodEnd r = to \<and> ns_Status r = ''pending'')"
proof -
  have step: "\<exists>r. sd_settlements y = sd_settlements x @ [r] \<and> ns_CreatedAt r = se_inserted S \<and>
      ns_TenantID r = tenantID \<and> ns_PeriodStart r = from \<and> ns_PeriodEnd r = to \<and> ns_Status r = ''pending''"
    if "CalculateNetSettlement L fixed S tenantID from to x = (y, Inr ns)"
      "\<forall>r \<in> set (sd_settlements x). ns_CreatedAt r \<noteq> se_inserted S" for S x y ns
    using that
    by (auto simp: CalculateNetSettlement_def CreateNetSettlement_def Let_def list_ex_iff split: if_splits sum.splits)
  from step [OF assms(1)] assms(3) obtain r1 where r1: "sd_settlements sdb1 = sd_settlements sdb @ [r1]"
    "ns_CreatedAt r1 = se_inserted S" "ns_TenantID r1 = tenantID" "ns_PeriodStart r1 = from" "ns_PeriodEnd r1 = to"
    "ns_Status r1 = ''pending''" by auto
  from step [OF assms(2)] assms(3,4) r1(1,2) obtain r2 where "sd_settlements sdb2 = sd_settlements sdb1 @ [r2]"
    "ns_TenantID r2 = tenantID" "ns_PeriodStart r2 = from" "ns_PeriodEnd r2 = to" "ns_Status r2 = ''pending''" by auto
  with r1 show ?thesis by auto
qed

definition opposite :: "string \<Rightarrow> string" where
  "opposite d = (if d = ''tenant_owes_settla'' then ''settla_owes_tenant'' else ''tenant_owes_settla'')"

text \<open>
  Cross-tenant netting reverses every debt and nets nothing. Its instructions are those of the
  tenants' settlements, fees apart, with the same amounts and the opposite direction; their volume is
  the volume before netting, and the saving it reports is always zero.
\<close>

theorem netting_reverses_debts:
  assumes "div_law L"
  shows "(\<lambda>n. (ni_TenantID n, ni_Currency n, ni_Amount n, ni_Direction n)) `
      set (nr_NettedInstructions (CalculateCrossTenantNetting L fixed ss)) =
    (\<Union>s \<in> set ss. (\<lambda>i. (ns_TenantID s, si_Currency i, si_Amount i, opposite (si_Direction i))) `
      set (generateInstructions L fixed (ns_TenantName s) (ns_NetByCurrency s) 0)) \<and>
    nr_TotalNettedVolume (CalculateCrossTenantNetting L fixed ss) = nr_TotalOriginalVolume (CalculateCrossTenantNetting L fixed ss) \<and>
    nr_SavingsPercent (CalculateCrossTenantNetting L fixed ss) = 0"
proof -
  let ?view = "\<lambda>n. (ni_TenantID n, ni_Currency n, ni_Amount n, ni_Direction n)"
  let ?pos = "\<lambda>s cn. \<lparr>tp_currency = cn_Currency cn, tp_tenantID = ns_TenantID s, tp_tenantName = ns_TenantName s, tp_net = cn_Net cn\<rparr>"
  let ?debts = "\<lambda>s. {cn \<in> set (ns_NetByCurrency s). cn_Net cn \<noteq> 0}"
  have "set (nr_NettedInstructions (CalculateCrossTenantNetting L fixed ss)) =
      netted_instruction fixed ` {p \<in> set (tenant_positions ss). tp_net p \<noteq> 0}"
    by (auto simp: CalculateCrossTenantNetting_def Let_def)
  also have "{p \<in> set (tenant_positions ss). tp_net p \<noteq> 0} = (\<Union>s \<in> set ss. ?pos s ` ?debts s)"
    by (auto simp: tenant_positions_def)
  finally have netted: "?view ` set (nr_NettedInstructions (CalculateCrossTenantNetting L fixed ss)) =
      (\<Union>s \<in> set ss. (\<lambda>cn. ?view (netted_instruction fixed (?pos s cn))) ` ?debts s)"
    by (simp only: image_UN image_image)
  have instr: "(\<lambda>i. (ns_TenantID s, si_Currency i, si_Amount i, opposite (si_Direction i))) `
      set (generateInstructions L fixed (ns_TenantName s) (ns_NetByCurrency s) 0) =
      (\<lambda>cn. ?view (netted_instruction fixed (?pos s cn))) ` ?debts s" for s
  proof -
    have set: "set (generateInstructions L fixed (ns_TenantName s) (ns_NetByCurrency s) 0) =
        instruction_for L fixed (ns_TenantName s) ` ?debts s"
      by (simp add: generateInstructions_def)
    show ?thesis
      unfolding set image_image
      by (rule image_cong [OF refl]) (auto simp: instruction_for_def netted_instruction_def Let_def opposite_def)
  qed
  have zero: "dec_div L 0 x = 0" if "x \<noteq> 0" for x
  proof -
    have "nearest (1 / 10 ^ 16) (0 / x) (dec_div L 0 x)" using assms that unfolding div_law_def by blast
    then show ?thesis using nearest_multiple [of "1 / 10 ^ 16" 0 "dec_div L 0 x"] by (simp add: multiple_of_def)
  qed
  have "nr_SavingsPercent (CalculateCrossTenantNetting L fixed ss) = 0"
    using netting_volume [of L fixed ss] zero by (simp add: CalculateCrossTenantNetting_def Let_def)
  with netting_volume show ?thesis unfolding netted instr by blast
qed


section \<open>Witnesses\<close>

definition sample_settled :: settlement_db where
  "sample_settled = \<lparr>sd_db = sample_db\<lparr>db_tenants := [sample_tenant\<lparr>tn_SettlementModel := SettlementModelNetSettlement\<rparr>],
      db_transfers := [sample_new\<lparr>t_Status := TransferStatusCompleted, t_CompletedAt := Some 50\<rparr>]\<rparr>, sd_settlements = []\<rparr>"

definition sample_calculation :: "nat \<Rightarrow> settlement_env" where
  "sample_calculation k = \<lparr>se_engine = sample_env k, se_id = of_nat k, se_inserted = int k, se_aggregate_ok = True, se_insert_ok = True\<rparr>"

lemma sample_calculated:
  "\<exists>sdb' ns. CalculateNetSettlement ref_lib (\<lambda>_ _. []) (sample_calculation k) 1 0 100 (sample_settled\<lparr>sd_settlements := rows\<rparr>) = (sdb', Inr ns) \<and>
     sd_db sdb' = sd_db sample_settled"
  by (simp add: CalculateNetSettlement_def settlement_GetTenant_def AggregateCompletedTransfersByPeriod_def CreateNetSettlement_def
      Let_def sample_calculation_def sample_settled_def sample_env_def sample_tenant_def tenantFromRow_def sample_db_def)



theorem net_settlement_bills_no_fees_witness:
  "\<exists>sdb' ns. CalculateNetSettlement ref_lib (\<lambda>_ _. []) (sample_calculation 1) 1 0 100 sample_settled = (sdb', Inr ns) \<and>
     ns_TotalFeesUSD ns = 0 \<and> TotalFeeUSD (t_Fees sample_new) > 0"
proof -
  obtain sdb' ns where c: "CalculateNetSettlement ref_lib (\<lambda>_ _. []) (sample_calculation 1) 1 0 100 sample_settled = (sdb', Inr ns)"
    using sample_calculated [of 1 "[]"] by (auto simp: sample_settled_def)
  have "TotalFeeUSD (t_Fees sample_new) > 0" by (simp add: sample_new_def new_transfer_def sample_quote_def sample_fees_def)
  with net_settlement_bills_no_fees [OF c] c show ?thesis by (auto simp: sample_calculation_def sample_env_def)
qed

theorem settlement_stored_twice_witness:
  "\<exists>sdb1 sdb2 first second. CalculateNetSettlement ref_lib (\<lambda>_ _. []) (sample_calculation 1) 1 0 100 sample_settled = (sdb1, Inr first) \<and>
     CalculateNetSettlement ref_lib (\<lambda>_ _. []) (sample_calculation 2) 1 0 100 sdb1 = (sdb2, Inr second) \<and>
     length (sd_settlements sdb2) = 2"
proof -
  obtain sdb1 ns1 where c1: "CalculateNetSettlement ref_lib (\<lambda>_ _. []) (sample_calculation 1) 1 0 100 sample_settled = (sdb1, Inr ns1)"
    "sd_db sdb1 = sd_db sample_settled"
    using sample_calculated [of 1 "[]"] by (auto simp: sample_settled_def)
  then have "sdb1 = sample_settled\<lparr>sd_settlements := sd_settlements sdb1\<rparr>" by (simp add: sample_settled_def)
  with sample_calculated [of 2 "sd_settlements sdb1"] obtain sdb2 ns2
    where c2: "CalculateNetSettlement ref_lib (\<lambda>_ _. []) (sample_calculation 2) 1 0 100 sdb1 = (sdb2, Inr ns2)" by metis
  have "sd_settlements sample_settled = []" by (simp add: sample_settled_def)
  with settlement_stored_twice [OF c1(1) c2] c1 c2 show ?thesis by (auto simp: sample_calculation_def)
qed

definition sample_net :: NetSettlement where
  "sample_net = \<lparr>ns_ID = 1, ns_TenantID = 1, ns_TenantName = ''Acme'', ns_PeriodStart = 0, ns_PeriodEnd = 100, ns_Corridors = [],
     ns_NetByCurrency = [\<lparr>cn_Currency = ''NGN'', cn_Inflows = 7, cn_Outflows = 2, cn_Net = 5\<rparr>], ns_TotalFeesUSD = 0,
     ns_Instructions = [], ns_FeeScheduleSnapshot = None, ns_Status = ''pending'', ns_DueDate = None, ns_CreatedAt = 0\<rparr>"

theorem netting_reverses_debts_witness:
  "(1, ''NGN'', 5, ''tenant_owes_settla'') \<in> (\<lambda>n. (ni_TenantID n, ni_Currency n, ni_Amount n, ni_Direction n)) `
     set (nr_NettedInstructions (CalculateCrossTenantNetting ref_lib (\<lambda>_ _. []) [sample_net])) \<and>
   map si_Direction (generateInstructions ref_lib (\<lambda>_ _. []) ''Acme'' (ns_NetByCurrency sample_net) 0) = [''settla_owes_tenant'']"
proof -
  have "generateInstructions ref_lib (\<lambda>_ _. []) ''Acme'' (ns_NetByCurrency sample_net) 0 =
      [instruction_for ref_lib (\<lambda>_ _. []) ''Acme'' \<lparr>cn_Currency = ''NGN'', cn_Inflows = 7, cn_Outflows = 2, cn_Net = 5\<rparr>]"
    by (simp add: generateInstructions_def sample_net_def)
  moreover have "ns_TenantName sample_net = ''Acme''" "ns_TenantID sample_net = 1" by (simp_all add: sample_net_def)
  ultimately show ?thesis
    using netting_reverses_debts [OF ref_lib_laws(1), of "\<lambda>_ _. []" "[sample_net]"]
    by (auto simp: instruction_for_def opposite_def)
qed

end
