(* ===== verification/Settlement_Scheduler.thy ===== *)
theory Settlement_Scheduler
  imports Settlement
begin

text \<open>
  The settlement scheduler (\<^verbatim>\<open>src/core/settlement/scheduler.go\<close>): one tick settles the last day for
  every active tenant, nets across tenants and looks for overdue settlements. The pool of workers is run in
  the order in which the tenants are fed to it; cancellation, the timeout per tenant and metrics are
  not modelled.
\<close>

section \<open>Queries\<close>

definition net_tenant_ids :: "Tenant list \<Rightarrow> uuid list" where
  "net_tenant_ids tenants =
     map tn_ID (filter (\<lambda>t. tn_SettlementModel t = SettlementModelNetSettlement \<and> tn_Status t = TenantStatusActive) tenants)"

definition ListActiveTenantIDsBySettlementModel :: "Tenant list \<Rightarrow> nat \<Rightarrow> uuid \<Rightarrow> uuid list" where
  "ListActiveTenantIDsBySettlementModel tenants limit afterID =
     take limit (sort (filter (\<lambda>i. afterID < i) (net_tenant_ids tenants)))"

definition ListPendingSettlements :: "settlement_db \<Rightarrow> NetSettlement list" where
  "ListPendingSettlements sdb =
     (let rows = concat (map (\<lambda>r. map (\<lambda>t. r\<lparr>ns_TenantName := tn_Name t\<rparr>)
            (filter (\<lambda>t. tn_ID t = ns_TenantID r) (db_tenants (sd_db sdb))))
            (filter (\<lambda>r. ns_Status r \<in> {''pending'', ''overdue''}) (sd_settlements sdb))) in
      sort_key (\<lambda>r. the (ns_DueDate r)) (filter (\<lambda>r. ns_DueDate r \<noteq> None) rows) @ filter (\<lambda>r. ns_DueDate r = None) rows)"

definition UpdateSettlementStatus :: "uuid \<Rightarrow> string \<Rightarrow> settlement_db \<Rightarrow> settlement_db" where
  "UpdateSettlementStatus ident status sdb = sdb\<lparr>sd_settlements :=
     map (\<lambda>r. if ns_ID r = ident then r\<lparr>ns_Status := status\<rparr> else r) (sd_settlements sdb)\<rparr>"

section \<open>Scheduler\<close>

record scheduler_env =
  sc_now :: instant
  sc_calc :: "uuid \<Rightarrow> settlement_env"
  sc_count_ok :: bool
  sc_list_ok :: "nat \<Rightarrow> bool"
  sc_pending_ok :: "nat \<Rightarrow> bool"
  sc_update_ok :: "uuid \<Rightarrow> bool"

definition defaultBatchSize :: nat where
  "defaultBatchSize = 500"

text \<open>The tenants that the producer feeds to the workers, and whether every page could be read.\<close>

function tenant_pages :: "(nat \<Rightarrow> bool) \<Rightarrow> Tenant list \<Rightarrow> nat \<Rightarrow> uuid \<Rightarrow> uuid list \<times> bool" where
  "tenant_pages list_ok tenants page afterID =
     (if \<not> list_ok page then ([], False)
      else let ids = ListActiveTenantIDsBySettlementModel tenants defaultBatchSize afterID in
        if length ids < defaultBatchSize then (ids, True)
        else case tenant_pages list_ok tenants (page + 1) (last ids) of (rest, fine) \<Rightarrow> (ids @ rest, fine))"
  by pat_completeness auto
termination
proof (relation "measure (\<lambda>(list_ok, tenants, page, afterID). length (filter (\<lambda>i. afterID < i) (net_tenant_ids tenants)))")
  fix list_ok tenants page afterID ids
  assume ids: "ids = ListActiveTenantIDsBySettlementModel tenants defaultBatchSize afterID" "\<not> length ids < defaultBatchSize"
  let ?P = "\<lambda>i. afterID < i" and ?Q = "\<lambda>i. last ids < i"
  have "ids \<noteq> []" using ids(2) by (auto simp: defaultBatchSize_def)
  then have l: "last ids \<in> set (filter ?P (net_tenant_ids tenants))"
    using last_in_set ids(1) unfolding ListActiveTenantIDsBySettlementModel_def by (metis in_set_takeD set_sort)
  then have "filter ?Q (net_tenant_ids tenants) = filter ?Q (filter ?P (net_tenant_ids tenants))"
    by (auto intro: filter_cong)
  moreover have "length (filter ?Q (filter ?P (net_tenant_ids tenants))) < length (filter ?P (net_tenant_ids tenants))"
    using l by (intro length_filter_less) auto
  ultimately show "((list_ok, tenants, page + 1, last ids), list_ok, tenants, page, afterID)
      \<in> measure (\<lambda>(list_ok, tenants, page, afterID). length (filter (\<lambda>i. afterID < i) (net_tenant_ids tenants)))" by simp
qed simp

declare tenant_pages.simps [simp del]

definition processOneTenant ::
  "lib \<Rightarrow> fixed_string \<Rightarrow> scheduler_env \<Rightarrow> instant \<Rightarrow> instant \<Rightarrow> uuid \<Rightarrow> settlement_db \<Rightarrow> settlement_db \<times> unit result" where
  "processOneTenant L fixed C periodStart periodEnd tenantID sdb =
     (case CalculateNetSettlement L fixed (sc_calc C tenantID) tenantID periodStart periodEnd sdb of
        (sdb', Inl err) \<Rightarrow> (sdb', Inl err)
      | (sdb', Inr _) \<Rightarrow> (sdb', Inr ()))"

definition calculateForAllTenants ::
  "lib \<Rightarrow> fixed_string \<Rightarrow> scheduler_env \<Rightarrow> instant \<Rightarrow> instant \<Rightarrow> settlement_db \<Rightarrow> settlement_db \<times> unit result" where
  "calculateForAllTenants L fixed C periodStart periodEnd sdb =
     (if \<not> sc_count_ok C then (sdb, Inl (Errorf ''settla-settlement: counting tenants'' (Some db_error)))
      else if net_tenant_ids (db_tenants (sd_db sdb)) = [] then (sdb, Inr ())
      else case tenant_pages (sc_list_ok C) (db_tenants (sd_db sdb)) 0 uuid_Nil of (ids, fine) \<Rightarrow>
        (fold (\<lambda>tenantID s. fst (processOneTenant L fixed C periodStart periodEnd tenantID s)) ids sdb,
         if fine then Inr () else Inl (Errorf ''settla-settlement: listing tenant batch'' (Some db_error))))"

definition NetSettlementsForPeriod ::
  "lib \<Rightarrow> fixed_string \<Rightarrow> scheduler_env \<Rightarrow> instant \<Rightarrow> instant \<Rightarrow> settlement_db \<Rightarrow> NettingResult result" where
  "NetSettlementsForPeriod L fixed C periodStart periodEnd sdb =
     (if \<not> sc_pending_ok C 0 then Inl (Errorf ''settla-settlement: listing pending for netting'' (Some db_error))
      else let ss = filter (\<lambda>p. ns_PeriodStart p = periodStart \<and> ns_PeriodEnd p = periodEnd) (ListPendingSettlements sdb) in
        if ss = [] then Inr \<lparr>nr_OriginalInstructions = 0, nr_NettedInstructions = [], nr_TotalOriginalVolume = 0,
          nr_TotalNettedVolume = 0, nr_SavingsPercent = 0\<rparr>
        else Inr (CalculateCrossTenantNetting L fixed ss))"

record OverdueAction =
  oa_SettlementID :: uuid
  oa_TenantID :: uuid
  oa_TenantName :: string
  oa_Action :: string
  oa_DaysPastDue :: int

definition overdue_action :: "int \<Rightarrow> string option" where
  "overdue_action overdue =
     (if overdue \<ge> 7 * Day then Some ''suspend''
      else if overdue \<ge> 5 * Day then Some ''warning''
      else if overdue \<ge> 3 * Day then Some ''reminder''
      else None)"

fun overdue_loop :: "scheduler_env \<Rightarrow> NetSettlement list \<Rightarrow> settlement_db \<Rightarrow> settlement_db \<times> OverdueAction list" where
  "overdue_loop C [] sdb = (sdb, [])"
| "overdue_loop C (s # pending) sdb =
     (case ns_DueDate s of
        None \<Rightarrow> overdue_loop C pending sdb
      | Some due \<Rightarrow>
         (case overdue_action (sc_now C - due) of
            None \<Rightarrow> overdue_loop C pending sdb
          | Some action \<Rightarrow>
             (case overdue_loop C pending (if action = ''suspend'' \<and> sc_update_ok C (ns_ID s)
                   then UpdateSettlementStatus (ns_ID s) ''overdue'' sdb else sdb) of
                (sdb', actions) \<Rightarrow>
                  (sdb', \<lparr>oa_SettlementID = ns_ID s, oa_TenantID = ns_TenantID s, oa_TenantName = ns_TenantName s,
                    oa_Action = action, oa_DaysPastDue = (sc_now C - due) div Day\<rparr> # actions))))"

definition checkOverdue :: "scheduler_env \<Rightarrow> settlement_db \<Rightarrow> settlement_db \<times> OverdueAction list result" where
  "checkOverdue C sdb =
     (if \<not> sc_pending_ok C 1 then (sdb, Inl (Errorf ''listing pending settlements'' (Some db_error)))
      else case overdue_loop C (ListPendingSettlements sdb) sdb of (sdb', actions) \<Rightarrow> (sdb', Inr actions))"

definition tick :: "lib \<Rightarrow> fixed_string \<Rightarrow> scheduler_env \<Rightarrow> settlement_db \<Rightarrow> settlement_db \<times> OverdueAction list result" where
  "tick L fixed C sdb =
     (let periodEnd = truncate_day (sc_now C); periodStart = periodEnd - Day in
      case calculateForAllTenants L fixed C periodStart periodEnd sdb of
        (sdb1, Inl err) \<Rightarrow> (sdb1, Inl (Errorf ''settla-settlement: calculating settlements'' (Some err)))
      | (sdb1, Inr _) \<Rightarrow>
         (case checkOverdue C sdb1 of
            (sdb2, Inl err) \<Rightarrow> (sdb2, Inl (Errorf ''settla-settlement: checking overdue'' (Some err)))
          | (sdb2, Inr actions) \<Rightarrow> (sdb2, Inr actions)))"

section \<open>Lemmas\<close>

lemma filter_above:
  assumes "sorted_wrt (<) xs" and "0 < n" and "n \<le> length xs"
  shows "filter (\<lambda>x. last (take n xs) < x) xs = drop n (xs :: 'a :: linorder list)"
proof -
  have "take n xs \<noteq> []" using assms(2,3) by auto
  then obtain ys l where t: "take n xs = ys @ [l]" by (metis rev_exhaust)
  have "sorted_wrt (<) ((ys @ [l]) @ drop n xs)" using assms(1) by (simp flip: t)
  then have "\<forall>y \<in> set ys. y < l" "\<forall>x \<in> set (drop n xs). l < x" by (simp_all add: sorted_wrt_append)
  then have "filter (\<lambda>x. l < x) ((ys @ [l]) @ drop n xs) = drop n xs"
    by (auto simp: filter_empty_conv)
  then show ?thesis by (simp flip: t) (simp add: t)
qed

lemma tenant_pages_all:
  assumes "distinct (net_tenant_ids tenants)" and "\<And>k. list_ok k"
  shows "tenant_pages list_ok tenants page afterID = (sort (filter (\<lambda>i. afterID < i) (net_tenant_ids tenants)), True)"
  using assms
proof (induction list_ok tenants page afterID rule: tenant_pages.induct)
  case (1 list_ok tenants page afterID)
  let ?all = "\<lambda>a. sort (filter (\<lambda>i. a < i) (net_tenant_ids tenants))" and ?n = defaultBatchSize
  let ?ids = "take ?n (?all afterID)"
  have ids: "ListActiveTenantIDsBySettlementModel tenants ?n afterID = ?ids"
    by (simp add: ListActiveTenantIDsBySettlementModel_def)
  show ?case
  proof (cases "length ?ids < ?n")
    case True
    then show ?thesis using 1(3) by (subst tenant_pages.simps) (simp add: ids Let_def min_less_iff_disj)
  next
    case False
    then have n: "0 < ?n" "?n \<le> length (?all afterID)" by (simp_all add: defaultBatchSize_def)
    have strict: "sorted_wrt (<) (?all afterID)" using 1(2) by (simp add: strict_sorted_iff)
    have "0 < length ?ids" using n by simp
    then have "last ?ids \<in> set ?ids" unfolding length_greater_0_conv by (rule last_in_set)
    then have "afterID < last ?ids" using in_set_takeD by fastforce
    then have "filter (\<lambda>i. last ?ids < i) (?all afterID) = ?all (last ?ids)"
      unfolding filter_sort by (auto intro!: arg_cong [where f = sort] filter_cong simp: filter_filter)
    then have "?all (last ?ids) = drop ?n (?all afterID)" using filter_above [OF strict n] by simp
    moreover have "tenant_pages list_ok tenants (page + 1) (last ?ids) = (?all (last ?ids), True)"
      by (rule 1(1) [OF _ ids [symmetric]]) (use False 1(2,3) in simp_all)
    ultimately show ?thesis using False 1(3)
      by (subst tenant_pages.simps) (simp add: ids Let_def)
  qed
qed

text \<open>What one calculation does to the table of settlements.\<close>

abbreviation settled_for :: "uuid \<Rightarrow> instant \<Rightarrow> instant \<Rightarrow> NetSettlement \<Rightarrow> bool" where
  "settled_for tenantID from to r \<equiv> ns_TenantID r = tenantID \<and> ns_PeriodStart r = from \<and> ns_PeriodEnd r = to"

lemma calculation_stores:
  assumes "from < to" and "t \<in> set (db_tenants (sd_db sdb))" and "distinct (map tn_ID (db_tenants (sd_db sdb)))"
    and "tn_SettlementModel t = SettlementModelNetSettlement"
    and "ee_ok (se_engine S) GetTenantStmt 0" "se_aggregate_ok S" "se_insert_ok S"
    and "\<forall>r \<in> set (sd_settlements sdb). ns_ID r \<noteq> se_id S"
  shows "\<exists>rows. fst (CalculateNetSettlement L fixed S (tn_ID t) from to sdb) = sdb\<lparr>sd_settlements := sd_settlements sdb @ rows\<rparr> \<and>
     ns_ID ` set rows \<subseteq> {se_id S} \<and> (\<exists>r \<in> set (sd_settlements sdb @ rows). settled_for (tn_ID t) from to r)"
proof -
  have "List.find (\<lambda>x. tn_ID x = tn_ID t) (db_tenants (sd_db sdb)) = Some t"
  proof (cases "List.find (\<lambda>x. tn_ID x = tn_ID t) (db_tenants (sd_db sdb))")
    case None
    then show ?thesis using assms(2) by (auto simp: find_None_iff)
  next
    case (Some x)
    then have "x \<in> set (db_tenants (sd_db sdb))" "tn_ID x = tn_ID t" by (auto simp: find_Some_iff)
    then have "x = t" using assms(2,3) by (auto simp: distinct_map dest: inj_onD)
    then show ?thesis using Some by simp
  qed
  then show ?thesis
    using assms
    by (auto simp: CalculateNetSettlement_def settlement_GetTenant_def AggregateCompletedTransfersByPeriod_def
        CreateNetSettlement_def Let_def tenantFromRow_def list_ex_iff)
      (rule exI [of _ "[]"], auto)
qed

definition calculations_ok :: "scheduler_env \<Rightarrow> settlement_db \<Rightarrow> bool" where
  "calculations_ok C sdb \<longleftrightarrow>
     (\<forall>i. ee_ok (se_engine (sc_calc C i)) GetTenantStmt 0 \<and> se_aggregate_ok (sc_calc C i) \<and> se_insert_ok (sc_calc C i)) \<and>
     inj (\<lambda>i. se_id (sc_calc C i)) \<and> (\<forall>i. \<forall>r \<in> set (sd_settlements sdb). ns_ID r \<noteq> se_id (sc_calc C i))"

lemma batch_settles:
  assumes "from < to" and "calculations_ok C sdb" and "distinct (map tn_ID (db_tenants (sd_db sdb)))" and "distinct ids"
    and "set ids \<subseteq> set (net_tenant_ids (db_tenants (sd_db sdb)))"
  shows "\<exists>rows. fold (\<lambda>tenantID s. fst (processOneTenant L fixed C from to tenantID s)) ids sdb =
       sdb\<lparr>sd_settlements := sd_settlements sdb @ rows\<rparr> \<and> ns_ID ` set rows \<subseteq> (\<lambda>i. se_id (sc_calc C i)) ` set ids \<and>
     (\<forall>i \<in> set ids. \<exists>r \<in> set (sd_settlements sdb @ rows). settled_for i from to r)"
  using assms(4,5)
proof (induction ids rule: rev_induct)
  case Nil
  show ?case by (intro exI [of _ "[]"]) simp
next
  case (snoc i ids)
  let ?f = "\<lambda>tenantID s. fst (processOneTenant L fixed C from to tenantID s)"
  obtain rows where rows: "fold ?f ids sdb = sdb\<lparr>sd_settlements := sd_settlements sdb @ rows\<rparr>"
    "ns_ID ` set rows \<subseteq> (\<lambda>i. se_id (sc_calc C i)) ` set ids"
    "\<forall>i \<in> set ids. \<exists>r \<in> set (sd_settlements sdb @ rows). settled_for i from to r"
    using snoc by auto
  let ?s = "sdb\<lparr>sd_settlements := sd_settlements sdb @ rows\<rparr>"
  obtain t where t: "t \<in> set (db_tenants (sd_db ?s))" "tn_ID t = i" "tn_SettlementModel t = SettlementModelNetSettlement"
    using snoc.prems by (auto simp: net_tenant_ids_def)
  have "se_id (sc_calc C i) \<notin> (\<lambda>i. se_id (sc_calc C i)) ` set ids"
    using assms(2) snoc.prems(1) by (auto simp: calculations_ok_def dest: injD)
  then have fresh: "\<forall>r \<in> set (sd_settlements ?s). ns_ID r \<noteq> se_id (sc_calc C i)"
    using rows(2) assms(2) by (auto simp: calculations_ok_def image_subset_iff) metis
  obtain new where "fst (CalculateNetSettlement L fixed (sc_calc C i) (tn_ID t) from to ?s) =
      ?s\<lparr>sd_settlements := sd_settlements ?s @ new\<rparr>" "ns_ID ` set new \<subseteq> {se_id (sc_calc C i)}"
    "\<exists>r \<in> set (sd_settlements ?s @ new). settled_for (tn_ID t) from to r"
    using calculation_stores [OF assms(1) t(1) _ t(3) _ _ _ fresh, of L fixed] assms(2,3) by (auto simp: calculations_ok_def)
  moreover have "?f i ?s = fst (CalculateNetSettlement L fixed (sc_calc C i) i from to ?s)"
    by (simp add: processOneTenant_def split: prod.split sum.split)
  ultimately show ?case
    using rows t(2) by (intro exI [of _ "rows @ new"]) auto
qed

lemma overdue_loop_keeps:
  "\<exists>f. sd_settlements (fst (overdue_loop C pending sdb)) = map f (sd_settlements sdb) \<and>
     (\<forall>r. ns_ID (f r) = ns_ID r \<and> ns_TenantID (f r) = ns_TenantID r \<and> ns_PeriodStart (f r) = ns_PeriodStart r \<and>
       ns_PeriodEnd (f r) = ns_PeriodEnd r)"
proof (induction C pending sdb rule: overdue_loop.induct)
  case (1 C sdb)
  show ?case by (intro exI [of _ id]) simp
next
  case (2 C s pending sdb)
  show ?case
  proof (cases "ns_DueDate s")
    case None
    then show ?thesis using 2(1) by simp
  next
    case (Some due)
    show ?thesis
    proof (cases "overdue_action (sc_now C - due)")
      case None
      then show ?thesis using 2(2) Some by simp
    next
      case (Some action)
      let ?u = "\<lambda>r. if action = ''suspend'' \<and> sc_update_ok C (ns_ID s) \<and> ns_ID r = ns_ID s then r\<lparr>ns_Status := ''overdue''\<rparr> else r"
      define sdb1 where "sdb1 = (if action = ''suspend'' \<and> sc_update_ok C (ns_ID s)
        then UpdateSettlementStatus (ns_ID s) ''overdue'' sdb else sdb)"
      obtain f where f: "sd_settlements (fst (overdue_loop C pending sdb1)) = map f (sd_settlements sdb1)"
        "\<forall>r. ns_ID (f r) = ns_ID r \<and> ns_TenantID (f r) = ns_TenantID r \<and> ns_PeriodStart (f r) = ns_PeriodStart r \<and>
          ns_PeriodEnd (f r) = ns_PeriodEnd r"
        using 2(3) [OF \<open>ns_DueDate s = Some due\<close> Some] unfolding sdb1_def by blast
      have "sd_settlements sdb1 = map ?u (sd_settlements sdb)"
        by (auto simp: sdb1_def UpdateSettlementStatus_def map_idI)
      moreover have "fst (overdue_loop C (s # pending) sdb) = fst (overdue_loop C pending sdb1)"
        using Some \<open>ns_DueDate s = Some due\<close> by (simp add: case_prod_unfold flip: sdb1_def)
      ultimately show ?thesis using f by (intro exI [of _ "f \<circ> ?u"]) simp
    qed
  qed
qed

section \<open>Properties\<close>

text \<open>
  C17: Cursor paging visits every tenant exactly once. When every page can be read, the producer feeds
  the active tenants of the net-settlement model to the workers in the order of their identifiers, however many
  pages there are.
\<close>

theorem paging_visits_each_once:
  assumes "distinct (net_tenant_ids tenants)" and "uuid_Nil \<notin> set (net_tenant_ids tenants)" and "\<And>k. list_ok k"
  shows "tenant_pages list_ok tenants 0 uuid_Nil = (sort (net_tenant_ids tenants), True)"
proof -
  have "filter (\<lambda>i. uuid_Nil < i) (net_tenant_ids tenants) = net_tenant_ids tenants"
    using assms(2) by (auto simp: filter_id_conv word_neq_0_conv [symmetric])
  then show ?thesis using tenant_pages_all [where page = 0 and afterID = uuid_Nil and list_ok = list_ok, OF assms(1,3)] by simp
qed

text \<open>
  C16: A tick settles the day before for every active tenant of the net-settlement model: when the statements
  succeed, each of them has a settlement of that period in the table afterwards.
\<close>

theorem tick_settles_every_tenant:
  assumes "distinct (map tn_ID (db_tenants (sd_db sdb)))" and "uuid_Nil \<notin> set (net_tenant_ids (db_tenants (sd_db sdb)))"
    and "calculations_ok C sdb" and "sc_count_ok C" and "\<And>k. sc_list_ok C k" and "\<And>k. sc_pending_ok C k"
  shows "\<exists>sdb' actions. tick L fixed C sdb = (sdb', Inr actions) \<and>
     (\<forall>i \<in> set (net_tenant_ids (db_tenants (sd_db sdb))). \<exists>r \<in> set (sd_settlements sdb').
        settled_for i (truncate_day (sc_now C) - Day) (truncate_day (sc_now C)) r)"
proof -
  let ?ids = "sort (net_tenant_ids (db_tenants (sd_db sdb)))"
  let ?to = "truncate_day (sc_now C)"
  let ?from = "?to - Day"
  have d: "distinct (net_tenant_ids (db_tenants (sd_db sdb)))"
    unfolding net_tenant_ids_def using assms(1) by (rule distinct_map_filter)
  obtain sdb1 where sdb1: "calculateForAllTenants L fixed C ?from ?to sdb = (sdb1, Inr ())"
    "\<forall>i \<in> set ?ids. \<exists>r \<in> set (sd_settlements sdb1). settled_for i ?from ?to r"
  proof (cases "net_tenant_ids (db_tenants (sd_db sdb)) = []")
    case True
    then show ?thesis using assms(4) by (intro that [of sdb]) (simp_all add: calculateForAllTenants_def)
  next
    case False
    obtain rows where "fold (\<lambda>tenantID s. fst (processOneTenant L fixed C ?from ?to tenantID s)) ?ids sdb =
        sdb\<lparr>sd_settlements := sd_settlements sdb @ rows\<rparr>"
      "\<forall>i \<in> set ?ids. \<exists>r \<in> set (sd_settlements sdb @ rows). settled_for i ?from ?to r"
      using batch_settles [OF _ assms(3,1), of ?from ?to ?ids L fixed] d by auto
    moreover have "filter (\<lambda>i. uuid_Nil < i) (net_tenant_ids (db_tenants (sd_db sdb))) = net_tenant_ids (db_tenants (sd_db sdb))"
      using assms(2) by (auto simp: filter_id_conv word_neq_0_conv [symmetric])
    ultimately show ?thesis
      using False assms(4) tenant_pages_all [where page = 0 and afterID = uuid_Nil and list_ok = "sc_list_ok C", OF d assms(5)]
      by (intro that [of "sdb\<lparr>sd_settlements := sd_settlements sdb @ rows\<rparr>"]) (simp_all add: calculateForAllTenants_def)
  qed
  obtain f where f: "sd_settlements (fst (overdue_loop C (ListPendingSettlements sdb1) sdb1)) = map f (sd_settlements sdb1)"
    "\<forall>r. ns_TenantID (f r) = ns_TenantID r \<and> ns_PeriodStart (f r) = ns_PeriodStart r \<and> ns_PeriodEnd (f r) = ns_PeriodEnd r"
    using overdue_loop_keeps [of C "ListPendingSettlements sdb1" sdb1] by blast
  obtain sdb2 actions where o: "overdue_loop C (ListPendingSettlements sdb1) sdb1 = (sdb2, actions)" by force
  then have "tick L fixed C sdb = (sdb2, Inr actions)"
    using sdb1(1) assms(6) by (simp add: tick_def Let_def checkOverdue_def)
  moreover have "\<forall>i \<in> set ?ids. \<exists>r \<in> set (sd_settlements sdb2). settled_for i ?from ?to r"
    using sdb1(2) f o by fastforce
  ultimately show ?thesis by auto
qed

section \<open>Witnesses\<close>

definition sample_scheduler :: scheduler_env where
  "sample_scheduler = \<lparr>sc_now = 3 * Day + 5, sc_calc = (\<lambda>i. (sample_calculation 1)\<lparr>se_id := i\<rparr>), sc_count_ok = True,
     sc_list_ok = (\<lambda>_. True), sc_pending_ok = (\<lambda>_. True), sc_update_ok = (\<lambda>_. True)\<rparr>"

lemma sample_net_tenants: "net_tenant_ids (db_tenants (sd_db sample_settled)) = [1]"
  by (simp add: net_tenant_ids_def sample_settled_def sample_tenant_def)

theorem paging_visits_each_once_witness:
  "tenant_pages (\<lambda>_. True) (db_tenants (sd_db sample_settled)) 0 uuid_Nil = ([1], True)"
  using paging_visits_each_once [of "db_tenants (sd_db sample_settled)" "\<lambda>_. True"] by (simp add: sample_net_tenants)

theorem tick_settles_every_tenant_witness:
  "\<exists>sdb' actions. tick ref_lib (\<lambda>_ _. []) sample_scheduler sample_settled = (sdb', Inr actions) \<and>
     (\<exists>r \<in> set (sd_settlements sdb'). settled_for 1 (2 * Day) (3 * Day) r)"
proof -
  have ok: "calculations_ok sample_scheduler sample_settled"
    by (simp add: calculations_ok_def sample_scheduler_def sample_calculation_def sample_env_def sample_settled_def inj_def)
  have d: "distinct (map tn_ID (db_tenants (sd_db sample_settled)))" by (simp add: sample_settled_def)
  have now: "truncate_day (sc_now sample_scheduler) = 3 * Day" by (simp add: sample_scheduler_def truncate_day_def)
  show ?thesis
    using tick_settles_every_tenant [OF d _ ok, of ref_lib "\<lambda>_ _. []"] unfolding now
    by (simp add: sample_net_tenants) (simp add: sample_scheduler_def)
qed

end
