(* ===== verification/Deposit_Domain.thy ===== *)
theory Deposit_Domain
  imports Tenant_Domain Outbox
begin

text \<open>
  Crypto deposit sessions (\<^verbatim>\<open>src/domain/deposit.go\<close>, \<^verbatim>\<open>src/domain/deposit_outbox.go\<close>): the
  state machine of a session, the transactions and the pool addresses linked to it, and the
  payloads of the outbox entries of the deposit engine.
\<close>

section \<open>Sessions\<close>

datatype DepositSessionStatus =
    DepositSessionStatusPendingPayment
  | DepositSessionStatusDetected
  | DepositSessionStatusConfirmed
  | DepositSessionStatusCrediting
  | DepositSessionStatusCredited
  | DepositSessionStatusSettling
  | DepositSessionStatusSettled
  | DepositSessionStatusHeld
  | DepositSessionStatusExpired
  | DepositSessionStatusFailed
  | DepositSessionStatusCancelled

fun deposit_status_string :: "DepositSessionStatus \<Rightarrow> string" where
  "deposit_status_string DepositSessionStatusPendingPayment = ''PENDING_PAYMENT''"
| "deposit_status_string DepositSessionStatusDetected = ''DETECTED''"
| "deposit_status_string DepositSessionStatusConfirmed = ''CONFIRMED''"
| "deposit_status_string DepositSessionStatusCrediting = ''CREDITING''"
| "deposit_status_string DepositSessionStatusCredited = ''CREDITED''"
| "deposit_status_string DepositSessionStatusSettling = ''SETTLING''"
| "deposit_status_string DepositSessionStatusSettled = ''SETTLED''"
| "deposit_status_string DepositSessionStatusHeld = ''HELD''"
| "deposit_status_string DepositSessionStatusExpired = ''EXPIRED''"
| "deposit_status_string DepositSessionStatusFailed = ''FAILED''"
| "deposit_status_string DepositSessionStatusCancelled = ''CANCELLED''"

fun ValidDepositTransitions :: "DepositSessionStatus \<Rightarrow> DepositSessionStatus list" where
  "ValidDepositTransitions DepositSessionStatusPendingPayment =
     [DepositSessionStatusDetected, DepositSessionStatusExpired, DepositSessionStatusCancelled]"
| "ValidDepositTransitions DepositSessionStatusDetected =
     [DepositSessionStatusConfirmed, DepositSessionStatusPendingPayment, DepositSessionStatusFailed]"
| "ValidDepositTransitions DepositSessionStatusConfirmed =
     [DepositSessionStatusCrediting, DepositSessionStatusFailed]"
| "ValidDepositTransitions DepositSessionStatusCrediting =
     [DepositSessionStatusCredited, DepositSessionStatusFailed]"
| "ValidDepositTransitions DepositSessionStatusCredited =
     [DepositSessionStatusSettling, DepositSessionStatusHeld]"
| "ValidDepositTransitions DepositSessionStatusSettling =
     [DepositSessionStatusSettled, DepositSessionStatusFailed]"
| "ValidDepositTransitions DepositSessionStatusExpired = [DepositSessionStatusDetected]"
| "ValidDepositTransitions DepositSessionStatusFailed = []"
| "ValidDepositTransitions DepositSessionStatusSettled = []"
| "ValidDepositTransitions DepositSessionStatusHeld = []"
| "ValidDepositTransitions DepositSessionStatusCancelled = [DepositSessionStatusDetected]"

abbreviation SettlementPreferenceAutoConvert :: string where "SettlementPreferenceAutoConvert \<equiv> ''AUTO_CONVERT''"
abbreviation SettlementPreferenceHold :: string where "SettlementPreferenceHold \<equiv> ''HOLD''"
abbreviation SettlementPreferenceThreshold :: string where "SettlementPreferenceThreshold \<equiv> ''THRESHOLD''"

record DepositSession =
  ds_ID :: uuid
  ds_TenantID :: uuid
  ds_IdempotencyKey :: string
  ds_Status :: DepositSessionStatus
  ds_Version :: int
  ds_Chain :: chain
  ds_Token :: string
  ds_DepositAddress :: string
  ds_ExpectedAmount :: decimal
  ds_ReceivedAmount :: decimal
  ds_Currency :: currency
  ds_CollectionFeeBPS :: int
  ds_FeeAmount :: decimal
  ds_NetAmount :: decimal
  ds_SettlementPref :: string
  ds_SettlementTransferID :: "uuid option"
  ds_DerivationIndex :: int
  ds_ExpiresAt :: instant
  ds_CreatedAt :: instant
  ds_UpdatedAt :: instant
  ds_DetectedAt :: "instant option"
  ds_ConfirmedAt :: "instant option"
  ds_CreditedAt :: "instant option"
  ds_SettledAt :: "instant option"
  ds_ExpiredAt :: "instant option"
  ds_FailedAt :: "instant option"
  ds_FailureReason :: string
  ds_FailureCode :: string
  ds_Metadata :: "(string \<times> string) list"

definition Deposit_CanTransitionTo :: "DepositSession \<Rightarrow> DepositSessionStatus \<Rightarrow> bool" where
  "Deposit_CanTransitionTo s target \<longleftrightarrow> target \<in> set (ValidDepositTransitions (ds_Status s))"

definition Deposit_TransitionTo ::
  "instant \<Rightarrow> DepositSession \<Rightarrow> DepositSessionStatus \<Rightarrow> DepositSession result" where
  "Deposit_TransitionTo now s target =
     (if \<not> Deposit_CanTransitionTo s target
      then Inl (ErrInvalidTransition (deposit_status_string (ds_Status s)) (deposit_status_string target))
      else Inr (s\<lparr>ds_Status := target, ds_Version := ds_Version s + 1, ds_UpdatedAt := now\<rparr>))"

definition Deposit_IsTerminal :: "DepositSession \<Rightarrow> bool" where
  "Deposit_IsTerminal s \<longleftrightarrow> ds_Status s \<in> {DepositSessionStatusSettled, DepositSessionStatusHeld,
     DepositSessionStatusFailed, DepositSessionStatusCancelled}"

section \<open>Transactions, addresses and tokens\<close>

record DepositTransaction =
  dx_ID :: uuid
  dx_SessionID :: uuid
  dx_TenantID :: uuid
  dx_Chain :: chain
  dx_TxHash :: string
  dx_FromAddress :: string
  dx_ToAddress :: string
  dx_TokenContract :: string
  dx_Amount :: decimal
  dx_BlockNumber :: int
  dx_BlockHash :: string
  dx_Confirmations :: int
  dx_RequiredConfirm :: int
  dx_Confirmed :: bool
  dx_DetectedAt :: instant
  dx_ConfirmedAt :: "instant option"
  dx_CreatedAt :: instant

record IncomingTransaction =
  ic_Chain :: chain
  ic_TxHash :: string
  ic_FromAddress :: string
  ic_ToAddress :: string
  ic_TokenContract :: string
  ic_Amount :: decimal
  ic_BlockNumber :: int
  ic_BlockHash :: string
  ic_Timestamp :: instant

record CryptoAddressPool =
  ap_ID :: uuid
  ap_TenantID :: uuid
  ap_Chain :: chain
  ap_Address :: string
  ap_DerivationIndex :: int
  ap_Dispensed :: bool
  ap_DispensedAt :: "instant option"
  ap_SessionID :: "uuid option"
  ap_CreatedAt :: instant

record BlockCheckpoint =
  bk_ID :: uuid
  bk_Chain :: chain
  bk_BlockNumber :: int
  bk_BlockHash :: string
  bk_UpdatedAt :: instant

record Token =
  tk_ID :: uuid
  tk_Chain :: chain
  tk_Symbol :: string
  tk_ContractAddress :: string
  tk_Decimals :: int
  tk_IsActive :: bool
  tk_CreatedAt :: instant
  tk_UpdatedAt :: instant

section \<open>Payloads\<close>

record MonitorAddressPayload =
  ma_SessionID :: uuid
  ma_TenantID :: uuid
  ma_Chain :: chain
  ma_Address :: string
  ma_Token :: string

record CreditDepositPayload =
  cd_SessionID :: uuid
  cd_TenantID :: uuid
  cd_Chain :: chain
  cd_Token :: string
  cd_GrossAmount :: decimal
  cd_FeeAmount :: decimal
  cd_NetAmount :: decimal
  cd_TxHash :: string
  cd_IdempotencyKey :: string

record SettleDepositPayload =
  sd_SessionID :: uuid
  sd_TenantID :: uuid
  sd_Chain :: chain
  sd_Token :: string
  sd_Amount :: decimal
  sd_TargetFiat :: currency

record DepositTxDetectedPayload =
  td_SessionID :: uuid
  td_TenantID :: uuid
  td_TxHash :: string
  td_Chain :: chain
  td_Token :: string
  td_Amount :: decimal
  td_BlockNumber :: int

record DepositTxConfirmedPayload =
  tc_SessionID :: uuid
  tc_TenantID :: uuid
  tc_TxHash :: string
  tc_Chain :: chain
  tc_Token :: string
  tc_Amount :: decimal
  tc_Confirmations :: int

record DepositSessionEventPayload =
  se_SessionID :: uuid
  se_TenantID :: uuid
  se_Status :: DepositSessionStatus
  se_Chain :: chain
  se_Token :: string
  se_Amount :: decimal
  se_Reason :: string

text \<open>
  The data of an entry is the payload it was marshalled from; the webhook and email intents carry
  the data of the event they announce. The subject line of an email is not modelled.
\<close>

datatype deposit_data =
    MonitorAddress MonitorAddressPayload
  | CreditDeposit CreditDepositPayload
  | SettleDeposit SettleDepositPayload
  | TxDetected DepositTxDetectedPayload
  | TxConfirmed DepositTxConfirmedPayload
  | SessionEvent DepositSessionEventPayload

datatype deposit_payload =
    DepositData deposit_data
  | DepositWebhook uuid uuid string deposit_data
  | DepositEmail uuid uuid string deposit_data

end
