(* ===== verification/Deposit_Store.thy ===== *)
theory Deposit_Store
  imports Deposit_Domain Transfer_Store
begin

text \<open>
  The tables behind crypto deposits and their queries (\<^verbatim>\<open>src/store/transferdb/deposit_store_adapter.go\<close>,
  \<^verbatim>\<open>src/store/transferdb/crypto_deposits.sql.go\<close>, \<^verbatim>\<open>src/store/transferdb/crypto_addresses.sql.go\<close>,
  schema in \<^verbatim>\<open>src/db/migrations/transfer\<close>). Tables are lists of rows in order of insertion. The
  tenant-scoped pool and the plain one run the same statements; both filter by the tenant. Rows
  locked by a concurrent dispense are not modelled.
\<close>

section \<open>Tables\<close>

record deposit_db =
  dd_core :: transfer_db
  dd_sessions :: "DepositSession list"
  dd_txs :: "DepositTransaction list"
  dd_pool :: "CryptoAddressPool list"
  dd_index :: "(chain \<times> string \<times> uuid \<times> uuid) list"
  dd_outbox :: "deposit_payload outbox_table"

text \<open>
  The environment of one call extends the environment of the transfer engine by the identifiers
  the database assigns to a new session and a new transaction, and by which statements succeed
  (the \<open>k\<close>-th of its kind). For a transaction, \<open>2 * k\<close> says whether it is applied and \<open>2 * k + 1\<close>
  whether the acknowledgement of its commit arrives.
\<close>

datatype deposit_stmt =
    GetSessionStmt | GetSessionByKeyStmt | GetSessionByAddressStmt | CountSessionsStmt | DispenseStmt
  | CreateSessionTx | SessionTransitionTx | GetTxByHashStmt | RecordTx | WriteDetectedStmt
  | ExpiredSessionsStmt | ListAddressesStmt

record deposit_env =
  de_core :: engine_env
  de_session_id :: uuid
  de_tx_id :: uuid
  de_ok :: "deposit_stmt \<Rightarrow> nat \<Rightarrow> bool"

abbreviation de_now :: "deposit_env \<Rightarrow> instant" where
  "de_now E \<equiv> ee_now (de_core E)"

abbreviation de_uuid :: "deposit_env \<Rightarrow> nat \<Rightarrow> uuid" where
  "de_uuid E \<equiv> ee_uuid (de_core E)"

abbreviation de_numeric :: "deposit_env \<Rightarrow> decimal \<Rightarrow> decimal" where
  "de_numeric E \<equiv> ee_numeric (de_core E) 8"

abbreviation deposit_GetTenant :: "deposit_env \<Rightarrow> deposit_db \<Rightarrow> uuid \<Rightarrow> Tenant result" where
  "deposit_GetTenant E db tenantID \<equiv> GetTenant (de_core E) (dd_core db) tenantID"

abbreviation unique_violation :: error where
  "unique_violation \<equiv> Errorf ''duplicate key value violates unique constraint'' None"

section \<open>Sessions\<close>

definition GetSession :: "deposit_env \<Rightarrow> nat \<Rightarrow> deposit_db \<Rightarrow> uuid \<Rightarrow> uuid \<Rightarrow> DepositSession result" where
  "GetSession E k db tenantID sessionID =
     (if \<not> de_ok E GetSessionStmt k then Inl (Errorf ''settla-deposit-store: getting session'' (Some db_error))
      else case List.find (\<lambda>s. ds_ID s = sessionID \<and> ds_TenantID s = tenantID) (dd_sessions db) of
        None \<Rightarrow> Inl (Errorf ''settla-deposit-store: session not found'' (Some no_rows))
      | Some s \<Rightarrow> Inr s)"

definition GetSessionByIdempotencyKey ::
  "deposit_env \<Rightarrow> deposit_db \<Rightarrow> uuid \<Rightarrow> string \<Rightarrow> DepositSession result" where
  "GetSessionByIdempotencyKey E db tenantID key =
     (if \<not> de_ok E GetSessionByKeyStmt 0
      then Inl (Errorf ''settla-deposit-store: getting session by idempotency key'' (Some db_error))
      else case List.find (\<lambda>s. ds_TenantID s = tenantID \<and> ds_IdempotencyKey s \<noteq> [] \<and>
                  ds_IdempotencyKey s = key) (dd_sessions db) of
        None \<Rightarrow> Inl (Errorf ''settla-deposit-store: session for idempotency key not found'' None)
      | Some s \<Rightarrow> Inr s)"

text \<open>The most recent session of an address, whatever its tenant.\<close>

definition GetSessionByAddress :: "deposit_env \<Rightarrow> deposit_db \<Rightarrow> string \<Rightarrow> DepositSession result" where
  "GetSessionByAddress E db address =
     (if \<not> de_ok E GetSessionByAddressStmt 0
      then Inl (Errorf ''settla-outbox-writer: getting session by address'' (Some db_error))
      else case sort_key (\<lambda>s. - ds_CreatedAt s)
                  (filter (\<lambda>s. ds_DepositAddress s = address) (dd_sessions db)) of
        [] \<Rightarrow> Inl (Errorf ''settla-outbox-writer: no session for address'' None)
      | s # _ \<Rightarrow> Inr s)"

definition CountPendingSessions :: "deposit_env \<Rightarrow> deposit_db \<Rightarrow> uuid \<Rightarrow> int result" where
  "CountPendingSessions E db tenantID =
     (if \<not> de_ok E CountSessionsStmt 0
      then Inl (Errorf ''settla-store: counting pending deposit sessions'' (Some db_error))
      else Inr (int (length (filter (\<lambda>s. ds_TenantID s = tenantID \<and> ds_Status s \<notin>
             {DepositSessionStatusSettled, DepositSessionStatusExpired, DepositSessionStatusFailed,
              DepositSessionStatusCancelled}) (dd_sessions db)))))"

definition GetExpiredPendingSessions ::
  "deposit_env \<Rightarrow> nat \<Rightarrow> deposit_db \<Rightarrow> DepositSession list result" where
  "GetExpiredPendingSessions E limit db =
     (if \<not> de_ok E ExpiredSessionsStmt 0
      then Inl (Errorf ''settla-deposit-store: getting expired sessions'' (Some db_error))
      else Inr (take limit (sort_key ds_ExpiresAt
             (filter (\<lambda>s. ds_Status s = DepositSessionStatusPendingPayment \<and> ds_ExpiresAt s < de_now E)
                (dd_sessions db)))))"

text \<open>
  The insertion leaves the identifier, the version, the amounts other than the expected one and
  the timestamps to the database. The unique index on the idempotency key includes the creation
  time, the one on the address index does not.
\<close>

definition stored_session :: "deposit_env \<Rightarrow> DepositSession \<Rightarrow> DepositSession" where
  "stored_session E s =
     s\<lparr>ds_ID := de_session_id E, ds_Version := 0, ds_ExpectedAmount := de_numeric E (ds_ExpectedAmount s),
       ds_ReceivedAmount := 0, ds_FeeAmount := 0, ds_NetAmount := 0, ds_SettlementTransferID := None,
       ds_CreatedAt := de_now E, ds_UpdatedAt := de_now E, ds_DetectedAt := None, ds_ConfirmedAt := None,
       ds_CreditedAt := None, ds_SettledAt := None, ds_ExpiredAt := None, ds_FailedAt := None,
       ds_FailureReason := [], ds_FailureCode := []\<rparr>"

definition CreateDepositSession ::
  "deposit_env \<Rightarrow> DepositSession \<Rightarrow> DepositSession list \<Rightarrow> (DepositSession list \<times> DepositSession) result" where
  "CreateDepositSession E session rows =
     (let row = stored_session E session in
      if ds_SettlementPref session \<notin> {SettlementPreferenceAutoConvert, SettlementPreferenceHold,
           SettlementPreferenceThreshold}
      then Inl (Errorf ''invalid input value for enum'' None)
      else if \<exists>r\<in>set rows. ds_ID r = ds_ID row \<and> ds_CreatedAt r = ds_CreatedAt row \<or>
              ds_IdempotencyKey row \<noteq> [] \<and> ds_TenantID r = ds_TenantID row \<and>
              ds_IdempotencyKey r = ds_IdempotencyKey row \<and> ds_CreatedAt r = ds_CreatedAt row
      then Inl unique_violation
      else Inr (rows @ [row], row))"

definition InsertAddressIndex ::
  "chain \<Rightarrow> string \<Rightarrow> uuid \<Rightarrow> uuid \<Rightarrow> (chain \<times> string \<times> uuid \<times> uuid) list \<Rightarrow>
   (chain \<times> string \<times> uuid \<times> uuid) list result" where
  "InsertAddressIndex chain address tenantID sessionID rows =
     (if \<exists>(c, a, _)\<in>set rows. c = chain \<and> a = address then Inl unique_violation
      else Inr (rows @ [(chain, address, tenantID, sessionID)]))"

definition CreateSessionWithOutbox ::
  "deposit_env \<Rightarrow> DepositSession \<Rightarrow> deposit_payload OutboxEntry list \<Rightarrow> deposit_db \<Rightarrow>
   deposit_db \<times> DepositSession result" where
  "CreateSessionWithOutbox E session entries db =
     (if \<not> de_ok E CreateSessionTx 0
      then (db, Inl (Errorf ''settla-deposit-store: begin tx'' (Some db_error)))
      else case CreateDepositSession E session (dd_sessions db) of
        Inl err \<Rightarrow> (db, Inl (Errorf ''settla-deposit-store: creating session'' (Some err)))
      | Inr (sessions, row) \<Rightarrow>
         let session = session\<lparr>ds_ID := ds_ID row, ds_CreatedAt := ds_CreatedAt row,
                         ds_UpdatedAt := ds_UpdatedAt row\<rparr> in
         (case InsertAddressIndex (ds_Chain session) (ds_DepositAddress session) (ds_TenantID session)
                 (ds_ID session) (dd_index db) of
            Inl err \<Rightarrow> (db, Inl (Errorf ''settla-deposit-store: inserting address index'' (Some err)))
          | Inr index \<Rightarrow>
             let entries = map (\<lambda>e. if ob_AggregateID e = uuid_Nil
                                     then e\<lparr>ob_AggregateID := ds_ID session\<rparr> else e) entries in
             (case InsertOutboxEntries (outboxEntriesToParams (de_now E) entries) (dd_outbox db) of
                Inl err \<Rightarrow> (db, Inl (Errorf ''settla-deposit-store: insert outbox entries'' (Some err)))
              | Inr outbox \<Rightarrow>
                 (db\<lparr>dd_sessions := sessions, dd_index := index, dd_outbox := outbox\<rparr>,
                  if de_ok E CreateSessionTx 1 then Inr session
                  else Inl (Errorf ''settla-deposit-store: commit tx'' (Some db_error))))))"

text \<open>
  \<^verbatim>\<open>TransitionDepositSession\<close> writes the status, the version and the amounts of the session it
  is given, keeps a timestamp that is already set and a failure it is not given.
\<close>

definition stamp :: "instant \<Rightarrow> bool \<Rightarrow> instant option \<Rightarrow> instant option" where
  "stamp now entered old = (if entered \<and> old = None then Some now else old)"

definition deposit_transition_row :: "deposit_env \<Rightarrow> DepositSession \<Rightarrow> DepositSession \<Rightarrow> DepositSession" where
  "deposit_transition_row E s r =
     r\<lparr>ds_Status := ds_Status s, ds_Version := ds_Version s, ds_UpdatedAt := de_now E,
       ds_ReceivedAmount := de_numeric E (ds_ReceivedAmount s), ds_FeeAmount := de_numeric E (ds_FeeAmount s),
       ds_NetAmount := de_numeric E (ds_NetAmount s), ds_SettlementTransferID := ds_SettlementTransferID s,
       ds_DetectedAt := stamp (de_now E) (ds_Status s = DepositSessionStatusDetected) (ds_DetectedAt r),
       ds_ConfirmedAt := stamp (de_now E) (ds_Status s = DepositSessionStatusConfirmed) (ds_ConfirmedAt r),
       ds_CreditedAt := stamp (de_now E) (ds_Status s = DepositSessionStatusCredited) (ds_CreditedAt r),
       ds_SettledAt := stamp (de_now E) (ds_Status s = DepositSessionStatusSettled) (ds_SettledAt r),
       ds_ExpiredAt := stamp (de_now E) (ds_Status s = DepositSessionStatusExpired) (ds_ExpiredAt r),
       ds_FailedAt := stamp (de_now E) (ds_Status s = DepositSessionStatusFailed) (ds_FailedAt r),
       ds_FailureReason := (if ds_FailureReason s = [] then ds_FailureReason r else ds_FailureReason s),
       ds_FailureCode := (if ds_FailureCode s = [] then ds_FailureCode r else ds_FailureCode s)\<rparr>"

definition TransitionDepositSession ::
  "deposit_env \<Rightarrow> DepositSession \<Rightarrow> int \<Rightarrow> DepositSession list \<Rightarrow> DepositSession list \<times> nat" where
  "TransitionDepositSession E s expectedVersion rows =
     (map (\<lambda>r. if ds_ID r = ds_ID s \<and> ds_Version r = expectedVersion
                then deposit_transition_row E s r else r) rows,
      length (filter (\<lambda>r. ds_ID r = ds_ID s \<and> ds_Version r = expectedVersion) rows))"

definition deposit_TransitionWithOutbox ::
  "deposit_env \<Rightarrow> nat \<Rightarrow> DepositSession \<Rightarrow> deposit_payload OutboxEntry list \<Rightarrow> deposit_db \<Rightarrow>
   deposit_db \<times> unit result" where
  "deposit_TransitionWithOutbox E k session entries db =
     (if \<not> de_ok E SessionTransitionTx (2 * k)
      then (db, Inl (Errorf ''settla-deposit-store: update session'' (Some db_error)))
      else case TransitionDepositSession E session (ds_Version session - 1) (dd_sessions db) of
        (rows, affected) \<Rightarrow>
          if affected = 0 then (db, Inl (Errorf ''settla-deposit-store: session'' (Some SentinelOptimisticLock)))
          else (case InsertOutboxEntries (outboxEntriesToParams (de_now E) entries) (dd_outbox db) of
              Inl err \<Rightarrow> (db, Inl (Errorf ''settla-deposit-store: insert outbox entries for session'' (Some err)))
            | Inr outbox \<Rightarrow>
               (db\<lparr>dd_sessions := rows, dd_outbox := outbox\<rparr>,
                if de_ok E SessionTransitionTx (2 * k + 1) then Inr ()
                else Inl (Errorf ''settla-deposit-store: commit tx for session'' (Some db_error)))))"

section \<open>Addresses\<close>

definition DispenseAddress ::
  "deposit_env \<Rightarrow> uuid \<Rightarrow> chain \<Rightarrow> uuid \<Rightarrow> deposit_db \<Rightarrow> deposit_db \<times> CryptoAddressPool option result" where
  "DispenseAddress E tenantID chain sessionID db =
     (if \<not> de_ok E DispenseStmt 0
      then (db, Inl (Errorf ''settla-deposit-store: dispensing address'' (Some db_error)))
      else case sort_key ap_DerivationIndex (filter (\<lambda>a. ap_TenantID a = tenantID \<and> ap_Chain a = chain \<and>
                  \<not> ap_Dispensed a) (dd_pool db)) of
        [] \<Rightarrow> (db, Inr None)
      | a # _ \<Rightarrow>
         let taken = a\<lparr>ap_Dispensed := True, ap_DispensedAt := Some (de_now E),
                       ap_SessionID := (if sessionID = uuid_Nil then None else Some sessionID)\<rparr> in
         (db\<lparr>dd_pool := map (\<lambda>r. if ap_ID r = ap_ID a then taken else r) (dd_pool db)\<rparr>, Inr (Some taken)))"

section \<open>Transactions on the chain\<close>

definition GetDepositTxByHash ::
  "deposit_env \<Rightarrow> deposit_db \<Rightarrow> chain \<Rightarrow> string \<Rightarrow> DepositTransaction result" where
  "GetDepositTxByHash E db chain txHash =
     (if \<not> de_ok E GetTxByHashStmt 0 then Inl (Errorf ''settla-deposit-store: getting tx'' (Some db_error))
      else case List.find (\<lambda>x. dx_Chain x = chain \<and> dx_TxHash x = txHash) (dd_txs db) of
        None \<Rightarrow> Inl (Errorf ''settla-deposit-store: tx not found'' None)
      | Some x \<Rightarrow> Inr x)"

text \<open>The unique index on the transaction hash includes the creation time.\<close>

definition CreateDepositTransaction ::
  "deposit_env \<Rightarrow> DepositTransaction \<Rightarrow> DepositTransaction list \<Rightarrow> DepositTransaction list result" where
  "CreateDepositTransaction E dtx rows =
     (let row = dtx\<lparr>dx_ID := de_tx_id E, dx_Amount := de_numeric E (dx_Amount dtx), dx_Confirmed := False,
                     dx_DetectedAt := de_now E, dx_ConfirmedAt := None, dx_CreatedAt := de_now E\<rparr> in
      if \<exists>r\<in>set rows. dx_CreatedAt r = dx_CreatedAt row \<and>
           (dx_ID r = dx_ID row \<or> dx_Chain r = dx_Chain row \<and> dx_TxHash r = dx_TxHash row)
      then Inl unique_violation else Inr (rows @ [row]))"

definition AccumulateReceivedAmount ::
  "deposit_env \<Rightarrow> uuid \<Rightarrow> uuid \<Rightarrow> decimal \<Rightarrow> DepositSession list \<Rightarrow> DepositSession list" where
  "AccumulateReceivedAmount E ident tenantID amount rows =
     map (\<lambda>r. if ds_ID r = ident \<and> ds_TenantID r = tenantID
               then r\<lparr>ds_ReceivedAmount := ds_ReceivedAmount r + de_numeric E amount,
                      ds_UpdatedAt := de_now E\<rparr> else r) rows"

definition RecordDepositTx ::
  "deposit_env \<Rightarrow> DepositTransaction \<Rightarrow> uuid \<Rightarrow> uuid \<Rightarrow> decimal \<Rightarrow> deposit_db \<Rightarrow> deposit_db \<times> unit result" where
  "RecordDepositTx E dtx tenantID sessionID amount db =
     (if \<not> de_ok E RecordTx 0
      then (db, Inl (Errorf ''settla-deposit-store: begin record-deposit-tx'' (Some db_error)))
      else case CreateDepositTransaction E dtx (dd_txs db) of
        Inl err \<Rightarrow> (db, Inl (Errorf ''settla-deposit-store: record deposit tx: create'' (Some err)))
      | Inr txs \<Rightarrow>
         (db\<lparr>dd_txs := txs,
             dd_sessions := AccumulateReceivedAmount E sessionID tenantID amount (dd_sessions db)\<rparr>,
          if de_ok E RecordTx 1 then Inr () else Inl db_error))"

end
