(* ===== verification/Deposit_Engine.thy ===== *)
theory Deposit_Engine
  imports Deposit_Store Event_System
begin

text \<open>
  The crypto deposit engine (\<^verbatim>\<open>src/core/deposit/engine.go\<close>, \<^verbatim>\<open>src/core/deposit/fee.go\<close>), the
  worker that feeds it (\<^verbatim>\<open>src/node/worker/deposit_worker.go\<close>) and the expiry job
  (\<^verbatim>\<open>src/node/worker/deposit_expiry.go\<close>). A call runs several transactions; \<open>conc k\<close> is what other
  processes commit before its \<open>k\<close>-th access after the first, the identity when the call runs
  alone. Logging is not modelled.
\<close>

type_synonym interference = "nat \<Rightarrow> deposit_db \<Rightarrow> deposit_db"

type_synonym deposit_entry = "deposit_payload OutboxEntry"

abbreviation alone :: interference where
  "alone \<equiv> \<lambda>_ db. db"

section \<open>Helpers\<close>

definition upper_char :: "char \<Rightarrow> char" where
  "upper_char c =
     (let n = (of_char c :: nat) in if 97 \<le> n \<and> n \<le> 122 then char_of (n - 32) else c)"

definition ToUpper :: "string \<Rightarrow> string" where
  "ToUpper s = map upper_char s"

definition CalculateCollectionFee :: "lib \<Rightarrow> decimal \<Rightarrow> FeeSchedule \<Rightarrow> decimal" where
  "CalculateCollectionFee L amount schedule =
     (case CalculateFee L schedule amount ''crypto_collection'' of Inl err \<Rightarrow> 0 | Inr fee \<Rightarrow> fee)"

definition requiredConfirmations :: "DepositSession \<Rightarrow> int" where
  "requiredConfirmations session =
     (if ds_Chain session = ''tron'' then 19
      else if ds_Chain session \<in> {''ethereum'', ''base'', ''polygon'', ''solana''} then 12
      else 20)"

abbreviation deposit_intent ::
  "deposit_env \<Rightarrow> nat \<Rightarrow> uuid \<Rightarrow> uuid \<Rightarrow> string \<Rightarrow> deposit_payload \<Rightarrow> deposit_entry" where
  "deposit_intent E k sessionID tenantID eventType payload \<equiv>
     MustNewOutboxIntent (de_uuid E k) (de_now E) ''deposit'' sessionID tenantID eventType (Some payload)"

abbreviation deposit_event ::
  "deposit_env \<Rightarrow> nat \<Rightarrow> uuid \<Rightarrow> uuid \<Rightarrow> string \<Rightarrow> deposit_payload \<Rightarrow> deposit_entry" where
  "deposit_event E k sessionID tenantID eventType payload \<equiv>
     MustNewOutboxEvent (de_uuid E k) (de_now E) ''deposit'' sessionID tenantID eventType (Some payload)"

definition depositWebhookEntry ::
  "deposit_env \<Rightarrow> nat \<Rightarrow> uuid \<Rightarrow> uuid \<Rightarrow> string \<Rightarrow> deposit_data \<Rightarrow> deposit_entry" where
  "depositWebhookEntry E k sessionID tenantID eventType dat =
     deposit_intent E k sessionID tenantID IntentWebhookDeliver (DepositWebhook sessionID tenantID eventType dat)"

definition depositEmailEntry ::
  "deposit_env \<Rightarrow> nat \<Rightarrow> uuid \<Rightarrow> uuid \<Rightarrow> string \<Rightarrow> deposit_data \<Rightarrow> deposit_entry" where
  "depositEmailEntry E k sessionID tenantID eventType dat =
     deposit_intent E k sessionID tenantID IntentEmailNotify (DepositEmail sessionID tenantID eventType dat)"

definition depositNotificationEntries ::
  "deposit_env \<Rightarrow> nat \<Rightarrow> uuid \<Rightarrow> uuid \<Rightarrow> string \<Rightarrow> deposit_data \<Rightarrow> deposit_entry list" where
  "depositNotificationEntries E k sessionID tenantID eventType dat =
     [depositWebhookEntry E k sessionID tenantID eventType dat,
      depositEmailEntry E (k + 1) sessionID tenantID eventType dat]"

definition deposit_wrapTransitionError :: "error \<Rightarrow> string \<Rightarrow> error" where
  "deposit_wrapTransitionError err step =
     (if errors_Is_lock err
      then Errorf (''settla-deposit: '' @ step @ '': concurrent modification'') (Some SentinelOptimisticLock)
      else Errorf (''settla-deposit: '' @ step) (Some err))"

definition session_event :: "DepositSession \<Rightarrow> DepositSessionStatus \<Rightarrow> decimal \<Rightarrow> deposit_data" where
  "session_event s status amount = SessionEvent \<lparr>se_SessionID = ds_ID s, se_TenantID = ds_TenantID s,
     se_Status = status, se_Chain = ds_Chain s, se_Token = ds_Token s, se_Amount = amount, se_Reason = []\<rparr>"

definition reason_event :: "uuid \<Rightarrow> uuid \<Rightarrow> DepositSessionStatus \<Rightarrow> string \<Rightarrow> deposit_data" where
  "reason_event sessionID tenantID status reason = SessionEvent \<lparr>se_SessionID = sessionID, se_TenantID = tenantID,
     se_Status = status, se_Chain = [], se_Token = [], se_Amount = 0, se_Reason = reason\<rparr>"

text \<open>The tail of every transition: move the session, persist it with the entries.\<close>

definition deposit_step ::
  "deposit_env \<Rightarrow> nat \<Rightarrow> string \<Rightarrow> DepositSession \<Rightarrow> DepositSessionStatus \<Rightarrow>
   (DepositSession \<Rightarrow> deposit_entry list) \<Rightarrow> deposit_db \<Rightarrow> deposit_db \<times> unit result" where
  "deposit_step E k step session target entries db =
     (case Deposit_TransitionTo (de_now E) session target of
        Inl err \<Rightarrow> (db, Inl (Errorf (''settla-deposit: '' @ step) (Some err)))
      | Inr session \<Rightarrow>
         (case deposit_TransitionWithOutbox E k session (entries session) db of
            (db', Inl err) \<Rightarrow> (db', Inl (deposit_wrapTransitionError err step))
          | (db', Inr _) \<Rightarrow> (db', Inr ())))"

definition wrong_status :: "string \<Rightarrow> DepositSession \<Rightarrow> DepositSessionStatus \<Rightarrow> error" where
  "wrong_status step s target = Errorf (''settla-deposit: '' @ step)
     (Some (ErrInvalidTransition (deposit_status_string (ds_Status s)) (deposit_status_string target)))"

section \<open>Creating a session\<close>

record CreateSessionRequest =
  csr_IdempotencyKey :: string
  csr_Chain :: chain
  csr_Token :: string
  csr_ExpectedAmount :: decimal
  csr_SettlementPref :: string
  csr_TTLSeconds :: int
  csr_Metadata :: "(string \<times> string) list"

definition session_checks ::
  "lib \<Rightarrow> deposit_env \<Rightarrow> uuid \<Rightarrow> CreateSessionRequest \<Rightarrow> deposit_db \<Rightarrow> Tenant result" where
  "session_checks L E tenantID req db =
     (case deposit_GetTenant E db tenantID of
        Inl err \<Rightarrow> Inl (Errorf ''settla-deposit: create session: loading tenant'' (Some err))
      | Inr tenant \<Rightarrow>
         if \<not> Tenant_IsActive tenant then Inl (ErrTenantSuspended (uuid_string L tenantID))
         else if \<not> CryptoEnabled (tn_CryptoConfig tenant) then Inl (ErrCryptoDisabled (uuid_string L tenantID))
         else if \<not> ChainSupported tenant (csr_Chain req)
         then Inl (ErrChainNotSupported (csr_Chain req) (uuid_string L tenantID))
         else if csr_ExpectedAmount req \<le> 0 then Inl (ErrAmountTooLow [] ''0'')
         else if tn_MaxPendingTransfers tenant > 0
         then (case CountPendingSessions E db tenantID of
                 Inl err \<Rightarrow> Inl (Errorf ''settla-deposit: create session: counting pending sessions'' (Some err))
               | Inr count \<Rightarrow>
                  if count \<ge> tn_MaxPendingTransfers tenant
                  then Inl (Errorf ''settla-deposit: create session: exceeded max pending sessions'' None)
                  else Inr tenant)
         else Inr tenant)"

definition session_ttl :: "CreateSessionRequest \<Rightarrow> Tenant \<Rightarrow> int" where
  "session_ttl req tenant =
     (let ttl = (if csr_TTLSeconds req \<le> 0 then cc_DefaultSessionTTLSecs (tn_CryptoConfig tenant)
                 else csr_TTLSeconds req) in
      if ttl \<le> 0 then 3600 else ttl)"

definition new_session ::
  "deposit_env \<Rightarrow> Tenant \<Rightarrow> uuid \<Rightarrow> CreateSessionRequest \<Rightarrow> CryptoAddressPool \<Rightarrow> DepositSession" where
  "new_session E tenant tenantID req poolAddr =
     \<lparr>ds_ID = de_uuid E 0, ds_TenantID = tenantID, ds_IdempotencyKey = csr_IdempotencyKey req,
      ds_Status = DepositSessionStatusPendingPayment, ds_Version = 1, ds_Chain = csr_Chain req,
      ds_Token = csr_Token req, ds_DepositAddress = ap_Address poolAddr,
      ds_ExpectedAmount = csr_ExpectedAmount req, ds_ReceivedAmount = 0, ds_Currency = ToUpper (csr_Token req),
      ds_CollectionFeeBPS = CryptoCollectionBPS (tn_FeeSchedule tenant), ds_FeeAmount = 0, ds_NetAmount = 0,
      ds_SettlementPref = (if csr_SettlementPref req = [] then DefaultSettlementPref (tn_CryptoConfig tenant)
                           else csr_SettlementPref req),
      ds_SettlementTransferID = None, ds_DerivationIndex = ap_DerivationIndex poolAddr,
      ds_ExpiresAt = de_now E + session_ttl req tenant * Second, ds_CreatedAt = de_now E, ds_UpdatedAt = de_now E,
      ds_DetectedAt = None, ds_ConfirmedAt = None, ds_CreditedAt = None, ds_SettledAt = None,
      ds_ExpiredAt = None, ds_FailedAt = None, ds_FailureReason = [], ds_FailureCode = [],
      ds_Metadata = csr_Metadata req\<rparr>"

definition created_entries :: "deposit_env \<Rightarrow> DepositSession \<Rightarrow> deposit_entry list" where
  "created_entries E session =
     (let ident = ds_ID session; tenantID = ds_TenantID session;
          event = session_event session DepositSessionStatusPendingPayment (ds_ExpectedAmount session) in
      [deposit_intent E 1 ident tenantID IntentMonitorAddress (DepositData (MonitorAddress
         \<lparr>ma_SessionID = ident, ma_TenantID = tenantID, ma_Chain = ds_Chain session,
          ma_Address = ds_DepositAddress session, ma_Token = ds_Token session\<rparr>)),
       deposit_event E 2 ident tenantID EventDepositSessionCreated (DepositData event)] @
      depositNotificationEntries E 3 ident tenantID EventDepositSessionCreated event)"

definition existing_session ::
  "deposit_env \<Rightarrow> uuid \<Rightarrow> CreateSessionRequest \<Rightarrow> deposit_db \<Rightarrow> DepositSession option" where
  "existing_session E tenantID req db =
     (if csr_IdempotencyKey req = [] then None
      else case GetSessionByIdempotencyKey E db tenantID (csr_IdempotencyKey req) of
        Inl err \<Rightarrow> None | Inr s \<Rightarrow> Some s)"

definition CreateSession ::
  "lib \<Rightarrow> deposit_env \<Rightarrow> interference \<Rightarrow> uuid \<Rightarrow> CreateSessionRequest \<Rightarrow> deposit_db \<Rightarrow>
   deposit_db \<times> DepositSession result" where
  "CreateSession L E conc tenantID req db =
     (case session_checks L E tenantID req db of
        Inl err \<Rightarrow> (db, Inl err)
      | Inr tenant \<Rightarrow>
         (case existing_session E tenantID req db of
            Some s \<Rightarrow> (db, Inr s)
          | None \<Rightarrow>
             (case DispenseAddress E tenantID (csr_Chain req) uuid_Nil (conc 0 db) of
                (db', Inl err) \<Rightarrow> (db', Inl (Errorf ''settla-deposit: create session: dispensing address'' (Some err)))
              | (db', Inr None) \<Rightarrow> (db', Inl (ErrAddressPoolEmpty (csr_Chain req) (uuid_string L tenantID)))
              | (db', Inr (Some poolAddr)) \<Rightarrow>
                 let session = new_session E tenant tenantID req poolAddr in
                 (case CreateSessionWithOutbox E session (created_entries E session) (conc 1 db') of
                    (db'', Inl err) \<Rightarrow> (db'', Inl (Errorf ''settla-deposit: create session: persisting'' (Some err)))
                  | (db'', Inr session) \<Rightarrow> (db'', Inr session)))))"

section \<open>Payments\<close>

definition detected_tx ::
  "deposit_env \<Rightarrow> uuid \<Rightarrow> uuid \<Rightarrow> IncomingTransaction \<Rightarrow> DepositSession \<Rightarrow> DepositTransaction" where
  "detected_tx E tenantID sessionID tx session =
     \<lparr>dx_ID = de_uuid E 0, dx_SessionID = sessionID, dx_TenantID = tenantID, dx_Chain = ic_Chain tx,
      dx_TxHash = ic_TxHash tx, dx_FromAddress = ic_FromAddress tx, dx_ToAddress = ic_ToAddress tx,
      dx_TokenContract = ic_TokenContract tx, dx_Amount = ic_Amount tx, dx_BlockNumber = ic_BlockNumber tx,
      dx_BlockHash = ic_BlockHash tx, dx_Confirmations = 0, dx_RequiredConfirm = requiredConfirmations session,
      dx_Confirmed = False, dx_DetectedAt = de_now E, dx_ConfirmedAt = None, dx_CreatedAt = zero_time\<rparr>"

definition detected_entries ::
  "deposit_env \<Rightarrow> uuid \<Rightarrow> uuid \<Rightarrow> IncomingTransaction \<Rightarrow> bool \<Rightarrow> DepositSession \<Rightarrow> deposit_entry list" where
  "detected_entries E tenantID sessionID tx isLatePayment session =
     (let txPayload = TxDetected \<lparr>td_SessionID = sessionID, td_TenantID = tenantID, td_TxHash = ic_TxHash tx,
            td_Chain = ic_Chain tx, td_Token = ds_Token session, td_Amount = ic_Amount tx,
            td_BlockNumber = ic_BlockNumber tx\<rparr> in
      [deposit_event E 1 sessionID tenantID EventDepositTxDetected (DepositData txPayload)] @
      depositNotificationEntries E 2 sessionID tenantID EventDepositTxDetected txPayload @
      (if isLatePayment
       then [deposit_event E 4 sessionID tenantID EventDepositLatePayment (DepositData (SessionEvent
               \<lparr>se_SessionID = sessionID, se_TenantID = tenantID, se_Status = DepositSessionStatusDetected,
                se_Chain = ic_Chain tx, se_Token = ds_Token session, se_Amount = ic_Amount tx,
                se_Reason = ''late_payment''\<rparr>))]
       else []))"

definition HandleTransactionDetected ::
  "deposit_env \<Rightarrow> interference \<Rightarrow> uuid \<Rightarrow> uuid \<Rightarrow> IncomingTransaction \<Rightarrow> deposit_db \<Rightarrow> deposit_db \<times> unit result" where
  "HandleTransactionDetected E conc tenantID sessionID tx db =
     (case GetSession E 0 db tenantID sessionID of
        Inl err \<Rightarrow> (db, Inl (Errorf ''settla-deposit: handle tx detected: loading session'' (Some err)))
      | Inr session \<Rightarrow>
         let db = conc 0 db in
         (case GetDepositTxByHash E db (ic_Chain tx) (ic_TxHash tx) of
            Inr existing \<Rightarrow> (db, Inr ())
          | Inl _ \<Rightarrow>
             (case RecordDepositTx E (detected_tx E tenantID sessionID tx session) tenantID sessionID (ic_Amount tx)
                     (conc 1 db) of
                (db, Inl err) \<Rightarrow>
                  (db, Inl (Errorf ''settla-deposit: handle tx detected: recording tx and accumulating'' (Some err)))
              | (db, Inr _) \<Rightarrow>
                 let isLatePayment = (ds_Status session = DepositSessionStatusExpired \<or>
                                      ds_Status session = DepositSessionStatusCancelled) in
                 if \<not> Deposit_CanTransitionTo session DepositSessionStatusDetected then (db, Inr ())
                 else deposit_step E 0 ''handle tx detected''
                        (session\<lparr>ds_ReceivedAmount := ds_ReceivedAmount session + ic_Amount tx,
                                 ds_DetectedAt := Some (de_now E)\<rparr>)
                        DepositSessionStatusDetected
                        (detected_entries E tenantID sessionID tx isLatePayment) (conc 2 db))))"

definition credit_entries :: "lib \<Rightarrow> deposit_env \<Rightarrow> string \<Rightarrow> decimal \<Rightarrow> DepositSession \<Rightarrow> deposit_entry list" where
  "credit_entries L E txHash feeAmount session =
     (let ident = ds_ID session; tenantID = ds_TenantID session;
          netAmount = ds_ReceivedAmount session - feeAmount in
      [deposit_intent E 4 ident tenantID IntentCreditDeposit (DepositData (CreditDeposit
         \<lparr>cd_SessionID = ident, cd_TenantID = tenantID, cd_Chain = ds_Chain session, cd_Token = ds_Token session,
          cd_GrossAmount = ds_ReceivedAmount session, cd_FeeAmount = feeAmount, cd_NetAmount = netAmount,
          cd_TxHash = txHash, cd_IdempotencyKey = ''deposit-credit:'' @ uuid_string L ident\<rparr>)),
       deposit_event E 5 ident tenantID EventDepositSessionCrediting
         (DepositData (session_event session DepositSessionStatusCrediting netAmount))])"

definition initiateCredit ::
  "lib \<Rightarrow> deposit_env \<Rightarrow> interference \<Rightarrow> uuid \<Rightarrow> uuid \<Rightarrow> string \<Rightarrow> deposit_db \<Rightarrow> deposit_db \<times> unit result" where
  "initiateCredit L E conc tenantID sessionID txHash db =
     (case GetSession E 1 db tenantID sessionID of
        Inl err \<Rightarrow> (db, Inl (Errorf ''settla-deposit: initiate credit: loading session'' (Some err)))
      | Inr session \<Rightarrow>
         if ds_Status session \<noteq> DepositSessionStatusConfirmed
         then (db, Inl (wrong_status ''initiate credit'' session DepositSessionStatusCrediting))
         else (case deposit_GetTenant E db tenantID of
                 Inl err \<Rightarrow> (db, Inl (Errorf ''settla-deposit: initiate credit: loading tenant'' (Some err)))
               | Inr tenant \<Rightarrow>
                  deposit_step E 1 ''initiate credit'' session DepositSessionStatusCrediting
                    (credit_entries L E txHash (CalculateCollectionFee L (ds_ReceivedAmount session)
                       (tn_FeeSchedule tenant))) (conc 2 db)))"

definition confirmed_entries :: "deposit_env \<Rightarrow> string \<Rightarrow> int \<Rightarrow> DepositSession \<Rightarrow> deposit_entry list" where
  "confirmed_entries E txHash confirmations session =
     (let ident = ds_ID session; tenantID = ds_TenantID session;
          confirmedPayload = TxConfirmed \<lparr>tc_SessionID = ident, tc_TenantID = tenantID, tc_TxHash = txHash,
            tc_Chain = ds_Chain session, tc_Token = ds_Token session, tc_Amount = ds_ReceivedAmount session,
            tc_Confirmations = confirmations\<rparr> in
      [deposit_event E 1 ident tenantID EventDepositTxConfirmed (DepositData confirmedPayload)] @
      depositNotificationEntries E 2 ident tenantID EventDepositTxConfirmed confirmedPayload)"

definition HandleTransactionConfirmed ::
  "lib \<Rightarrow> deposit_env \<Rightarrow> interference \<Rightarrow> uuid \<Rightarrow> uuid \<Rightarrow> string \<Rightarrow> int \<Rightarrow> deposit_db \<Rightarrow>
   deposit_db \<times> unit result" where
  "HandleTransactionConfirmed L E conc tenantID sessionID txHash confirmations db =
     (case GetSession E 0 db tenantID sessionID of
        Inl err \<Rightarrow> (db, Inl (Errorf ''settla-deposit: handle tx confirmed: loading session'' (Some err)))
      | Inr session \<Rightarrow>
         if ds_Status session \<noteq> DepositSessionStatusDetected
         then (db, Inl (wrong_status ''handle tx confirmed'' session DepositSessionStatusConfirmed))
         else (case deposit_step E 0 ''handle tx confirmed'' (session\<lparr>ds_ConfirmedAt := Some (de_now E)\<rparr>)
                      DepositSessionStatusConfirmed (confirmed_entries E txHash confirmations) (conc 0 db) of
                 (db, Inl err) \<Rightarrow> (db, Inl err)
               | (db, Inr _) \<Rightarrow> initiateCredit L E conc tenantID sessionID txHash (conc 1 db)))"

section \<open>Results\<close>

definition failSession ::
  "deposit_env \<Rightarrow> interference \<Rightarrow> DepositSession \<Rightarrow> string \<Rightarrow> string \<Rightarrow> deposit_db \<Rightarrow> deposit_db \<times> unit result" where
  "failSession E conc session reason code db =
     deposit_step E 0 ''fail session''
       (session\<lparr>ds_FailedAt := Some (de_now E), ds_FailureReason := reason, ds_FailureCode := code\<rparr>)
       DepositSessionStatusFailed
       (\<lambda>s. let event = reason_event (ds_ID s) (ds_TenantID s) DepositSessionStatusFailed reason in
             deposit_event E 1 (ds_ID s) (ds_TenantID s) EventDepositSessionFailed (DepositData event) #
             depositNotificationEntries E 2 (ds_ID s) (ds_TenantID s) EventDepositSessionFailed event) (conc 0 db)"

definition initiateSettlement ::
  "deposit_env \<Rightarrow> interference \<Rightarrow> DepositSession \<Rightarrow> deposit_db \<Rightarrow> deposit_db \<times> unit result" where
  "initiateSettlement E conc session db =
     (if ds_Status session \<noteq> DepositSessionStatusCredited
      then (db, Inl (wrong_status ''initiate settlement'' session DepositSessionStatusSettling))
      else deposit_step E 1 ''initiate settlement'' session DepositSessionStatusSettling
        (\<lambda>s. [deposit_intent E 4 (ds_ID s) (ds_TenantID s) IntentSettleDeposit (DepositData (SettleDeposit
                \<lparr>sd_SessionID = ds_ID s, sd_TenantID = ds_TenantID s, sd_Chain = ds_Chain s, sd_Token = ds_Token s,
                 sd_Amount = ds_NetAmount s, sd_TargetFiat = CurrencyUSD\<rparr>)),
              deposit_event E 5 (ds_ID s) (ds_TenantID s) EventDepositSessionSettling
                (DepositData (session_event s DepositSessionStatusSettling (ds_NetAmount s)))]) (conc 2 db))"

definition holdSession ::
  "deposit_env \<Rightarrow> interference \<Rightarrow> DepositSession \<Rightarrow> deposit_db \<Rightarrow> deposit_db \<times> unit result" where
  "holdSession E conc session db =
     (if ds_Status session \<noteq> DepositSessionStatusCredited
      then (db, Inl (wrong_status ''hold session'' session DepositSessionStatusHeld))
      else deposit_step E 1 ''hold session'' session DepositSessionStatusHeld
        (\<lambda>s. let event = session_event s DepositSessionStatusHeld (ds_NetAmount s) in
              deposit_event E 4 (ds_ID s) (ds_TenantID s) EventDepositSessionHeld (DepositData event) #
              depositNotificationEntries E 5 (ds_ID s) (ds_TenantID s) EventDepositSessionHeld event) (conc 2 db))"

definition routeAfterCredit ::
  "deposit_env \<Rightarrow> interference \<Rightarrow> uuid \<Rightarrow> uuid \<Rightarrow> deposit_db \<Rightarrow> deposit_db \<times> unit result" where
  "routeAfterCredit E conc tenantID sessionID db =
     (case GetSession E 1 db tenantID sessionID of
        Inl err \<Rightarrow> (db, Inl (Errorf ''settla-deposit: route after credit: loading session'' (Some err)))
      | Inr session \<Rightarrow>
         if ds_SettlementPref session = SettlementPreferenceAutoConvert then initiateSettlement E conc session db
         else holdSession E conc session db)"

definition HandleCreditResult ::
  "lib \<Rightarrow> deposit_env \<Rightarrow> interference \<Rightarrow> uuid \<Rightarrow> uuid \<Rightarrow> IntentResult \<Rightarrow> deposit_db \<Rightarrow> deposit_db \<times> unit result" where
  "HandleCreditResult L E conc tenantID sessionID res db =
     (case GetSession E 0 db tenantID sessionID of
        Inl err \<Rightarrow> (db, Inl (Errorf ''settla-deposit: handle credit result: loading session'' (Some err)))
      | Inr session \<Rightarrow>
         if ds_Status session \<noteq> DepositSessionStatusCrediting
         then (db, Inl (wrong_status ''handle credit result'' session DepositSessionStatusCredited))
         else if \<not> ir_Success res then failSession E conc session (ir_Error res) (ir_ErrorCode res) db
         else (case deposit_GetTenant E db tenantID of
                 Inl err \<Rightarrow> (db, Inl (Errorf ''settla-deposit: handle credit result: loading tenant'' (Some err)))
               | Inr tenant \<Rightarrow>
                  let feeAmount = CalculateCollectionFee L (ds_ReceivedAmount session) (tn_FeeSchedule tenant);
                      netAmount = ds_ReceivedAmount session - feeAmount in
                  (case deposit_step E 0 ''handle credit result''
                          (session\<lparr>ds_FeeAmount := feeAmount, ds_NetAmount := netAmount,
                                   ds_CreditedAt := Some (de_now E)\<rparr>) DepositSessionStatusCredited
                          (\<lambda>s. let event = session_event s DepositSessionStatusCredited netAmount in
                                deposit_event E 1 sessionID tenantID EventDepositSessionCredited (DepositData event) #
                                depositNotificationEntries E 2 sessionID tenantID EventDepositSessionCredited event)
                          (conc 0 db) of
                     (db, Inl err) \<Rightarrow> (db, Inl err)
                   | (db, Inr _) \<Rightarrow> routeAfterCredit E conc tenantID sessionID (conc 1 db))))"

text \<open>\<^verbatim>\<open>uuid.Parse\<close> reads the linked transfer from the result's metadata.\<close>

definition HandleSettlementResult_deposit ::
  "(string \<Rightarrow> uuid option) \<Rightarrow> deposit_env \<Rightarrow> interference \<Rightarrow> uuid \<Rightarrow> uuid \<Rightarrow> IntentResult \<Rightarrow> deposit_db \<Rightarrow>
   deposit_db \<times> unit result" where
  "HandleSettlementResult_deposit uuid_Parse E conc tenantID sessionID res db =
     (case GetSession E 0 db tenantID sessionID of
        Inl err \<Rightarrow> (db, Inl (Errorf ''settla-deposit: handle settlement result: loading session'' (Some err)))
      | Inr session \<Rightarrow>
         if ds_Status session \<noteq> DepositSessionStatusSettling
         then (db, Inl (wrong_status ''handle settlement result'' session DepositSessionStatusSettled))
         else if \<not> ir_Success res then failSession E conc session (ir_Error res) (ir_ErrorCode res) db
         else
           let linked = (case map_of (ir_Metadata res) ''transfer_id'' of
                           None \<Rightarrow> ds_SettlementTransferID session
                         | Some str \<Rightarrow> (case uuid_Parse str of
                             None \<Rightarrow> ds_SettlementTransferID session | Some tid \<Rightarrow> Some tid)) in
           deposit_step E 0 ''handle settlement result''
             (session\<lparr>ds_SettledAt := Some (de_now E), ds_SettlementTransferID := linked\<rparr>)
             DepositSessionStatusSettled
             (\<lambda>s. let event = session_event s DepositSessionStatusSettled (ds_NetAmount s) in
                   deposit_event E 1 sessionID tenantID EventDepositSessionSettled (DepositData event) #
                   depositNotificationEntries E 2 sessionID tenantID EventDepositSessionSettled event) (conc 0 db))"

section \<open>Expiry and cancellation\<close>

definition ExpireSession ::
  "deposit_env \<Rightarrow> interference \<Rightarrow> uuid \<Rightarrow> uuid \<Rightarrow> deposit_db \<Rightarrow> deposit_db \<times> unit result" where
  "ExpireSession E conc tenantID sessionID db =
     (case GetSession E 0 db tenantID sessionID of
        Inl err \<Rightarrow> (db, Inl (Errorf ''settla-deposit: expire session: loading session'' (Some err)))
      | Inr session \<Rightarrow>
         if ds_Status session \<noteq> DepositSessionStatusPendingPayment then (db, Inr ())
         else deposit_step E 0 ''expire session'' (session\<lparr>ds_ExpiredAt := Some (de_now E)\<rparr>)
           DepositSessionStatusExpired
           (\<lambda>s. let event = reason_event sessionID tenantID DepositSessionStatusExpired ''ttl_exceeded'' in
                 deposit_event E 1 sessionID tenantID EventDepositSessionExpired (DepositData event) #
                 depositNotificationEntries E 2 sessionID tenantID EventDepositSessionExpired event) (conc 0 db))"

definition CancelSession ::
  "deposit_env \<Rightarrow> interference \<Rightarrow> uuid \<Rightarrow> uuid \<Rightarrow> deposit_db \<Rightarrow> deposit_db \<times> unit result" where
  "CancelSession E conc tenantID sessionID db =
     (case GetSession E 0 db tenantID sessionID of
        Inl err \<Rightarrow> (db, Inl (Errorf ''settla-deposit: cancel session: loading session'' (Some err)))
      | Inr session \<Rightarrow>
         if ds_Status session \<noteq> DepositSessionStatusPendingPayment
         then (db, Inl (wrong_status ''cancel session'' session DepositSessionStatusCancelled))
         else deposit_step E 0 ''cancel session'' session DepositSessionStatusCancelled
           (\<lambda>s. let event = reason_event sessionID tenantID DepositSessionStatusCancelled ''user_cancelled'' in
                 deposit_event E 1 sessionID tenantID EventDepositSessionCancelled (DepositData event) #
                 depositNotificationEntries E 2 sessionID tenantID EventDepositSessionCancelled event) (conc 0 db))"

text \<open>One round of the expiry job; a session that cannot be expired is skipped.\<close>

definition expiryBatchSize :: nat where
  "expiryBatchSize = 100"

fun expire_all :: "(nat \<Rightarrow> deposit_env) \<Rightarrow> nat \<Rightarrow> DepositSession list \<Rightarrow> deposit_db \<Rightarrow> deposit_db" where
  "expire_all Es i [] db = db"
| "expire_all Es i (s # ss) db =
     expire_all Es (i + 1) ss (fst (ExpireSession (Es i) alone (ds_TenantID s) (ds_ID s) db))"

definition processBatch :: "deposit_env \<Rightarrow> (nat \<Rightarrow> deposit_env) \<Rightarrow> deposit_db \<Rightarrow> deposit_db" where
  "processBatch E Es db =
     (case GetExpiredPendingSessions E expiryBatchSize db of
        Inl err \<Rightarrow> db
      | Inr sessions \<Rightarrow> expire_all Es 0 sessions db)"

end
