(* ===== verification/Deposit_Safety.thy ===== *)
theory Deposit_Safety
  imports Deposit_Engine
begin

text \<open>
  What the calls of the deposit engine do to the tables, whatever other calls commit in between:
  the moves of the abstract machine \<open>deposit_moves\<close>, that every call is a sequence of such moves
  as long as the interference is, and what follows for the credits.
\<close>

section \<open>The abstract machine\<close>

text \<open>The transitions of \<^verbatim>\<open>ValidDepositTransitions\<close> that the engine uses.\<close>

definition engine_moves :: "(DepositSessionStatus \<times> DepositSessionStatus) list" where
  "engine_moves =
     [(DepositSessionStatusPendingPayment, DepositSessionStatusDetected),
      (DepositSessionStatusExpired, DepositSessionStatusDetected),
      (DepositSessionStatusCancelled, DepositSessionStatusDetected),
      (DepositSessionStatusPendingPayment, DepositSessionStatusExpired),
      (DepositSessionStatusPendingPayment, DepositSessionStatusCancelled),
      (DepositSessionStatusDetected, DepositSessionStatusConfirmed),
      (DepositSessionStatusConfirmed, DepositSessionStatusCrediting),
      (DepositSessionStatusCrediting, DepositSessionStatusCredited),
      (DepositSessionStatusCrediting, DepositSessionStatusFailed),
      (DepositSessionStatusCredited, DepositSessionStatusSettling),
      (DepositSessionStatusCredited, DepositSessionStatusHeld),
      (DepositSessionStatusSettling, DepositSessionStatusSettled),
      (DepositSessionStatusSettling, DepositSessionStatusFailed)]"

definition credit_rows :: "uuid \<Rightarrow> deposit_payload outbox_table \<Rightarrow> deposit_payload outbox_table" where
  "credit_rows i rows = filter (\<lambda>r. or_EventType r = IntentCreditDeposit \<and> or_AggregateID r = i) rows"

definition credit_row_of :: "DepositSession \<Rightarrow> deposit_payload OutboxRow \<Rightarrow> bool" where
  "credit_row_of s r \<longleftrightarrow> (\<exists>p. or_Payload r = Some (DepositData (CreditDeposit p)) \<and> cd_SessionID p = ds_ID s \<and>
     cd_TenantID p = ds_TenantID s \<and> cd_GrossAmount p = ds_ReceivedAmount s \<and>
     cd_NetAmount p + cd_FeeAmount p = cd_GrossAmount p)"

definition entries_fit :: "DepositSession \<Rightarrow> deposit_payload outbox_table \<Rightarrow> bool" where
  "entries_fit s rows \<longleftrightarrow>
     (\<forall>r\<in>set rows. or_EventType r = IntentCreditDeposit \<longrightarrow> or_AggregateID r = ds_ID s \<and> credit_row_of s r) \<and>
     length (credit_rows (ds_ID s) rows) = (if ds_Status s = DepositSessionStatusCrediting then 1 else 0)"

definition commit_session ::
  "deposit_env \<Rightarrow> DepositSession \<Rightarrow> deposit_payload outbox_table \<Rightarrow> deposit_db \<Rightarrow> deposit_db" where
  "commit_session E s rows db =
     db\<lparr>dd_sessions := map (\<lambda>x. if ds_ID x = ds_ID s \<and> ds_Version x = ds_Version s - 1
                                  then deposit_transition_row E s x else x) (dd_sessions db),
        dd_outbox := dd_outbox db @ rows\<rparr>"

inductive deposit_moves :: "deposit_db \<Rightarrow> deposit_db \<Rightarrow> bool" where
  session_moves: "r \<in> set (dd_sessions db) \<Longrightarrow> ds_ID s = ds_ID r \<Longrightarrow> ds_Version s = ds_Version r + 1 \<Longrightarrow>
     (ds_Status r, ds_Status s) \<in> set engine_moves \<Longrightarrow> entries_fit s rows \<Longrightarrow>
     deposit_moves db (commit_session E s rows db)"
| payment: "deposit_moves db (db\<lparr>dd_txs := txs,
     dd_sessions := AccumulateReceivedAmount E i tenantID amount (dd_sessions db)\<rparr>)"
| opened: "ds_ID s \<notin> ds_ID ` set (dd_sessions db) \<Longrightarrow> ds_Status s = DepositSessionStatusPendingPayment \<Longrightarrow>
     ds_Version s = 0 \<Longrightarrow> \<forall>r\<in>set rows. or_EventType r \<noteq> IntentCreditDeposit \<Longrightarrow>
     deposit_moves db (db\<lparr>dd_sessions := dd_sessions db @ [s], dd_index := index, dd_outbox := dd_outbox db @ rows\<rparr>)"
| dispensed: "deposit_moves db (db\<lparr>dd_pool := pool\<rparr>)"
| observed: "\<forall>r\<in>set rows. or_EventType r \<noteq> IntentCreditDeposit \<Longrightarrow>
     deposit_moves db (db\<lparr>dd_txs := txs, dd_outbox := dd_outbox db @ rows\<rparr>)"

section \<open>Rows under moves\<close>

lemma transition_row_ids [simp]:
  "ds_ID (deposit_transition_row E s x) = ds_ID x"
  "ds_TenantID (deposit_transition_row E s x) = ds_TenantID x"
  "ds_Status (deposit_transition_row E s x) = ds_Status s"
  "ds_Version (deposit_transition_row E s x) = ds_Version s"
  by (simp_all add: deposit_transition_row_def)

lemma commit_session_simps [simp]:
  "map ds_ID (dd_sessions (commit_session E s rows db)) = map ds_ID (dd_sessions db)"
  "dd_outbox (commit_session E s rows db) = dd_outbox db @ rows"
  "dd_core (commit_session E s rows db) = dd_core db"
  "dd_txs (commit_session E s rows db) = dd_txs db"
  by (simp_all add: commit_session_def)

lemma accumulate_ids [simp]:
  "map ds_ID (AccumulateReceivedAmount E i tn a ss) = map ds_ID ss"
  by (simp add: AccumulateReceivedAmount_def)

text \<open>The version of a row never falls, and its status only changes with the version.\<close>

definition row_after :: "DepositSession \<Rightarrow> DepositSession \<Rightarrow> bool" where
  "row_after r r' \<longleftrightarrow> ds_ID r' = ds_ID r \<and> ds_TenantID r' = ds_TenantID r \<and> ds_Version r \<le> ds_Version r' \<and>
     (ds_Version r' = ds_Version r \<longrightarrow> ds_Status r' = ds_Status r)"

definition rows_kept :: "deposit_db \<Rightarrow> deposit_db \<Rightarrow> bool" where
  "rows_kept db db' \<longleftrightarrow> (\<forall>r\<in>set (dd_sessions db). \<exists>r'\<in>set (dd_sessions db'). row_after r r')"

lemma row_after_refl [simp]: "row_after r r"
  by (simp add: row_after_def)

lemma row_after_trans: "row_after a b \<Longrightarrow> row_after b c \<Longrightarrow> row_after a c"
  by (auto simp: row_after_def)

lemma rows_kept_refl [simp]: "rows_kept db db"
  unfolding rows_kept_def using row_after_refl by blast

lemma rows_kept_trans: "rows_kept a b \<Longrightarrow> rows_kept b c \<Longrightarrow> rows_kept a c"
  unfolding rows_kept_def using row_after_trans by blast

lemma rows_kept_map:
  "\<forall>r. row_after r (f r) \<Longrightarrow> dd_sessions db' = map f (dd_sessions db) \<Longrightarrow> rows_kept db db'"
  unfolding rows_kept_def by force

lemma rows_kept_mono: "set (dd_sessions db) \<subseteq> set (dd_sessions db') \<Longrightarrow> rows_kept db db'"
  unfolding rows_kept_def using row_after_refl by blast

lemma accumulate_kept:
  "rows_kept db (db\<lparr>dd_txs := txs, dd_sessions := AccumulateReceivedAmount E i tn a (dd_sessions db)\<rparr>)"
  by (rule rows_kept_map [where f = "\<lambda>r. if ds_ID r = i \<and> ds_TenantID r = tn
        then r\<lparr>ds_ReceivedAmount := ds_ReceivedAmount r + de_numeric E a, ds_UpdatedAt := de_now E\<rparr> else r"])
     (auto simp: row_after_def AccumulateReceivedAmount_def)

lemma deposit_moves_kept: "deposit_moves db db' \<Longrightarrow> rows_kept db db'"
proof (induction rule: deposit_moves.induct)
  case (session_moves r db s rows E)
  then show ?case
    by (intro rows_kept_map [where f = "\<lambda>x. if ds_ID x = ds_ID s \<and> ds_Version x = ds_Version s - 1
                                  then deposit_transition_row E s x else x"])
       (auto simp: row_after_def commit_session_def)
next
  case payment
  show ?case by (rule accumulate_kept)
qed (auto intro: rows_kept_mono)

lemma run_kept: "deposit_moves\<^sup>*\<^sup>* db db' \<Longrightarrow> rows_kept db db'"
  by (induction rule: rtranclp_induct) (auto intro: rows_kept_trans deposit_moves_kept)

lemma deposit_moves_distinct:
  "deposit_moves db db' \<Longrightarrow> distinct (map ds_ID (dd_sessions db)) \<Longrightarrow> distinct (map ds_ID (dd_sessions db'))"
  by (induction rule: deposit_moves.induct) (auto simp del: map_map)

lemma run_distinct:
  "deposit_moves\<^sup>*\<^sup>* db db' \<Longrightarrow> distinct (map ds_ID (dd_sessions db)) \<Longrightarrow> distinct (map ds_ID (dd_sessions db'))"
  by (induction rule: rtranclp_induct) (auto intro: deposit_moves_distinct)

lemma distinct_session_eq:
  "distinct (map ds_ID ss) \<Longrightarrow> r \<in> set ss \<Longrightarrow> x \<in> set ss \<Longrightarrow> ds_ID r = ds_ID x \<Longrightarrow> r = x"
  by (metis distinct_map inj_onD)

section \<open>A step of the engine\<close>

lemma deposit_step_cases:
  fixes E :: deposit_env and s :: DepositSession and db :: deposit_db
  defines "s' \<equiv> \<lambda>target. s\<lparr>ds_Status := target, ds_Version := ds_Version s + 1, ds_UpdatedAt := de_now E\<rparr>"
  shows "fst (deposit_step E k step s target es db) = db \<or>
    (target \<in> set (ValidDepositTransitions (ds_Status s)) \<and>
     (\<exists>r\<in>set (dd_sessions db). ds_ID r = ds_ID s \<and> ds_Version r = ds_Version s) \<and>
     fst (deposit_step E k step s target es db) =
       commit_session E (s' target) (outboxEntriesToParams (de_now E) (es (s' target))) db)"
proof (cases "target \<in> set (ValidDepositTransitions (ds_Status s)) \<and> de_ok E SessionTransitionTx (2 * k) \<and>
    (\<exists>r\<in>set (dd_sessions db). ds_ID r = ds_ID s \<and> ds_Version r = ds_Version s)")
  case False
  then show ?thesis
    by (auto simp: deposit_step_def Deposit_TransitionTo_def Deposit_CanTransitionTo_def
        deposit_TransitionWithOutbox_def TransitionDepositSession_def filter_empty_conv)
next
  case True
  then have some: "filter (\<lambda>r. ds_ID r = ds_ID s \<and> ds_Version r = ds_Version s) (dd_sessions db) \<noteq> []"
    by (auto simp: filter_empty_conv)
  show ?thesis
  proof (cases "InsertOutboxEntries (outboxEntriesToParams (de_now E) (es (s' target))) (dd_outbox db)")
    case (Inl err)
    with True some show ?thesis
      by (simp add: deposit_step_def Deposit_TransitionTo_def Deposit_CanTransitionTo_def
          deposit_TransitionWithOutbox_def TransitionDepositSession_def s'_def)
  next
    case (Inr outbox)
    then have "outbox = dd_outbox db @ outboxEntriesToParams (de_now E) (es (s' target))"
      by (simp only: InsertOutboxEntries_ok)
    with True some Inr show ?thesis
      by (simp add: deposit_step_def Deposit_TransitionTo_def Deposit_CanTransitionTo_def commit_session_def
          deposit_TransitionWithOutbox_def TransitionDepositSession_def s'_def)
  qed
qed


lemma deposit_step_run:
  fixes E :: deposit_env and s :: DepositSession
  defines "s' \<equiv> \<lambda>target. s\<lparr>ds_Status := target, ds_Version := ds_Version s + 1, ds_UpdatedAt := de_now E\<rparr>"
  assumes "r \<in> set (dd_sessions db0)" and "rows_kept db0 db" and dist: "distinct (map ds_ID (dd_sessions db))"
    and same: "ds_ID s = ds_ID r" "ds_Version s = ds_Version r" "ds_Status s = ds_Status r"
    and moves: "(ds_Status s, target) \<in> set engine_moves"
    and fit: "entries_fit (s' target) (outboxEntriesToParams (de_now E) (es (s' target)))"
  shows "deposit_moves\<^sup>*\<^sup>* db (fst (deposit_step E k step s target es db))"
proof -
  from assms(2,3) obtain x where x: "x \<in> set (dd_sessions db)" "row_after r x"
    unfolding rows_kept_def by blast
  consider "fst (deposit_step E k step s target es db) = db"
    | y where "y \<in> set (dd_sessions db)" "ds_ID y = ds_ID s" "ds_Version y = ds_Version s"
        "fst (deposit_step E k step s target es db) =
           commit_session E (s' target) (outboxEntriesToParams (de_now E) (es (s' target))) db"
    using deposit_step_cases [of E k step s target es db] unfolding s'_def by blast
  then show ?thesis
  proof cases
    case 1
    then show ?thesis by simp
  next
    case 2
    with x dist same have "y = x" by (intro distinct_session_eq) (auto simp: row_after_def)
    with 2 x same have "ds_Status y = ds_Status s" by (simp add: row_after_def)
    with 2 moves fit have "deposit_moves db (fst (deposit_step E k step s target es db))"
      unfolding 2(4) by (intro session_moves [of y]) (simp_all add: s'_def)
    then show ?thesis by simp
  qed
qed

section \<open>Entries\<close>

lemma must_entry [simp]:
  "ob_EventType (MustNewOutboxEvent u t ty agg tn et p) = (if et \<in> set knownEventTypes then et else [])"
  "ob_EventType (MustNewOutboxIntent u t ty agg tn et p) = (if et \<in> set knownEventTypes then et else [])"
  by (simp_all add: MustNewOutboxEvent_def MustNewOutboxIntent_def NewOutboxEvent_def NewOutboxIntent_def
      ValidateEventType_def zero_entry_def)

lemma params_events: "map or_EventType (outboxEntriesToParams now es) = map ob_EventType es"
  by (simp add: outboxEntriesToParams_def)

lemma no_credit_params:
  "\<forall>e\<in>set es. ob_EventType e \<noteq> IntentCreditDeposit \<Longrightarrow>
   \<forall>r\<in>set (outboxEntriesToParams now es). or_EventType r \<noteq> IntentCreditDeposit"
  by (auto simp: outboxEntriesToParams_def)

lemma entries_fit_plain:
  assumes "\<forall>e\<in>set es. ob_EventType e \<noteq> IntentCreditDeposit" and "ds_Status s \<noteq> DepositSessionStatusCrediting"
  shows "entries_fit s (outboxEntriesToParams now es)"
  using assms(2) no_credit_params [OF assms(1), of now]
  by (auto simp: entries_fit_def credit_rows_def filter_empty_conv)

lemma notification_events [simp]:
  "\<forall>e\<in>set (depositNotificationEntries E k i tn et d). ob_EventType e \<noteq> IntentCreditDeposit"
  by (simp add: depositNotificationEntries_def depositWebhookEntry_def depositEmailEntry_def)

lemma detected_no_credit: "\<forall>e\<in>set (detected_entries E tn i tx late s). ob_EventType e \<noteq> IntentCreditDeposit"
  by (auto simp: detected_entries_def Let_def ball_Un notification_events [rule_format])

lemma confirmed_no_credit: "\<forall>e\<in>set (confirmed_entries E h c s). ob_EventType e \<noteq> IntentCreditDeposit"
  by (auto simp: confirmed_entries_def Let_def notification_events [rule_format])

lemma credit_known: "IntentCreditDeposit \<in> set knownEventTypes"
  by (simp add: known_type_defs)

lemma credit_entries_fit:
  assumes "ds_Status s = DepositSessionStatusCrediting"
  shows "entries_fit s (outboxEntriesToParams (de_now E) (credit_entries L E h fee s))"
  using assms credit_known
  by (simp add: entries_fit_def credit_entries_def outboxEntriesToParams_def credit_rows_def credit_row_of_def
      Let_def MustNewOutboxIntent_def MustNewOutboxEvent_def NewOutboxIntent_def NewOutboxEvent_def
      ValidateEventType_def zero_entry_def)

section \<open>Calls\<close>

definition rely :: "interference \<Rightarrow> bool" where
  "rely conc \<longleftrightarrow> (\<forall>k d. deposit_moves\<^sup>*\<^sup>* d (conc k d))"

lemma rely_alone [simp]: "rely alone"
  by (simp add: rely_def)

lemma relyD: "rely conc \<Longrightarrow> deposit_moves\<^sup>*\<^sup>* d (conc k d)"
  by (simp add: rely_def)

lemma GetSession_ok:
  "GetSession E k db tn i = Inr s \<Longrightarrow> s \<in> set (dd_sessions db) \<and> ds_ID s = i \<and> ds_TenantID s = tn"
  by (auto simp: GetSession_def find_Some_iff split: if_splits option.splits)

text \<open>A step on a session read before, after any interference.\<close>

lemma step_after:
  fixes E :: deposit_env and s :: DepositSession
  defines "s' \<equiv> \<lambda>target. s\<lparr>ds_Status := target, ds_Version := ds_Version s + 1, ds_UpdatedAt := de_now E\<rparr>"
  assumes "r \<in> set (dd_sessions db)" and "distinct (map ds_ID (dd_sessions db))" and run: "deposit_moves\<^sup>*\<^sup>* db d"
    and "ds_ID s = ds_ID r" "ds_Version s = ds_Version r" "ds_Status s = ds_Status r"
    and "(ds_Status s, target) \<in> set engine_moves"
    and "entries_fit (s' target) (outboxEntriesToParams (de_now E) (es (s' target)))"
  shows "deposit_moves\<^sup>*\<^sup>* db (fst (deposit_step E k step s target es d))"
  using assms(2,3,5-) run_kept [OF run] run_distinct [OF run]
  by (intro rtranclp_trans [OF run] deposit_step_run [of r db]) (simp_all add: s'_def)

lemma failSession_run:
  assumes "s \<in> set (dd_sessions db)" and "distinct (map ds_ID (dd_sessions db))" and "rely conc"
    and "ds_Status s = DepositSessionStatusCrediting \<or> ds_Status s = DepositSessionStatusSettling"
  shows "deposit_moves\<^sup>*\<^sup>* db (fst (failSession E conc s reason code db))"
  unfolding failSession_def using assms
  by (intro step_after [of s] entries_fit_plain relyD)
     (auto simp: engine_moves_def Let_def notification_events [rule_format])

lemma initiateSettlement_run:
  assumes "s \<in> set (dd_sessions db)" and "distinct (map ds_ID (dd_sessions db))" and "rely conc"
  shows "deposit_moves\<^sup>*\<^sup>* db (fst (initiateSettlement E conc s db))"
proof (cases "ds_Status s = DepositSessionStatusCredited")
  case True
  with assms show ?thesis
    unfolding initiateSettlement_def
    by (simp only: not_True_eq_False if_False simp_thms, intro step_after [of s] entries_fit_plain relyD)
       (auto simp: engine_moves_def)
qed (simp add: initiateSettlement_def)

lemma holdSession_run:
  assumes "s \<in> set (dd_sessions db)" and "distinct (map ds_ID (dd_sessions db))" and "rely conc"
  shows "deposit_moves\<^sup>*\<^sup>* db (fst (holdSession E conc s db))"
proof (cases "ds_Status s = DepositSessionStatusCredited")
  case True
  with assms show ?thesis
    unfolding holdSession_def
    by (simp only: not_True_eq_False if_False simp_thms, intro step_after [of s] entries_fit_plain relyD)
       (auto simp: engine_moves_def Let_def notification_events [rule_format])
qed (simp add: holdSession_def)

lemma routeAfterCredit_run:
  assumes "distinct (map ds_ID (dd_sessions db))" and "rely conc"
  shows "deposit_moves\<^sup>*\<^sup>* db (fst (routeAfterCredit E conc tn i db))"
proof (cases "GetSession E 1 db tn i")
  case (Inr s)
  then have "s \<in> set (dd_sessions db)" by (auto dest: GetSession_ok)
  with assms Inr show ?thesis
    by (simp add: routeAfterCredit_def initiateSettlement_run holdSession_run)
qed (simp add: routeAfterCredit_def)

lemma initiateCredit_run:
  assumes "distinct (map ds_ID (dd_sessions db))" and "rely conc"
  shows "deposit_moves\<^sup>*\<^sup>* db (fst (initiateCredit L E conc tn i h db))"
proof (cases "GetSession E 1 db tn i")
  case (Inr s)
  then have "s \<in> set (dd_sessions db)" by (auto dest: GetSession_ok)
  moreover have "deposit_moves\<^sup>*\<^sup>* db (fst (deposit_step E 1 step s DepositSessionStatusCrediting
      (credit_entries L E h fee) (conc 2 db)))" if "ds_Status s = DepositSessionStatusConfirmed" for step fee
    using that calculation assms by (intro step_after [of s] credit_entries_fit relyD) (auto simp: engine_moves_def)
  ultimately show ?thesis
    using Inr by (simp add: initiateCredit_def split: sum.splits)
qed (simp add: initiateCredit_def)

text \<open>A second part of a call that runs on whatever the first part and the interference left.\<close>

lemma run_then:
  assumes "distinct (map ds_ID (dd_sessions db))" and "rely conc" and "deposit_moves\<^sup>*\<^sup>* db (fst p)"
    and "\<And>d. distinct (map ds_ID (dd_sessions d)) \<Longrightarrow> deposit_moves\<^sup>*\<^sup>* d (fst (f d))"
  shows "deposit_moves\<^sup>*\<^sup>* db (fst (case p of (d, Inl err) \<Rightarrow> (d, Inl err) | (d, Inr _) \<Rightarrow> f (conc k d)))"
proof (cases p)
  case (Pair d res)
  have "deposit_moves\<^sup>*\<^sup>* db (conc k d)" using assms(2,3) Pair by (auto dest: relyD intro: rtranclp_trans)
  then have "deposit_moves\<^sup>*\<^sup>* db (fst (f (conc k d)))"
    using assms(1,4) run_distinct by (blast intro: rtranclp_trans)
  with assms(3) Pair show ?thesis by (cases res) simp_all
qed

lemma HandleTransactionConfirmed_run:
  assumes "distinct (map ds_ID (dd_sessions db))" and "rely conc"
  shows "deposit_moves\<^sup>*\<^sup>* db (fst (HandleTransactionConfirmed L E conc tn i h c db))"
proof (cases "GetSession E 0 db tn i")
  case (Inr s)
  then have s: "s \<in> set (dd_sessions db)" by (auto dest: GetSession_ok)
  show ?thesis
  proof (cases "ds_Status s = DepositSessionStatusDetected")
    case True
    with s assms have "deposit_moves\<^sup>*\<^sup>* db (fst (deposit_step E 0 ''handle tx confirmed''
        (s\<lparr>ds_ConfirmedAt := Some (de_now E)\<rparr>) DepositSessionStatusConfirmed (confirmed_entries E h c) (conc 0 db)))"
      by (intro step_after [of s] entries_fit_plain relyD confirmed_no_credit) (auto simp: engine_moves_def)
    with True Inr assms show ?thesis
      by (simp add: HandleTransactionConfirmed_def) (intro run_then initiateCredit_run; simp)
  qed (simp add: HandleTransactionConfirmed_def Inr)
qed (simp add: HandleTransactionConfirmed_def)

lemma HandleCreditResult_run:
  assumes "distinct (map ds_ID (dd_sessions db))" and "rely conc"
  shows "deposit_moves\<^sup>*\<^sup>* db (fst (HandleCreditResult L E conc tn i res db))"
proof (cases "GetSession E 0 db tn i")
  case (Inr s)
  then have s: "s \<in> set (dd_sessions db)" by (auto dest: GetSession_ok)
  have credited: "deposit_moves\<^sup>*\<^sup>* db (fst (deposit_step E 0 step (s\<lparr>ds_FeeAmount := fee, ds_NetAmount := net,
      ds_CreditedAt := Some (de_now E)\<rparr>) DepositSessionStatusCredited
      (\<lambda>s. deposit_event E (Suc 0) i tn EventDepositSessionCredited (DepositData (event s)) #
        depositNotificationEntries E 2 i tn EventDepositSessionCredited (event s)) (conc 0 db)))"
    if "ds_Status s = DepositSessionStatusCrediting" for step fee net event
    using that s assms
    by (intro step_after [of s] entries_fit_plain relyD)
       (auto simp: engine_moves_def notification_events [rule_format])
  show ?thesis
  proof (cases "ds_Status s = DepositSessionStatusCrediting \<and> ir_Success res")
    case True
    then show ?thesis
      by (simp add: HandleCreditResult_def Inr Let_def split: sum.split)
         (intro allI impI run_then credited routeAfterCredit_run assms; simp)
  next
    case False
    with s assms show ?thesis
      by (auto simp: HandleCreditResult_def Inr intro: failSession_run)
  qed
qed (simp add: HandleCreditResult_def)

lemma HandleSettlementResult_run:
  assumes "distinct (map ds_ID (dd_sessions db))" and "rely conc"
  shows "deposit_moves\<^sup>*\<^sup>* db (fst (HandleSettlementResult_deposit parse E conc tn i res db))"
proof (cases "GetSession E 0 db tn i")
  case (Inr s)
  then have s: "s \<in> set (dd_sessions db)" by (auto dest: GetSession_ok)
  show ?thesis
  proof (cases "ds_Status s = DepositSessionStatusSettling \<and> ir_Success res")
    case True
    with s assms Inr show ?thesis
      by (simp add: HandleSettlementResult_deposit_def Let_def)
         (intro step_after [of s] entries_fit_plain relyD;
          auto simp: engine_moves_def notification_events [rule_format])
  next
    case False
    with s assms show ?thesis
      by (auto simp: HandleSettlementResult_deposit_def Inr intro: failSession_run)
  qed
qed (simp add: HandleSettlementResult_deposit_def)

lemma ExpireSession_run:
  assumes "distinct (map ds_ID (dd_sessions db))" and "rely conc"
  shows "deposit_moves\<^sup>*\<^sup>* db (fst (ExpireSession E conc tn i db))"
proof (cases "GetSession E 0 db tn i")
  case (Inr s)
  then have s: "s \<in> set (dd_sessions db)" by (auto dest: GetSession_ok)
  show ?thesis
  proof (cases "ds_Status s = DepositSessionStatusPendingPayment")
    case True
    with s assms Inr show ?thesis
      by (simp add: ExpireSession_def Let_def)
         (intro step_after [of s] entries_fit_plain relyD;
          auto simp: engine_moves_def notification_events [rule_format])
  qed (simp add: ExpireSession_def Inr)
qed (simp add: ExpireSession_def)

lemma CancelSession_run:
  assumes "distinct (map ds_ID (dd_sessions db))" and "rely conc"
  shows "deposit_moves\<^sup>*\<^sup>* db (fst (CancelSession E conc tn i db))"
proof (cases "GetSession E 0 db tn i")
  case (Inr s)
  then have s: "s \<in> set (dd_sessions db)" by (auto dest: GetSession_ok)
  show ?thesis
  proof (cases "ds_Status s = DepositSessionStatusPendingPayment")
    case True
    with s assms Inr show ?thesis
      by (simp add: CancelSession_def Let_def)
         (intro step_after [of s] entries_fit_plain relyD;
          auto simp: engine_moves_def notification_events [rule_format])
  qed (simp add: CancelSession_def Inr)
qed (simp add: CancelSession_def)

lemma RecordDepositTx_run: "deposit_moves\<^sup>*\<^sup>* db (fst (RecordDepositTx E dtx tn i a db))"
  by (auto simp: RecordDepositTx_def intro: payment split: sum.splits)

lemma detectable_moves:
  "Deposit_CanTransitionTo s DepositSessionStatusDetected \<Longrightarrow>
   (ds_Status s, DepositSessionStatusDetected) \<in> set engine_moves"
  by (cases "ds_Status s") (simp_all add: Deposit_CanTransitionTo_def engine_moves_def)

lemma HandleTransactionDetected_run:
  assumes "distinct (map ds_ID (dd_sessions db))" and "rely conc"
  shows "deposit_moves\<^sup>*\<^sup>* db (fst (HandleTransactionDetected E conc tn i tx db))"
proof (cases "GetSession E 0 db tn i")
  case (Inr s)
  then have s: "s \<in> set (dd_sessions db)" by (auto dest: GetSession_ok)
  let ?d = "conc 0 db" and ?x = "detected_tx E tn i tx s"
  have d: "deposit_moves\<^sup>*\<^sup>* db ?d" "deposit_moves\<^sup>*\<^sup>* db (conc 1 ?d)"
    using assms(2) by (auto dest: relyD intro: rtranclp_trans)
  obtain d' res where rec: "RecordDepositTx E ?x tn i (ic_Amount tx) (conc 1 ?d) = (d', res)" by fastforce
  have "deposit_moves\<^sup>*\<^sup>* (conc 1 ?d) d'"
    using RecordDepositTx_run [of "conc 1 ?d" E ?x tn i "ic_Amount tx"] unfolding rec by simp
  with d(2) have d': "deposit_moves\<^sup>*\<^sup>* db d'" by (rule rtranclp_trans)
  then have d2: "deposit_moves\<^sup>*\<^sup>* db (conc 2 d')" using assms(2) by (auto dest: relyD intro: rtranclp_trans)
  have "deposit_moves\<^sup>*\<^sup>* db (fst (deposit_step E 0 step (s\<lparr>ds_ReceivedAmount := amount,
      ds_DetectedAt := Some (de_now E)\<rparr>) DepositSessionStatusDetected (detected_entries E tn i tx late) (conc 2 d')))"
    if "Deposit_CanTransitionTo s DepositSessionStatusDetected" for step amount late
    using s assms d2 detectable_moves [OF that]
    by (intro step_after [of s] entries_fit_plain detected_no_credit) simp_all
  with d(1) d' rec show ?thesis
    by (simp add: HandleTransactionDetected_def Inr Let_def split: sum.splits)
qed (simp add: HandleTransactionDetected_def)

lemma created_no_credit: "\<forall>e\<in>set (created_entries E s). ob_EventType e \<noteq> IntentCreditDeposit"
  by (auto simp: created_entries_def Let_def notification_events [rule_format])

lemma CreateSessionWithOutbox_run:
  assumes "de_session_id E \<notin> ds_ID ` set (dd_sessions db)" and "ds_Status s = DepositSessionStatusPendingPayment"
    and "\<forall>e\<in>set es. ob_EventType e \<noteq> IntentCreditDeposit"
  shows "deposit_moves\<^sup>*\<^sup>* db (fst (CreateSessionWithOutbox E s es db))"
proof -
  have rows: "\<forall>r\<in>set (outboxEntriesToParams now (map (\<lambda>e. if ob_AggregateID e = uuid_Nil
      then e\<lparr>ob_AggregateID := i\<rparr> else e) es)). or_EventType r \<noteq> IntentCreditDeposit" for now i
    using assms(3) by (intro no_credit_params) auto
  show ?thesis
    using assms(1,2) rows
    by (auto simp: CreateSessionWithOutbox_def CreateDepositSession_def Let_def InsertOutboxEntries_ok
        stored_session_def split: sum.splits intro!: r_into_rtranclp opened)
qed

text \<open>The identifier the database draws for a new session is new to the table it is inserted in.\<close>

lemma CreateSession_run:
  assumes "rely conc" and "\<And>d. de_session_id E \<notin> ds_ID ` set (dd_sessions (conc 1 d))"
  shows "deposit_moves\<^sup>*\<^sup>* db (fst (CreateSession L E conc tn req db))"
proof -
  obtain d res where disp: "DispenseAddress E tn (csr_Chain req) uuid_Nil (conc 0 db) = (d, res)" by fastforce
  then have "deposit_moves\<^sup>*\<^sup>* (conc 0 db) d"
    by (auto simp: DispenseAddress_def Let_def split: if_splits list.splits intro!: r_into_rtranclp dispensed)
  with assms(1) have d: "deposit_moves\<^sup>*\<^sup>* db d" "deposit_moves\<^sup>*\<^sup>* db (conc 1 d)"
    by (auto dest: relyD intro: rtranclp_trans)
  have created: "deposit_moves\<^sup>*\<^sup>* db (fst (CreateSessionWithOutbox E (new_session E t tn req a)
      (created_entries E (new_session E t tn req a)) (conc 1 d)))" for t a
    using assms(2) d(2)
    by (intro rtranclp_trans [OF d(2)] CreateSessionWithOutbox_run created_no_credit) (simp_all add: new_session_def)
  have "deposit_moves\<^sup>*\<^sup>* db d'" if "CreateSessionWithOutbox E (new_session E t tn req a)
      (created_entries E (new_session E t tn req a)) (conc 1 d) = (d', r)" for t a d' r
    using created [of t a] unfolding that by simp
  with d(1) disp show ?thesis
    by (auto simp: CreateSession_def Let_def split: sum.splits option.splits prod.splits)
qed

text \<open>The calls that the worker, the expiry job and the API make on a session.\<close>

datatype deposit_call =
    TransactionDetected IncomingTransaction
  | TransactionConfirmed string int
  | CreditResult IntentResult
  | SettlementResult IntentResult
  | Expire
  | Cancel

fun deposit_exec ::
  "lib \<Rightarrow> (string \<Rightarrow> uuid option) \<Rightarrow> deposit_env \<Rightarrow> interference \<Rightarrow> deposit_call \<Rightarrow> uuid \<Rightarrow> uuid \<Rightarrow> deposit_db \<Rightarrow>
   deposit_db \<times> unit result" where
  "deposit_exec L parse E conc (TransactionDetected tx) tn i db = HandleTransactionDetected E conc tn i tx db"
| "deposit_exec L parse E conc (TransactionConfirmed h c) tn i db = HandleTransactionConfirmed L E conc tn i h c db"
| "deposit_exec L parse E conc (CreditResult res) tn i db = HandleCreditResult L E conc tn i res db"
| "deposit_exec L parse E conc (SettlementResult res) tn i db = HandleSettlementResult_deposit parse E conc tn i res db"
| "deposit_exec L parse E conc Expire tn i db = ExpireSession E conc tn i db"
| "deposit_exec L parse E conc Cancel tn i db = CancelSession E conc tn i db"

lemma deposit_exec_run:
  assumes "distinct (map ds_ID (dd_sessions db))" and "rely conc"
  shows "deposit_moves\<^sup>*\<^sup>* db (fst (deposit_exec L parse E conc c tn i db))"
  using assms by (cases c) (simp_all add: HandleTransactionDetected_run HandleTransactionConfirmed_run
      HandleCreditResult_run HandleSettlementResult_run ExpireSession_run CancelSession_run)

section \<open>Credits\<close>

definition past_crediting :: "DepositSessionStatus \<Rightarrow> bool" where
  "past_crediting st \<longleftrightarrow> st \<in> {DepositSessionStatusCrediting, DepositSessionStatusCredited,
     DepositSessionStatusSettling, DepositSessionStatusSettled, DepositSessionStatusHeld, DepositSessionStatusFailed}"

definition credit_inv :: "deposit_db \<Rightarrow> bool" where
  "credit_inv db \<longleftrightarrow> distinct (map ds_ID (dd_sessions db)) \<and>
     (\<forall>s\<in>set (dd_sessions db). length (credit_rows (ds_ID s) (dd_outbox db)) =
        (if past_crediting (ds_Status s) then 1 else 0)) \<and>
     (\<forall>r\<in>set (dd_outbox db). or_EventType r = IntentCreditDeposit \<longrightarrow>
        or_AggregateID r \<in> ds_ID ` set (dd_sessions db) \<and>
        (\<exists>p. or_Payload r = Some (DepositData (CreditDeposit p)) \<and> cd_SessionID p = or_AggregateID r \<and>
             cd_NetAmount p + cd_FeeAmount p = cd_GrossAmount p))"

lemma credit_rows_append [simp]: "credit_rows i (a @ b) = credit_rows i a @ credit_rows i b"
  by (simp add: credit_rows_def)

lemma credit_rows_none: "\<forall>r\<in>set rows. or_EventType r \<noteq> IntentCreditDeposit \<Longrightarrow> credit_rows i rows = []"
  by (simp add: credit_rows_def)

lemma credit_rows_absent:
  "\<forall>r\<in>set rows. or_EventType r = IntentCreditDeposit \<longrightarrow> or_AggregateID r \<noteq> i \<Longrightarrow> credit_rows i rows = []"
  by (simp add: credit_rows_def)

lemma engine_moves_past:
  "(a, b) \<in> set engine_moves \<Longrightarrow>
   (past_crediting b \<longleftrightarrow> past_crediting a \<or> b = DepositSessionStatusCrediting) \<and>
   (b = DepositSessionStatusCrediting \<longrightarrow> \<not> past_crediting a)"
  by (auto simp: engine_moves_def past_crediting_def)

lemma credit_inv_commit:
  assumes inv: "credit_inv db" and r: "r \<in> set (dd_sessions db)" and "ds_ID s = ds_ID r"
    and "ds_Version s = ds_Version r + 1" and moves: "(ds_Status r, ds_Status s) \<in> set engine_moves"
    and fit: "entries_fit s rows"
  shows "credit_inv (commit_session E s rows db)"
proof -
  let ?f = "\<lambda>x. if ds_ID x = ds_ID s \<and> ds_Version x = ds_Version s - 1 then deposit_transition_row E s x else x"
  have ids: "ds_ID ` set (map ?f (dd_sessions db)) = ds_ID ` set (dd_sessions db)"
    unfolding set_map image_image by (rule image_cong) simp_all
  have count: "length (credit_rows (ds_ID x) (dd_outbox db @ rows)) = (if past_crediting (ds_Status (?f x)) then 1 else 0)"
    if x: "x \<in> set (dd_sessions db)" for x
  proof (cases "ds_ID x = ds_ID r")
    case True
    with inv r x have "x = r" by (intro distinct_session_eq) (auto simp: credit_inv_def)
    with assms engine_moves_past [OF moves] show ?thesis
      by (auto simp: credit_inv_def entries_fit_def)
  next
    case False
    with assms(3) fit have "credit_rows (ds_ID x) rows = []"
      by (intro credit_rows_absent) (auto simp: entries_fit_def)
    with inv x False assms(3) show ?thesis by (simp add: credit_inv_def)
  qed
  let ?c = "commit_session E s rows db"
  have sess: "dd_sessions ?c = map ?f (dd_sessions db)" by (simp add: commit_session_def)
  have "length (credit_rows (ds_ID y) (dd_outbox ?c)) = (if past_crediting (ds_Status y) then 1 else 0)"
    if "y \<in> set (dd_sessions ?c)" for y
  proof -
    from that obtain x where x: "x \<in> set (dd_sessions db)" "y = ?f x" unfolding sess set_map by blast
    then have "ds_ID y = ds_ID x" by simp
    with count [OF x(1)] x(2) show ?thesis by (simp only: commit_session_simps)
  qed
  moreover have "or_AggregateID q \<in> ds_ID ` set (dd_sessions ?c) \<and>
      (\<exists>p. or_Payload q = Some (DepositData (CreditDeposit p)) \<and> cd_SessionID p = or_AggregateID q \<and>
         cd_NetAmount p + cd_FeeAmount p = cd_GrossAmount p)"
    if q: "q \<in> set (dd_outbox ?c)" "or_EventType q = IntentCreditDeposit" for q
  proof (cases "q \<in> set rows")
    case True
    with q fit r assms(3) show ?thesis
      unfolding sess ids by (auto simp: entries_fit_def credit_row_of_def)
  next
    case False
    with q inv show ?thesis unfolding sess ids by (simp add: credit_inv_def)
  qed
  moreover have "distinct (map ds_ID (dd_sessions ?c))"
    using inv by (simp only: commit_session_simps credit_inv_def)
  ultimately show ?thesis unfolding credit_inv_def by blast
qed

lemma credit_inv_moves: "deposit_moves db db' \<Longrightarrow> credit_inv db \<Longrightarrow> credit_inv db'"
proof (induction rule: deposit_moves.induct)
  case (session_moves r db s rows E)
  then show ?case by (intro credit_inv_commit)
next
  case payment
  have "ds_ID ` set (AccumulateReceivedAmount E i tn a ss) = ds_ID ` set ss" for E i tn a ss
    by (metis accumulate_ids set_map)
  with payment show ?case
    by (auto simp: credit_inv_def simp del: map_map) (auto simp: AccumulateReceivedAmount_def)
next
  case (opened s db rows index)
  then have "credit_rows (ds_ID s) (dd_outbox db) = []"
    by (intro credit_rows_absent) (metis credit_inv_def)
  with opened show ?case
    by (auto simp: credit_inv_def credit_rows_none past_crediting_def)
next
  case (observed rows db txs)
  then show ?case by (auto simp: credit_inv_def credit_rows_none)
qed (simp add: credit_inv_def)

lemma credit_inv_run: "deposit_moves\<^sup>*\<^sup>* db db' \<Longrightarrow> credit_inv db \<Longrightarrow> credit_inv db'"
  by (induction rule: rtranclp_induct) (auto intro: credit_inv_moves)

end
