(* ===== verification/Deposit_Flow.thy ===== *)
theory Deposit_Flow
  imports Deposit_Safety Samples
begin

text \<open>
  The life of a deposit: a payment that is detected, confirmed and credited without failures, and
  what failures and interleavings do to a payment.
\<close>

section \<open>Reading what was written\<close>

lemma GetSession_iff:
  assumes "distinct (map ds_ID (dd_sessions db))"
  shows "GetSession E k db tn i = Inr s \<longleftrightarrow>
    de_ok E GetSessionStmt k \<and> s \<in> set (dd_sessions db) \<and> ds_ID s = i \<and> ds_TenantID s = tn"
proof
  assume "GetSession E k db tn i = Inr s"
  then show "de_ok E GetSessionStmt k \<and> s \<in> set (dd_sessions db) \<and> ds_ID s = i \<and> ds_TenantID s = tn"
    by (auto simp: GetSession_def find_Some_iff split: if_splits option.splits)
next
  assume s: "de_ok E GetSessionStmt k \<and> s \<in> set (dd_sessions db) \<and> ds_ID s = i \<and> ds_TenantID s = tn"
  then obtain x where x: "List.find (\<lambda>s. ds_ID s = i \<and> ds_TenantID s = tn) (dd_sessions db) = Some x"
    by (cases "List.find (\<lambda>s. ds_ID s = i \<and> ds_TenantID s = tn) (dd_sessions db)") (auto simp: find_None_iff)
  then have "x \<in> set (dd_sessions db)" "ds_ID x = i" by (auto simp: find_Some_iff)
  with s assms have "x = s" by (intro distinct_session_eq) auto
  with x s show "GetSession E k db tn i = Inr s" by (simp add: GetSession_def)
qed

text \<open>The first identifiers a call draws are new to the outbox; no call draws more than seven.\<close>

definition fresh_env :: "deposit_env \<Rightarrow> deposit_db \<Rightarrow> bool" where
  "fresh_env E db \<longleftrightarrow> inj_on (de_uuid E) {..<8} \<and> (\<forall>k<8. de_uuid E k \<notin> or_ID ` set (dd_outbox db))"

lemma insert_fresh_entries:
  assumes "distinct (map ob_ID es)" and "\<forall>e\<in>set es. ob_ID e \<notin> or_ID ` set tbl"
  shows "InsertOutboxEntries (outboxEntriesToParams now es) tbl = Inr (tbl @ outboxEntriesToParams now es)"
proof -
  let ?ps = "outboxEntriesToParams now es"
  have ids: "map or_ID ?ps = map ob_ID es" by (simp add: outboxEntriesToParams_def)
  have "distinct (map or_ID ?ps)" using assms(1) by (simp only: ids)
  then have "distinct (map row_key ?ps)" by (auto simp: distinct_map inj_on_def)
  moreover have "or_ID r \<notin> or_ID ` set tbl" if "r \<in> set ?ps" for r
    using that assms(2) by (auto simp: outboxEntriesToParams_def)
  then have "set (map row_key ?ps) \<inter> set (map row_key tbl) = {}" by force
  ultimately show ?thesis by (simp only: InsertOutboxEntries_ok)
qed

lemma must_ids [simp]:
  "et \<in> set knownEventTypes \<Longrightarrow> ob_ID (MustNewOutboxEvent u t ty agg tn et p) = u"
  "et \<in> set knownEventTypes \<Longrightarrow> ob_ID (MustNewOutboxIntent u t ty agg tn et p) = u"
  by (simp_all add: MustNewOutboxEvent_def MustNewOutboxIntent_def NewOutboxEvent_def NewOutboxIntent_def
      ValidateEventType_def)

lemma deposit_types_known [simp]:
  "set deposit_intents \<subseteq> set knownEventTypes" "set deposit_events \<subseteq> set knownEventTypes"
  "IntentWebhookDeliver \<in> set knownEventTypes" "IntentEmailNotify \<in> set knownEventTypes"
  by (simp_all add: known_type_defs)

text \<open>A step whose session is current commits.\<close>

lemma deposit_step_ok:
  fixes E :: deposit_env and s :: DepositSession
  defines "s' \<equiv> \<lambda>target. s\<lparr>ds_Status := target, ds_Version := ds_Version s + 1, ds_UpdatedAt := de_now E\<rparr>"
  assumes "r \<in> set (dd_sessions db)" "ds_ID s = ds_ID r" "ds_Version s = ds_Version r"
    and "target \<in> set (ValidDepositTransitions (ds_Status s))" and "\<forall>st k. de_ok E st k"
    and "distinct (map ob_ID (es (s' target)))"
    and "\<forall>e\<in>set (es (s' target)). ob_ID e \<notin> or_ID ` set (dd_outbox db)"
  shows "deposit_step E k step s target es db =
    (commit_session E (s' target) (outboxEntriesToParams (de_now E) (es (s' target))) db, Inr ())"
proof -
  have "filter (\<lambda>x. ds_ID x = ds_ID s \<and> ds_Version x = ds_Version s) (dd_sessions db) \<noteq> []"
    using assms(2-4) by (auto simp: filter_empty_conv)
  with insert_fresh_entries [OF assms(7,8), of "de_now E"] assms(5,6) show ?thesis
    by (simp add: deposit_step_def Deposit_TransitionTo_def Deposit_CanTransitionTo_def commit_session_def
        deposit_TransitionWithOutbox_def TransitionDepositSession_def s'_def)
qed

lemma commit_session_row:
  assumes "distinct (map ds_ID (dd_sessions db))" "r \<in> set (dd_sessions db)" "ds_ID s = ds_ID r"
    and "ds_Version s = ds_Version r + 1"
  shows "deposit_transition_row E s r \<in> set (dd_sessions (commit_session E s rows db))"
  using assms by (force simp: commit_session_def)

lemma commit_session_distinct:
  "distinct (map ds_ID (dd_sessions (commit_session E s rows db))) \<longleftrightarrow> distinct (map ds_ID (dd_sessions db))"
  by (simp only: commit_session_simps)

text \<open>The identifiers of the entries of each step.\<close>

lemma detected_ids:
  "map ob_ID (detected_entries E tn i tx late s) = map (de_uuid E) ([1, 2, 3] @ (if late then [4] else []))"
  by (simp add: detected_entries_def depositNotificationEntries_def depositWebhookEntry_def depositEmailEntry_def
      Let_def known_type_defs)

lemma confirmed_ids: "map ob_ID (confirmed_entries E h c s) = map (de_uuid E) [1, 2, 3]"
  by (simp add: confirmed_entries_def depositNotificationEntries_def depositWebhookEntry_def depositEmailEntry_def
      Let_def known_type_defs)

lemma credit_ids: "map ob_ID (credit_entries L E h fee s) = map (de_uuid E) [4, 5]"
  by (simp add: credit_entries_def Let_def known_type_defs)

lemma ids_fresh:
  assumes "fresh_env E db" and "map ob_ID es = map (de_uuid E) ks" and "distinct ks" and "set ks \<subseteq> {..<8}"
  shows "distinct (map ob_ID es)" "\<forall>e\<in>set es. ob_ID e \<notin> or_ID ` set (dd_outbox db)"
proof -
  show "distinct (map ob_ID es)"
    using assms by (simp add: fresh_env_def distinct_map) (meson inj_on_subset)
  have "ob_ID e \<in> set (map (de_uuid E) ks)" if "e \<in> set es" for e
    using that unfolding assms(2) [symmetric] by simp
  with assms(1,4) show "\<forall>e\<in>set es. ob_ID e \<notin> or_ID ` set (dd_outbox db)"
    by (fastforce simp: fresh_env_def)
qed

lemma uuid_after:
  assumes "inj_on (de_uuid E) {..<8}" and "de_uuid E k \<notin> or_ID ` set tbl" and "map ob_ID es = map (de_uuid E) ks"
    and "k \<notin> set ks" and "k < 8" and "set ks \<subseteq> {..<8}"
  shows "de_uuid E k \<notin> or_ID ` set (tbl @ outboxEntriesToParams now es)"
proof -
  have "or_ID ` set (outboxEntriesToParams now es) = set (map ob_ID es)"
    by (simp add: outboxEntriesToParams_def image_image)
  also have "\<dots> = set (map (de_uuid E) ks)" by (simp only: assms(3))
  finally have "or_ID ` set (outboxEntriesToParams now es) = de_uuid E ` set ks" by simp
  moreover have "de_uuid E k \<noteq> de_uuid E j" if "j \<in> set ks" for j
    using that assms(4-6) inj_onD [OF assms(1), of k j] by auto
  ultimately show ?thesis using assms(2) by (auto simp: image_Un)
qed

lemma ids_after:
  assumes "inj_on (de_uuid E) {..<8}" and "\<forall>k\<in>set js. de_uuid E k \<notin> or_ID ` set tbl" and "map ob_ID es = map (de_uuid E) ks"
    and "map ob_ID fs = map (de_uuid E) js" and "set ks \<inter> set js = {}" and "set ks \<union> set js \<subseteq> {..<8}"
  shows "\<forall>e\<in>set fs. ob_ID e \<notin> or_ID ` set (tbl @ outboxEntriesToParams now es)"
proof
  fix e assume "e \<in> set fs"
  then have "ob_ID e \<in> set (map (de_uuid E) js)" unfolding assms(4) [symmetric] by simp
  then obtain j where j: "j \<in> set js" "ob_ID e = de_uuid E j" by auto
  with assms(2,5,6) show "ob_ID e \<notin> or_ID ` set (tbl @ outboxEntriesToParams now es)"
    unfolding j(2) by (intro uuid_after [OF assms(1) _ assms(3)]) auto
qed

text \<open>The confirmation of a session that is still at the version that was read.\<close>

definition confirmed_session :: "deposit_env \<Rightarrow> DepositSession \<Rightarrow> DepositSession" where
  "confirmed_session E s = s\<lparr>ds_ConfirmedAt := Some (de_now E), ds_Status := DepositSessionStatusConfirmed,
     ds_Version := ds_Version s + 1, ds_UpdatedAt := de_now E\<rparr>"

definition crediting_session :: "deposit_env \<Rightarrow> DepositSession \<Rightarrow> DepositSession" where
  "crediting_session E r = r\<lparr>ds_Status := DepositSessionStatusCrediting, ds_Version := ds_Version r + 1,
     ds_UpdatedAt := de_now E\<rparr>"

lemma confirm_ok:
  fixes h :: string and c :: int and L :: lib
  assumes "GetSession E 0 db tn i = Inr s" and "ds_Status s = DepositSessionStatusDetected"
    and conc: "conc 0 db = d" "\<And>x. conc (Suc 0) x = x" "\<And>x. conc 2 x = x"
    and dist: "distinct (map ds_ID (dd_sessions d))" and r: "r \<in> set (dd_sessions d)"
    and same: "ds_ID r = i" "ds_TenantID r = tn" "ds_Version r = ds_Version s"
    and ok: "\<forall>st k. de_ok E st k" and fresh: "fresh_env E d" and tenant: "deposit_GetTenant E d tn = Inr tenant"
  defines "s1 \<equiv> confirmed_session E s"
  defines "d1 \<equiv> commit_session E s1 (outboxEntriesToParams (de_now E) (confirmed_entries E h c s1)) d"
  defines "s2 \<equiv> crediting_session E (deposit_transition_row E s1 r)"
  defines "fee \<equiv> CalculateCollectionFee L (de_numeric E (ds_ReceivedAmount s)) (tn_FeeSchedule tenant)"
  shows "HandleTransactionConfirmed L E conc tn i h c db =
    (commit_session E s2 (outboxEntriesToParams (de_now E) (credit_entries L E h fee s2)) d1, Inr ())"
proof -
  from assms(1) have s: "ds_ID s = i" "ds_TenantID s = tn" by (auto dest: GetSession_ok)
  have "deposit_step E 0 ''handle tx confirmed'' (s\<lparr>ds_ConfirmedAt := Some (de_now E)\<rparr>) DepositSessionStatusConfirmed
      (confirmed_entries E h c) d = (d1, Inr ())"
    unfolding d1_def s1_def confirmed_session_def
    using r same s ok assms(2) ids_fresh [OF fresh confirmed_ids]
    by (subst deposit_step_ok [of r]) simp_all
  moreover have row: "deposit_transition_row E s1 r \<in> set (dd_sessions d1)"
    unfolding d1_def using dist r same s by (intro commit_session_row) (simp_all add: s1_def confirmed_session_def)
  moreover have d1: "distinct (map ds_ID (dd_sessions d1))" "dd_core d1 = dd_core d"
    using dist by (simp_all add: d1_def commit_session_distinct)
  ultimately have "initiateCredit L E conc tn i h d1 = deposit_step E 1 ''initiate credit''
      (deposit_transition_row E s1 r) DepositSessionStatusCrediting (credit_entries L E h fee) d1"
    using ok same tenant conc(3) GetSession_iff [OF d1(1), of E 1 tn i "deposit_transition_row E s1 r"]
    by (simp add: initiateCredit_def fee_def s1_def confirmed_session_def deposit_transition_row_def)
  also have "\<dots> = (commit_session E s2 (outboxEntriesToParams (de_now E) (credit_entries L E h fee s2)) d1, Inr ())"
  proof -
    have "\<forall>e\<in>set (credit_entries L E h fee x). ob_ID e \<notin> or_ID ` set (dd_outbox d1)" for x
      using fresh unfolding d1_def fresh_env_def commit_session_simps
      by (intro ids_after [OF _ _ confirmed_ids credit_ids]) auto
    then show ?thesis
      unfolding s2_def crediting_session_def
      using row ok ids_fresh(1) [OF fresh credit_ids]
      by (subst deposit_step_ok [of "deposit_transition_row E s1 r"]) (simp_all add: s1_def confirmed_session_def)
  qed
  finally show ?thesis
    using assms(1,2) conc(1,2) \<open>deposit_step E 0 _ _ _ _ d = (d1, Inr ())\<close>
    by (simp add: HandleTransactionConfirmed_def)
qed

section \<open>Recording a payment\<close>

definition new_tx :: "deposit_env \<Rightarrow> IncomingTransaction \<Rightarrow> deposit_db \<Rightarrow> bool" where
  "new_tx E tx db \<longleftrightarrow> (\<forall>x\<in>set (dd_txs db). \<not> (dx_Chain x = ic_Chain tx \<and> dx_TxHash x = ic_TxHash tx) \<and>
     dx_ID x \<noteq> de_tx_id E)"

definition stored_tx :: "deposit_env \<Rightarrow> DepositTransaction \<Rightarrow> DepositTransaction" where
  "stored_tx E dtx = dtx\<lparr>dx_ID := de_tx_id E, dx_Amount := de_numeric E (dx_Amount dtx), dx_Confirmed := False,
     dx_DetectedAt := de_now E, dx_ConfirmedAt := None, dx_CreatedAt := de_now E\<rparr>"

definition recorded :: "deposit_env \<Rightarrow> uuid \<Rightarrow> uuid \<Rightarrow> IncomingTransaction \<Rightarrow> DepositSession \<Rightarrow> deposit_db \<Rightarrow> deposit_db" where
  "recorded E tn i tx s db =
     db\<lparr>dd_txs := dd_txs db @ [stored_tx E (detected_tx E tn i tx s)],
        dd_sessions := AccumulateReceivedAmount E i tn (ic_Amount tx) (dd_sessions db)\<rparr>"

lemma record_ok:
  assumes "new_tx E tx db" and "de_ok E RecordTx 0" and "de_ok E RecordTx 1"
  shows "RecordDepositTx E (detected_tx E tn i tx s) tn i (ic_Amount tx) db = (recorded E tn i tx s db, Inr ())"
  using assms
  by (auto simp: RecordDepositTx_def CreateDepositTransaction_def new_tx_def recorded_def stored_tx_def detected_tx_def
      Let_def)

lemma new_tx_lookup:
  "new_tx E tx db \<Longrightarrow> \<exists>err. GetDepositTxByHash E' db (ic_Chain tx) (ic_TxHash tx) = Inl err"
  by (auto simp: GetDepositTxByHash_def new_tx_def find_None_iff split: option.splits)
     (auto simp: find_Some_iff)

lemma recorded_simps [simp]:
  "map ds_ID (dd_sessions (recorded E tn i tx s db)) = map ds_ID (dd_sessions db)"
  "dd_outbox (recorded E tn i tx s db) = dd_outbox db" "dd_core (recorded E tn i tx s db) = dd_core db"
  by (simp_all add: recorded_def)

lemma recorded_row:
  assumes "r \<in> set (dd_sessions db)" and "ds_ID r = i" and "ds_TenantID r = tn"
  shows "r\<lparr>ds_ReceivedAmount := ds_ReceivedAmount r + de_numeric E (ic_Amount tx), ds_UpdatedAt := de_now E\<rparr>
    \<in> set (dd_sessions (recorded E tn i tx s db))"
  using assms by (force simp: recorded_def AccumulateReceivedAmount_def)

lemma detect_known:
  assumes "x \<in> set (dd_txs db)" and "dx_Chain x = ic_Chain tx" and "dx_TxHash x = ic_TxHash tx"
    and "de_ok E GetTxByHashStmt 0"
  shows "fst (HandleTransactionDetected E alone tn i tx db) = db"
    and "GetSession E 0 db tn i = Inr s \<Longrightarrow> HandleTransactionDetected E alone tn i tx db = (db, Inr ())"
proof -
  have "\<exists>y. GetDepositTxByHash E db (ic_Chain tx) (ic_TxHash tx) = Inr y"
    using assms by (auto simp: GetDepositTxByHash_def find_None_iff split: option.splits)
  then show "fst (HandleTransactionDetected E alone tn i tx db) = db"
    and "GetSession E 0 db tn i = Inr s \<Longrightarrow> HandleTransactionDetected E alone tn i tx db = (db, Inr ())"
    by (auto simp: HandleTransactionDetected_def split: sum.splits)
qed

lemma detect_records:
  assumes "GetSession E 0 db tn i = Inr s" and "new_tx E tx db" and "de_ok E RecordTx 0" and "de_ok E RecordTx 1"
  shows "HandleTransactionDetected E alone tn i tx db =
    (if Deposit_CanTransitionTo s DepositSessionStatusDetected
     then deposit_step E 0 ''handle tx detected'' (s\<lparr>ds_ReceivedAmount := ds_ReceivedAmount s + ic_Amount tx,
            ds_DetectedAt := Some (de_now E)\<rparr>) DepositSessionStatusDetected
            (detected_entries E tn i tx (ds_Status s = DepositSessionStatusExpired \<or>
               ds_Status s = DepositSessionStatusCancelled)) (recorded E tn i tx s db)
     else (recorded E tn i tx s db, Inr ()))"
  using assms(1) new_tx_lookup [OF assms(2), of E] record_ok [OF assms(2-4), of tn i s]
  by (auto simp: HandleTransactionDetected_def)

section \<open>Crediting\<close>

definition credited_session :: "deposit_env \<Rightarrow> decimal \<Rightarrow> DepositSession \<Rightarrow> DepositSession" where
  "credited_session E fee s = s\<lparr>ds_FeeAmount := fee, ds_NetAmount := ds_ReceivedAmount s - fee,
     ds_CreditedAt := Some (de_now E), ds_Status := DepositSessionStatusCredited,
     ds_Version := ds_Version s + 1, ds_UpdatedAt := de_now E\<rparr>"

definition routed_session :: "deposit_env \<Rightarrow> DepositSession \<Rightarrow> DepositSession" where
  "routed_session E r = r\<lparr>ds_Status := (if ds_SettlementPref r = SettlementPreferenceAutoConvert
       then DepositSessionStatusSettling else DepositSessionStatusHeld),
     ds_Version := ds_Version r + 1, ds_UpdatedAt := de_now E\<rparr>"

lemma settle_ids:
  "map ob_ID [deposit_intent E 4 i tn IntentSettleDeposit p, deposit_event E 5 i tn EventDepositSessionSettling q] =
   map (de_uuid E) [4, 5]"
  by (simp add: known_type_defs)

lemma hold_ids:
  "map ob_ID (deposit_event E 4 i tn EventDepositSessionHeld p #
     depositNotificationEntries E 5 i tn EventDepositSessionHeld q) = map (de_uuid E) [4, 5, 6]"
  by (simp add: known_type_defs depositNotificationEntries_def depositWebhookEntry_def depositEmailEntry_def)

lemma credited_ids:
  "map ob_ID (deposit_event E (Suc 0) i tn EventDepositSessionCredited p #
     depositNotificationEntries E 2 i tn EventDepositSessionCredited q) = map (de_uuid E) [1, 2, 3]"
  by (simp add: known_type_defs depositNotificationEntries_def depositWebhookEntry_def depositEmailEntry_def)

text \<open>A step whose entries draw new identifiers.\<close>

lemma deposit_step_ids:
  fixes E :: deposit_env and s :: DepositSession
  defines "s' \<equiv> \<lambda>target. s\<lparr>ds_Status := target, ds_Version := ds_Version s + 1, ds_UpdatedAt := de_now E\<rparr>"
  assumes "r \<in> set (dd_sessions db)" "ds_ID s = ds_ID r" "ds_Version s = ds_Version r"
    and "target \<in> set (ValidDepositTransitions (ds_Status s))" and "\<forall>st k. de_ok E st k"
    and ids: "\<And>x. map ob_ID (es x) = map (de_uuid E) ks" and "distinct ks" and "set ks \<subseteq> {..<8}"
    and "inj_on (de_uuid E) {..<8}" and "\<forall>k\<in>set ks. de_uuid E k \<notin> or_ID ` set (dd_outbox db)"
  shows "deposit_step E k step s target es db =
    (commit_session E (s' target) (outboxEntriesToParams (de_now E) (es (s' target))) db, Inr ())"
proof -
  have "distinct (map ob_ID (es (s' target)))"
    unfolding ids using assms(8-10) by (simp add: distinct_map) (meson inj_on_subset)
  moreover have "ob_ID e \<notin> or_ID ` set (dd_outbox db)" if "e \<in> set (es (s' target))" for e
    using ids_after [OF assms(10,11) _ ids, of "[]" "[]"] assms(9) that by (fastforce simp: outboxEntriesToParams_def)
  ultimately show ?thesis
    unfolding s'_def using assms(2-6) by (intro deposit_step_ok [of r]) simp_all
qed

lemma route_ok:
  assumes "distinct (map ds_ID (dd_sessions d))" and "r \<in> set (dd_sessions d)" and "ds_ID r = i" "ds_TenantID r = tn"
    and "ds_Status r = DepositSessionStatusCredited" and "\<forall>st k. de_ok E st k" and "inj_on (de_uuid E) {..<8}"
    and "\<forall>k\<in>{4, 5, 6}. de_uuid E k \<notin> or_ID ` set (dd_outbox d)"
  shows "\<exists>rows. routeAfterCredit E alone tn i d = (commit_session E (routed_session E r) rows d, Inr ())"
proof -
  have "GetSession E 1 d tn i = Inr r" using assms by (simp add: GetSession_iff)
  moreover have "\<exists>rows. initiateSettlement E alone r d = (commit_session E (r\<lparr>ds_Status := DepositSessionStatusSettling,
      ds_Version := ds_Version r + 1, ds_UpdatedAt := de_now E\<rparr>) rows d, Inr ())"
    unfolding initiateSettlement_def using assms
    by (subst deposit_step_ids [OF _ _ _ _ _ settle_ids, of r]) (simp_all, blast)
  moreover have "\<exists>rows. holdSession E alone r d = (commit_session E (r\<lparr>ds_Status := DepositSessionStatusHeld,
      ds_Version := ds_Version r + 1, ds_UpdatedAt := de_now E\<rparr>) rows d, Inr ())"
    unfolding holdSession_def Let_def using assms
    by (subst deposit_step_ids [OF _ _ _ _ _ hold_ids, of r]) (simp_all, blast)
  ultimately show ?thesis by (simp add: routeAfterCredit_def routed_session_def)
qed

lemma credit_ok:
  fixes L :: lib
  assumes "GetSession E 0 db tn i = Inr s" and "ds_Status s = DepositSessionStatusCrediting" and "ir_Success res"
    and dist: "distinct (map ds_ID (dd_sessions db))" and ok: "\<forall>st k. de_ok E st k" and fresh: "fresh_env E db"
    and tenant: "deposit_GetTenant E db tn = Inr tenant"
  defines "s1 \<equiv> credited_session E (CalculateCollectionFee L (ds_ReceivedAmount s) (tn_FeeSchedule tenant)) s"
  shows "\<exists>rows rows'. HandleCreditResult L E alone tn i res db =
    (commit_session E (routed_session E (deposit_transition_row E s1 s)) rows' (commit_session E s1 rows db), Inr ())"
proof -
  from assms(1) have s: "s \<in> set (dd_sessions db)" "ds_ID s = i" "ds_TenantID s = tn" by (auto dest: GetSession_ok)
  define rows where "rows = outboxEntriesToParams (de_now E)
    (deposit_event E (Suc 0) i tn EventDepositSessionCredited (DepositData (session_event s1 DepositSessionStatusCredited
        (ds_NetAmount s1))) #
     depositNotificationEntries E 2 i tn EventDepositSessionCredited
       (session_event s1 DepositSessionStatusCredited (ds_NetAmount s1)))"
  let ?d = "commit_session E s1 rows db" and ?r = "deposit_transition_row E s1 s"
  have step: "HandleCreditResult L E alone tn i res db = routeAfterCredit E alone tn i ?d"
    using assms(1-3) tenant s ok fresh
    by (simp add: HandleCreditResult_def Let_def rows_def s1_def credited_session_def)
       (subst deposit_step_ids [OF _ _ _ _ _ credited_ids, of s]; simp add: fresh_env_def)
  have "?r \<in> set (dd_sessions ?d)"
    using dist s by (intro commit_session_row) (simp_all add: s1_def credited_session_def)
  moreover have "de_uuid E k \<notin> or_ID ` set (dd_outbox ?d)" if "k \<in> {4, 5, 6}" for k
  proof -
    from that have "k < 8 \<and> k \<notin> set [1, 2, 3]" by auto
    with fresh show ?thesis unfolding rows_def commit_session_simps fresh_env_def
      by (intro uuid_after [OF _ _ credited_ids]) simp_all
  qed
  ultimately show ?thesis
    unfolding step using dist s ok fresh route_ok [of ?d ?r i tn E]
    by (auto simp: commit_session_distinct fresh_env_def s1_def credited_session_def)
qed

section \<open>The whole life\<close>

text \<open>A \<^verbatim>\<open>NUMERIC(28,8)\<close> column keeps amounts with at most 8 decimals.\<close>

definition numeric_exact :: "deposit_env \<Rightarrow> bool" where
  "numeric_exact E \<longleftrightarrow> (\<forall>x. multiple_of (1 / 10 ^ 8) x \<longrightarrow> de_numeric E x = x)"

definition apart :: "deposit_env \<Rightarrow> deposit_env \<Rightarrow> bool" where
  "apart E E' \<longleftrightarrow> de_uuid E ` {..<8} \<inter> de_uuid E' ` {..<8} = {}"

lemma multiple_of_add: "multiple_of q x \<Longrightarrow> multiple_of q y \<Longrightarrow> multiple_of q (x + y)"
  by (auto simp: multiple_of_def) (metis distrib_right of_int_add)

lemma multiple_of_minus: "multiple_of q x \<Longrightarrow> multiple_of q y \<Longrightarrow> multiple_of q (x - y)"
  by (auto simp: multiple_of_def) (metis left_diff_distrib of_int_diff)

lemma collection_fee_multiple:
  assumes "round_law L"
  shows "multiple_of (1 / 10 ^ 8) (CalculateCollectionFee L amount f)"
proof (cases "CalculateFee L f amount ''crypto_collection''")
  case (Inr fee)
  then have "multiple_of (1 / 10 ^ 8) fee"
    using assms round8_multiple [OF assms] clamp_min_multiple [OF assms]
    by (auto simp: CalculateFee_ok clamp_max_def)
  with Inr show ?thesis by (simp add: CalculateCollectionFee_def)
qed (simp add: CalculateCollectionFee_def)

lemma params_ids: "or_ID ` set (outboxEntriesToParams now es) = set (map ob_ID es)"
  by (simp add: outboxEntriesToParams_def image_image)

lemma fresh_commit:
  assumes "fresh_env E' db" and "apart E E'" and "map ob_ID es = map (de_uuid E) ks" and "set ks \<subseteq> {..<8}"
  shows "fresh_env E' (commit_session E s (outboxEntriesToParams now es) db)"
proof -
  have "or_ID ` set (outboxEntriesToParams now es) \<subseteq> de_uuid E ` {..<8}"
    unfolding params_ids assms(3) using assms(4) by auto
  with assms(2) have "de_uuid E' k \<notin> or_ID ` set (outboxEntriesToParams now es)" if "k < 8" for k
    using that unfolding apart_def by blast
  with assms(1) show ?thesis by (simp add: fresh_env_def image_Un)
qed

text \<open>A detected payment of a session that waits for it.\<close>

definition detected_session :: "deposit_env \<Rightarrow> IncomingTransaction \<Rightarrow> DepositSession \<Rightarrow> DepositSession" where
  "detected_session E tx s = s\<lparr>ds_ReceivedAmount := ds_ReceivedAmount s + ic_Amount tx, ds_DetectedAt := Some (de_now E),
     ds_Status := DepositSessionStatusDetected, ds_Version := ds_Version s + 1, ds_UpdatedAt := de_now E\<rparr>"

lemma detect_ok:
  assumes dist: "distinct (map ds_ID (dd_sessions db))" and s: "s \<in> set (dd_sessions db)" "ds_ID s = i" "ds_TenantID s = tn"
    and "ds_Status s = DepositSessionStatusPendingPayment" and ok: "\<forall>st k. de_ok E st k" and "fresh_env E db"
    and "new_tx E tx db"
  defines "r \<equiv> s\<lparr>ds_ReceivedAmount := ds_ReceivedAmount s + de_numeric E (ic_Amount tx), ds_UpdatedAt := de_now E\<rparr>"
  defines "d \<equiv> commit_session E (detected_session E tx s) (outboxEntriesToParams (de_now E)
      (detected_entries E tn i tx False (detected_session E tx s))) (recorded E tn i tx s db)"
  shows "HandleTransactionDetected E alone tn i tx db = (d, Inr ())"
    and "deposit_transition_row E (detected_session E tx s) r \<in> set (dd_sessions d)"
proof -
  have row: "r \<in> set (dd_sessions (recorded E tn i tx s db))" unfolding r_def using s by (rule recorded_row)
  have "GetSession E 0 db tn i = Inr s" using dist s ok by (simp add: GetSession_iff)
  then have "HandleTransactionDetected E alone tn i tx db = deposit_step E 0 ''handle tx detected''
      (s\<lparr>ds_ReceivedAmount := ds_ReceivedAmount s + ic_Amount tx, ds_DetectedAt := Some (de_now E)\<rparr>)
      DepositSessionStatusDetected (detected_entries E tn i tx False) (recorded E tn i tx s db)"
    using detect_records [OF _ assms(8), of tn i s] assms(5) ok by (simp add: Deposit_CanTransitionTo_def)
  also have "\<dots> = (d, Inr ())"
    unfolding d_def detected_session_def
    using row assms(5,7) ok s
    by (subst deposit_step_ids [OF _ _ _ _ _ detected_ids, of r]) (simp_all add: r_def fresh_env_def)
  finally show "HandleTransactionDetected E alone tn i tx db = (d, Inr ())" .
  show "deposit_transition_row E (detected_session E tx s) r \<in> set (dd_sessions d)"
    unfolding d_def using row dist s
    by (intro commit_session_row) (simp_all add: r_def detected_session_def)
qed

lemma recorded_fresh [simp]: "fresh_env E' (recorded E tn i tx s db) \<longleftrightarrow> fresh_env E' db"
  by (simp add: fresh_env_def)

lemma credit_row_in:
  "\<exists>q\<in>set (outboxEntriesToParams now (credit_entries L E h fee s)). or_EventType q = IntentCreditDeposit \<and>
     or_AggregateID q = ds_ID s \<and> (\<exists>p. or_Payload q = Some (DepositData (CreditDeposit p)) \<and>
     cd_GrossAmount p = ds_ReceivedAmount s \<and> cd_FeeAmount p = fee \<and> cd_NetAmount p = ds_ReceivedAmount s - fee)"
  using credit_known
  by (simp add: credit_entries_def Let_def outboxEntriesToParams_def MustNewOutboxIntent_def NewOutboxIntent_def
      ValidateEventType_def)

text \<open>What a confirmation and a credit leave in the tables.\<close>

lemma confirm_row:
  assumes dist: "distinct (map ds_ID (dd_sessions d))" and r: "r \<in> set (dd_sessions d)" "ds_ID r = i" "ds_TenantID r = tn"
    and detected: "ds_Status r = DepositSessionStatusDetected" and ok: "\<forall>st k. de_ok E st k" and fresh: "fresh_env E d"
    and num: "de_numeric E (ds_ReceivedAmount r) = ds_ReceivedAmount r"
    and tenant: "deposit_GetTenant E d tn = Inr tenant"
  shows "\<exists>d' r' q. HandleTransactionConfirmed L E alone tn i h c d = (d', Inr ()) \<and>
    r' \<in> set (dd_sessions d') \<and> ds_ID r' = i \<and> ds_TenantID r' = tn \<and> ds_ReceivedAmount r' = ds_ReceivedAmount r \<and>
    ds_Status r' = DepositSessionStatusCrediting \<and> ds_SettlementPref r' = ds_SettlementPref r \<and>
    distinct (map ds_ID (dd_sessions d')) \<and> dd_core d' = dd_core d \<and>
    (\<forall>E'. apart E E' \<longrightarrow> fresh_env E' d \<longrightarrow> fresh_env E' d') \<and>
    q \<in> set (dd_outbox d') \<and> or_EventType q = IntentCreditDeposit \<and> or_AggregateID q = i \<and>
    (\<exists>p. or_Payload q = Some (DepositData (CreditDeposit p)) \<and>
       cd_FeeAmount p = CalculateCollectionFee L (ds_ReceivedAmount r) (tn_FeeSchedule tenant) \<and>
       cd_NetAmount p = ds_ReceivedAmount r - CalculateCollectionFee L (ds_ReceivedAmount r) (tn_FeeSchedule tenant))"
proof -
  let ?fee = "CalculateCollectionFee L (ds_ReceivedAmount r) (tn_FeeSchedule tenant)"
  define s1 where "s1 = confirmed_session E r"
  define s2 where "s2 = crediting_session E (deposit_transition_row E s1 r)"
  define d1 where "d1 = commit_session E s1 (outboxEntriesToParams (de_now E) (confirmed_entries E h c s1)) d"
  define d2 where "d2 = commit_session E s2 (outboxEntriesToParams (de_now E) (credit_entries L E h ?fee s2)) d1"
  have "GetSession E 0 d tn i = Inr r" using dist r ok by (simp add: GetSession_iff)
  then have call: "HandleTransactionConfirmed L E alone tn i h c d = (d2, Inr ())"
    using confirm_ok [where conc = alone and db = d and d = d and r = r, OF _ detected refl refl refl dist r(1-3) refl ok
        fresh tenant, of L h c] num
    by (simp add: d2_def d1_def s2_def s1_def)
  have d1: "distinct (map ds_ID (dd_sessions d1))" "deposit_transition_row E s1 r \<in> set (dd_sessions d1)"
    using dist r unfolding d1_def
    by (simp_all only: commit_session_distinct) (intro commit_session_row; simp add: s1_def confirmed_session_def)
  then have "deposit_transition_row E s2 (deposit_transition_row E s1 r) \<in> set (dd_sessions d2)"
    unfolding d2_def by (intro commit_session_row) (simp_all add: s2_def crediting_session_def)
  moreover have "distinct (map ds_ID (dd_sessions d2))" "dd_core d2 = dd_core d"
    using d1(1) by (simp_all add: d2_def d1_def commit_session_distinct)
  moreover have "\<forall>E'. apart E E' \<longrightarrow> fresh_env E' d \<longrightarrow> fresh_env E' d2"
    unfolding d2_def d1_def by (intro allI impI fresh_commit [OF _ _ credit_ids] fresh_commit [OF _ _ confirmed_ids]) simp_all
  moreover obtain q p where "q \<in> set (dd_outbox d2)" "or_EventType q = IntentCreditDeposit" "or_AggregateID q = ds_ID s2"
      "or_Payload q = Some (DepositData (CreditDeposit p))" "cd_FeeAmount p = ?fee"
      "cd_NetAmount p = ds_ReceivedAmount s2 - ?fee"
    using credit_row_in [of "de_now E" L E h ?fee s2] unfolding d2_def commit_session_simps set_append by blast
  moreover have "ds_ID s2 = i" "ds_ReceivedAmount s2 = ds_ReceivedAmount r"
    using r num by (simp_all add: s2_def crediting_session_def s1_def confirmed_session_def deposit_transition_row_def)
  ultimately show ?thesis
    using call r num
    by (intro exI [of _ d2] exI [of _ "deposit_transition_row E s2 (deposit_transition_row E s1 r)"] exI [of _ q])
       (simp add: deposit_transition_row_def s2_def crediting_session_def s1_def confirmed_session_def)
qed

lemma credit_row:
  assumes dist: "distinct (map ds_ID (dd_sessions d))" and s: "s \<in> set (dd_sessions d)" "ds_ID s = i" "ds_TenantID s = tn"
    and "ds_Status s = DepositSessionStatusCrediting" and ok: "\<forall>st k. de_ok E st k" and "fresh_env E d" and "ir_Success res"
    and tenant: "deposit_GetTenant E d tn = Inr tenant" and law: "round_law L" "multiple_of (1 / 10 ^ 8) (ds_ReceivedAmount s)"
    and num: "numeric_exact E"
  shows "\<exists>d' r rows. HandleCreditResult L E alone tn i res d = (d', Inr ()) \<and> r \<in> set (dd_sessions d') \<and>
    ds_ID r = i \<and> ds_Status r = (if ds_SettlementPref s = SettlementPreferenceAutoConvert
       then DepositSessionStatusSettling else DepositSessionStatusHeld) \<and>
    ds_ReceivedAmount r = ds_ReceivedAmount s \<and>
    ds_FeeAmount r = CalculateCollectionFee L (ds_ReceivedAmount s) (tn_FeeSchedule tenant) \<and>
    ds_NetAmount r = ds_ReceivedAmount s - ds_FeeAmount r \<and> dd_outbox d' = dd_outbox d @ rows \<and>
    ds_TenantID r = tn \<and> distinct (map ds_ID (dd_sessions d'))"
proof -
  let ?fee = "CalculateCollectionFee L (ds_ReceivedAmount s) (tn_FeeSchedule tenant)"
  define s1 where "s1 = credited_session E ?fee s"
  define s2 where "s2 = routed_session E (deposit_transition_row E s1 s)"
  have n: "de_numeric E (ds_ReceivedAmount s) = ds_ReceivedAmount s" "de_numeric E ?fee = ?fee"
      "de_numeric E (ds_ReceivedAmount s - ?fee) = ds_ReceivedAmount s - ?fee"
    using num law collection_fee_multiple [OF law(1)] by (auto simp: numeric_exact_def multiple_of_minus)
  have "GetSession E 0 d tn i = Inr s" using dist s ok by (simp add: GetSession_iff)
  with assms obtain rows rows' where call: "HandleCreditResult L E alone tn i res d =
      (commit_session E s2 rows' (commit_session E s1 rows d), Inr ())"
    using credit_ok [of E d tn i s res tenant L] unfolding s1_def s2_def by blast
  have "deposit_transition_row E s1 s \<in> set (dd_sessions (commit_session E s1 rows d))"
    using dist s by (intro commit_session_row) (simp_all add: s1_def credited_session_def)
  then have "deposit_transition_row E s2 (deposit_transition_row E s1 s) \<in>
      set (dd_sessions (commit_session E s2 rows' (commit_session E s1 rows d)))"
    using dist by - (rule commit_session_row,
      simp_all add: commit_session_distinct s2_def routed_session_def)
  moreover have "distinct (map ds_ID (dd_sessions (commit_session E s2 rows' (commit_session E s1 rows d))))"
    using dist by (simp only: commit_session_distinct)
  ultimately show ?thesis using call s n
    by (intro exI [of _ "commit_session E s2 rows' (commit_session E s1 rows d)"]
          exI [of _ "deposit_transition_row E s2 (deposit_transition_row E s1 s)"] exI [of _ "rows @ rows'"])
       (simp add: deposit_transition_row_def s2_def routed_session_def s1_def credited_session_def)
qed

section \<open>Properties\<close>

text \<open>
  C12: A deposit whose payment is detected, confirmed and credited without failures ends held, or
  on its way to conversion when the tenant prefers that; it has received what it had before plus
  the payment, its fee is the tenant's collection fee of that sum and its net amount the rest,
  and the credit intent it left in the outbox carries the same fee and net amount.
\<close>

theorem deposit_flow_exact:
  assumes dist: "distinct (map ds_ID (dd_sessions db))" and s: "s \<in> set (dd_sessions db)"
    and pending: "ds_Status s = DepositSessionStatusPendingPayment" and new: "new_tx E1 tx db"
    and ok: "\<forall>E\<in>{E1, E2, E3}. (\<forall>st k. de_ok E st k) \<and> fresh_env E db \<and> numeric_exact E"
    and apart: "apart E1 E2" "apart E1 E3" "apart E2 E3"
    and tenant: "deposit_GetTenant E2 db (ds_TenantID s) = Inr tenant" "deposit_GetTenant E3 db (ds_TenantID s) = Inr tenant"
    and laws: "round_law L" "multiple_of (1 / 10 ^ 8) (ds_ReceivedAmount s)" "multiple_of (1 / 10 ^ 8) (ic_Amount tx)"
    and res: "ir_Success res"
  shows "\<exists>db1 db2 db3 s'. HandleTransactionDetected E1 alone (ds_TenantID s) (ds_ID s) tx db = (db1, Inr ()) \<and>
    HandleTransactionConfirmed L E2 alone (ds_TenantID s) (ds_ID s) h c db1 = (db2, Inr ()) \<and>
    HandleCreditResult L E3 alone (ds_TenantID s) (ds_ID s) res db2 = (db3, Inr ()) \<and>
    s' \<in> set (dd_sessions db3) \<and> ds_ID s' = ds_ID s \<and>
    ds_Status s' = (if ds_SettlementPref s = SettlementPreferenceAutoConvert
       then DepositSessionStatusSettling else DepositSessionStatusHeld) \<and>
    ds_ReceivedAmount s' = ds_ReceivedAmount s + ic_Amount tx \<and>
    ds_FeeAmount s' = CalculateCollectionFee L (ds_ReceivedAmount s') (tn_FeeSchedule tenant) \<and>
    ds_NetAmount s' + ds_FeeAmount s' = ds_ReceivedAmount s' \<and>
    (\<exists>q\<in>set (dd_outbox db3). or_EventType q = IntentCreditDeposit \<and> or_AggregateID q = ds_ID s \<and>
       (\<exists>p. or_Payload q = Some (DepositData (CreditDeposit p)) \<and> cd_FeeAmount p = ds_FeeAmount s' \<and>
            cd_NetAmount p = ds_NetAmount s'))"
proof -
  let ?tn = "ds_TenantID s" and ?i = "ds_ID s" and ?a = "ds_ReceivedAmount s + ic_Amount tx"
  let ?fee = "CalculateCollectionFee L ?a (tn_FeeSchedule tenant)"
  have a: "multiple_of (1 / 10 ^ 8) ?a" "multiple_of (1 / 10 ^ 8) ?fee" "multiple_of (1 / 10 ^ 8) (?a - ?fee)"
    using laws collection_fee_multiple [OF laws(1)] by (simp_all add: multiple_of_add multiple_of_minus)
  then have num: "de_numeric E ?a = ?a" "de_numeric E ?fee = ?fee" "de_numeric E (?a - ?fee) = ?a - ?fee"
    if "E \<in> {E1, E2, E3}" for E
    using that ok unfolding numeric_exact_def by blast+
  define s0 where "s0 = detected_session E1 tx s"
  define d1 where "d1 = commit_session E1 s0 (outboxEntriesToParams (de_now E1)
      (detected_entries E1 ?tn ?i tx False s0)) (recorded E1 ?tn ?i tx s db)"
  obtain r1 where call1: "HandleTransactionDetected E1 alone ?tn ?i tx db = (d1, Inr ())"
    and r1: "r1 \<in> set (dd_sessions d1)" "ds_ID r1 = ?i" "ds_TenantID r1 = ?tn" "ds_ReceivedAmount r1 = ?a"
      "ds_Status r1 = DepositSessionStatusDetected" "ds_SettlementPref r1 = ds_SettlementPref s"
    using detect_ok [OF dist s refl refl pending _ _ new] ok num [of E1]
    by (auto simp: d1_def s0_def detected_session_def deposit_transition_row_def)
  have d1: "distinct (map ds_ID (dd_sessions d1))" "dd_core d1 = dd_core db" "fresh_env E2 d1" "fresh_env E3 d1"
    using dist ok apart
    by (simp_all add: d1_def commit_session_distinct fresh_commit [OF _ _ detected_ids])
  obtain d2 r2 q where call2: "HandleTransactionConfirmed L E2 alone ?tn ?i h c d1 = (d2, Inr ())"
    and r2: "r2 \<in> set (dd_sessions d2)" "ds_ID r2 = ?i" "ds_TenantID r2 = ?tn" "ds_ReceivedAmount r2 = ?a"
      "ds_Status r2 = DepositSessionStatusCrediting" "ds_SettlementPref r2 = ds_SettlementPref s"
      "distinct (map ds_ID (dd_sessions d2))" "dd_core d2 = dd_core db" "fresh_env E3 d2"
    and q: "q \<in> set (dd_outbox d2)" "or_EventType q = IntentCreditDeposit" "or_AggregateID q = ?i"
      "\<exists>p. or_Payload q = Some (DepositData (CreditDeposit p)) \<and> cd_FeeAmount p = ?fee \<and> cd_NetAmount p = ?a - ?fee"
    using confirm_row [of d1 r1 ?i ?tn E2 tenant L h c] d1 r1 ok num(1) [of E2] tenant(1) apart(3) by auto
  obtain d3 r3 rows where "HandleCreditResult L E3 alone ?tn ?i res d2 = (d3, Inr ())"
    and "r3 \<in> set (dd_sessions d3)" "ds_ID r3 = ?i" "ds_ReceivedAmount r3 = ?a" "ds_FeeAmount r3 = ?fee"
      "ds_NetAmount r3 = ?a - ?fee" "dd_outbox d3 = dd_outbox d2 @ rows"
      "ds_Status r3 = (if ds_SettlementPref s = SettlementPreferenceAutoConvert
         then DepositSessionStatusSettling else DepositSessionStatusHeld)"
    using credit_row [of d2 r2 ?i ?tn E3 res tenant L] r2 ok a(1) tenant(2) laws(1) res by auto
  with call1 call2 q show ?thesis
    by (intro exI [of _ d1] exI [of _ d2] exI [of _ d3] exI [of _ r3]) auto
qed

text \<open>
  C13: However the calls of the deposit engine interleave with each other, every call only makes
  moves of the abstract machine; in every state reached from empty tables a session has at most one
  credit intent and exactly one once it is credited, and net amount and fee of every credit intent
  add up to its gross amount.
\<close>

theorem deposit_credited_once:
  assumes "dd_sessions db0 = []" and "dd_outbox db0 = []" and "deposit_moves\<^sup>*\<^sup>* db0 db" and "rely conc"
  shows "\<exists>db'. fst (deposit_exec L parse E conc c tn i db) = db' \<and> deposit_moves\<^sup>*\<^sup>* db0 db' \<and>
    (\<forall>s\<in>set (dd_sessions db'). length (credit_rows (ds_ID s) (dd_outbox db')) \<le> 1 \<and>
       (ds_Status s \<in> {DepositSessionStatusCredited, DepositSessionStatusSettling, DepositSessionStatusSettled,
          DepositSessionStatusHeld} \<longrightarrow> length (credit_rows (ds_ID s) (dd_outbox db')) = 1)) \<and>
    (\<forall>q\<in>set (dd_outbox db'). or_EventType q = IntentCreditDeposit \<longrightarrow>
       (\<exists>p. or_Payload q = Some (DepositData (CreditDeposit p)) \<and> cd_SessionID p = or_AggregateID q \<and>
            cd_NetAmount p + cd_FeeAmount p = cd_GrossAmount p))"
proof -
  have inv0: "credit_inv db0" using assms(1,2) by (simp add: credit_inv_def)
  then have "distinct (map ds_ID (dd_sessions db))"
    using credit_inv_run [OF assms(3)] by (simp add: credit_inv_def)
  then have run: "deposit_moves\<^sup>*\<^sup>* db0 (fst (deposit_exec L parse E conc c tn i db))"
    using assms(3,4) by (intro rtranclp_trans [OF assms(3)] deposit_exec_run)
  with credit_inv_run [OF run inv0] show ?thesis
    by (auto simp: credit_inv_def past_crediting_def)
qed

text \<open>
  C36: A second payment that arrives while the first is being confirmed is lost: the confirmation
  writes back the amount it read, so the session goes on to be credited with the old amount
  although the new transaction is recorded.
\<close>

theorem payment_during_confirmation_lost:
  assumes dist: "distinct (map ds_ID (dd_sessions db))" and s: "s \<in> set (dd_sessions db)"
    and detected: "ds_Status s = DepositSessionStatusDetected" and new: "new_tx E' tx db"
    and ok: "\<forall>st k. de_ok E st k" "\<forall>st k. de_ok E' st k" and fresh: "fresh_env E db"
    and tenant: "deposit_GetTenant E db (ds_TenantID s) = Inr tenant"
    and num: "de_numeric E (ds_ReceivedAmount s) = ds_ReceivedAmount s"
  shows "\<exists>db' s' x. HandleTransactionConfirmed L E
      (\<lambda>k d. if k = 0 then fst (HandleTransactionDetected E' alone (ds_TenantID s) (ds_ID s) tx d) else d)
      (ds_TenantID s) (ds_ID s) h c db = (db', Inr ()) \<and>
    s' \<in> set (dd_sessions db') \<and> ds_ID s' = ds_ID s \<and> ds_Status s' = DepositSessionStatusCrediting \<and>
    ds_ReceivedAmount s' = ds_ReceivedAmount s \<and>
    x \<in> set (dd_txs db') \<and> dx_SessionID x = ds_ID s \<and> dx_TxHash x = ic_TxHash tx \<and>
    dx_Amount x = de_numeric E' (ic_Amount tx)"
proof -
  let ?tn = "ds_TenantID s" and ?i = "ds_ID s" and ?d = "recorded E' (ds_TenantID s) (ds_ID s) tx s db"
  let ?conc = "\<lambda>k d. if k = 0 then fst (HandleTransactionDetected E' alone ?tn ?i tx d) else d"
  let ?r = "s\<lparr>ds_ReceivedAmount := ds_ReceivedAmount s + de_numeric E' (ic_Amount tx), ds_UpdatedAt := de_now E'\<rparr>"
  have get: "GetSession E 0 db ?tn ?i = Inr s" "GetSession E' 0 db ?tn ?i = Inr s"
    using dist s ok by (simp_all add: GetSession_iff)
  have conc: "?conc 0 db = ?d"
    using detect_records [OF get(2) new] ok(2) detected by (simp add: Deposit_CanTransitionTo_def)
  have r: "?r \<in> set (dd_sessions ?d)" using s by (intro recorded_row) simp_all
  have d: "distinct (map ds_ID (dd_sessions ?d))" "fresh_env E ?d" "deposit_GetTenant E ?d ?tn = Inr tenant"
    using dist fresh tenant by (simp_all only: recorded_simps recorded_fresh)
  define s1 where "s1 = confirmed_session E s"
  define s2 where "s2 = crediting_session E (deposit_transition_row E s1 ?r)"
  obtain rows rows' where call: "HandleTransactionConfirmed L E ?conc ?tn ?i h c db =
      (commit_session E s2 rows' (commit_session E s1 rows ?d), Inr ())"
    using confirm_ok [where conc = ?conc and r = ?r, OF get(1) detected conc _ _ d(1) r _ _ _ ok(1) d(2,3), of L h c]
    unfolding s1_def s2_def by auto
  have "deposit_transition_row E s1 ?r \<in> set (dd_sessions (commit_session E s1 rows ?d))"
    by (rule commit_session_row [OF d(1) r]) (simp_all add: s1_def confirmed_session_def)
  then have "deposit_transition_row E s2 (deposit_transition_row E s1 ?r) \<in>
      set (dd_sessions (commit_session E s2 rows' (commit_session E s1 rows ?d)))"
    using d(1) by - (rule commit_session_row, simp_all add: commit_session_distinct s2_def crediting_session_def)
  moreover have "stored_tx E' (detected_tx E' ?tn ?i tx s) \<in> set (dd_txs (commit_session E s2 rows' (commit_session E s1 rows ?d)))"
    by (simp add: recorded_def)
  ultimately show ?thesis
    using call num
    by (intro exI [of _ "commit_session E s2 rows' (commit_session E s1 rows ?d)"]
          exI [of _ "deposit_transition_row E s2 (deposit_transition_row E s1 ?r)"]
          exI [of _ "stored_tx E' (detected_tx E' ?tn ?i tx s)"])
       (simp add: deposit_transition_row_def s2_def crediting_session_def s1_def confirmed_session_def
          stored_tx_def detected_tx_def)
qed

text \<open>
  C37: When the transition to DETECTED fails after the transaction is recorded, no redelivery
  repairs it: the transaction is then known, every later call for it leaves the tables as they
  are, and the session waits for a payment it has received.
\<close>

theorem detected_payment_stuck:
  assumes dist: "distinct (map ds_ID (dd_sessions db))" and s: "s \<in> set (dd_sessions db)"
    and pending: "ds_Status s = DepositSessionStatusPendingPayment" and new: "new_tx E tx db"
    and ok: "de_ok E GetSessionStmt 0" "de_ok E RecordTx 0" "de_ok E RecordTx 1" "\<not> de_ok E SessionTransitionTx 0"
  shows "\<exists>db' s'. fst (HandleTransactionDetected E alone (ds_TenantID s) (ds_ID s) tx db) = db' \<and>
    s' \<in> set (dd_sessions db') \<and> ds_ID s' = ds_ID s \<and> ds_Status s' = DepositSessionStatusPendingPayment \<and>
    ds_ReceivedAmount s' = ds_ReceivedAmount s + de_numeric E (ic_Amount tx) \<and>
    (\<forall>E' db''. de_ok E' GetTxByHashStmt 0 \<and> set (dd_txs db') \<subseteq> set (dd_txs db'') \<longrightarrow>
       fst (HandleTransactionDetected E' alone (ds_TenantID s) (ds_ID s) tx db'') = db'')"
proof -
  let ?tn = "ds_TenantID s" and ?i = "ds_ID s"
  let ?d = "recorded E ?tn ?i tx s db" and ?x = "stored_tx E (detected_tx E ?tn ?i tx s)"
  let ?r = "s\<lparr>ds_ReceivedAmount := ds_ReceivedAmount s + de_numeric E (ic_Amount tx), ds_UpdatedAt := de_now E\<rparr>"
  have "GetSession E 0 db ?tn ?i = Inr s" using dist s ok by (simp add: GetSession_iff)
  then have call: "fst (HandleTransactionDetected E alone ?tn ?i tx db) = ?d"
    using detect_records [OF _ new, of ?tn ?i s] ok pending
    by (simp add: deposit_step_def Deposit_TransitionTo_def Deposit_CanTransitionTo_def deposit_TransitionWithOutbox_def)
  have "?r \<in> set (dd_sessions ?d)" using s by (intro recorded_row) simp_all
  moreover have "?x \<in> set (dd_txs ?d)" by (simp add: recorded_def)
  then have "fst (HandleTransactionDetected E' alone ?tn ?i tx db'') = db''"
    if "de_ok E' GetTxByHashStmt 0" "set (dd_txs ?d) \<subseteq> set (dd_txs db'')" for E' db''
    using that by (intro detect_known [of ?x]) (auto simp: stored_tx_def detected_tx_def)
  ultimately show ?thesis
    using call pending by (intro exI [of _ ?d] exI [of _ ?r]) simp
qed

section \<open>Concrete deposits\<close>

definition sample_deposit :: "DepositSessionStatus \<Rightarrow> decimal \<Rightarrow> DepositSession" where
  "sample_deposit st received = \<lparr>ds_ID = 7, ds_TenantID = 1, ds_IdempotencyKey = ''key'', ds_Status = st, ds_Version = 0,
     ds_Chain = ''tron'', ds_Token = ''USDT'', ds_DepositAddress = ''T1'', ds_ExpectedAmount = 100,
     ds_ReceivedAmount = received, ds_Currency = ''USDT'', ds_CollectionFeeBPS = 30, ds_FeeAmount = 0, ds_NetAmount = 0,
     ds_SettlementPref = SettlementPreferenceHold, ds_SettlementTransferID = None, ds_DerivationIndex = 1,
     ds_ExpiresAt = 3600, ds_CreatedAt = 0, ds_UpdatedAt = 0, ds_DetectedAt = None, ds_ConfirmedAt = None,
     ds_CreditedAt = None, ds_SettledAt = None, ds_ExpiredAt = None, ds_FailedAt = None, ds_FailureReason = [],
     ds_FailureCode = [], ds_Metadata = []\<rparr>"

definition sample_deposit_db :: "DepositSession list \<Rightarrow> deposit_db" where
  "sample_deposit_db ss = \<lparr>dd_core = sample_db, dd_sessions = ss, dd_txs = [], dd_pool = [], dd_index = [], dd_outbox = []\<rparr>"

definition sample_deposit_env :: "nat \<Rightarrow> (deposit_stmt \<Rightarrow> nat \<Rightarrow> bool) \<Rightarrow> deposit_env" where
  "sample_deposit_env k ok = \<lparr>de_core = sample_env k, de_session_id = 9, de_tx_id = 50, de_ok = ok\<rparr>"

definition sample_incoming :: IncomingTransaction where
  "sample_incoming = \<lparr>ic_Chain = ''tron'', ic_TxHash = ''tx1'', ic_FromAddress = ''T0'', ic_ToAddress = ''T1'',
     ic_TokenContract = ''usdt'', ic_Amount = 100, ic_BlockNumber = 5, ic_BlockHash = [], ic_Timestamp = 0\<rparr>"

abbreviation succeeds :: "deposit_stmt \<Rightarrow> nat \<Rightarrow> bool" where
  "succeeds \<equiv> \<lambda>_ _. True"

lemma sample_deposit_simps [simp]:
  "ds_ID (sample_deposit st a) = 7" "ds_TenantID (sample_deposit st a) = 1" "ds_Status (sample_deposit st a) = st"
  "ds_ReceivedAmount (sample_deposit st a) = a" "ds_SettlementPref (sample_deposit st a) = SettlementPreferenceHold"
  "dd_sessions (sample_deposit_db ss) = ss" "ic_Amount sample_incoming = 100"
  "de_ok (sample_deposit_env k ok) = ok" "de_core (sample_deposit_env k ok) = sample_env k"
  "ee_numeric (sample_env k) j x = x"
  by (simp_all add: sample_deposit_def sample_deposit_db_def sample_incoming_def sample_deposit_env_def sample_env_def)

lemma lessThan_8: "{..<8 :: nat} = {0, 1, 2, 3, 4, 5, 6, 7}"
  by (auto simp: numeral_eq_Suc less_Suc_eq)

lemma sample_env_facts:
  "new_tx (sample_deposit_env k ok) tx (sample_deposit_db ss)"
  "numeric_exact (sample_deposit_env k ok)"
  "deposit_GetTenant (sample_deposit_env k ok) (sample_deposit_db ss) 1 = Inr (tenantFromRow sample_tenant)"
  "fresh_env (sample_deposit_env 1 ok) (sample_deposit_db ss)"
  "fresh_env (sample_deposit_env 2 ok) (sample_deposit_db ss)"
  "fresh_env (sample_deposit_env 3 ok) (sample_deposit_db ss)"
  "apart (sample_deposit_env 1 ok) (sample_deposit_env 2 ok)"
  "apart (sample_deposit_env 1 ok) (sample_deposit_env 3 ok)"
  "apart (sample_deposit_env 2 ok) (sample_deposit_env 3 ok)"
  by (simp_all add: new_tx_def numeric_exact_def fresh_env_def apart_def lessThan_8 sample_deposit_env_def
      sample_deposit_db_def sample_env_def GetTenant_def sample_db_def sample_tenant_def)

theorem deposit_flow_exact_witness:
  "\<exists>db1 db2 db3 s'. HandleTransactionDetected (sample_deposit_env 1 succeeds) alone 1 7 sample_incoming
      (sample_deposit_db [sample_deposit DepositSessionStatusPendingPayment 0]) = (db1, Inr ()) \<and>
    HandleTransactionConfirmed ref_lib (sample_deposit_env 2 succeeds) alone 1 7 ''tx1'' 19 db1 = (db2, Inr ()) \<and>
    HandleCreditResult ref_lib (sample_deposit_env 3 succeeds) alone 1 7
      \<lparr>ir_Success = True, ir_ProviderRef = [], ir_TxHash = [], ir_Error = [], ir_ErrorCode = [], ir_Metadata = []\<rparr> db2 =
      (db3, Inr ()) \<and>
    s' \<in> set (dd_sessions db3) \<and> ds_ID s' = 7 \<and> ds_Status s' = DepositSessionStatusHeld \<and> ds_ReceivedAmount s' = 100 \<and>
    ds_NetAmount s' + ds_FeeAmount s' = 100"
proof -
  let ?res = "\<lparr>ir_Success = True, ir_ProviderRef = [], ir_TxHash = [], ir_Error = [], ir_ErrorCode = [], ir_Metadata = []\<rparr>"
  let ?s = "sample_deposit DepositSessionStatusPendingPayment 0"
  have envs: "\<forall>E\<in>{sample_deposit_env 1 succeeds, sample_deposit_env 2 succeeds, sample_deposit_env 3 succeeds}.
      (\<forall>st k. de_ok E st k) \<and> fresh_env E (sample_deposit_db [?s]) \<and> numeric_exact E"
    using sample_env_facts by auto
  have amounts: "multiple_of (1 / 10 ^ 8) (ds_ReceivedAmount ?s)" "multiple_of (1 / 10 ^ 8) (ic_Amount sample_incoming)"
    using multiple_of_8_int [of 100] by simp_all
  show ?thesis
    using deposit_flow_exact [of "sample_deposit_db [?s]" ?s, OF _ _ _ sample_env_facts(1) envs sample_env_facts(7-9)
        _ _ ref_lib_laws(2) amounts, of "tenantFromRow sample_tenant" ?res "''tx1''" 19] sample_env_facts(3)
    by simp metis
qed

lemma sample_opened:
  "deposit_moves\<^sup>*\<^sup>* (sample_deposit_db []) (sample_deposit_db [sample_deposit DepositSessionStatusPendingPayment 0])"
  using opened [of "sample_deposit DepositSessionStatusPendingPayment 0" "sample_deposit_db []" "[]" "[]"]
  by (simp add: sample_deposit_db_def sample_deposit_def r_into_rtranclp)

theorem deposit_credited_once_witness:
  "\<exists>db'. fst (deposit_exec ref_lib (\<lambda>_. None) (sample_deposit_env 1 succeeds) (\<lambda>_ db. db\<lparr>dd_pool := []\<rparr>)
      (TransactionDetected sample_incoming) 1 7
      (sample_deposit_db [sample_deposit DepositSessionStatusPendingPayment 0])) = db' \<and>
    (\<forall>s\<in>set (dd_sessions db'). length (credit_rows (ds_ID s) (dd_outbox db')) \<le> 1)"
proof -
  have "rely (\<lambda>_ db. db\<lparr>dd_pool := []\<rparr>)" by (auto simp: rely_def intro!: r_into_rtranclp dispensed)
  moreover have "dd_outbox (sample_deposit_db []) = []" by (simp add: sample_deposit_db_def)
  ultimately show ?thesis
    using deposit_credited_once [OF _ _ sample_opened, of "\<lambda>_ db. db\<lparr>dd_pool := []\<rparr>" ref_lib
      "\<lambda>_. None" "sample_deposit_env 1 succeeds" "TransactionDetected sample_incoming" 1 7] by fastforce
qed

theorem payment_during_confirmation_lost_witness:
  "\<exists>db' s' x. HandleTransactionConfirmed ref_lib (sample_deposit_env 1 succeeds)
      (\<lambda>k d. if k = 0 then fst (HandleTransactionDetected (sample_deposit_env 2 succeeds) alone 1 7 sample_incoming d) else d)
      1 7 ''tx0'' 19 (sample_deposit_db [sample_deposit DepositSessionStatusDetected 40]) = (db', Inr ()) \<and>
    s' \<in> set (dd_sessions db') \<and> ds_ID s' = 7 \<and> ds_Status s' = DepositSessionStatusCrediting \<and>
    ds_ReceivedAmount s' = 40 \<and> x \<in> set (dd_txs db') \<and> dx_SessionID x = 7 \<and>
    dx_TxHash x = ic_TxHash sample_incoming \<and> dx_Amount x = 100"
proof -
  let ?s = "sample_deposit DepositSessionStatusDetected 40"
  show ?thesis
    using payment_during_confirmation_lost [of "sample_deposit_db [?s]" ?s "sample_deposit_env 2 succeeds" sample_incoming
        "sample_deposit_env 1 succeeds" "tenantFromRow sample_tenant" ref_lib "''tx0''" 19,
        OF _ _ _ sample_env_facts(1) _ _ sample_env_facts(4)] sample_env_facts(3)
    by (simp cong: if_cong)
qed

theorem detected_payment_stuck_witness:
  "\<exists>db' s'. fst (HandleTransactionDetected (sample_deposit_env 1 (\<lambda>st _. st \<noteq> SessionTransitionTx)) alone 1 7
      sample_incoming (sample_deposit_db [sample_deposit DepositSessionStatusPendingPayment 0])) = db' \<and>
    s' \<in> set (dd_sessions db') \<and> ds_ID s' = 7 \<and> ds_Status s' = DepositSessionStatusPendingPayment \<and>
    ds_ReceivedAmount s' = 100 \<and>
    (\<forall>E' db''. de_ok E' GetTxByHashStmt 0 \<and> set (dd_txs db') \<subseteq> set (dd_txs db'') \<longrightarrow>
       fst (HandleTransactionDetected E' alone 1 7 sample_incoming db'') = db'')"
  using detected_payment_stuck [of "sample_deposit_db [sample_deposit DepositSessionStatusPendingPayment 0]"
      "sample_deposit DepositSessionStatusPendingPayment 0"
      "sample_deposit_env 1 (\<lambda>st _. st \<noteq> SessionTransitionTx)" sample_incoming,
      OF _ _ _ sample_env_facts(1)]
  by simp

end
