(* ===== verification/Chain_Monitor.thy ===== *)
theory Chain_Monitor
  imports Deposit_Flow
begin

text \<open>
  The chain monitor (\<^verbatim>\<open>src/node/chainmonitor\<close>): the set of watched addresses, the registry of
  tokens, the block checkpoints, the poller of the EVM chains and the RPC client's failover and
  chunking, with their store (\<^verbatim>\<open>src/store/transferdb/chainmonitor_adapters.go\<close>). Go maps are
  association lists, a tenant identifier stands for its text; the answers of a node are arguments. Locks and atomic pointers are not
  modelled: an update is visible when its function returns.
\<close>

section \<open>Watched addresses\<close>

record AddressInfo =
  ai_Chain :: string
  ai_Address :: string
  ai_TenantID :: uuid

record AddressSet =
  as_mutable :: "(string \<times> AddressInfo) list"
  as_snapshot :: "(string \<times> AddressInfo) list"

definition NewAddressSet :: AddressSet where
  "NewAddressSet = \<lparr>as_mutable = [], as_snapshot = []\<rparr>"

definition addressKey :: "string \<Rightarrow> string \<Rightarrow> string" where
  "addressKey chain address = chain @ '':'' @ address"

definition AddressSet_Add :: "AddressInfo \<Rightarrow> AddressSet \<Rightarrow> AddressSet" where
  "AddressSet_Add info s =
     s\<lparr>as_mutable := AList.update (addressKey (ai_Chain info) (ai_Address info)) info (as_mutable s)\<rparr>"

definition AddressSet_Publish :: "AddressSet \<Rightarrow> AddressSet" where
  "AddressSet_Publish s = s\<lparr>as_snapshot := as_mutable s\<rparr>"

definition AddressSet_Replace :: "AddressInfo list \<Rightarrow> AddressSet \<Rightarrow> AddressSet" where
  "AddressSet_Replace addresses s =
     AddressSet_Publish (s\<lparr>as_mutable := foldl (\<lambda>m info. AList.update (addressKey (ai_Chain info) (ai_Address info)) info m)
       [] addresses\<rparr>)"

definition AddressSet_Lookup :: "AddressSet \<Rightarrow> string \<Rightarrow> string \<Rightarrow> AddressInfo option" where
  "AddressSet_Lookup s chain address = map_of (as_snapshot s) (addressKey chain address)"

section \<open>Tokens\<close>

record tokenMap =
  byContract :: "(string \<times> Token) list"
  byChain :: "(string \<times> Token list) list"

definition tokenKey :: "string \<Rightarrow> string \<Rightarrow> string" where
  "tokenKey chain contractAddress = chain @ '':'' @ ToLower contractAddress"

fun add_token :: "tokenMap \<Rightarrow> Token \<Rightarrow> tokenMap" where
  "add_token m t =
     (if \<not> tk_IsActive t then m
      else \<lparr>byContract = AList.update (tokenKey (tk_Chain t) (tk_ContractAddress t)) t (byContract m),
            byChain = AList.update (tk_Chain t)
              ((case map_of (byChain m) (tk_Chain t) of None \<Rightarrow> [] | Some ts \<Rightarrow> ts) @ [t]) (byChain m)\<rparr>)"

definition Reload :: "Token list \<Rightarrow> tokenMap" where
  "Reload tokens = foldl add_token \<lparr>byContract = [], byChain = []\<rparr> tokens"

definition LookupByContract :: "tokenMap \<Rightarrow> string \<Rightarrow> string \<Rightarrow> Token option" where
  "LookupByContract m chain contractAddress = map_of (byContract m) (tokenKey chain contractAddress)"

definition TokensForChain :: "tokenMap \<Rightarrow> string \<Rightarrow> Token list" where
  "TokensForChain m chain = (case map_of (byChain m) chain of None \<Rightarrow> [] | Some ts \<Rightarrow> ts)"

definition ContractAddresses :: "tokenMap \<Rightarrow> string \<Rightarrow> string list" where
  "ContractAddresses m chain = map tk_ContractAddress (TokensForChain m chain)"

section \<open>Store\<close>

record chain_db =
  cb_deposits :: deposit_db
  cb_checkpoints :: "BlockCheckpoint list"
  cb_tokens :: "Token list"

text \<open>The query filters by the tenant it is given, and the adapter gives it the nil identifier.\<close>

definition ListActiveAddresses :: "bool \<Rightarrow> chain_db \<Rightarrow> string \<Rightarrow> AddressInfo list result" where
  "ListActiveAddresses ok db chain =
     (if \<not> ok then Inl (Errorf ''settla-address-store: listing active addresses'' (Some db_error))
      else Inr (map (\<lambda>a. \<lparr>ai_Chain = ap_Chain a, ai_Address = ap_Address a, ai_TenantID = ap_TenantID a\<rparr>)
             (filter ap_Dispensed (take 10000 (sort_key ap_DerivationIndex
                (filter (\<lambda>a. ap_TenantID a = uuid_Nil \<and> ap_Chain a = chain) (dd_pool (cb_deposits db))))))))"

text \<open>The table of tokens is listed in the order of their symbols.\<close>

definition ListTokensByChain :: "bool \<Rightarrow> chain_db \<Rightarrow> string \<Rightarrow> Token list result" where
  "ListTokensByChain ok db chain =
     (if \<not> ok then Inl (Errorf ''settla-token-store: listing tokens'' (Some db_error))
      else Inr (filter (\<lambda>t. tk_Chain t = chain \<and> tk_IsActive t) (cb_tokens db)))"

definition checkpoint_Load :: "bool \<Rightarrow> chain_db \<Rightarrow> string \<Rightarrow> (int \<times> string) result" where
  "checkpoint_Load ok db chain =
     (if \<not> ok then Inl (Errorf ''settla-chainmonitor: loading checkpoint'' (Some db_error))
      else case List.find (\<lambda>c. bk_Chain c = chain) (cb_checkpoints db) of
        None \<Rightarrow> Inr (0, [])
      | Some c \<Rightarrow> Inr (bk_BlockNumber c, bk_BlockHash c))"

definition checkpoint_Save ::
  "bool \<Rightarrow> uuid \<Rightarrow> instant \<Rightarrow> string \<Rightarrow> int \<Rightarrow> string \<Rightarrow> chain_db \<Rightarrow> chain_db \<times> unit result" where
  "checkpoint_Save ok fresh now chain blockNumber blockHash db =
     (if \<not> ok then (db, Inl (Errorf ''settla-chainmonitor: saving checkpoint'' (Some db_error)))
      else if \<exists>c\<in>set (cb_checkpoints db). bk_Chain c = chain
      then (db\<lparr>cb_checkpoints := map (\<lambda>c. if bk_Chain c = chain then c\<lparr>bk_BlockNumber := blockNumber,
              bk_BlockHash := blockHash, bk_UpdatedAt := now\<rparr> else c) (cb_checkpoints db)\<rparr>, Inr ())
      else (db\<lparr>cb_checkpoints := cb_checkpoints db @ [\<lparr>bk_ID = fresh, bk_Chain = chain, bk_BlockNumber = blockNumber,
              bk_BlockHash = blockHash, bk_UpdatedAt = now\<rparr>]\<rparr>, Inr ()))"

definition WriteDetectedTx ::
  "deposit_env \<Rightarrow> DepositTransaction \<Rightarrow> deposit_entry list \<Rightarrow> deposit_db \<Rightarrow> deposit_db \<times> unit result" where
  "WriteDetectedTx E dtx entries db =
     (if \<not> de_ok E WriteDetectedStmt 0 then (db, Inl (Errorf ''settla-outbox-writer: begin tx'' (Some db_error)))
      else case CreateDepositTransaction E dtx (dd_txs db) of
        Inl err \<Rightarrow> (db, Inl (Errorf ''settla-outbox-writer: creating deposit tx'' (Some err)))
      | Inr txs \<Rightarrow>
         let entries = map (\<lambda>e. e\<lparr>
               ob_AggregateID := (if ob_AggregateID e = uuid_Nil then dx_SessionID dtx else ob_AggregateID e),
               ob_CreatedAt := (if ob_CreatedAt e = zero_time then de_now E else ob_CreatedAt e)\<rparr>) entries in
         (case InsertOutboxEntries (outboxEntriesToParams (de_now E) entries) (dd_outbox db) of
            Inl err \<Rightarrow> (db, Inl (Errorf ''settla-outbox-writer: inserting outbox entries'' (Some err)))
          | Inr outbox \<Rightarrow>
             (db\<lparr>dd_txs := txs, dd_outbox := outbox\<rparr>,
              if de_ok E WriteDetectedStmt 1 then Inr ()
              else Inl (Errorf ''settla-outbox-writer: commit tx'' (Some db_error)))))"

section \<open>Synchronisation with the database\<close>

fun list_all_addresses :: "(string \<Rightarrow> bool) \<Rightarrow> chain_db \<Rightarrow> string list \<Rightarrow> AddressInfo list result" where
  "list_all_addresses ok db [] = Inr []"
| "list_all_addresses ok db (c # cs) =
     (case ListActiveAddresses (ok c) db c of
        Inl err \<Rightarrow> Inl (Errorf ''listing addresses'' (Some err))
      | Inr xs \<Rightarrow> (case list_all_addresses ok db cs of Inl err \<Rightarrow> Inl err | Inr ys \<Rightarrow> Inr (xs @ ys)))"

fun syncAddresses ::
  "(string \<Rightarrow> bool) \<Rightarrow> chain_db \<Rightarrow> string list \<Rightarrow> AddressSet \<Rightarrow> AddressSet \<times> unit result" where
  "syncAddresses ok db [] s = (AddressSet_Publish s, Inr ())"
| "syncAddresses ok db (c # cs) s =
     (case ListActiveAddresses (ok c) db c of
        Inl err \<Rightarrow> (s, Inl (Errorf ''listing addresses'' (Some err)))
      | Inr xs \<Rightarrow> syncAddresses ok db cs (foldl (\<lambda>s a. AddressSet_Add a s) s xs))"

definition reconcileAddresses ::
  "(string \<Rightarrow> bool) \<Rightarrow> chain_db \<Rightarrow> string list \<Rightarrow> AddressSet \<Rightarrow> AddressSet \<times> unit result" where
  "reconcileAddresses ok db pollers s =
     (case list_all_addresses ok db pollers of
        Inl err \<Rightarrow> (s, Inl err)
      | Inr allAddrs \<Rightarrow> (AddressSet_Replace allAddrs s, Inr ()))"

fun syncTokens :: "(string \<Rightarrow> bool) \<Rightarrow> chain_db \<Rightarrow> string list \<Rightarrow> Token list \<Rightarrow> tokenMap \<Rightarrow> tokenMap \<times> unit result" where
  "syncTokens ok db [] allTokens m = (Reload allTokens, Inr ())"
| "syncTokens ok db (c # cs) allTokens m =
     (case ListTokensByChain (ok c) db c of
        Inl err \<Rightarrow> (m, Inl (Errorf ''listing tokens'' (Some err)))
      | Inr ts \<Rightarrow> syncTokens ok db cs (allTokens @ ts) m)"

section \<open>The RPC client\<close>

record ERC20Transfer =
  et_TxHash :: string
  et_BlockNumber :: int
  et_BlockHash :: string
  et_LogIndex :: int
  et_From :: string
  et_To :: string
  et_Amount :: decimal
  et_TokenContract :: string
  et_Timestamp :: instant

definition ParseEVMTransfer :: "ERC20Transfer \<Rightarrow> string \<Rightarrow> IncomingTransaction" where
  "ParseEVMTransfer t chain = \<lparr>ic_Chain = chain, ic_TxHash = et_TxHash t, ic_FromAddress = et_From t,
     ic_ToAddress = et_To t, ic_TokenContract = et_TokenContract t, ic_Amount = et_Amount t,
     ic_BlockNumber = et_BlockNumber t, ic_BlockHash = et_BlockHash t, ic_Timestamp = et_Timestamp t\<rparr>"

definition maxBlockRange :: int where
  "maxBlockRange = 2000"

text \<open>The loop over the chunks of a block range; \<open>chunk\<close> is the answer to one \<^verbatim>\<open>eth_getLogs\<close> call.\<close>

function getLogs :: "(int \<Rightarrow> int \<Rightarrow> ERC20Transfer list result) \<Rightarrow> int \<Rightarrow> int \<Rightarrow> ERC20Transfer list result" where
  "getLogs chunk start toBlock =
     (if start > toBlock then Inr []
      else case chunk start (min (start + maxBlockRange - 1) toBlock) of
        Inl err \<Rightarrow> Inl err
      | Inr ts \<Rightarrow>
         (case getLogs chunk (start + maxBlockRange) toBlock of Inl err \<Rightarrow> Inl err | Inr us \<Rightarrow> Inr (ts @ us)))"
  by pat_completeness auto
termination
  by (relation "measure (\<lambda>(chunk, start, toBlock). nat (toBlock + 1 - start))") (auto simp: maxBlockRange_def)

declare getLogs.simps [simp del]

text \<open>Providers with a circuit breaker each, tried in order.\<close>

record Provider =
  pv_failures :: int
  pv_openedAt :: int

definition failureThreshold :: int where
  "failureThreshold = 5"

definition resetTimeout :: int where
  "resetTimeout = 30000"

definition Provider_IsAvailable :: "int \<Rightarrow> Provider \<Rightarrow> bool" where
  "Provider_IsAvailable now p \<longleftrightarrow> pv_openedAt p = 0 \<or> now - pv_openedAt p \<ge> resetTimeout"

definition RecordSuccess :: "Provider \<Rightarrow> Provider" where
  "RecordSuccess p = p\<lparr>pv_failures := 0, pv_openedAt := 0\<rparr>"

definition RecordFailure :: "int \<Rightarrow> Provider \<Rightarrow> Provider" where
  "RecordFailure now p =
     (let f = pv_failures p + 1 in
      p\<lparr>pv_failures := f, pv_openedAt := (if f \<ge> failureThreshold then now else pv_openedAt p)\<rparr>)"

fun failover_loop ::
  "int \<Rightarrow> (nat \<Rightarrow> 'a result) \<Rightarrow> nat \<Rightarrow> error option \<Rightarrow> Provider list \<Rightarrow> Provider list \<times> 'a result" where
  "failover_loop now op i lastErr [] =
     ([], Inl (case lastErr of
                 Some err \<Rightarrow> Errorf ''settla-rpc: all providers failed'' (Some err)
               | None \<Rightarrow> Errorf ''settla-rpc: no available providers'' None))"
| "failover_loop now op i lastErr (p # ps) =
     (if \<not> Provider_IsAvailable now p
      then (case failover_loop now op (i + 1) lastErr ps of (ps', r) \<Rightarrow> (p # ps', r))
      else case op i of
        Inl err \<Rightarrow> (case failover_loop now op (i + 1) (Some err) ps of (ps', r) \<Rightarrow> (RecordFailure now p # ps', r))
      | Inr x \<Rightarrow> (RecordSuccess p # ps, Inr x))"

definition Execute :: "int \<Rightarrow> (nat \<Rightarrow> 'a result) \<Rightarrow> Provider list \<Rightarrow> Provider list \<times> 'a result" where
  "Execute now op providers = failover_loop now op 0 None providers"

definition GetERC20Transfers ::
  "int \<Rightarrow> (nat \<Rightarrow> int \<Rightarrow> int \<Rightarrow> ERC20Transfer list result) \<Rightarrow> string list \<Rightarrow> int \<Rightarrow> int \<Rightarrow> Provider list \<Rightarrow>
   Provider list \<times> ERC20Transfer list result" where
  "GetERC20Transfers now chunk toAddresses fromBlock toBlock providers =
     (if toAddresses = [] then (providers, Inr [])
      else Execute now (\<lambda>i. getLogs (chunk i) fromBlock toBlock) providers)"

section \<open>The poller\<close>

record ChainConfig =
  cf_Chain :: string
  cf_PollInterval :: int
  cf_Confirmations :: int
  cf_ReorgDepth :: int
  cf_RPCURL :: string
  cf_APIKey :: string
  cf_BackupRPCURL :: string
  cf_BackupAPIKey :: string

text \<open>The range a poll scans, if it scans at all.\<close>

definition scan_window :: "ChainConfig \<Rightarrow> int \<Rightarrow> int \<Rightarrow> (int \<times> int) option" where
  "scan_window cfg lastBlock currentBlock =
     (let safeBlock = currentBlock - cf_Confirmations cfg in
      if safeBlock \<le> 0 then None
      else let startBlock = lastBlock + 1;
               reorgStart = lastBlock - cf_ReorgDepth cfg;
               startBlock = (if lastBlock > 0 \<and> cf_ReorgDepth cfg > 0 \<and> reorgStart > 0 \<and> reorgStart < startBlock
                             then reorgStart else startBlock);
               startBlock = (if startBlock \<le> 0 then (if safeBlock - 10 \<le> 0 then 1 else safeBlock - 10)
                             else startBlock) in
           if startBlock > safeBlock then None else Some (startBlock, safeBlock))"

definition monitored_tx :: "ChainConfig \<Rightarrow> IncomingTransaction \<Rightarrow> DepositSession \<Rightarrow> DepositTransaction" where
  "monitored_tx cfg incoming session = \<lparr>dx_ID = uuid_Nil, dx_SessionID = ds_ID session, dx_TenantID = ds_TenantID session,
     dx_Chain = ic_Chain incoming, dx_TxHash = ic_TxHash incoming, dx_FromAddress = ic_FromAddress incoming,
     dx_ToAddress = ic_ToAddress incoming, dx_TokenContract = ic_TokenContract incoming,
     dx_Amount = ic_Amount incoming, dx_BlockNumber = ic_BlockNumber incoming, dx_BlockHash = ic_BlockHash incoming,
     dx_Confirmations = cf_Confirmations cfg, dx_RequiredConfirm = cf_Confirmations cfg, dx_Confirmed = False,
     dx_DetectedAt = ic_Timestamp incoming, dx_ConfirmedAt = None, dx_CreatedAt = zero_time\<rparr>"

definition monitored_entry :: "deposit_env \<Rightarrow> IncomingTransaction \<Rightarrow> DepositSession \<Rightarrow> deposit_entry" where
  "monitored_entry E incoming session = zero_entry\<lparr>ob_ID := de_uuid E 0, ob_AggregateType := ''deposit_session'',
     ob_AggregateID := ds_ID session, ob_TenantID := ds_TenantID session, ob_EventType := EventDepositTxDetected,
     ob_Payload := Some (DepositData (TxDetected \<lparr>td_SessionID = ds_ID session, td_TenantID = ds_TenantID session,
       td_TxHash = ic_TxHash incoming, td_Chain = ic_Chain incoming, td_Token = ic_TokenContract incoming,
       td_Amount = ic_Amount incoming, td_BlockNumber = ic_BlockNumber incoming\<rparr>)),
     ob_IsIntent := False\<rparr>"

definition processIncomingTx ::
  "deposit_env \<Rightarrow> ChainConfig \<Rightarrow> tokenMap \<Rightarrow> IncomingTransaction \<Rightarrow> deposit_db \<Rightarrow> deposit_db \<times> unit result" where
  "processIncomingTx E cfg tokens incoming db =
     (case GetDepositTxByHash E db (ic_Chain incoming) (ic_TxHash incoming) of
        Inr existing \<Rightarrow> (db, Inr ())
      | Inl _ \<Rightarrow>
         (case GetSessionByAddress E db (ic_ToAddress incoming) of
            Inl err \<Rightarrow> (db, Inl (Errorf ''no session for address'' (Some err)))
          | Inr session \<Rightarrow>
             (case LookupByContract tokens (ic_Chain incoming) (ic_TokenContract incoming) of
                None \<Rightarrow> (db, Inr ())
              | Some _ \<Rightarrow>
                 (case WriteDetectedTx E (monitored_tx cfg incoming session) [monitored_entry E incoming session] db of
                    (db', Inl err) \<Rightarrow> (db', Inl (Errorf ''writing detected tx'' (Some err)))
                  | (db', Inr _) \<Rightarrow> (db', Inr ())))))"

text \<open>
  The environment of a poll: the outcome of reading and saving the checkpoint, the height and the
  blocks (hash and parent hash) the node reports, what it answers for a contract, a list of
  recipients, a block range and a number of decimals, and the environment of the \<open>i\<close>-th transfer
  that is processed.
\<close>

record poll_env =
  po_load_ok :: bool
  po_save_ok :: bool
  po_height :: "int result"
  po_block :: "int \<Rightarrow> (string \<times> string) result"
  po_transfers :: "string \<Rightarrow> string list \<Rightarrow> int \<Rightarrow> int \<Rightarrow> int \<Rightarrow> ERC20Transfer list result"
  po_env :: "nat \<Rightarrow> deposit_env"

definition EqualFold :: "string \<Rightarrow> string \<Rightarrow> bool" where
  "EqualFold a b \<longleftrightarrow> ToLower a = ToLower b"

fun process_transfers ::
  "poll_env \<Rightarrow> ChainConfig \<Rightarrow> tokenMap \<Rightarrow> string list \<Rightarrow> ERC20Transfer list \<Rightarrow> nat \<times> nat \<times> deposit_db \<Rightarrow>
   nat \<times> nat \<times> deposit_db" where
  "process_transfers P cfg tokens watched [] st = st"
| "process_transfers P cfg tokens watched (t # ts) (i, processed, db) =
     (let incoming = ParseEVMTransfer t (cf_Chain cfg) in
      if \<not> (\<exists>addr\<in>set watched. EqualFold addr (ToLower (ic_ToAddress incoming)))
      then process_transfers P cfg tokens watched ts (i, processed, db)
      else case processIncomingTx (po_env P i) cfg tokens incoming db of
        (db', Inl err) \<Rightarrow> process_transfers P cfg tokens watched ts (i + 1, processed, db')
      | (db', Inr _) \<Rightarrow> process_transfers P cfg tokens watched ts (i + 1, processed + 1, db'))"

definition erc20DefaultDecimals :: int where
  "erc20DefaultDecimals = 6"

fun scan_contracts ::
  "poll_env \<Rightarrow> ChainConfig \<Rightarrow> tokenMap \<Rightarrow> string list \<Rightarrow> int \<Rightarrow> int \<Rightarrow> string list \<Rightarrow> nat \<times> nat \<times> deposit_db \<Rightarrow>
   nat \<times> nat \<times> deposit_db" where
  "scan_contracts P cfg tokens watched startBlock safeBlock [] st = st"
| "scan_contracts P cfg tokens watched startBlock safeBlock (contract # cs) st =
     (let decimals = (case LookupByContract tokens (cf_Chain cfg) contract of
                        Some t \<Rightarrow> if tk_Decimals t > 0 then tk_Decimals t else erc20DefaultDecimals
                      | None \<Rightarrow> erc20DefaultDecimals) in
      scan_contracts P cfg tokens watched startBlock safeBlock cs
        (case po_transfers P contract watched startBlock safeBlock decimals of
           Inl err \<Rightarrow> st
         | Inr transfers \<Rightarrow> process_transfers P cfg tokens watched transfers st))"

definition watched_addresses :: "ChainConfig \<Rightarrow> (string \<times> AddressInfo) list \<Rightarrow> string list" where
  "watched_addresses cfg addrSnap =
     map (ai_Address \<circ> snd) (filter (\<lambda>(key, _). HasPrefix key (cf_Chain cfg @ '':'')) addrSnap)"

definition scanTransfers ::
  "poll_env \<Rightarrow> ChainConfig \<Rightarrow> tokenMap \<Rightarrow> (string \<times> AddressInfo) list \<Rightarrow> int \<Rightarrow> int \<Rightarrow> deposit_db \<Rightarrow> nat \<times> deposit_db" where
  "scanTransfers P cfg tokens addrSnap startBlock safeBlock db =
     (let contracts = ContractAddresses tokens (cf_Chain cfg);
          watched = watched_addresses cfg addrSnap in
      if contracts = [] \<or> watched = [] then (0, db)
      else snd (scan_contracts P cfg tokens watched startBlock safeBlock contracts (0, 0, db)))"

definition Poll :: "poll_env \<Rightarrow> ChainConfig \<Rightarrow> tokenMap \<Rightarrow> AddressSet \<Rightarrow> chain_db \<Rightarrow> chain_db \<times> unit result" where
  "Poll P cfg tokens addresses db =
     (case checkpoint_Load (po_load_ok P) db (cf_Chain cfg) of
        Inl err \<Rightarrow> (db, Inl (Errorf ''settla-evm-poller: loading checkpoint'' (Some err)))
      | Inr (lastBlock, lastHash) \<Rightarrow>
         (case po_height P of
            Inl err \<Rightarrow> (db, Inl (Errorf ''settla-evm-poller: getting current block'' (Some err)))
          | Inr currentBlock \<Rightarrow>
             (case scan_window cfg lastBlock currentBlock of
                None \<Rightarrow> (db, Inr ())
              | Some (startBlock, safeBlock) \<Rightarrow>
                 if as_snapshot addresses = [] then (db, Inr ())
                 else let (processed, deposits) = scanTransfers P cfg tokens (as_snapshot addresses) startBlock safeBlock
                            (cb_deposits db);
                          blockHash = (case po_block P safeBlock of Inl err \<Rightarrow> [] | Inr (hash, parent) \<Rightarrow> hash) in
                      (case checkpoint_Save (po_save_ok P) (de_uuid (po_env P 0) 0) (de_now (po_env P 0)) (cf_Chain cfg)
                              safeBlock blockHash (db\<lparr>cb_deposits := deposits\<rparr>) of
                         (db', Inl err) \<Rightarrow> (db', Inl (Errorf ''settla-evm-poller: saving checkpoint'' (Some err)))
                       | (db', Inr _) \<Rightarrow> (db', Inr ())))))"

section \<open>Lemmas\<close>


lemma window_bounds:
  assumes "scan_window cfg lastBlock cur = Some (a, b)" and "0 \<le> lastBlock"
  shows "1 \<le> a" "a \<le> lastBlock + 1" "a \<le> b" "b = cur - cf_Confirmations cfg"
  using assms by (auto simp: scan_window_def Let_def split: if_splits)

lemma window_rescan:
  assumes "scan_window cfg lastBlock cur = Some (a, b)" and "0 \<le> lastBlock" and "0 \<le> cf_ReorgDepth cfg"
  shows "lastBlock - cf_ReorgDepth cfg \<le> a"
  using assms by (auto simp: scan_window_def Let_def split: if_splits)

lemma save_load:
  "checkpoint_Save True u now chain n h db = (db', Inr ()) \<Longrightarrow>
   checkpoint_Load True db' chain = Inr (n, h) \<and> cb_deposits db' = cb_deposits db"
proof -
  assume save: "checkpoint_Save True u now chain n h db = (db', Inr ())"
  show ?thesis
  proof (cases "\<exists>c\<in>set (cb_checkpoints db). bk_Chain c = chain")
    case True
    let ?f = "\<lambda>c. if bk_Chain c = chain then c\<lparr>bk_BlockNumber := n, bk_BlockHash := h, bk_UpdatedAt := now\<rparr> else c"
    from True save have db': "db' = db\<lparr>cb_checkpoints := map ?f (cb_checkpoints db)\<rparr>"
      by (simp add: checkpoint_Save_def)
    have "\<exists>c. List.find (\<lambda>c. bk_Chain c = chain) (map ?f cs) = Some c \<and> bk_BlockNumber c = n \<and> bk_BlockHash c = h"
      if "\<exists>c\<in>set cs. bk_Chain c = chain" for cs
      using that by (induction cs) auto
    with True show ?thesis unfolding db' by (fastforce simp: checkpoint_Load_def)
  next
    case False
    have "List.find (\<lambda>c. bk_Chain c = chain) (cs @ [c]) = Some c"
      if "bk_Chain c = chain" "\<not> (\<exists>c\<in>set cs. bk_Chain c = chain)" for c and cs :: "BlockCheckpoint list"
      using that by (induction cs) auto
    with False save show ?thesis by (auto simp: checkpoint_Save_def checkpoint_Load_def)
  qed
qed

lemma save_ok: "\<exists>db'. checkpoint_Save True u now chain n h db = (db', Inr ())"
  by (simp add: checkpoint_Save_def)

text \<open>The checkpoint after a poll whose reads and writes succeed.\<close>

definition poll_window :: "poll_env \<Rightarrow> ChainConfig \<Rightarrow> AddressSet \<Rightarrow> chain_db \<Rightarrow> (int \<times> int) option" where
  "poll_window P cfg addresses db =
     (case (checkpoint_Load True db (cf_Chain cfg), po_height P) of
        (Inr (lastBlock, _), Inr cur) \<Rightarrow>
          if as_snapshot addresses = [] then None else scan_window cfg lastBlock cur
      | _ \<Rightarrow> None)"

lemma poll_window_bounds:
  assumes "checkpoint_Load True db (cf_Chain cfg) = Inr (lastBlock, hash)" and "poll_window P cfg addresses db = Some (a, b)"
    and "0 \<le> lastBlock"
  shows "1 \<le> a" "a \<le> lastBlock + 1" "a \<le> b"
  using assms by (auto simp: poll_window_def dest: window_bounds split: sum.splits if_splits)

lemma Poll_checkpoint:
  assumes "po_load_ok P" and "po_save_ok P" and load: "checkpoint_Load True db (cf_Chain cfg) = Inr (lastBlock, hash)"
  shows "case poll_window P cfg addresses db of
      None \<Rightarrow> fst (Poll P cfg tokens addresses db) = db
    | Some (a, b) \<Rightarrow> (\<exists>hash' db'. Poll P cfg tokens addresses db = (db', Inr ()) \<and>
        checkpoint_Load True db' (cf_Chain cfg) = Inr (b, hash') \<and>
        cb_deposits db' = snd (scanTransfers P cfg tokens (as_snapshot addresses) a b (cb_deposits db)))"
proof (cases "poll_window P cfg addresses db")
  case None
  then show ?thesis
    using assms by (auto simp: Poll_def poll_window_def split: sum.splits if_splits option.splits)
next
  case (Some w)
  obtain a b where w: "w = (a, b)" by fastforce
  from Some load obtain cur where cur: "po_height P = Inr cur" "scan_window cfg lastBlock cur = Some (a, b)"
    "as_snapshot addresses \<noteq> []"
    by (auto simp: poll_window_def w split: sum.splits if_splits)
  let ?d = "db\<lparr>cb_deposits := snd (scanTransfers P cfg tokens (as_snapshot addresses) a b (cb_deposits db))\<rparr>"
  let ?h = "case po_block P b of Inl err \<Rightarrow> [] | Inr (hash, parent) \<Rightarrow> hash"
  obtain db' where save: "checkpoint_Save True (de_uuid (po_env P 0) 0) (de_now (po_env P 0)) (cf_Chain cfg) b ?h ?d = (db', Inr ())"
    using save_ok by blast
  with assms cur have "Poll P cfg tokens addresses db = (db', Inr ())"
    by (simp add: Poll_def split_def Let_def)
  with save_load [OF save] Some w show ?thesis by simp
qed


lemma Poll_some:
  "po_load_ok P \<Longrightarrow> po_save_ok P \<Longrightarrow> checkpoint_Load True db (cf_Chain cfg) = Inr (lastBlock, hash) \<Longrightarrow>
   poll_window P cfg addresses db = Some (a, b) \<Longrightarrow>
   \<exists>hash' db'. Poll P cfg tokens addresses db = (db', Inr ()) \<and>
     checkpoint_Load True db' (cf_Chain cfg) = Inr (b, hash') \<and>
     cb_deposits db' = snd (scanTransfers P cfg tokens (as_snapshot addresses) a b (cb_deposits db))"
  using Poll_checkpoint [where tokens = tokens and addresses = addresses and db = db and P = P and cfg = cfg] by simp

lemma scan_contracts_failing:
  assumes "\<And>c ws a b d. \<exists>err. po_transfers P c ws a b d = Inl err"
  shows "scan_contracts P cfg tokens watched a b cs st = st"
proof (induction cs arbitrary: st)
  case (Cons c cs)
  then show ?case
    using assms by (simp add: Let_def split: sum.split) (metis sum.distinct(1))
qed simp

lemma no_addresses:
  assumes "\<forall>a\<in>set (dd_pool (cb_deposits db)). ap_TenantID a \<noteq> uuid_Nil"
  shows "ListActiveAddresses True db c = Inr []"
proof -
  have "filter (\<lambda>a. ap_TenantID a = uuid_Nil \<and> ap_Chain a = c) (dd_pool (cb_deposits db)) = []"
    using assms by (auto simp: filter_empty_conv)
  then show ?thesis by (simp add: ListActiveAddresses_def)
qed

section \<open>Properties\<close>





text \<open>
  C40: A poll whose queries all fail still moves the checkpoint: it records no payment, saves the end
  of its range, and every later range starts at most the reorganisation depth before that, so a
  payment in an earlier block of the range is never seen.
\<close>

theorem failed_scan_skips_blocks:
  assumes ok: "po_load_ok P" "po_save_ok P" and load: "checkpoint_Load True db (cf_Chain cfg) = Inr (lastBlock, hash)"
    and "poll_window P cfg addresses db = Some (a, b)" and "0 \<le> lastBlock" and "0 \<le> cf_ReorgDepth cfg"
    and failing: "\<forall>c ws x y d. \<exists>err. po_transfers P c ws x y d = Inl err"
  shows "\<exists>db' hash'. Poll P cfg tokens addresses db = (db', Inr ()) \<and> cb_deposits db' = cb_deposits db \<and>
    checkpoint_Load True db' (cf_Chain cfg) = Inr (b, hash') \<and>
    (\<forall>cur a' b'. scan_window cfg b cur = Some (a', b') \<longrightarrow> b - cf_ReorgDepth cfg \<le> a')"
proof -
  have "0 \<le> b" using poll_window_bounds [OF load assms(4,5)] by simp
  then have "\<forall>cur a' b'. scan_window cfg b cur = Some (a', b') \<longrightarrow> b - cf_ReorgDepth cfg \<le> a'"
    using window_rescan assms(6) by blast
  moreover have "snd (scanTransfers P cfg tokens s a b d) = d" for s d
    using failing by (simp add: scanTransfers_def Let_def scan_contracts_failing)
  ultimately show ?thesis
    using Poll_some [OF ok load assms(4), of tokens] by auto
qed

text \<open>
  C39: As no address of the pool belongs to the nil tenant, the monitor never watches an address:
  the query it lists the addresses with filters by that tenant. After any synchronisation its
  snapshot is empty and a poll leaves payments and checkpoints as they are.
\<close>

theorem monitor_watches_nothing:
  assumes "\<forall>a\<in>set (dd_pool (cb_deposits db)). ap_TenantID a \<noteq> uuid_Nil"
  shows "as_snapshot (fst (syncAddresses ok db pollers NewAddressSet)) = [] \<and>
    fst (Poll P cfg tokens (fst (syncAddresses ok db pollers NewAddressSet)) db') = db'"
proof -
  have none: "ListActiveAddresses (ok c) db c = Inr [] \<or> (\<exists>err. ListActiveAddresses (ok c) db c = Inl err)" for c
    using no_addresses [OF assms, of c] by (cases "ok c") (auto simp: ListActiveAddresses_def)
  have "as_snapshot (fst (syncAddresses ok db pollers s)) = []" if "as_mutable s = []" "as_snapshot s = []" for s
    using that
  proof (induction pollers arbitrary: s)
    case (Cons c cs)
    then show ?case using none [of c] by auto
  qed (simp add: AddressSet_Publish_def)
  then have empty: "as_snapshot (fst (syncAddresses ok db pollers NewAddressSet)) = []"
    by (simp add: NewAddressSet_def)
  moreover have "fst (Poll P cfg tokens (fst (syncAddresses ok db pollers NewAddressSet)) db') = db'"
    using empty by (auto simp: Poll_def split: sum.splits option.splits)
  ultimately show ?thesis ..
qed

text \<open>
  C38: A payment that the monitor finds is not acted upon: it writes the transaction and an event
  for the deposit worker in one transaction, but the event's row allows no attempt and the relay
  never reads it; and if it were delivered, the worker's call would find the transaction already
  recorded and leave the session as it is.
\<close>

theorem monitored_payment_never_detected:
  assumes "GetSessionByAddress E db (ic_ToAddress tx) = Inr s" and "LookupByContract tokens (ic_Chain tx) (ic_TokenContract tx) = Some t"
    and new: "new_tx E tx db" and ok: "\<forall>st k. de_ok E st k" and fresh: "de_uuid E 0 \<notin> or_ID ` set (dd_outbox db)"
  shows "\<exists>db' q. processIncomingTx E cfg tokens tx db = (db', Inr ()) \<and> dd_sessions db' = dd_sessions db \<and>
    dd_outbox db' = dd_outbox db @ [q] \<and> or_EventType q = EventDepositTxDetected \<and> or_TenantID q = ds_TenantID s \<and>
    (\<forall>n. q \<notin> set (GetUnpublishedEntries n (dd_outbox db'))) \<and>
    (\<forall>E' db'' tx'. de_ok E' GetTxByHashStmt 0 \<and> set (dd_txs db') \<subseteq> set (dd_txs db'') \<and>
       ic_Chain tx' = ic_Chain tx \<and> ic_TxHash tx' = ic_TxHash tx \<longrightarrow>
       fst (HandleTransactionDetected E' alone (ds_TenantID s) (ds_ID s) tx' db'') = db'')"
proof -
  let ?x = "stored_tx E (monitored_tx cfg tx s)" and ?e = "monitored_entry E tx s"
  define e where "e = ?e\<lparr>ob_AggregateID := (if ob_AggregateID ?e = uuid_Nil then ds_ID s else ob_AggregateID ?e),
      ob_CreatedAt := (if ob_CreatedAt ?e = zero_time then de_now E else ob_CreatedAt ?e)\<rparr>"
  define q where "q = hd (outboxEntriesToParams (de_now E) [e])"
  have e: "ob_ID e = de_uuid E 0" "ob_EventType e = EventDepositTxDetected" "ob_TenantID e = ds_TenantID s" "ob_MaxRetries e = 0"
    by (simp_all add: e_def monitored_entry_def zero_entry_def)
  then have q: "outboxEntriesToParams (de_now E) [e] = [q]" "or_EventType q = EventDepositTxDetected"
    "or_TenantID q = ds_TenantID s" "\<not> pending_row q"
    by (simp_all add: q_def outboxEntriesToParams_def pending_row_def)
  have "InsertOutboxEntries (outboxEntriesToParams (de_now E) [e]) (dd_outbox db) =
      Inr (dd_outbox db @ outboxEntriesToParams (de_now E) [e])"
    using e fresh by (intro insert_fresh_entries) simp_all
  then have ins: "InsertOutboxEntries [q] (dd_outbox db) = Inr (dd_outbox db @ [q])" unfolding q(1) .
  have create: "CreateDepositTransaction E (monitored_tx cfg tx s) (dd_txs db) = Inr (dd_txs db @ [?x])"
    using new by (auto simp: CreateDepositTransaction_def new_tx_def stored_tx_def monitored_tx_def Let_def)
  obtain err where look: "GetDepositTxByHash E db (ic_Chain tx) (ic_TxHash tx) = Inl err" using new_tx_lookup [OF new] by blast
  let ?d = "db\<lparr>dd_txs := dd_txs db @ [?x], dd_outbox := dd_outbox db @ [q]\<rparr>"
  have "WriteDetectedTx E (monitored_tx cfg tx s) [?e] db = (?d, Inr ())"
  proof -
    have sid: "dx_SessionID (monitored_tx cfg tx s) = ds_ID s" by (simp add: monitored_tx_def)
    show ?thesis
      unfolding WriteDetectedTx_def Let_def create sum.case list.map sid e_def [symmetric] q(1) ins
      using ok by simp
  qed
  with assms(1,2) look have "processIncomingTx E cfg tokens tx db = (?d, Inr ())" by (simp add: processIncomingTx_def)
  moreover have "fst (HandleTransactionDetected E' alone (ds_TenantID s) (ds_ID s) tx' db'') = db''"
    if "de_ok E' GetTxByHashStmt 0" "set (dd_txs ?d) \<subseteq> set (dd_txs db'')" "ic_Chain tx' = ic_Chain tx" "ic_TxHash tx' = ic_TxHash tx"
    for E' db'' tx'
    using that by (intro detect_known [of ?x]) (auto simp: stored_tx_def monitored_tx_def)
  ultimately show ?thesis
    using q set_GetUnpublished by (intro exI [of _ ?d] exI [of _ q]) fastforce
qed

section \<open>Witnesses\<close>

definition sample_transfer :: "int \<Rightarrow> ERC20Transfer" where
  "sample_transfer n = \<lparr>et_TxHash = ''tx1'', et_BlockNumber = n, et_BlockHash = [], et_LogIndex = 0, et_From = ''T0'',
     et_To = ''T1'', et_Amount = 100, et_TokenContract = ''usdt'', et_Timestamp = 0\<rparr>"

definition sample_chain_config :: ChainConfig where
  "sample_chain_config = \<lparr>cf_Chain = ''tron'', cf_PollInterval = 3, cf_Confirmations = 10, cf_ReorgDepth = 2, cf_RPCURL = [],
     cf_APIKey = [], cf_BackupRPCURL = [], cf_BackupAPIKey = []\<rparr>"

definition sample_token :: Token where
  "sample_token = \<lparr>tk_ID = 3, tk_Chain = ''tron'', tk_Symbol = ''USDT'', tk_ContractAddress = ''usdt'', tk_Decimals = 6,
     tk_IsActive = True, tk_CreatedAt = 0, tk_UpdatedAt = 0\<rparr>"

definition sample_pool_address :: CryptoAddressPool where
  "sample_pool_address = \<lparr>ap_ID = 4, ap_TenantID = 1, ap_Chain = ''tron'', ap_Address = ''T1'', ap_DerivationIndex = 1,
     ap_Dispensed = True, ap_DispensedAt = Some 0, ap_SessionID = Some 7, ap_CreatedAt = 0\<rparr>"

definition sample_chain_db :: chain_db where
  "sample_chain_db = \<lparr>cb_deposits = (sample_deposit_db [sample_deposit DepositSessionStatusPendingPayment 0])
       \<lparr>dd_pool := [sample_pool_address], dd_index := [(''tron'', ''T1'', 1, 7)]\<rparr>, cb_checkpoints = [], cb_tokens = [sample_token]\<rparr>"

definition sample_addresses :: AddressSet where
  "sample_addresses = AddressSet_Replace [\<lparr>ai_Chain = ''tron'', ai_Address = ''T1'', ai_TenantID = 1\<rparr>] NewAddressSet"

definition sample_poll :: "int \<Rightarrow> poll_env" where
  "sample_poll height = \<lparr>po_load_ok = True, po_save_ok = True, po_height = Inr height, po_block = (\<lambda>_. Inr ([], [])),
     po_transfers = (\<lambda>_ _ _ _ _. Inl db_error), po_env = (\<lambda>_. sample_deposit_env 1 succeeds)\<rparr>"

lemma sample_chain_simps [simp]:
  "cf_Chain sample_chain_config = ''tron''" "cf_Confirmations sample_chain_config = 10"
  "cf_ReorgDepth sample_chain_config = 2" "cb_checkpoints sample_chain_db = []"
  "po_load_ok (sample_poll n)" "po_save_ok (sample_poll n)" "po_height (sample_poll n) = Inr n"
  "po_transfers (sample_poll n) = (\<lambda>_ _ _ _ _. Inl db_error)" "et_BlockNumber (sample_transfer n) = n"
  "as_snapshot sample_addresses = [(''tron:T1'', \<lparr>ai_Chain = ''tron'', ai_Address = ''T1'', ai_TenantID = 1\<rparr>)]"
  by (simp_all add: sample_chain_config_def sample_chain_db_def sample_poll_def sample_transfer_def sample_addresses_def
      AddressSet_Replace_def AddressSet_Publish_def NewAddressSet_def addressKey_def)



lemma sample_window: "poll_window (sample_poll 50) sample_chain_config sample_addresses sample_chain_db = Some (1, 40)"
  by (simp add: poll_window_def checkpoint_Load_def scan_window_def)

theorem failed_scan_skips_blocks_witness:
  "\<exists>db' hash'. Poll (sample_poll 50) sample_chain_config (Reload [sample_token]) sample_addresses sample_chain_db =
      (db', Inr ()) \<and> cb_deposits db' = cb_deposits sample_chain_db \<and>
    checkpoint_Load True db' ''tron'' = Inr (40, hash') \<and>
    (\<forall>cur a' b'. scan_window sample_chain_config 40 cur = Some (a', b') \<longrightarrow> 38 \<le> a')"
  using failed_scan_skips_blocks [OF _ _ _ sample_window, of 0 "[]" "Reload [sample_token]"]
  by (simp add: checkpoint_Load_def)

theorem monitor_watches_nothing_witness:
  "as_snapshot (fst (syncAddresses (\<lambda>_. True) sample_chain_db [''tron''] NewAddressSet)) = [] \<and>
   fst (Poll (sample_poll 50) sample_chain_config (Reload [sample_token])
     (fst (syncAddresses (\<lambda>_. True) sample_chain_db [''tron''] NewAddressSet)) sample_chain_db) = sample_chain_db"
  using monitor_watches_nothing [of sample_chain_db "\<lambda>_. True" "[''tron'']" "sample_poll 50" sample_chain_config
      "Reload [sample_token]" sample_chain_db]
  by (simp add: sample_chain_db_def sample_pool_address_def)

lemma sample_monitored:
  "GetSessionByAddress (sample_deposit_env 1 succeeds) (cb_deposits sample_chain_db) ''T1'' =
     Inr (sample_deposit DepositSessionStatusPendingPayment 0)"
  "LookupByContract (Reload [sample_token]) ''tron'' ''usdt'' = Some sample_token"
  "new_tx (sample_deposit_env 1 succeeds) sample_incoming (cb_deposits sample_chain_db)"
  "de_uuid (sample_deposit_env 1 succeeds) 0 \<notin> or_ID ` set (dd_outbox (cb_deposits sample_chain_db))"
  by (simp_all add: GetSessionByAddress_def sample_chain_db_def sample_deposit_db_def sample_deposit_def
      sample_deposit_env_def new_tx_def LookupByContract_def Reload_def sample_token_def)

theorem monitored_payment_never_detected_witness:
  "\<exists>db' q. processIncomingTx (sample_deposit_env 1 succeeds) sample_chain_config (Reload [sample_token]) sample_incoming
      (cb_deposits sample_chain_db) = (db', Inr ()) \<and> dd_sessions db' = dd_sessions (cb_deposits sample_chain_db) \<and>
    or_EventType q = EventDepositTxDetected \<and> (\<forall>n. q \<notin> set (GetUnpublishedEntries n (dd_outbox db')))"
proof -
  have incoming: "ic_ToAddress sample_incoming = ''T1''" "ic_Chain sample_incoming = ''tron''"
    "ic_TokenContract sample_incoming = ''usdt''"
    by (simp_all add: sample_incoming_def)
  show ?thesis
    using monitored_payment_never_detected [of "sample_deposit_env 1 succeeds" "cb_deposits sample_chain_db" sample_incoming,
        unfolded incoming, OF sample_monitored(1,2,3) _ sample_monitored(4), of sample_chain_config]
    by simp blast
qed

end
