(* ===== verification/Spec2Isabelle.thy ===== *)
theory Spec2Isabelle
  imports Treasury_Restart Ledger_Sync Pipeline Settlement_Scheduler Chain_Monitor
begin

text \<open>
  Settla, a settlement service: verification of its domain model, ledger and treasury.
\<close>

end
